(* ===== verification/Prelude.thy ===== *)
theory Prelude
  imports Complex_Main "HOL-Library.Word" "HOL-Library.Monad_Syntax"
begin

text \<open>
  Shared vocabulary of the development: the C types of \<open>src/common.h\<close>, the failure monad,
  bounds-checked array access, the macros of \<open>src/common.h\<close>, and the generic lemmas on
  them.

  A C function that may abort (a failed \<open>assert\<close>, an \<open>exit(1)\<close>, a read through NULL or out
  of the bounds of an array) is a function into \<open>option\<close>; \<open>None\<close> is the abort, and \<open>do\<close> blocks
  over \<open>option\<close> follow the order of the statements of the source. Unsigned C integers are words of
  their width, so every wrap-around of the source is a wrap-around of the model. A \<open>double\<close> is a
  rational: every finite double is one, all comparisons are exact, and sums and products are
  computed without the rounding of the hardware.
\<close>

section \<open>C types\<close>

type_synonym u8 = "8 word"
type_synonym u32 = "32 word"
type_synonym u64 = "64 word"
type_synonym simtime = rat
type_synonym lpid_t = u32
type_synonym partition_t = u32
type_synonym replica_t = u32
type_synonym gr_tsp = rat
type_synonym gr_value = u8
type_synonym gr_key = u64

definition UINT_MAX :: nat where
  "UINT_MAX = 4294967295"

definition INT_MAX :: nat where
  "INT_MAX = 2147483647"

definition NO_PROXY_LPID :: lpid_t where
  "NO_PROXY_LPID = 4294967295"

definition MAX_LP :: nat where
  "MAX_LP = 65536"

section \<open>Failure\<close>

text \<open>
  The fact collections of the development: \<open>unfold_op\<close> holds the definitions of the thin
  operations a proof always unfolds; \<open>post_intros\<close> holds the rules that compute the
  postcondition of an operation.
\<close>

named_theorems unfold_op
named_theorems post_intros

definition c_assert :: "bool \<Rightarrow> unit option" where
  "c_assert b = (if b then Some () else None)"

definition arr_get :: "'a list \<Rightarrow> u32 \<Rightarrow> 'a option" where
  "arr_get xs i = (if unat i < length xs then Some (xs ! unat i) else None)"

definition arr_set :: "'a list \<Rightarrow> u32 \<Rightarrow> 'a \<Rightarrow> 'a list option" where
  "arr_set xs i v = (if unat i < length xs then Some (xs[unat i := v]) else None)"

fun foldM :: "('a \<Rightarrow> 's \<Rightarrow> 's option) \<Rightarrow> 'a list \<Rightarrow> 's \<Rightarrow> 's option" where
  "foldM f [] s = Some s"
| "foldM f (x # xs) s = Option.bind (f x s) (foldM f xs)"

declare Option.bind_cong [fundef_cong]

lemma c_assert_eq_Some [simp]: "c_assert b = Some u \<longleftrightarrow> b"
  by (simp add: c_assert_def)

lemma c_assert_eq_None [simp]: "c_assert b = None \<longleftrightarrow> \<not> b"
  by (simp add: c_assert_def)

lemma c_assert_True [simp]: "c_assert True = Some ()"
  by (simp add: c_assert_def)

lemma c_assert_False [simp]: "c_assert False = None"
  by (simp add: c_assert_def)

lemma c_assert_bind: "b \<Longrightarrow> Option.bind (c_assert b) f = f ()"
  by simp

lemma arr_get_eq_Some: "arr_get xs i = Some x \<longleftrightarrow> unat i < length xs \<and> x = xs ! unat i"
  by (auto simp: arr_get_def)

lemma arr_get_eq_None: "arr_get xs i = None \<longleftrightarrow> length xs \<le> unat i"
  by (auto simp: arr_get_def)

lemma arr_set_eq_Some: "arr_set xs i v = Some ys \<longleftrightarrow> unat i < length xs \<and> ys = xs[unat i := v]"
  by (auto simp: arr_set_def)

lemma arr_set_length: "arr_set xs i v = Some ys \<Longrightarrow> length ys = length xs"
  by (auto simp: arr_set_eq_Some)

lemma arr_get_set:
  "arr_set xs i v = Some ys \<Longrightarrow> arr_get ys j = (if i = j then Some v else arr_get xs j)"
  by (auto simp: arr_set_eq_Some arr_get_def nth_list_update word_unat_eq_iff)

lemma foldM_append: "foldM f (xs @ ys) s = Option.bind (foldM f xs s) (foldM f ys)"
  by (induction xs arbitrary: s) (auto simp: bind_eq_None_conv split: bind_splits)

lemma foldM_concat: "foldM g (concat (map h bs)) s = foldM (\<lambda>b. foldM g (h b)) bs s"
  by (induction bs arbitrary: s) (auto simp: foldM_append intro: Option.bind_cong)

section \<open>Postconditions\<close>

text \<open>
  \<open>post e Q\<close>: if the computation \<open>e\<close> returns, its result satisfies \<open>Q\<close>;
  \<open>returns e Q\<close>: it does return, with a result that satisfies \<open>Q\<close>.
\<close>

definition post :: "'a option \<Rightarrow> ('a \<Rightarrow> bool) \<Rightarrow> bool" where
  "post e Q \<longleftrightarrow> (\<forall>r. e = Some r \<longrightarrow> Q r)"

definition returns :: "'a option \<Rightarrow> ('a \<Rightarrow> bool) \<Rightarrow> bool" where
  "returns e Q \<longleftrightarrow> (\<exists>r. e = Some r \<and> Q r)"

lemma postD: "post e Q \<Longrightarrow> e = Some r \<Longrightarrow> Q r"
  by (simp add: post_def)

lemma postI: "(\<And>r. e = Some r \<Longrightarrow> Q r) \<Longrightarrow> post e Q"
  by (simp add: post_def)

lemma post_Some [simp]: "post (Some r) Q \<longleftrightarrow> Q r"
  by (simp add: post_def)

lemma post_None [simp]: "post None Q"
  by (simp add: post_def)

lemma post_bind: "post (Option.bind e f) Q \<longleftrightarrow> post e (\<lambda>r. post (f r) Q)"
  by (cases e) simp_all

lemma post_assert: "post (c_assert b) Q \<longleftrightarrow> (b \<longrightarrow> Q ())"
  by (simp add: post_def)

lemma post_if: "post (if b then e1 else e2) Q \<longleftrightarrow> (b \<longrightarrow> post e1 Q) \<and> (\<not> b \<longrightarrow> post e2 Q)"
  by simp

lemma post_mono: "post e P \<Longrightarrow> (\<And>r. P r \<Longrightarrow> Q r) \<Longrightarrow> post e Q"
  by (simp add: post_def)

lemma post_foldM:
  assumes "I s" and "\<And>x s. x \<in> set xs \<Longrightarrow> I s \<Longrightarrow> post (f x s) I"
  shows "post (foldM f xs s) I"
  using assms
proof (induction xs arbitrary: s)
  case Nil
  then show ?case by simp
next
  case (Cons x xs)
  have "post (f x s) I" using Cons.prems by simp
  then have "post (f x s) (\<lambda>s'. post (foldM f xs s') I)"
    by (rule post_mono) (simp add: Cons.IH Cons.prems(2))
  then show ?case by (simp add: post_bind)
qed

lemma returns_post: "returns e P \<Longrightarrow> post e Q \<Longrightarrow> returns e (\<lambda>r. P r \<and> Q r)"
  by (auto simp: returns_def post_def)

lemma returns_bind: "returns (Option.bind e f) Q \<longleftrightarrow> returns e (\<lambda>r. returns (f r) Q)"
  by (cases e) (auto simp: returns_def)

lemma returns_Some [simp]: "returns (Some r) Q \<longleftrightarrow> Q r"
  by (simp add: returns_def)

lemma returns_mono: "returns e P \<Longrightarrow> (\<And>r. P r \<Longrightarrow> Q r) \<Longrightarrow> returns e Q"
  by (auto simp: returns_def)

lemma returns_foldM:
  assumes "I s" and "\<And>x s. x \<in> set xs \<Longrightarrow> I s \<Longrightarrow> returns (f x s) I"
  shows "returns (foldM f xs s) I"
  using assms
proof (induction xs arbitrary: s)
  case Nil
  then show ?case by simp
next
  case (Cons x xs)
  from Cons.prems(1) have "returns (f x s) I" by (rule Cons.prems(2) [rotated]) simp
  then obtain s' where "f x s = Some s'" and "I s'" by (auto simp: returns_def)
  with Cons show ?case by simp
qed

lemmas post_simps = post_bind post_assert post_if post_Some post_None

section \<open>The macros of common.h\<close>

definition set_max :: "'a::linorder \<Rightarrow> 'a \<Rightarrow> 'a" where
  "set_max store value = (if store < value then value else store)"

definition set_min :: "'a::linorder \<Rightarrow> 'a \<Rightarrow> 'a" where
  "set_min store value = (if value < store then value else store)"

definition inc_range :: "u32 \<Rightarrow> u32 \<Rightarrow> u32 \<Rightarrow> u32" where
  "inc_range value lo hi = (if hi < value + 1 then lo else value + 1)"

definition array_push :: "'a list \<Rightarrow> 'a \<Rightarrow> 'a list" where
  "array_push xs v = xs @ [v]"

lemma set_max_max: "set_max a b = max a b"
  by (auto simp: set_max_def max_def)

lemma set_min_min: "set_min a b = min a b"
  by (auto simp: set_min_def min_def)

text \<open>
  \<open>max_array(max_ptr, array, size)\<close> leaves \<open>*max_ptr\<close> alone when the array is empty.
\<close>

definition max_array :: "'a::linorder \<Rightarrow> 'a list \<Rightarrow> 'a" where
  "max_array m xs = (case xs of [] \<Rightarrow> m | x # ys \<Rightarrow> foldl set_max x ys)"

lemma foldl_set_max: "foldl set_max (a::'a::linorder) xs = Max (insert a (set xs))"
proof (induction xs arbitrary: a)
  case Nil
  then show ?case by simp
next
  case (Cons x xs)
  have "foldl set_max a (x # xs) = foldl set_max (max a x) xs"
    by (simp add: set_max_max)
  also have "\<dots> = Max (insert (max a x) (set xs))" by (rule Cons.IH)
  also have "\<dots> = Max (insert a (insert x (set xs)))"
    by (cases "xs = []") (simp_all add: max.assoc)
  finally show ?case by simp
qed

lemma max_array_Max: "xs \<noteq> [] \<Longrightarrow> max_array m xs = Max (set xs)"
  by (cases xs) (simp_all add: max_array_def foldl_set_max)

section \<open>Words\<close>

lemma unat_inc: "unat (n::u32) < UINT_MAX \<Longrightarrow> unat (n + 1) = unat n + 1"
  by (simp add: UINT_MAX_def unat_word_ariths)

lemma unat_dec: "(n::u32) \<noteq> 0 \<Longrightarrow> unat (n - 1) = unat n - 1"
  by (rule unat_minus_one)

lemma unat_u32_less: "unat (n::u32) < 4294967296"
  using unsigned_less [of n] by simp

lemma unat_ucast_u32 [simp]: "unat (ucast (n::u32) :: u64) = unat n"
  using unat_u32_less [of n] by (simp add: unsigned_ucast_eq take_bit_nat_def)

lemma mod_add_once: "a < m \<Longrightarrow> b < m \<Longrightarrow> m \<le> a + b \<Longrightarrow> (a + b) mod m = a + b - (m::nat)"
  by (simp add: le_mod_geq)

text \<open>The remainder of a 64-bit key by a 32-bit count is a 32-bit number.\<close>

lemma unat_ucast_mod:
  fixes n :: u32 and key :: u64
  assumes "n \<noteq> 0"
  shows "unat (ucast (key mod ucast n) :: u32) = unat key mod unat n"
proof -
  have n: "0 < unat n" using assms by (simp add: unat_gt_0)
  have "unat key mod unat n < 4294967296"
    using n unat_u32_less by (meson mod_less_divisor order_less_trans)
  moreover have "unat n mod 18446744073709551616 = unat n" using unat_u32_less [of n] by simp
  ultimately show ?thesis by (simp add: unsigned_ucast_eq take_bit_nat_def unat_mod)
qed

text \<open>The indices \<open>0, \<dots>, n - 1\<close> of a C loop over an unsigned counter.\<close>

definition idx_upto :: "u32 \<Rightarrow> u32 list" where
  "idx_upto n = map of_nat [0..<unat n]"

lemma unat_of_nat_u32: "k < unat (n::u32) \<Longrightarrow> unat (of_nat k :: u32) = k"
proof -
  assume k: "k < unat n"
  have "unat n < 2 ^ LENGTH(32)" by (rule unsigned_less)
  with k show ?thesis by (simp add: unat_of_nat)
qed

lemma set_upto: "set (idx_upto n) = {i. i < n}"
proof -
  have "x \<in> of_nat ` {0..<unat n}" if "x < n" for x :: u32
  proof (rule image_eqI)
    show "x = of_nat (unat x)" by simp
    show "unat x \<in> {0..<unat n}" using that by (simp add: word_less_nat_alt)
  qed
  moreover have "of_nat k < n" if "k < unat n" for k
    using that by (simp add: word_less_nat_alt unat_of_nat_u32)
  ultimately show ?thesis by (auto simp: idx_upto_def)
qed

lemma length_upto [simp]: "length (idx_upto n) = unat n"
  by (simp add: idx_upto_def)

lemma upto_0 [simp]: "idx_upto 0 = []"
  by (simp add: idx_upto_def)

lemma distinct_upto: "distinct (idx_upto n)"
proof -
  have "inj_on (of_nat :: nat \<Rightarrow> u32) {0..<unat n}"
    by (rule inj_onI) (metis atLeastLessThan_iff unat_of_nat_u32)
  then show ?thesis by (simp add: idx_upto_def distinct_map)
qed

lemma nth_upto: "k < unat n \<Longrightarrow> idx_upto n ! k = of_nat k"
  by (simp add: idx_upto_def)

end
