(* ===== verification/Event.thy ===== *)
theory Event
  imports Prelude
begin

text \<open>
  The event types of \<open>src/event.h\<close>. The C code passes them around as \<open>unsigned int\<close>; the
  enumerators are named numerals, in the order of \<open>FOREACH_EVENT\<close>, and \<open>event_type_names\<close> is the
  table of \<open>src/event.c\<close> that the same macro builds.
\<close>

type_synonym event_type = nat

abbreviation (input) ROOTSIM_INIT :: event_type where "ROOTSIM_INIT \<equiv> 0"
abbreviation (input) CPU_LOCK :: event_type where "CPU_LOCK \<equiv> 1"
abbreviation (input) CPU_UNLOCK :: event_type where "CPU_UNLOCK \<equiv> 2"
abbreviation (input) CPU_FREE_CORE :: event_type where "CPU_FREE_CORE \<equiv> 3"
abbreviation (input) CPU_EVENT :: event_type where "CPU_EVENT \<equiv> 4"
abbreviation (input) CPU_STATS :: event_type where "CPU_STATS \<equiv> 5"
abbreviation (input) CPU_NO_EVENT :: event_type where "CPU_NO_EVENT \<equiv> 6"
abbreviation (input) CPU_LOCK_LOCK :: event_type where "CPU_LOCK_LOCK \<equiv> 7"
abbreviation (input) CPU_LOCK_UNLOCK :: event_type where "CPU_LOCK_UNLOCK \<equiv> 8"
abbreviation (input) CPU_RWLOCK_READ_LOCK :: event_type where "CPU_RWLOCK_READ_LOCK \<equiv> 9"
abbreviation (input) CPU_RWLOCK_READ_UNLOCK :: event_type where "CPU_RWLOCK_READ_UNLOCK \<equiv> 10"
abbreviation (input) CPU_RWLOCK_WRITE_LOCK :: event_type where "CPU_RWLOCK_WRITE_LOCK \<equiv> 11"
abbreviation (input) CPU_RWLOCK_WRITE_UNLOCK :: event_type where "CPU_RWLOCK_WRITE_UNLOCK \<equiv> 12"
abbreviation (input) GR_GET_REQUEST :: event_type where "GR_GET_REQUEST \<equiv> 13"
abbreviation (input) GR_FORWARD_GET_REQUEST_LOCKED :: event_type where "GR_FORWARD_GET_REQUEST_LOCKED \<equiv> 14"
abbreviation (input) GR_GET_REQUEST_LOCKED :: event_type where "GR_GET_REQUEST_LOCKED \<equiv> 15"
abbreviation (input) GR_GET_REQUEST_UNLOCKED :: event_type where "GR_GET_REQUEST_UNLOCKED \<equiv> 16"
abbreviation (input) GR_GET_RESPONSE :: event_type where "GR_GET_RESPONSE \<equiv> 17"
abbreviation (input) GR_PUT_REQUEST :: event_type where "GR_PUT_REQUEST \<equiv> 18"
abbreviation (input) GR_PUT_REQUEST_LOCKED :: event_type where "GR_PUT_REQUEST_LOCKED \<equiv> 19"
abbreviation (input) GR_PUT_REQUEST_UNLOCKED :: event_type where "GR_PUT_REQUEST_UNLOCKED \<equiv> 20"
abbreviation (input) GR_PUT_RESPONSE :: event_type where "GR_PUT_RESPONSE \<equiv> 21"
abbreviation (input) GR_REPLICA_UPDATE :: event_type where "GR_REPLICA_UPDATE \<equiv> 22"
abbreviation (input) GR_REPLICA_UPDATE_LOCKED :: event_type where "GR_REPLICA_UPDATE_LOCKED \<equiv> 23"
abbreviation (input) GR_REPLICA_UPDATE_UNLOCKED :: event_type where "GR_REPLICA_UPDATE_UNLOCKED \<equiv> 24"
abbreviation (input) GR_LST_FROM_LEAF :: event_type where "GR_LST_FROM_LEAF \<equiv> 25"
abbreviation (input) GR_LST_FROM_LEAF_ROOT_LOCKED :: event_type where "GR_LST_FROM_LEAF_ROOT_LOCKED \<equiv> 26"
abbreviation (input) GR_LST_FROM_LEAF_ROOT_UNLOCKED :: event_type where "GR_LST_FROM_LEAF_ROOT_UNLOCKED \<equiv> 27"
abbreviation (input) GR_START_GST_COMPUTATION :: event_type where "GR_START_GST_COMPUTATION \<equiv> 28"
abbreviation (input) GR_GST_FROM_ROOT :: event_type where "GR_GST_FROM_ROOT \<equiv> 29"
abbreviation (input) GR_GST_FROM_ROOT_LOCKED :: event_type where "GR_GST_FROM_ROOT_LOCKED \<equiv> 30"
abbreviation (input) GR_GST_FROM_ROOT_UNLOCKED :: event_type where "GR_GST_FROM_ROOT_UNLOCKED \<equiv> 31"
abbreviation (input) GR_GET_SNAPSHOT_REQUEST :: event_type where "GR_GET_SNAPSHOT_REQUEST \<equiv> 32"
abbreviation (input) GR_GET_SNAPSHOT_REQUEST_LOCKED :: event_type where "GR_GET_SNAPSHOT_REQUEST_LOCKED \<equiv> 33"
abbreviation (input) GR_GET_SNAPSHOT_REQUEST_UNLOCKED :: event_type where "GR_GET_SNAPSHOT_REQUEST_UNLOCKED \<equiv> 34"
abbreviation (input) GR_GET_SNAPSHOT_RESPONSE :: event_type where "GR_GET_SNAPSHOT_RESPONSE \<equiv> 35"
abbreviation (input) GR_SLICE_REQUEST :: event_type where "GR_SLICE_REQUEST \<equiv> 36"
abbreviation (input) GR_SLICE_REQUEST_LOCKED :: event_type where "GR_SLICE_REQUEST_LOCKED \<equiv> 37"
abbreviation (input) GR_SLICE_REQUEST_UNLOCKED :: event_type where "GR_SLICE_REQUEST_UNLOCKED \<equiv> 38"
abbreviation (input) GR_SLICE_RESPONSE :: event_type where "GR_SLICE_RESPONSE \<equiv> 39"
abbreviation (input) GR_SLICE_RESPONSE_LOCKED :: event_type where "GR_SLICE_RESPONSE_LOCKED \<equiv> 40"
abbreviation (input) GR_SLICE_RESPONSE_UNLOCKED :: event_type where "GR_SLICE_RESPONSE_UNLOCKED \<equiv> 41"
abbreviation (input) GR_ROTX_REQUEST :: event_type where "GR_ROTX_REQUEST \<equiv> 42"
abbreviation (input) GR_ROTX_RESPONSE :: event_type where "GR_ROTX_RESPONSE \<equiv> 43"
abbreviation (input) GR_CLOCK_TICK :: event_type where "GR_CLOCK_TICK \<equiv> 44"
abbreviation (input) GR_CLOCK_TICK_LOCKED :: event_type where "GR_CLOCK_TICK_LOCKED \<equiv> 45"
abbreviation (input) GR_CLOCK_TICK_UNLOCKED :: event_type where "GR_CLOCK_TICK_UNLOCKED \<equiv> 46"
abbreviation (input) GR_HEARTBEAT :: event_type where "GR_HEARTBEAT \<equiv> 47"
abbreviation (input) GR_HEARTBEAT_LOCKED :: event_type where "GR_HEARTBEAT_LOCKED \<equiv> 48"
abbreviation (input) GRV_FORWARDED_GET_REQUEST_LOCKED :: event_type where "GRV_FORWARDED_GET_REQUEST_LOCKED \<equiv> 49"
abbreviation (input) GRV_GET_REQUEST :: event_type where "GRV_GET_REQUEST \<equiv> 50"
abbreviation (input) GRV_FORWARD_GET_REQUEST_LOCKED :: event_type where "GRV_FORWARD_GET_REQUEST_LOCKED \<equiv> 51"
abbreviation (input) GRV_GET_REQUEST_LOCKED :: event_type where "GRV_GET_REQUEST_LOCKED \<equiv> 52"
abbreviation (input) GRV_GET_REQUEST_UNLOCKED :: event_type where "GRV_GET_REQUEST_UNLOCKED \<equiv> 53"
abbreviation (input) GRV_GET_RESPONSE :: event_type where "GRV_GET_RESPONSE \<equiv> 54"
abbreviation (input) GRV_PUT_REQUEST :: event_type where "GRV_PUT_REQUEST \<equiv> 55"
abbreviation (input) GRV_PUT_REQUEST_LOCKED :: event_type where "GRV_PUT_REQUEST_LOCKED \<equiv> 56"
abbreviation (input) GRV_PUT_REQUEST_UNLOCKED :: event_type where "GRV_PUT_REQUEST_UNLOCKED \<equiv> 57"
abbreviation (input) GRV_PUT_RESPONSE :: event_type where "GRV_PUT_RESPONSE \<equiv> 58"
abbreviation (input) GRV_REPLICA_UPDATE :: event_type where "GRV_REPLICA_UPDATE \<equiv> 59"
abbreviation (input) GRV_REPLICA_UPDATE_VV_LOCKED :: event_type where "GRV_REPLICA_UPDATE_VV_LOCKED \<equiv> 60"
abbreviation (input) GRV_REPLICA_UPDATE_VV_UNLOCKED :: event_type where "GRV_REPLICA_UPDATE_VV_UNLOCKED \<equiv> 61"
abbreviation (input) GRV_SLICE_REQUEST :: event_type where "GRV_SLICE_REQUEST \<equiv> 62"
abbreviation (input) GRV_SLICE_REQUEST_LOCKED :: event_type where "GRV_SLICE_REQUEST_LOCKED \<equiv> 63"
abbreviation (input) GRV_SLICE_REQUEST_UNLOCKED :: event_type where "GRV_SLICE_REQUEST_UNLOCKED \<equiv> 64"
abbreviation (input) GRV_SLICE_RESPONSE :: event_type where "GRV_SLICE_RESPONSE \<equiv> 65"
abbreviation (input) GRV_ROTX_REQUEST :: event_type where "GRV_ROTX_REQUEST \<equiv> 66"
abbreviation (input) GRV_ROTX_REQUEST_LOCKED :: event_type where "GRV_ROTX_REQUEST_LOCKED \<equiv> 67"
abbreviation (input) GRV_ROTX_REQUEST_UNLOCKED :: event_type where "GRV_ROTX_REQUEST_UNLOCKED \<equiv> 68"
abbreviation (input) GRV_ROTX_RESPONSE :: event_type where "GRV_ROTX_RESPONSE \<equiv> 69"
abbreviation (input) GRV_CLOCK_TICK :: event_type where "GRV_CLOCK_TICK \<equiv> 70"
abbreviation (input) GRV_CLOCK_TICK_LOCKED :: event_type where "GRV_CLOCK_TICK_LOCKED \<equiv> 71"
abbreviation (input) GRV_CLOCK_TICK_UNLOCKED :: event_type where "GRV_CLOCK_TICK_UNLOCKED \<equiv> 72"
abbreviation (input) GRV_HEARTBEAT :: event_type where "GRV_HEARTBEAT \<equiv> 73"
abbreviation (input) GRV_HEARTBEAT_LOCKED :: event_type where "GRV_HEARTBEAT_LOCKED \<equiv> 74"
abbreviation (input) GRV_START_GST_COMPUTATION :: event_type where "GRV_START_GST_COMPUTATION \<equiv> 75"
abbreviation (input) GRV_LST_FROM_LEAF :: event_type where "GRV_LST_FROM_LEAF \<equiv> 76"
abbreviation (input) GRV_LST_FROM_LEAF_ROOT_LOCKED :: event_type where "GRV_LST_FROM_LEAF_ROOT_LOCKED \<equiv> 77"
abbreviation (input) GRV_LST_FROM_LEAF_ROOT_UNLOCKED :: event_type where "GRV_LST_FROM_LEAF_ROOT_UNLOCKED \<equiv> 78"
abbreviation (input) GRV_GST_FROM_ROOT :: event_type where "GRV_GST_FROM_ROOT \<equiv> 79"
abbreviation (input) GRV_GST_FROM_ROOT_LOCKED :: event_type where "GRV_GST_FROM_ROOT_LOCKED \<equiv> 80"
abbreviation (input) GRV_GST_FROM_ROOT_UNLOCKED :: event_type where "GRV_GST_FROM_ROOT_UNLOCKED \<equiv> 81"
abbreviation (input) CLIENT_TICK :: event_type where "CLIENT_TICK \<equiv> 82"
abbreviation (input) NUM_EVENT_TYPES :: event_type where "NUM_EVENT_TYPES \<equiv> 83"

definition event_type_names :: "string list" where
  "event_type_names =
    [''ROOTSIM_INIT'',
     ''CPU_LOCK'',
     ''CPU_UNLOCK'',
     ''CPU_FREE_CORE'',
     ''CPU_EVENT'',
     ''CPU_STATS'',
     ''CPU_NO_EVENT'',
     ''CPU_LOCK_LOCK'',
     ''CPU_LOCK_UNLOCK'',
     ''CPU_RWLOCK_READ_LOCK'',
     ''CPU_RWLOCK_READ_UNLOCK'',
     ''CPU_RWLOCK_WRITE_LOCK'',
     ''CPU_RWLOCK_WRITE_UNLOCK'',
     ''GR_GET_REQUEST'',
     ''GR_FORWARD_GET_REQUEST_LOCKED'',
     ''GR_GET_REQUEST_LOCKED'',
     ''GR_GET_REQUEST_UNLOCKED'',
     ''GR_GET_RESPONSE'',
     ''GR_PUT_REQUEST'',
     ''GR_PUT_REQUEST_LOCKED'',
     ''GR_PUT_REQUEST_UNLOCKED'',
     ''GR_PUT_RESPONSE'',
     ''GR_REPLICA_UPDATE'',
     ''GR_REPLICA_UPDATE_LOCKED'',
     ''GR_REPLICA_UPDATE_UNLOCKED'',
     ''GR_LST_FROM_LEAF'',
     ''GR_LST_FROM_LEAF_ROOT_LOCKED'',
     ''GR_LST_FROM_LEAF_ROOT_UNLOCKED'',
     ''GR_START_GST_COMPUTATION'',
     ''GR_GST_FROM_ROOT'',
     ''GR_GST_FROM_ROOT_LOCKED'',
     ''GR_GST_FROM_ROOT_UNLOCKED'',
     ''GR_GET_SNAPSHOT_REQUEST'',
     ''GR_GET_SNAPSHOT_REQUEST_LOCKED'',
     ''GR_GET_SNAPSHOT_REQUEST_UNLOCKED'',
     ''GR_GET_SNAPSHOT_RESPONSE'',
     ''GR_SLICE_REQUEST'',
     ''GR_SLICE_REQUEST_LOCKED'',
     ''GR_SLICE_REQUEST_UNLOCKED'',
     ''GR_SLICE_RESPONSE'',
     ''GR_SLICE_RESPONSE_LOCKED'',
     ''GR_SLICE_RESPONSE_UNLOCKED'',
     ''GR_ROTX_REQUEST'',
     ''GR_ROTX_RESPONSE'',
     ''GR_CLOCK_TICK'',
     ''GR_CLOCK_TICK_LOCKED'',
     ''GR_CLOCK_TICK_UNLOCKED'',
     ''GR_HEARTBEAT'',
     ''GR_HEARTBEAT_LOCKED'',
     ''GRV_FORWARDED_GET_REQUEST_LOCKED'',
     ''GRV_GET_REQUEST'',
     ''GRV_FORWARD_GET_REQUEST_LOCKED'',
     ''GRV_GET_REQUEST_LOCKED'',
     ''GRV_GET_REQUEST_UNLOCKED'',
     ''GRV_GET_RESPONSE'',
     ''GRV_PUT_REQUEST'',
     ''GRV_PUT_REQUEST_LOCKED'',
     ''GRV_PUT_REQUEST_UNLOCKED'',
     ''GRV_PUT_RESPONSE'',
     ''GRV_REPLICA_UPDATE'',
     ''GRV_REPLICA_UPDATE_VV_LOCKED'',
     ''GRV_REPLICA_UPDATE_VV_UNLOCKED'',
     ''GRV_SLICE_REQUEST'',
     ''GRV_SLICE_REQUEST_LOCKED'',
     ''GRV_SLICE_REQUEST_UNLOCKED'',
     ''GRV_SLICE_RESPONSE'',
     ''GRV_ROTX_REQUEST'',
     ''GRV_ROTX_REQUEST_LOCKED'',
     ''GRV_ROTX_REQUEST_UNLOCKED'',
     ''GRV_ROTX_RESPONSE'',
     ''GRV_CLOCK_TICK'',
     ''GRV_CLOCK_TICK_LOCKED'',
     ''GRV_CLOCK_TICK_UNLOCKED'',
     ''GRV_HEARTBEAT'',
     ''GRV_HEARTBEAT_LOCKED'',
     ''GRV_START_GST_COMPUTATION'',
     ''GRV_LST_FROM_LEAF'',
     ''GRV_LST_FROM_LEAF_ROOT_LOCKED'',
     ''GRV_LST_FROM_LEAF_ROOT_UNLOCKED'',
     ''GRV_GST_FROM_ROOT'',
     ''GRV_GST_FROM_ROOT_LOCKED'',
     ''GRV_GST_FROM_ROOT_UNLOCKED'',
     ''CLIENT_TICK'',
     ''NUM_EVENT_TYPES'']"

text \<open>Reading the table past its end is undefined in C; here it is \<open>None\<close>.\<close>

definition event_name :: "event_type \<Rightarrow> string option" where
  "event_name t = (if t < length event_type_names then Some (event_type_names ! t) else None)"

text \<open>The events the CPU simulation reserves for itself.\<close>

definition is_lock_event :: "event_type \<Rightarrow> bool" where
  "is_lock_event t \<longleftrightarrow> t = CPU_LOCK_LOCK \<or> t = CPU_LOCK_UNLOCK"

definition is_rwlock_event :: "event_type \<Rightarrow> bool" where
  "is_rwlock_event t \<longleftrightarrow> t = CPU_RWLOCK_READ_LOCK \<or> t = CPU_RWLOCK_READ_UNLOCK
     \<or> t = CPU_RWLOCK_WRITE_LOCK \<or> t = CPU_RWLOCK_WRITE_UNLOCK"

lemma event_name_last: "event_name NUM_EVENT_TYPES = Some ''NUM_EVENT_TYPES''"
  by (simp add: event_name_def event_type_names_def)

lemma length_event_type_names: "length event_type_names = NUM_EVENT_TYPES + 1"
  by (simp add: event_type_names_def)

end
