(* ===== verification/Linked.thy ===== *)
theory Linked
  imports Prelude
begin

text \<open>
  Singly linked structures in an explicit store. Addresses are natural numbers, a NULL pointer is
  \<open>None\<close>, and a store maps the allocated addresses to the structs that live there. \<open>chain\<close> says
  which addresses a list visits, in order. \<open>src/queue.c\<close> and \<open>src/cpu/list.c\<close> are modelled over
  it.
\<close>

type_synonym addr = nat
type_synonym ptr = "addr option"

primrec chain :: "('c \<Rightarrow> ptr) \<Rightarrow> (addr \<rightharpoonup> 'c) \<Rightarrow> ptr \<Rightarrow> addr list \<Rightarrow> bool" where
  "chain nx h p [] \<longleftrightarrow> p = None"
| "chain nx h p (a # as) \<longleftrightarrow> p = Some a \<and> (\<exists>c. h a = Some c \<and> chain nx h (nx c) as)"

lemma chain_None [simp]: "chain nx h None as \<longleftrightarrow> as = []"
  by (cases as) simp_all

lemma chain_upd_fresh [simp]:
  "a \<notin> set as \<Longrightarrow> chain nx (h(a := v)) p as = chain nx h p as"
  by (induction as arbitrary: p) auto

lemma chain_allocated: "chain nx h p as \<Longrightarrow> set as \<subseteq> dom h"
  by (induction as arbitrary: p) auto

lemma chain_unique: "chain nx h p as \<Longrightarrow> chain nx h p bs \<Longrightarrow> as = bs"
  by (induction as arbitrary: p bs) (case_tac bs; auto)+

lemma chain_agree:
  "chain nx h p as \<Longrightarrow> (\<And>a. a \<in> set as \<Longrightarrow> h' a = h a) \<Longrightarrow> chain nx h' p as"
  by (induction as arbitrary: p) auto

text \<open>Hanging a new last cell behind the present last one.\<close>

lemma chain_snoc:
  assumes "chain nx h p (as @ [a])" and "distinct (as @ [a])" and "b \<notin> set (as @ [a])"
    and "nx c = Some b" and "nx d = None"
  shows "chain nx (h(a \<mapsto> c, b \<mapsto> d)) p (as @ [a, b])"
  using assms
proof (induction as arbitrary: p)
  case Nil
  then show ?case by auto
next
  case (Cons x as)
  then obtain e where e: "h x = Some e" and "chain nx h (nx e) (as @ [a])" by auto
  with Cons.IH [of "nx e"] Cons.prems have "chain nx (h(a \<mapsto> c, b \<mapsto> d)) (nx e) (as @ [a, b])"
    by (simp del: fun_upd_apply)
  with Cons.prems e show ?case by (auto simp del: fun_upd_apply simp: fun_upd_other)
qed

lemma chain_last_allocated: "chain nx h p as \<Longrightarrow> as \<noteq> [] \<Longrightarrow> \<exists>c. h (last as) = Some c"
  by (metis chain_allocated domD last_in_set subsetD)

end
