(* ===== verification/Cpu_List.thy ===== *)
theory Cpu_List
  imports Event Linked
begin

text \<open>
  The messages of \<open>src/cpu/messages.c\<close> and the work lists of \<open>src/cpu/list.c\<close>.

  A payload (a \<open>void*\<close> with its size) is a value of \<open>event_data\<close>: nothing, a message of the protocol,
  or a lock message, the struct \<open>cpu_lock_msg_t\<close> with the payload that trails it in the buffer.

  The work lists are modelled twice. The CPU simulation uses the list level, where a list is its
  items; the pointer level follows the assignments of the C code on a store shared by all lists,
  because items move from the queue of a lock to the queue of the CPU. The refinement lemmas say
  that every operation of the pointer level computes what the list level says.
\<close>

section \<open>Payloads and lock messages\<close>

datatype 'p event_data =
    NoData
  | Data 'p
  | LockMsg (lock_id: u32) (msg_event_type: event_type) (msg_data_size: nat)
      (msg_data: "'p event_data")

definition sizeof_cpu_lock_msg :: nat where
  "sizeof_cpu_lock_msg = 16"

definition cpu_lock_msg_data :: "'p event_data \<Rightarrow> 'p event_data option" where
  "cpu_lock_msg_data msg = (case msg of LockMsg i t n d \<Rightarrow> Some d | _ \<Rightarrow> None)"

definition cpu_lock_msg_new :: "u32 \<Rightarrow> event_type \<Rightarrow> 'p event_data \<Rightarrow> nat \<Rightarrow> nat \<times> 'p event_data" where
  "cpu_lock_msg_new i event_type data data_size =
     (sizeof_cpu_lock_msg + data_size, LockMsg i event_type data_size data)"

definition cpu_lock_msg_size :: "'p event_data \<Rightarrow> nat option" where
  "cpu_lock_msg_size msg =
     (case msg of LockMsg i t n d \<Rightarrow> Some (sizeof_cpu_lock_msg + n) | _ \<Rightarrow> None)"

lemma cpu_lock_msg_size_new:
  "cpu_lock_msg_new i t d n = (m, msg) \<Longrightarrow> cpu_lock_msg_size msg = Some m \<and> cpu_lock_msg_data msg = Some d"
  by (auto simp: cpu_lock_msg_new_def cpu_lock_msg_size_def cpu_lock_msg_data_def)

section \<open>Work lists\<close>

record 'p cpu_list_item =
  item_event_type :: event_type
  item_data_size :: nat
  item_data :: "'p event_data"

record 'a cpu_list =
  cl_size :: u32
  cl_items :: "'a list"

definition cpu_list_init :: "'a cpu_list" where
  "cpu_list_init = \<lparr>cl_size = 0, cl_items = []\<rparr>"

definition cpu_list_new :: "'a cpu_list" where
  "cpu_list_new = cpu_list_init"

definition cpu_list_empty :: "'a cpu_list \<Rightarrow> bool" where
  "cpu_list_empty l \<longleftrightarrow> cl_items l = []"

definition cpu_list_push :: "'a cpu_list \<Rightarrow> 'a \<Rightarrow> 'a cpu_list" where
  "cpu_list_push l item = \<lparr>cl_size = cl_size l + 1, cl_items = cl_items l @ [item]\<rparr>"

definition cpu_list_shift :: "'a cpu_list \<Rightarrow> 'a option \<times> 'a cpu_list" where
  "cpu_list_shift l = (case cl_items l of
     [] \<Rightarrow> (None, l)
   | item # rest \<Rightarrow> (Some item, \<lparr>cl_size = cl_size l - 1, cl_items = rest\<rparr>))"

definition cpu_list_unshift :: "'a cpu_list \<Rightarrow> 'a \<Rightarrow> 'a cpu_list" where
  "cpu_list_unshift l item = \<lparr>cl_size = cl_size l + 1, cl_items = item # cl_items l\<rparr>"

definition cpu_list_item_new :: "event_type \<Rightarrow> 'p event_data \<Rightarrow> nat \<Rightarrow> 'p cpu_list_item" where
  "cpu_list_item_new event_type data data_size =
     \<lparr>item_event_type = event_type, item_data_size = data_size, item_data = data\<rparr>"

definition cpu_list_item_new_from_lock_msg :: "'p event_data \<Rightarrow> 'p cpu_list_item option" where
  "cpu_list_item_new_from_lock_msg msg =
     (case msg of LockMsg i t n d \<Rightarrow> Some (cpu_list_item_new t d n) | _ \<Rightarrow> None)"

text \<open>The \<open>size\<close> field counts the items, as long as there are fewer than \<open>2^32\<close> of them.\<close>

definition cpu_list_wf :: "'a cpu_list \<Rightarrow> bool" where
  "cpu_list_wf l \<longleftrightarrow> cl_size l = of_nat (length (cl_items l))"

lemma cpu_list_wf_init [simp]: "cpu_list_wf cpu_list_init"
  by (simp add: cpu_list_wf_def cpu_list_init_def)

lemma cpu_list_wf_push [simp]: "cpu_list_wf l \<Longrightarrow> cpu_list_wf (cpu_list_push l x)"
  by (simp add: cpu_list_wf_def cpu_list_push_def)

lemma cpu_list_wf_unshift [simp]: "cpu_list_wf l \<Longrightarrow> cpu_list_wf (cpu_list_unshift l x)"
  by (simp add: cpu_list_wf_def cpu_list_unshift_def)

lemma cpu_list_wf_shift: "cpu_list_wf l \<Longrightarrow> cpu_list_wf (snd (cpu_list_shift l))"
  by (auto simp: cpu_list_wf_def cpu_list_shift_def split: list.splits)

lemma cl_items_push [simp]: "cl_items (cpu_list_push l x) = cl_items l @ [x]"
  by (simp add: cpu_list_push_def)

lemma cl_items_unshift [simp]: "cl_items (cpu_list_unshift l x) = x # cl_items l"
  by (simp add: cpu_list_unshift_def)

lemma cpu_list_shift_cases:
  "(cl_items l = [] \<and> cpu_list_shift l = (None, l)) \<or>
   (\<exists>x l'. cpu_list_shift l = (Some x, l') \<and> cl_items l = x # cl_items l')"
  by (cases "cl_items l") (auto simp: cpu_list_shift_def)

section \<open>The pointer level\<close>

record 'p cpu_list_cell = "'p cpu_list_item" +
  item_next :: ptr

record plist =
  pl_size :: u32
  pl_head :: ptr
  pl_tail :: ptr

type_synonym 'p list_heap = "addr \<rightharpoonup> 'p cpu_list_cell"

definition plist_init :: plist where
  "plist_init = \<lparr>pl_size = 0, pl_head = None, pl_tail = None\<rparr>"

definition plist_empty :: "plist \<Rightarrow> bool" where
  "plist_empty l \<longleftrightarrow> pl_head l = None"

definition set_next :: "'p list_heap \<Rightarrow> addr \<Rightarrow> ptr \<Rightarrow> 'p list_heap option" where
  "set_next h a p = do { c \<leftarrow> h a; Some (h(a \<mapsto> c\<lparr>item_next := p\<rparr>)) }"

definition plist_push :: "'p list_heap \<Rightarrow> plist \<Rightarrow> addr \<Rightarrow> ('p list_heap \<times> plist) option" where
  "plist_push h l item =
     (case pl_tail l of
        None \<Rightarrow> Some (h, l\<lparr>pl_head := Some item, pl_tail := Some item, pl_size := pl_size l + 1\<rparr>)
      | Some t \<Rightarrow> do {
          h \<leftarrow> set_next h t (Some item);
          Some (h, l\<lparr>pl_tail := Some item, pl_size := pl_size l + 1\<rparr>)
        })"

definition plist_shift :: "'p list_heap \<Rightarrow> plist \<Rightarrow> (ptr \<times> 'p list_heap \<times> plist) option" where
  "plist_shift h l =
     (case pl_head l of
        None \<Rightarrow> Some (None, h, l)
      | Some item \<Rightarrow> do {
          c \<leftarrow> h item;
          let l = l\<lparr>pl_head := item_next c\<rparr>;
          let l = (if pl_tail l = Some item then l\<lparr>pl_tail := None\<rparr> else l);
          let l = l\<lparr>pl_size := pl_size l - 1\<rparr>;
          h \<leftarrow> set_next h item None;
          Some (Some item, h, l)
        })"

definition plist_unshift :: "'p list_heap \<Rightarrow> plist \<Rightarrow> addr \<Rightarrow> ('p list_heap \<times> plist) option" where
  "plist_unshift h l item =
     (if pl_head l = None then do {
        h \<leftarrow> set_next h item None;
        Some (h, l\<lparr>pl_tail := Some item, pl_head := Some item, pl_size := pl_size l + 1\<rparr>)
      } else do {
        h \<leftarrow> set_next h item (pl_head l);
        Some (h, l\<lparr>pl_head := Some item, pl_size := pl_size l + 1\<rparr>)
      })"

subsection \<open>Refinement\<close>

text \<open>
  \<open>plist_rel h l as L\<close>: the list struct \<open>l\<close> in the store \<open>h\<close> visits the addresses \<open>as\<close>, and
  what is stored there is the list \<open>L\<close>.
\<close>

definition plist_rel ::
  "'p list_heap \<Rightarrow> plist \<Rightarrow> addr list \<Rightarrow> 'p cpu_list_item cpu_list \<Rightarrow> bool" where
  "plist_rel h l as L \<longleftrightarrow>
     chain item_next h (pl_head l) as \<and> distinct as \<and>
     pl_tail l = (if as = [] then None else Some (last as)) \<and>
     pl_size l = cl_size L \<and>
     cl_items L = map (\<lambda>a. cpu_list_item.truncate (the (h a))) as"

lemma plist_relI:
  "chain item_next h (pl_head l) as \<Longrightarrow> distinct as \<Longrightarrow>
   pl_tail l = (if as = [] then None else Some (last as)) \<Longrightarrow> pl_size l = cl_size L \<Longrightarrow>
   cl_items L = map (\<lambda>a. cpu_list_item.truncate (the (h a))) as \<Longrightarrow> plist_rel h l as L"
  by (simp add: plist_rel_def)

lemma truncate_item_next [simp]:
  "cpu_list_item.truncate (c\<lparr>item_next := p\<rparr>) = cpu_list_item.truncate c"
  by (simp add: cpu_list_item.truncate_def)

lemma plist_rel_init: "plist_rel h plist_init [] cpu_list_init"
  by (simp add: plist_rel_def plist_init_def cpu_list_init_def)

lemma plist_rel_empty: "plist_rel h l as L \<Longrightarrow> plist_empty l \<longleftrightarrow> cpu_list_empty L"
  by (cases as) (auto simp: plist_rel_def plist_empty_def cpu_list_empty_def)

lemma plist_rel_frame:
  "plist_rel h l as L \<Longrightarrow> (\<And>a. a \<in> set as \<Longrightarrow> h' a = h a) \<Longrightarrow> plist_rel h' l as L"
  by (auto simp: plist_rel_def intro: chain_agree)

lemma plist_push_refines:
  assumes rel: "plist_rel h l as L" and c: "h a = Some c" "item_next c = None" and a: "a \<notin> set as"
  shows "\<exists>h' l'. plist_push h l a = Some (h', l')
     \<and> plist_rel h' l' (as @ [a]) (cpu_list_push L (cpu_list_item.truncate c))
     \<and> (\<forall>b. b \<notin> set as \<longrightarrow> h' b = h b)"
proof (cases as rule: rev_cases)
  case Nil
  with assms show ?thesis
    by (auto simp: plist_rel_def plist_push_def cpu_list_push_def)
next
  case (snoc bs t)
  from rel snoc have ch: "chain item_next h (pl_head l) (bs @ [t])" and d: "distinct (bs @ [t])"
    and tl: "pl_tail l = Some t"
    and items: "cl_items L = map (\<lambda>a. cpu_list_item.truncate (the (h a))) (bs @ [t])"
    and size: "pl_size l = cl_size L"
    by (auto simp: plist_rel_def)
  from a snoc have a': "a \<notin> set (bs @ [t])" by simp
  obtain e where e: "h t = Some e" using chain_last_allocated [OF ch] by auto
  let ?h = "h(t \<mapsto> e\<lparr>item_next := Some a\<rparr>)"
  have ha: "?h = h(t \<mapsto> e\<lparr>item_next := Some a\<rparr>, a \<mapsto> c)"
    using c a' by (auto simp: fun_eq_iff)
  let ?l = "l\<lparr>pl_tail := Some a, pl_size := pl_size l + 1\<rparr>"
  have "plist_push h l a = Some (?h, ?l)"
    using tl e by (simp add: plist_push_def set_next_def)
  moreover have "plist_rel ?h ?l (as @ [a]) (cpu_list_push L (cpu_list_item.truncate c))"
  proof (rule plist_relI)
    have "chain item_next (h(t \<mapsto> e\<lparr>item_next := Some a\<rparr>, a \<mapsto> c)) (pl_head l) (bs @ [t, a])"
      by (rule chain_snoc [OF ch d a']) (simp_all add: c)
    then show "chain item_next ?h (pl_head ?l) (as @ [a])"
      by (subst ha) (simp add: snoc del: fun_upd_apply)
    show "cl_items (cpu_list_push L (cpu_list_item.truncate c)) =
        map (\<lambda>a. cpu_list_item.truncate (the (?h a))) (as @ [a])"
      using items e c a' d by (simp add: snoc)
  qed (use a' d size snoc in \<open>auto simp: cpu_list_push_def\<close>)
  ultimately show ?thesis using snoc by auto
qed

lemma plist_shift_refines:
  assumes rel: "plist_rel h l (a # as) L"
  shows "\<exists>c h' l' L'. h a = Some c \<and> plist_shift h l = Some (Some a, h', l')
     \<and> cpu_list_shift L = (Some (cpu_list_item.truncate c), L')
     \<and> plist_rel h' l' as L' \<and> h' = h(a \<mapsto> c\<lparr>item_next := None\<rparr>)"
proof -
  from rel obtain c where hd: "pl_head l = Some a" and c: "h a = Some c"
    and ch: "chain item_next h (item_next c) as" and a: "a \<notin> set as" and d: "distinct as"
    by (auto simp: plist_rel_def)
  let ?h = "h(a \<mapsto> c\<lparr>item_next := None\<rparr>)"
  let ?l = "l\<lparr>pl_head := item_next c, pl_tail := (if as = [] then None else pl_tail l),
              pl_size := pl_size l - 1\<rparr>"
  let ?L = "\<lparr>cl_size = cl_size L - 1, cl_items = tl (cl_items L)\<rparr>"
  have tail: "pl_tail l = Some a \<longleftrightarrow> as = []"
    using rel a by (auto simp: plist_rel_def dest: last_in_set)
  have "plist_shift h l = Some (Some a, ?h, ?l)"
    using hd c tail by (simp add: plist_shift_def set_next_def)
  moreover have "cpu_list_shift L = (Some (cpu_list_item.truncate c), ?L)"
    using rel c by (simp add: plist_rel_def cpu_list_shift_def)
  moreover have "plist_rel ?h ?l as ?L"
    using rel ch a d by (auto simp: plist_rel_def intro!: map_cong)
  ultimately show ?thesis using c by blast
qed

lemma plist_shift_Nil: "plist_rel h l [] L \<Longrightarrow> plist_shift h l = Some (None, h, l) \<and> cpu_list_shift L = (None, L)"
  by (auto simp: plist_rel_def plist_shift_def cpu_list_shift_def)

lemma plist_unshift_refines:
  assumes rel: "plist_rel h l as L" and c: "h a = Some c" and a: "a \<notin> set as"
  shows "\<exists>h' l'. plist_unshift h l a = Some (h', l')
     \<and> plist_rel h' l' (a # as) (cpu_list_unshift L (cpu_list_item.truncate c))
     \<and> (\<forall>b. b \<noteq> a \<longrightarrow> h' b = h b)"
proof -
  let ?h = "h(a \<mapsto> c\<lparr>item_next := pl_head l\<rparr>)"
  let ?l = "l\<lparr>pl_head := Some a, pl_tail := (if as = [] then Some a else pl_tail l),
              pl_size := pl_size l + 1\<rparr>"
  have hd: "pl_head l = None \<longleftrightarrow> as = []" using rel by (cases as) (auto simp: plist_rel_def)
  have "plist_unshift h l a = Some (?h, ?l)"
    using c hd by (cases "pl_head l") (auto simp: plist_unshift_def set_next_def)
  moreover have "plist_rel ?h ?l (a # as) (cpu_list_unshift L (cpu_list_item.truncate c))"
    using rel a hd by (auto simp: plist_rel_def cpu_list_unshift_def intro!: map_cong)
  ultimately show ?thesis by auto
qed

end
