(* ===== verification/Lp.thy ===== *)
theory Lp
  imports Cpu_List
begin

text \<open>
  What every logical process of the simulation has: the configuration, the random numbers it draws,
  and the events it hands to the ROOT-Sim kernel.

  The configuration document is read with a third-party JSON library. \<open>cfg\<close> is the numeric value
  found under a path of object keys, \<open>None\<close> where the lookup of \<open>src/parameters.c\<close> would report a
  configuration error and exit. ROOT-Sim's random numbers are the sources \<open>normal_source\<close> and
  \<open>expent_source\<close>, indexed by the number of the draw. \<open>scheduled\<close> lists the calls of
  \<open>ScheduleNewEvent\<close> in the order they are made.
\<close>

record 'p sim_event =
  ev_to :: lpid_t
  ev_time :: simtime
  ev_type :: event_type
  ev_data :: "'p event_data"
  ev_size :: nat

section \<open>Timing parameters\<close>

datatype timing_distribution_info = Constant | Normal_timing | Exponential_timing

definition timing_distributions :: "(string \<times> timing_distribution_info) list" where
  "timing_distributions =
     [(''constant'', Constant), (''normal'', Normal_timing), (''exponential'', Exponential_timing)]"

text \<open>\<open>set_timing_distribution\<close> looks the configured name up in the table and exits when it is unknown.\<close>

definition set_timing_distribution :: "string \<Rightarrow> timing_distribution_info option" where
  "set_timing_distribution name = map_of timing_distributions name"

record 'p lp =
  cfg :: "string list \<Rightarrow> rat option"
  timing_dist :: timing_distribution_info
  ignore_initial_seconds :: simtime
  normal_source :: "nat \<Rightarrow> rat"
  expent_source :: "nat \<Rightarrow> rat \<Rightarrow> rat"
  draws :: nat
  scheduled :: "'p sim_event list"

definition normal_timing_distribution ::
  "('p, 'z) lp_scheme \<Rightarrow> rat \<Rightarrow> (rat \<times> ('p, 'z) lp_scheme) option" where
  "normal_timing_distribution st t = do {
     sigma \<leftarrow> cfg st [''timing'', ''normal_sigma''];
     mu \<leftarrow> cfg st [''timing'', ''normal_mu''];
     let f = normal_source st (draws st) * sigma + mu;
     let f = (if f < 1 / 2 then 1 / 2 else if f > 3 / 2 then 3 / 2 else f);
     Some (t * f, st\<lparr>draws := draws st + 1\<rparr>)
   }"

definition exponential_timing_distribution ::
  "('p, 'z) lp_scheme \<Rightarrow> rat \<Rightarrow> (rat \<times> ('p, 'z) lp_scheme) option" where
  "exponential_timing_distribution st t =
     Some (expent_source st (draws st) t, st\<lparr>draws := draws st + 1\<rparr>)"

definition timing_distribution ::
  "('p, 'z) lp_scheme \<Rightarrow> rat \<Rightarrow> (rat \<times> ('p, 'z) lp_scheme) option" where
  "timing_distribution st t = (case timing_dist st of
     Constant \<Rightarrow> Some (t, st)
   | Normal_timing \<Rightarrow> normal_timing_distribution st t
   | Exponential_timing \<Rightarrow> exponential_timing_distribution st t)"

text \<open>
  The functions that \<open>DEFINE_TIMING_FUNC(name)\<close> and \<open>DEFINE_PROTOCOL_TIMING_FUNC(name, protocol)\<close>
  define: \<open>timing_func st [name]\<close> and \<open>timing_func st [protocol, name]\<close>. The value is looked up once
  and cached; the document does not change, so reading it again gives the same value.
\<close>

definition timing_func ::
  "('p, 'z) lp_scheme \<Rightarrow> string list \<Rightarrow> (rat \<times> ('p, 'z) lp_scheme) option" where
  "timing_func st path = do {
     value \<leftarrow> cfg st (''timing'' # path);
     timing_distribution st value
   }"

text \<open>\<open>DEFINE_PROTOCOL_PARAMETER_FUNC(name, double, protocol)\<close>.\<close>

definition parameter_func :: "('p, 'z) lp_scheme \<Rightarrow> string list \<Rightarrow> rat option" where
  "parameter_func st path = cfg st (''protocol'' # path)"

definition ScheduleNewEvent ::
  "('p, 'z) lp_scheme \<Rightarrow> lpid_t \<Rightarrow> simtime \<Rightarrow> event_type \<Rightarrow> 'p event_data \<Rightarrow> nat \<Rightarrow> ('p, 'z) lp_scheme" where
  "ScheduleNewEvent st to when t data n =
     st\<lparr>scheduled := scheduled st @
         [\<lparr>ev_to = to, ev_time = when, ev_type = t, ev_data = data, ev_size = n\<rparr>]\<rparr>"

section \<open>Well-formed timing configurations\<close>

text \<open>
  \<open>timing_ok\<close>: all the paths of \<open>P\<close> are configured with non-negative values, and the random
  sources have the documented ranges (an exponential variate of a non-negative mean is
  non-negative). Under it a timing function returns a non-negative time and changes nothing but the
  number of draws.
\<close>

definition timing_ok :: "string list set \<Rightarrow> ('p, 'z) lp_scheme \<Rightarrow> bool" where
  "timing_ok P st \<longleftrightarrow>
     (\<forall>p \<in> P. \<exists>v \<ge> 0. cfg st (''timing'' # p) = Some v) \<and>
     (timing_dist st = Normal_timing \<longrightarrow>
        cfg st [''timing'', ''normal_sigma''] \<noteq> None \<and> cfg st [''timing'', ''normal_mu''] \<noteq> None) \<and>
     (\<forall>n m. 0 \<le> m \<longrightarrow> 0 \<le> expent_source st n m)"

lemma timing_distribution_draws:
  "timing_distribution st v = Some (t, st') \<Longrightarrow> \<exists>n. st' = st\<lparr>draws := n\<rparr>"
  by (auto simp: timing_distribution_def normal_timing_distribution_def
      exponential_timing_distribution_def bind_eq_Some_conv Let_def intro: exI [of _ "draws st"]
      split: timing_distribution_info.splits)

lemma timing_func_draws: "timing_func st p = Some (t, st') \<Longrightarrow> \<exists>n. st' = st\<lparr>draws := n\<rparr>"
  by (auto simp: timing_func_def bind_eq_Some_conv dest: timing_distribution_draws)

lemma timing_func_returns:
  assumes "timing_ok P st" and "p \<in> P"
  shows "\<exists>t n. timing_func st p = Some (t, st\<lparr>draws := n\<rparr>) \<and> 0 \<le> t"
proof -
  from assms obtain v where v: "cfg st (''timing'' # p) = Some v" "0 \<le> v"
    by (auto simp: timing_ok_def)
  have "\<exists>t n. timing_distribution st v = Some (t, st\<lparr>draws := n\<rparr>) \<and> 0 \<le> t"
  proof (cases "timing_dist st")
    case Constant
    then show ?thesis
      using v by (auto simp: timing_distribution_def intro!: exI [of _ "draws st"])
  next
    case Normal_timing
    with assms obtain s m where "cfg st [''timing'', ''normal_sigma''] = Some s"
      "cfg st [''timing'', ''normal_mu''] = Some m" by (auto simp: timing_ok_def)
    with Normal_timing v show ?thesis
      by (auto simp: timing_distribution_def normal_timing_distribution_def Let_def)
  next
    case Exponential_timing
    with assms v show ?thesis
      by (auto simp: timing_distribution_def exponential_timing_distribution_def timing_ok_def)
  qed
  with v show ?thesis by (auto simp: timing_func_def)
qed

section \<open>Bounds\<close>

text \<open>C37: under the normal distribution the drawn time stays between half and one and a half of the
  configured time, whatever the random source returns.\<close>

theorem normal_timing_bounds:
  assumes "normal_timing_distribution st t = Some (r, st')" and "0 \<le> t"
  shows "t / 2 \<le> r \<and> r \<le> 3 * t / 2"
proof -
  define clip :: "rat \<Rightarrow> rat" where "clip f = (if f < 1 / 2 then 1 / 2 else if f > 3 / 2 then 3 / 2 else f)" for f
  from assms(1) obtain f where r: "r = t * clip f"
    unfolding normal_timing_distribution_def Let_def clip_def [symmetric] by (auto simp: bind_eq_Some_conv)
  have f: "1 / 2 \<le> clip f" "clip f \<le> 3 / 2" by (auto simp: clip_def)
  show ?thesis using mult_left_mono [OF f(1) assms(2)] mult_left_mono [OF f(2) assms(2)] by (simp add: r)
qed

theorem normal_timing_bounds_witness:
  "let st = \<lparr>cfg = (\<lambda>_. Some 1), timing_dist = Normal_timing, ignore_initial_seconds = 0, normal_source = (\<lambda>_. 5),
     expent_source = (\<lambda>_ m. m), draws = 0, scheduled = [] :: nat sim_event list\<rparr>
   in normal_timing_distribution st 4 = Some (6, st\<lparr>draws := 1\<rparr>) \<and> 4 / 2 \<le> (6::rat) \<and> (6::rat) \<le> 3 * 4 / 2"
proof -
  let ?st = "\<lparr>cfg = (\<lambda>_. Some 1), timing_dist = Normal_timing, ignore_initial_seconds = 0, normal_source = (\<lambda>_. 5),
     expent_source = (\<lambda>_ m. m), draws = 0, scheduled = [] :: nat sim_event list\<rparr>"
  have "normal_timing_distribution ?st 4 = Some (6, ?st\<lparr>draws := 1\<rparr>)"
    by (simp add: normal_timing_distribution_def)
  from normal_timing_bounds [OF this] this show ?thesis unfolding Let_def by simp
qed

end
