(* ===== verification/Cpu_Stats.thy ===== *)
theory Cpu_Stats
  imports Lp
begin

text \<open>
  The statistics of the simulated CPU, \<open>src/cpu/stats.c\<close>, and the growing sample arrays of
  \<open>src/common.h\<close>. Writing the samples to files (\<open>cpu_stats_flush\<close>) and building the JSON report
  (\<open>cpu_stats_output\<close>) are output and are not modelled; what the report reads is.
\<close>

section \<open>Sample arrays\<close>

text \<open>
  \<open>parray_push(array, index, size, value)\<close>: the values below \<open>index\<close> are the list, \<open>size\<close> is the
  capacity of the block.
\<close>

record 'a parray =
  pr_values :: "'a list"
  pr_size :: nat

definition parray_new :: "'a parray" where
  "parray_new = \<lparr>pr_values = [], pr_size = 0\<rparr>"

definition parray_push :: "'a parray \<Rightarrow> 'a \<Rightarrow> 'a parray" where
  "parray_push a v =
     (let a = (if length (pr_values a) = pr_size a
               then a\<lparr>pr_size := (if pr_size a \<noteq> 0 then pr_size a * 2 else 8)\<rparr> else a)
      in a\<lparr>pr_values := pr_values a @ [v]\<rparr>)"

text \<open>The write of \<open>parray_push\<close> is always inside the block.\<close>

definition parray_wf :: "'a parray \<Rightarrow> bool" where
  "parray_wf a \<longleftrightarrow> length (pr_values a) \<le> pr_size a"

lemma parray_wf_new: "parray_wf parray_new"
  by (simp add: parray_wf_def parray_new_def)

lemma parray_wf_push: "parray_wf a \<Longrightarrow> parray_wf (parray_push a v)"
  by (auto simp: parray_wf_def parray_push_def Let_def)

lemma pr_values_push [simp]: "pr_values (parray_push a v) = pr_values a @ [v]"
  by (simp add: parray_push_def Let_def)

section \<open>CPU statistics\<close>

record cpu_stats =
  cs_busy_time :: simtime
  cs_num_event_types :: nat
  cs_by_event_type_busy_time :: "simtime list"
  cs_by_event_type_count :: "int list"
  cs_queue_size_samples :: "u32 parray"
  cs_max_queue_size_samples :: "u32 parray"
  cs_max_queue_size :: u32

definition cpu_stats_new :: cpu_stats where
  "cpu_stats_new =
     \<lparr>cs_busy_time = 0, cs_num_event_types = 0, cs_by_event_type_busy_time = [],
      cs_by_event_type_count = [], cs_queue_size_samples = parray_new,
      cs_max_queue_size_samples = parray_new, cs_max_queue_size = 0\<rparr>"

definition cpu_stats_queue_changed :: "cpu_stats \<Rightarrow> u32 \<Rightarrow> cpu_stats" where
  "cpu_stats_queue_changed s queue_size =
     s\<lparr>cs_max_queue_size := set_max (cs_max_queue_size s) queue_size\<rparr>"

definition cpu_stats_update :: "cpu_stats \<Rightarrow> u32 \<Rightarrow> cpu_stats" where
  "cpu_stats_update s queue_size =
     s\<lparr>cs_queue_size_samples := parray_push (cs_queue_size_samples s) queue_size,
       cs_max_queue_size_samples := parray_push (cs_max_queue_size_samples s) (cs_max_queue_size s),
       cs_max_queue_size := 0\<rparr>"

text \<open>
  Growing the two per-type arrays: \<open>realloc\<close> to \<open>type + 1\<close> entries, then zero the entries from
  \<open>num_event_types\<close> on.
\<close>

definition realloc_zero :: "'a::zero list \<Rightarrow> nat \<Rightarrow> nat \<Rightarrow> 'a list" where
  "realloc_zero xs from n = take from xs @ replicate (n - from) 0"

definition cpu_stats_event_processed :: "cpu_stats \<Rightarrow> simtime \<Rightarrow> event_type \<Rightarrow> cpu_stats option" where
  "cpu_stats_event_processed s elapsed type =
     (let s = s\<lparr>cs_busy_time := cs_busy_time s + elapsed\<rparr>;
          n = cs_num_event_types s;
          s = (if n \<le> type
               then s\<lparr>cs_by_event_type_busy_time := realloc_zero (cs_by_event_type_busy_time s) n (type + 1),
                      cs_by_event_type_count := realloc_zero (cs_by_event_type_count s) n (type + 1),
                      cs_num_event_types := type\<rparr>
               else s)
      in if type < length (cs_by_event_type_busy_time s) \<and> type < length (cs_by_event_type_count s)
         then Some (s\<lparr>
             cs_by_event_type_busy_time := (cs_by_event_type_busy_time s)
               [type := cs_by_event_type_busy_time s ! type + elapsed],
             cs_by_event_type_count := (cs_by_event_type_count s)
               [type := cs_by_event_type_count s ! type + 1]\<rparr>)
         else None)"

text \<open>
  The per-type arrays have one entry more than \<open>num_event_types\<close> says once anything has been
  processed, so the recording never leaves the arrays.
\<close>

definition cpu_stats_wf :: "cpu_stats \<Rightarrow> bool" where
  "cpu_stats_wf s \<longleftrightarrow>
     length (cs_by_event_type_busy_time s) = length (cs_by_event_type_count s) \<and>
     cs_num_event_types s \<le> length (cs_by_event_type_count s)"

lemma cpu_stats_wf_new: "cpu_stats_wf cpu_stats_new"
  by (simp add: cpu_stats_wf_def cpu_stats_new_def)

lemma length_realloc_zero: "from \<le> length xs \<Longrightarrow> from \<le> n \<Longrightarrow> length (realloc_zero xs from n) = n"
  by (simp add: realloc_zero_def)

lemma cpu_stats_event_processed_returns:
  assumes "cpu_stats_wf s"
  shows "\<exists>s'. cpu_stats_event_processed s e t = Some s' \<and> cpu_stats_wf s'
     \<and> cs_busy_time s' = cs_busy_time s + e"
  using assms
  by (auto simp: cpu_stats_event_processed_def cpu_stats_wf_def Let_def length_realloc_zero)

lemma cpu_stats_wf_update: "cpu_stats_wf s \<Longrightarrow> cpu_stats_wf (cpu_stats_update s n)"
  by (simp add: cpu_stats_wf_def cpu_stats_update_def)

section \<open>The highest event type\<close>

text \<open>C38: recording an event whose type is the highest seen so far resets the entry of that type before
  adding to it: after the record its count is one and its time that of this event alone, and the number
  of types still does not cover it, so that the next such event resets it again.\<close>

theorem highest_type_reset:
  assumes "cpu_stats_wf s" and "cs_num_event_types s \<le> t"
  shows "\<exists>s'. cpu_stats_event_processed s e t = Some s' \<and> cs_by_event_type_count s' ! t = 1 \<and>
     cs_by_event_type_busy_time s' ! t = e \<and> cs_num_event_types s' = t"
  using assms
  by (simp add: cpu_stats_event_processed_def cpu_stats_wf_def Let_def length_realloc_zero)
    (simp add: realloc_zero_def nth_append)

theorem highest_type_reset_witness:
  "let s = \<lparr>cs_busy_time = 9, cs_num_event_types = 2, cs_by_event_type_busy_time = [4, 0, 5],
     cs_by_event_type_count = [3, 0, 6], cs_queue_size_samples = parray_new,
     cs_max_queue_size_samples = parray_new, cs_max_queue_size = 0\<rparr>
   in \<exists>s'. cpu_stats_event_processed s 1 2 = Some s' \<and> cs_by_event_type_count s' ! 2 = 1 \<and>
     cs_by_event_type_busy_time s' ! 2 = 1 \<and> cs_num_event_types s' = 2"
  unfolding Let_def by (rule highest_type_reset) (simp_all add: cpu_stats_wf_def)

end
