(* ===== verification/Cpu.thy ===== *)
theory Cpu
  imports Cpu_Stats
begin

text \<open>
  The CPU simulation: \<open>src/cpu/state.c\<close>, \<open>schedule.c\<close>, \<open>lock.c\<close>, \<open>rwlock.c\<close> and \<open>cpu.c\<close>.

  A logical process with a CPU is one record: the fields of \<open>cpu_state_t\<close> come first, the record of
  the server extends them, as the C structs point to each other one to one (\<open>state->cpu\<close> and
  \<open>cpu->lp_state\<close>). The functions are polymorphic in the extension. The callback
  \<open>state->process_event\<close>, the function pointer that \<open>cpu_setup\<close> saves, is the argument
  \<open>h\<close> of the functions that reach it.
\<close>

section \<open>State\<close>

record 'p cpu_lock =
  locked :: bool
  lock_queue :: "'p cpu_list_item cpu_list"

record 'p cpu_rwlock =
  rw_counter :: int
  write_locked :: bool
  rw_queue :: "'p cpu_list_item cpu_list"

record 'p cpu_state = "'p lp" +
  cpu_lpid :: lpid_t
  cpu_queue :: "'p cpu_list_item cpu_list"
  cores :: u32
  busy_cores :: u32
  elapsed_time :: simtime
  cpu_now :: simtime
  cpu_st_stats :: cpu_stats
  free_core_after_event_processing :: bool
  allow_no_time :: bool
  lock_called :: bool
  locks :: "'p cpu_lock list"
  rwlocks :: "'p cpu_rwlock list"
  continues_in_scheduled_event :: bool

type_synonym ('p, 'z) cpu_handler =
  "event_type \<Rightarrow> 'p event_data \<Rightarrow> nat \<Rightarrow> ('p, 'z) cpu_state_scheme \<Rightarrow> ('p, 'z) cpu_state_scheme option"

definition cpu_busy :: "('p, 'z) cpu_state_scheme \<Rightarrow> bool" where
  "cpu_busy st \<longleftrightarrow> cores st \<le> busy_cores st"

definition cpu_busy_cores_dec :: "('p, 'z) cpu_state_scheme \<Rightarrow> ('p, 'z) cpu_state_scheme option" where
  "cpu_busy_cores_dec st = do {
     c_assert (0 < busy_cores st);
     Some (st\<lparr>busy_cores := busy_cores st - 1\<rparr>)
   }"

definition cpu_busy_cores_inc :: "('p, 'z) cpu_state_scheme \<Rightarrow> ('p, 'z) cpu_state_scheme option" where
  "cpu_busy_cores_inc st = do {
     c_assert (busy_cores st < cores st);
     Some (st\<lparr>busy_cores := busy_cores st + 1\<rparr>)
   }"

definition cpu_processing_continues_in_scheduled_event ::
  "('p, 'z) cpu_state_scheme \<Rightarrow> ('p, 'z) cpu_state_scheme option" where
  "cpu_processing_continues_in_scheduled_event st = do {
     c_assert (\<not> continues_in_scheduled_event st);
     Some (st\<lparr>continues_in_scheduled_event := True\<rparr>)
   }"

section \<open>Time accounting\<close>

definition cpu_add_time :: "('p, 'z) cpu_state_scheme \<Rightarrow> simtime \<Rightarrow> ('p, 'z) cpu_state_scheme option" where
  "cpu_add_time st time = do {
     c_assert (0 \<le> time);
     c_assert (\<not> lock_called st);
     Some (st\<lparr>elapsed_time := elapsed_time st + time\<rparr>)
   }"

text \<open>
  The statement \<open>cpu_add_time(cpu, k * f())\<close> for a timing function \<open>f\<close>.
\<close>

definition cpu_add_timing ::
  "('p, 'z) cpu_state_scheme \<Rightarrow> rat \<Rightarrow> string list \<Rightarrow> ('p, 'z) cpu_state_scheme option" where
  "cpu_add_timing st k path = do {
     (t, st) \<leftarrow> timing_func st path;
     cpu_add_time st (k * t)
   }"

definition cpu_elapsed_time :: "('p, 'z) cpu_state_scheme \<Rightarrow> simtime" where
  "cpu_elapsed_time st = elapsed_time st"

definition cpu_set_elapsed_time ::
  "('p, 'z) cpu_state_scheme \<Rightarrow> simtime \<Rightarrow> ('p, 'z) cpu_state_scheme" where
  "cpu_set_elapsed_time st value = st\<lparr>elapsed_time := value\<rparr>"

definition cpu_allow_no_time :: "('p, 'z) cpu_state_scheme \<Rightarrow> ('p, 'z) cpu_state_scheme" where
  "cpu_allow_no_time st = st\<lparr>allow_no_time := True\<rparr>"

definition cpu_lock_called :: "('p, 'z) cpu_state_scheme \<Rightarrow> bool" where
  "cpu_lock_called st = lock_called st"

section \<open>Scheduling\<close>

definition cpu_schedule_event ::
  "('p, 'z) cpu_state_scheme \<Rightarrow> simtime \<Rightarrow> event_type \<Rightarrow> 'p event_data \<Rightarrow> nat
   \<Rightarrow> ('p, 'z) cpu_state_scheme option" where
  "cpu_schedule_event st delay event_type data data_size = do {
     c_assert (data_size < UINT_MAX);
     Some (ScheduleNewEvent st (cpu_lpid st) (cpu_now st + delay) event_type data data_size)
   }"

definition cpu_schedule_lock_msg ::
  "('p, 'z) cpu_state_scheme \<Rightarrow> event_type \<Rightarrow> u32 \<Rightarrow> event_type \<Rightarrow> 'p event_data \<Rightarrow> nat
   \<Rightarrow> ('p, 'z) cpu_state_scheme option" where
  "cpu_schedule_lock_msg st cpu_event_type i event_type data data_size = do {
     st \<leftarrow> cpu_processing_continues_in_scheduled_event st;
     let st = st\<lparr>free_core_after_event_processing := False\<rparr>;
     let (n, msg) = cpu_lock_msg_new i event_type data data_size;
     cpu_schedule_event st (elapsed_time st) cpu_event_type msg n
   }"

section \<open>Locks\<close>

definition get_lock :: "('p, 'z) cpu_state_scheme \<Rightarrow> u32 \<Rightarrow> 'p cpu_lock option" where
  "get_lock st i = do { c_assert (unat i < length (locks st)); Some (locks st ! unat i) }"

definition set_lock :: "('p, 'z) cpu_state_scheme \<Rightarrow> u32 \<Rightarrow> 'p cpu_lock \<Rightarrow> ('p, 'z) cpu_state_scheme" where
  "set_lock st i l = st\<lparr>locks := (locks st)[unat i := l]\<rparr>"

definition cpu_lock_new :: "('p, 'z) cpu_state_scheme \<Rightarrow> u32 \<times> ('p, 'z) cpu_state_scheme" where
  "cpu_lock_new st =
     (of_nat (length (locks st)),
      st\<lparr>locks := array_push (locks st) \<lparr>locked = False, lock_queue = cpu_list_new\<rparr>\<rparr>)"

definition cpu_lock_lock ::
  "('p, 'z) cpu_state_scheme \<Rightarrow> u32 \<Rightarrow> event_type \<Rightarrow> 'p event_data \<Rightarrow> nat
   \<Rightarrow> ('p, 'z) cpu_state_scheme option" where
  "cpu_lock_lock st i event_type data data_size = do {
     c_assert (event_type \<noteq> 0);
     st \<leftarrow> cpu_add_timing st 1 [''lock_time''];
     cpu_schedule_lock_msg st CPU_LOCK_LOCK i event_type data data_size
   }"

definition cpu_lock_unlock ::
  "('p, 'z) cpu_state_scheme \<Rightarrow> u32 \<Rightarrow> event_type \<Rightarrow> 'p event_data \<Rightarrow> nat
   \<Rightarrow> ('p, 'z) cpu_state_scheme option" where
  "cpu_lock_unlock st i event_type data data_size = do {
     l \<leftarrow> get_lock st i;
     c_assert (locked l);
     st \<leftarrow> cpu_add_timing st 1 [''lock_time''];
     cpu_schedule_lock_msg st CPU_LOCK_UNLOCK i event_type data data_size
   }"

definition get_rwlock :: "('p, 'z) cpu_state_scheme \<Rightarrow> u32 \<Rightarrow> 'p cpu_rwlock option" where
  "get_rwlock st i = do { c_assert (unat i < length (rwlocks st)); Some (rwlocks st ! unat i) }"

definition set_rwlock :: "('p, 'z) cpu_state_scheme \<Rightarrow> u32 \<Rightarrow> 'p cpu_rwlock \<Rightarrow> ('p, 'z) cpu_state_scheme" where
  "set_rwlock st i l = st\<lparr>rwlocks := (rwlocks st)[unat i := l]\<rparr>"

definition cpu_rwlock_new :: "('p, 'z) cpu_state_scheme \<Rightarrow> u32 \<times> ('p, 'z) cpu_state_scheme" where
  "cpu_rwlock_new st =
     (of_nat (length (rwlocks st)),
      st\<lparr>rwlocks := array_push (rwlocks st)
           \<lparr>rw_counter = 0, write_locked = False, rw_queue = cpu_list_new\<rparr>\<rparr>)"

definition cpu_rwlock_read_lock ::
  "('p, 'z) cpu_state_scheme \<Rightarrow> u32 \<Rightarrow> event_type \<Rightarrow> 'p event_data \<Rightarrow> nat
   \<Rightarrow> ('p, 'z) cpu_state_scheme option" where
  "cpu_rwlock_read_lock st i event_type data data_size = do {
     st \<leftarrow> cpu_add_timing st 1 [''lock_time''];
     cpu_schedule_lock_msg st CPU_RWLOCK_READ_LOCK i event_type data data_size
   }"

definition cpu_rwlock_read_unlock ::
  "('p, 'z) cpu_state_scheme \<Rightarrow> u32 \<Rightarrow> event_type \<Rightarrow> 'p event_data \<Rightarrow> nat
   \<Rightarrow> ('p, 'z) cpu_state_scheme option" where
  "cpu_rwlock_read_unlock st i event_type data data_size = do {
     st \<leftarrow> cpu_add_timing st 1 [''lock_time''];
     cpu_schedule_lock_msg st CPU_RWLOCK_READ_UNLOCK i event_type data data_size
   }"

definition cpu_rwlock_write_lock ::
  "('p, 'z) cpu_state_scheme \<Rightarrow> u32 \<Rightarrow> event_type \<Rightarrow> 'p event_data \<Rightarrow> nat
   \<Rightarrow> ('p, 'z) cpu_state_scheme option" where
  "cpu_rwlock_write_lock st i event_type data data_size = do {
     st \<leftarrow> cpu_add_timing st 1 [''lock_time''];
     cpu_schedule_lock_msg st CPU_RWLOCK_WRITE_LOCK i event_type data data_size
   }"

definition cpu_rwlock_write_unlock ::
  "('p, 'z) cpu_state_scheme \<Rightarrow> u32 \<Rightarrow> event_type \<Rightarrow> 'p event_data \<Rightarrow> nat
   \<Rightarrow> ('p, 'z) cpu_state_scheme option" where
  "cpu_rwlock_write_unlock st i event_type data data_size = do {
     st \<leftarrow> cpu_add_timing st 1 [''lock_time''];
     l \<leftarrow> get_rwlock st i;
     c_assert (write_locked l);
     cpu_schedule_lock_msg st CPU_RWLOCK_WRITE_UNLOCK i event_type data data_size
   }"

definition cpu_rwlock_write_locked :: "('p, 'z) cpu_state_scheme \<Rightarrow> u32 \<Rightarrow> bool option" where
  "cpu_rwlock_write_locked st i = do { l \<leftarrow> get_rwlock st i; Some (write_locked l) }"

section \<open>Weight of a state\<close>

text \<open>
  The work that \<open>cpu_process\<close> may still do without leaving the C stack: the nesting depth of the lock
  messages in all the queues. It is the termination measure of the functions below.
\<close>

primrec depth :: "'p event_data \<Rightarrow> nat" where
  "depth NoData = 1"
| "depth (Data p) = 1"
| "depth (LockMsg i t n d) = Suc (depth d)"

definition queue_weight :: "'p cpu_list_item cpu_list \<Rightarrow> nat" where
  "queue_weight l = sum_list (map (\<lambda>x. depth (item_data x)) (cl_items l))"

definition weight :: "('p, 'z) cpu_state_scheme \<Rightarrow> nat" where
  "weight st = queue_weight (cpu_queue st)
     + sum_list (map (\<lambda>l. queue_weight (lock_queue l)) (locks st))
     + sum_list (map (\<lambda>l. queue_weight (rw_queue l)) (rwlocks st))"

lemma depth_pos [simp]: "0 < depth d"
  by (cases d) simp_all

text \<open>
  The fragment of \<open>on_lock_unlock\<close>, \<open>on_rwlock_read_unlock\<close> and \<open>on_rwlock_write_unlock\<close> that moves the
  first waiter of a lock to the front of the queue of the CPU.
\<close>

definition wake_first ::
  "'p cpu_list_item cpu_list \<Rightarrow> 'p cpu_list_item cpu_list
   \<Rightarrow> 'p cpu_list_item cpu_list \<times> 'p cpu_list_item cpu_list" where
  "wake_first waiters queue =
     (if \<not> cpu_list_empty waiters
      then case cpu_list_shift waiters of
             (None, waiters') \<Rightarrow> (waiters', queue)
           | (Some item, waiters') \<Rightarrow> (waiters', cpu_list_unshift queue item)
      else (waiters, queue))"

lemma queue_weight_wake:
  "wake_first w q = (w', q') \<Longrightarrow> queue_weight w' + queue_weight q' = queue_weight w + queue_weight q"
  by (auto simp: wake_first_def queue_weight_def cpu_list_shift_def cpu_list_empty_def
      cpu_list_unshift_def split: if_splits list.splits)

lemma sum_list_map_update:
  fixes f :: "'a \<Rightarrow> nat"
  assumes "i < length xs"
  shows "sum_list (map f (xs[i := x])) + f (xs ! i) = sum_list (map f xs) + f x"
  using assms
proof (induction xs arbitrary: i)
  case (Cons y ys)
  then show ?case by (cases i) fastforce+
qed simp

section \<open>Waking a waiter\<close>

text \<open>C32: releasing a lock moves the list item of its first waiter, the C struct itself, to the front of
  the CPU's queue: on the store, \<open>cpu_list_shift\<close> followed by \<open>cpu_list_unshift\<close> of the same item turns
  both lists into what \<open>wake_first\<close> says, and neither list is damaged by sharing the store.\<close>

theorem wake_first_refines:
  assumes w: "plist_rel h lw (a # as) W" and q: "plist_rel h lq bs Q" and disj: "set (a # as) \<inter> set bs = {}"
  shows "\<exists>h1 lw' h2 lq'. plist_shift h lw = Some (Some a, h1, lw') \<and> plist_unshift h1 lq a = Some (h2, lq') \<and>
     plist_rel h2 lw' as (fst (wake_first W Q)) \<and> plist_rel h2 lq' (a # bs) (snd (wake_first W Q))"
proof -
  from plist_shift_refines [OF w] obtain c h1 lw' W' where c: "h a = Some c"
    and s: "plist_shift h lw = Some (Some a, h1, lw')" "cpu_list_shift W = (Some (cpu_list_item.truncate c), W')"
    and w': "plist_rel h1 lw' as W'" and h1: "h1 = h(a \<mapsto> c\<lparr>item_next := None\<rparr>)" by blast
  have a: "a \<notin> set as" "a \<notin> set bs" using w disj by (auto simp: plist_rel_def)
  have q1: "plist_rel h1 lq bs Q" by (rule plist_rel_frame [OF q]) (use a h1 in auto)
  from plist_unshift_refines [OF q1, of a "c\<lparr>item_next := None\<rparr>"] a h1 obtain h2 lq' where
    u: "plist_unshift h1 lq a = Some (h2, lq')"
    and q': "plist_rel h2 lq' (a # bs) (cpu_list_unshift Q (cpu_list_item.truncate c))"
    and same: "\<forall>b. b \<noteq> a \<longrightarrow> h2 b = h1 b" by auto
  have "plist_rel h2 lw' as W'" by (rule plist_rel_frame [OF w']) (use a same in auto)
  moreover have "\<not> cpu_list_empty W" using w by (auto simp: plist_rel_def cpu_list_empty_def)
  ultimately show ?thesis using s u q' by (auto simp: wake_first_def)
qed

theorem wake_first_refines_witness:
  "let i = (\<lambda>t. \<lparr>item_event_type = t, item_data_size = 0, item_data = NoData :: unit event_data\<rparr>);
       c = (\<lambda>t p. cpu_list_item.extend (i t) \<lparr>item_next = p\<rparr>);
       h = [1 \<mapsto> c 7 (Some 2), 2 \<mapsto> c 8 None, 3 \<mapsto> c 9 None];
       lw = \<lparr>pl_size = 2, pl_head = Some 1, pl_tail = Some 2\<rparr>; lq = \<lparr>pl_size = 1, pl_head = Some 3, pl_tail = Some 3\<rparr>;
       W = \<lparr>cl_size = 2, cl_items = [i 7, i 8]\<rparr>; Q = \<lparr>cl_size = 1, cl_items = [i 9]\<rparr>
   in \<exists>h1 lw' h2 lq'. plist_shift h lw = Some (Some 1, h1, lw') \<and> plist_unshift h1 lq 1 = Some (h2, lq') \<and>
        plist_rel h2 lw' [2] (fst (wake_first W Q)) \<and> plist_rel h2 lq' [1, 3] (snd (wake_first W Q))"
  unfolding Let_def
  by (rule wake_first_refines) (simp_all add: plist_rel_def cpu_list_item.defs cpu_list_cell.defs)

end
