(* ===== verification/Cpu_Process.thy ===== *)
theory Cpu_Process
  imports Cpu
begin

text \<open>
  The event loop of the CPU simulation: \<open>cpu_process\<close>, the lock handlers it calls and that call it
  back, and \<open>cpu_process_event\<close>, the callback ROOT-Sim invokes. \<open>cpu_lock_process_event\<close> returns
  \<open>Some None\<close> where the C function returns 0, having changed nothing.
\<close>

lemma weight_lp [simp]:
  "weight (st\<lparr>draws := n\<rparr>) = weight st" "weight (st\<lparr>scheduled := e\<rparr>) = weight st"
  "weight (st\<lparr>busy_cores := b\<rparr>) = weight st" "weight (st\<lparr>elapsed_time := t\<rparr>) = weight st"
  "weight (st\<lparr>lock_called := c\<rparr>) = weight st" "weight (st\<lparr>allow_no_time := c\<rparr>) = weight st"
  "weight (st\<lparr>free_core_after_event_processing := c\<rparr>) = weight st"
  by (simp_all add: weight_def)

lemma weight_add_timing [simp]: "cpu_add_timing st k p = Some st' \<Longrightarrow> weight st' = weight st"
  by (auto simp: cpu_add_timing_def cpu_add_time_def bind_eq_Some_conv dest!: timing_func_draws)

lemma weight_dec [simp]: "cpu_busy_cores_dec st = Some st' \<Longrightarrow> weight st' = weight st"
  by (auto simp: cpu_busy_cores_dec_def bind_eq_Some_conv)

lemma weight_inc [simp]: "cpu_busy_cores_inc st = Some st' \<Longrightarrow> weight st' = weight st"
  by (auto simp: cpu_busy_cores_inc_def bind_eq_Some_conv)

lemma get_lock_eq_Some: "get_lock st i = Some l \<longleftrightarrow> unat i < length (locks st) \<and> l = locks st ! unat i"
  by (auto simp: get_lock_def bind_eq_Some_conv)

lemma get_rwlock_eq_Some:
  "get_rwlock st i = Some l \<longleftrightarrow> unat i < length (rwlocks st) \<and> l = rwlocks st ! unat i"
  by (auto simp: get_rwlock_def bind_eq_Some_conv)

lemma weight_set_lock:
  "get_lock st i = Some l \<Longrightarrow>
   weight (set_lock st i l') + queue_weight (lock_queue l) = weight st + queue_weight (lock_queue l')"
  using sum_list_map_update [of "unat i" "locks st" "\<lambda>l. queue_weight (lock_queue l)" l']
  by (auto simp: get_lock_eq_Some set_lock_def weight_def)

lemma weight_set_rwlock:
  "get_rwlock st i = Some l \<Longrightarrow>
   weight (set_rwlock st i l') + queue_weight (rw_queue l) = weight st + queue_weight (rw_queue l')"
  using sum_list_map_update [of "unat i" "rwlocks st" "\<lambda>l. queue_weight (rw_queue l)" l']
  by (auto simp: get_rwlock_eq_Some set_rwlock_def weight_def)

text \<open>Releasing a lock: clear the flag and wake the first waiter.\<close>

definition lock_release ::
  "('p, 'z) cpu_state_scheme \<Rightarrow> u32 \<Rightarrow> 'p cpu_lock \<Rightarrow> ('p, 'z) cpu_state_scheme" where
  "lock_release st i l =
     (let (waiters, queue) = wake_first (lock_queue l) (cpu_queue st)
      in (set_lock st i (l\<lparr>locked := False, lock_queue := waiters\<rparr>))\<lparr>cpu_queue := queue\<rparr>)"

definition rwlock_release ::
  "('p, 'z) cpu_state_scheme \<Rightarrow> u32 \<Rightarrow> 'p cpu_rwlock \<Rightarrow> ('p, 'z) cpu_state_scheme" where
  "rwlock_release st i l =
     (let (waiters, queue) = wake_first (rw_queue l) (cpu_queue st)
      in (set_rwlock st i (l\<lparr>write_locked := False, rw_queue := waiters\<rparr>))\<lparr>cpu_queue := queue\<rparr>)"

lemma weight_lock_release: "get_lock st i = Some l \<Longrightarrow> weight (lock_release st i l) = weight st"
proof -
  assume l: "get_lock st i = Some l"
  obtain w q where wq: "wake_first (lock_queue l) (cpu_queue st) = (w, q)" by force
  from queue_weight_wake [OF wq] weight_set_lock [OF l, of "l\<lparr>locked := False, lock_queue := w\<rparr>"] wq
  show ?thesis by (simp add: lock_release_def weight_def set_lock_def)
qed

lemma weight_rwlock_release:
  "get_rwlock st i = Some l0 \<Longrightarrow> rw_queue l = rw_queue l0 \<Longrightarrow> weight (rwlock_release st i l) = weight st"
proof -
  assume l: "get_rwlock st i = Some l0" and q: "rw_queue l = rw_queue l0"
  obtain w q where wq: "wake_first (rw_queue l) (cpu_queue st) = (w, q)" by force
  from queue_weight_wake [OF wq] weight_set_rwlock [OF l, of "l\<lparr>write_locked := False, rw_queue := w\<rparr>"] wq q
  show ?thesis by (simp add: rwlock_release_def weight_def set_rwlock_def)
qed

function cpu_process ::
    "('p, 'z) cpu_handler \<Rightarrow> ('p, 'z) cpu_state_scheme \<Rightarrow> event_type \<Rightarrow> 'p event_data \<Rightarrow> nat
     \<Rightarrow> ('p, 'z) cpu_state_scheme option"
  and cpu_process_next_in_queue ::
    "('p, 'z) cpu_handler \<Rightarrow> ('p, 'z) cpu_state_scheme \<Rightarrow> ('p, 'z) cpu_state_scheme option"
  and on_lock_lock ::
    "('p, 'z) cpu_handler \<Rightarrow> ('p, 'z) cpu_state_scheme \<Rightarrow> 'p event_data \<Rightarrow> ('p, 'z) cpu_state_scheme option"
  and on_lock_unlock ::
    "('p, 'z) cpu_handler \<Rightarrow> ('p, 'z) cpu_state_scheme \<Rightarrow> 'p event_data \<Rightarrow> ('p, 'z) cpu_state_scheme option"
  and cpu_lock_process_event ::
    "('p, 'z) cpu_handler \<Rightarrow> ('p, 'z) cpu_state_scheme \<Rightarrow> event_type \<Rightarrow> 'p event_data
     \<Rightarrow> ('p, 'z) cpu_state_scheme option option"
  and on_rwlock_read_lock ::
    "('p, 'z) cpu_handler \<Rightarrow> ('p, 'z) cpu_state_scheme \<Rightarrow> 'p event_data \<Rightarrow> ('p, 'z) cpu_state_scheme option"
  and on_rwlock_read_unlock ::
    "('p, 'z) cpu_handler \<Rightarrow> ('p, 'z) cpu_state_scheme \<Rightarrow> 'p event_data \<Rightarrow> ('p, 'z) cpu_state_scheme option"
  and on_rwlock_write_lock ::
    "('p, 'z) cpu_handler \<Rightarrow> ('p, 'z) cpu_state_scheme \<Rightarrow> 'p event_data \<Rightarrow> ('p, 'z) cpu_state_scheme option"
  and on_rwlock_write_unlock ::
    "('p, 'z) cpu_handler \<Rightarrow> ('p, 'z) cpu_state_scheme \<Rightarrow> 'p event_data \<Rightarrow> ('p, 'z) cpu_state_scheme option"
  and cpu_rwlock_process_event ::
    "('p, 'z) cpu_handler \<Rightarrow> ('p, 'z) cpu_state_scheme \<Rightarrow> event_type \<Rightarrow> 'p event_data
     \<Rightarrow> ('p, 'z) cpu_state_scheme option option"
where
  "cpu_process h st type data data_size =
     (if type = CPU_NO_EVENT then cpu_process_next_in_queue h st
      else do {
        st \<leftarrow> cpu_busy_cores_inc st;
        let st = st\<lparr>elapsed_time := 0, lock_called := False, allow_no_time := False,
                    free_core_after_event_processing := True\<rparr>;
        r \<leftarrow> cpu_lock_process_event h st type data;
        r \<leftarrow> (case r of Some st' \<Rightarrow> Some (Some st') | None \<Rightarrow> cpu_rwlock_process_event h st type data);
        st \<leftarrow> (case r of
                 Some st' \<Rightarrow> Some (st'\<lparr>free_core_after_event_processing := False\<rparr>)
               | None \<Rightarrow> h type data data_size st);
        c_assert (allow_no_time st \<or> 0 < elapsed_time st);
        s \<leftarrow> cpu_stats_event_processed (cpu_st_stats st) (elapsed_time st) type;
        let st = st\<lparr>cpu_st_stats := s\<rparr>;
        (if free_core_after_event_processing st
         then cpu_schedule_event st (elapsed_time st) CPU_FREE_CORE NoData 0
         else Some st)
      })"
| "cpu_process_next_in_queue h st =
     (case cpu_list_shift (cpu_queue st) of
        (None, queue) \<Rightarrow> Some st
      | (Some item, queue) \<Rightarrow>
          cpu_process h (st\<lparr>cpu_queue := queue\<rparr>) (item_event_type item) (item_data item)
            (item_data_size item))"
| "on_lock_lock h st msg =
     (case msg of
        LockMsg i event_type data_size data \<Rightarrow> do {
          st \<leftarrow> cpu_add_timing st 1 [''lock_time''];
          st \<leftarrow> cpu_busy_cores_dec st;
          l \<leftarrow> get_lock st i;
          (if locked l
           then do {
             n \<leftarrow> cpu_lock_msg_size msg;
             let item = cpu_list_item_new CPU_LOCK_LOCK msg n;
             cpu_schedule_event (set_lock st i (l\<lparr>lock_queue := cpu_list_push (lock_queue l) item\<rparr>))
               0 CPU_EVENT NoData 0
           }
           else cpu_process h (set_lock st i (l\<lparr>locked := True\<rparr>)) event_type data data_size)
        }
      | _ \<Rightarrow> None)"
| "on_lock_unlock h st msg =
     (case msg of
        LockMsg i event_type data_size data \<Rightarrow> do {
          st \<leftarrow> cpu_add_timing st 1 [''lock_time''];
          st \<leftarrow> cpu_busy_cores_dec st;
          l \<leftarrow> get_lock st i;
          c_assert (locked l);
          cpu_process h (lock_release st i l) event_type data data_size
        }
      | _ \<Rightarrow> None)"
| "cpu_lock_process_event h st event_type data =
     (if event_type = CPU_LOCK_LOCK then map_option Some (on_lock_lock h st data)
      else if event_type = CPU_LOCK_UNLOCK then map_option Some (on_lock_unlock h st data)
      else Some None)"
| "on_rwlock_read_lock h st msg =
     (case msg of
        LockMsg i event_type data_size data \<Rightarrow> do {
          st \<leftarrow> cpu_add_timing st 1 [''lock_time''];
          st \<leftarrow> cpu_busy_cores_dec st;
          l \<leftarrow> get_rwlock st i;
          (if write_locked l \<and> rw_counter l = 0
           then do {
             c_assert (event_type \<noteq> 0);
             n \<leftarrow> cpu_lock_msg_size msg;
             let item = cpu_list_item_new CPU_RWLOCK_READ_LOCK msg n;
             cpu_schedule_event (set_rwlock st i (l\<lparr>rw_queue := cpu_list_push (rw_queue l) item\<rparr>))
               0 CPU_EVENT NoData 0
           }
           else
             let l = l\<lparr>rw_counter := rw_counter l + 1\<rparr>;
                 l = (if rw_counter l = 1 then l\<lparr>write_locked := True\<rparr> else l)
             in cpu_process h (set_rwlock st i l) event_type data data_size)
        }
      | _ \<Rightarrow> None)"
| "on_rwlock_read_unlock h st msg =
     (case msg of
        LockMsg i event_type data_size data \<Rightarrow> do {
          st \<leftarrow> cpu_add_timing st 1 [''lock_time''];
          st \<leftarrow> cpu_busy_cores_dec st;
          l \<leftarrow> get_rwlock st i;
          c_assert (0 < rw_counter l);
          (if rw_counter l - 1 = 0
           then do {
             c_assert (write_locked l);
             cpu_process h (rwlock_release st i (l\<lparr>rw_counter := rw_counter l - 1\<rparr>))
               event_type data data_size
           }
           else cpu_process h (set_rwlock st i (l\<lparr>rw_counter := rw_counter l - 1\<rparr>))
               event_type data data_size)
        }
      | _ \<Rightarrow> None)"
| "on_rwlock_write_lock h st msg =
     (case msg of
        LockMsg i event_type data_size data \<Rightarrow> do {
          st \<leftarrow> cpu_add_timing st 1 [''lock_time''];
          st \<leftarrow> cpu_busy_cores_dec st;
          l \<leftarrow> get_rwlock st i;
          (if write_locked l
           then do {
             n \<leftarrow> cpu_lock_msg_size msg;
             let item = cpu_list_item_new CPU_RWLOCK_WRITE_LOCK msg n;
             cpu_schedule_event (set_rwlock st i (l\<lparr>rw_queue := cpu_list_push (rw_queue l) item\<rparr>))
               0 CPU_EVENT NoData 0
           }
           else cpu_process h (set_rwlock st i (l\<lparr>write_locked := True\<rparr>)) event_type data data_size)
        }
      | _ \<Rightarrow> None)"
| "on_rwlock_write_unlock h st msg =
     (case msg of
        LockMsg i event_type data_size data \<Rightarrow> do {
          st \<leftarrow> cpu_add_timing st 1 [''lock_time''];
          st \<leftarrow> cpu_busy_cores_dec st;
          l \<leftarrow> get_rwlock st i;
          c_assert (rw_counter l = 0 \<or> \<not> cpu_list_empty (rw_queue l));
          c_assert (write_locked l);
          cpu_process h (rwlock_release st i l) event_type data data_size
        }
      | _ \<Rightarrow> None)"
| "cpu_rwlock_process_event h st event_type data =
     (if event_type = CPU_RWLOCK_READ_LOCK then map_option Some (on_rwlock_read_lock h st data)
      else if event_type = CPU_RWLOCK_READ_UNLOCK then map_option Some (on_rwlock_read_unlock h st data)
      else if event_type = CPU_RWLOCK_WRITE_LOCK then map_option Some (on_rwlock_write_lock h st data)
      else if event_type = CPU_RWLOCK_WRITE_UNLOCK then map_option Some (on_rwlock_write_unlock h st data)
      else Some None)"
  by pat_completeness auto


text \<open>
  Every call works on a smaller lock message, or takes an item off the queue, and releasing a lock
  only moves an item from one queue to another.
\<close>

termination
proof (relation "measure (\<lambda>x. case x of
      Inl (Inl (Inl (h, st, t, d, n))) \<Rightarrow> 3 * (weight st + depth d) + 2
    | Inl (Inl (Inr (h, st))) \<Rightarrow> 3 * weight st + 3
    | Inl (Inr (Inl (h, st, d))) \<Rightarrow> 3 * (weight st + depth d)
    | Inl (Inr (Inr (Inl (h, st, d)))) \<Rightarrow> 3 * (weight st + depth d)
    | Inl (Inr (Inr (Inr (h, st, t, d)))) \<Rightarrow> 3 * (weight st + depth d) + 1
    | Inr (Inl (Inl (h, st, d))) \<Rightarrow> 3 * (weight st + depth d)
    | Inr (Inl (Inr (h, st, d))) \<Rightarrow> 3 * (weight st + depth d)
    | Inr (Inr (Inl (h, st, d))) \<Rightarrow> 3 * (weight st + depth d)
    | Inr (Inr (Inr (Inl (h, st, d)))) \<Rightarrow> 3 * (weight st + depth d)
    | Inr (Inr (Inr (Inr (h, st, t, d)))) \<Rightarrow> 3 * (weight st + depth d) + 1)", goal_cases)
  case (2 h st type data data_size)
  have "0 < depth data" by simp
  then show ?case by (simp del: depth_pos)
next
  case (5 h st x y item)
  then have "weight st = weight (st\<lparr>cpu_queue := y\<rparr>) + depth (item_data item)"
    by (auto simp: weight_def queue_weight_def cpu_list_shift_def split: list.splits)
  then show ?case by simp
next
  case (6 h st msg i t n d a b l)
  then show ?case using weight_set_lock [of b i l "l\<lparr>locked := True\<rparr>"] by simp
next
  case (7 h st msg i t n d a b l)
  then show ?case by (simp add: weight_lock_release)
next
  case (10 h st msg i t n d a b l x y)
  then have "weight (set_rwlock b i y) = weight st"
    using weight_set_rwlock [of b i l y] by (auto split: if_splits)
  with 10 show ?case by simp
next
  case (11 h st msg i t n d a b l)
  then show ?case by (simp add: weight_rwlock_release)
next
  case (12 h st msg i t n d a b l)
  then show ?case using weight_set_rwlock [of b i l "l\<lparr>rw_counter := rw_counter l - 1\<rparr>"] by simp
next
  case (13 h st msg i t n d a b l)
  then show ?case using weight_set_rwlock [of b i l "l\<lparr>write_locked := True\<rparr>"] by simp
next
  case (14 h st msg i t n d a b l)
  then show ?case by (simp add: weight_rwlock_release)
qed simp_all

declare cpu_process.simps [simp del] cpu_process_next_in_queue.simps [simp del]
  on_lock_lock.simps [simp del] on_lock_unlock.simps [simp del] cpu_lock_process_event.simps [simp del]
  on_rwlock_read_lock.simps [simp del] on_rwlock_read_unlock.simps [simp del]
  on_rwlock_write_lock.simps [simp del] on_rwlock_write_unlock.simps [simp del]
  cpu_rwlock_process_event.simps [simp del]

section \<open>The entry point\<close>

definition cpu_process_event ::
  "('p, 'z) cpu_handler \<Rightarrow> lpid_t \<Rightarrow> simtime \<Rightarrow> event_type \<Rightarrow> 'p event_data \<Rightarrow> nat
   \<Rightarrow> ('p, 'z) cpu_state_scheme \<Rightarrow> ('p, 'z) cpu_state_scheme option" where
  "cpu_process_event h lpid now event_type data data_size st =
     (let st = st\<lparr>cpu_now := now, continues_in_scheduled_event := False\<rparr>
      in if event_type = CPU_FREE_CORE then do {
           st \<leftarrow> cpu_busy_cores_dec st;
           cpu_process_next_in_queue h st
         }
         else if event_type = CPU_EVENT then do {
           c_assert (\<not> cpu_busy st);
           cpu_process_next_in_queue h st
         }
         else if event_type = CPU_STATS then do {
           let st = st\<lparr>cpu_st_stats := cpu_stats_update (cpu_st_stats st) (cl_size (cpu_queue st))\<rparr>;
           Some (ScheduleNewEvent st lpid (now + 1 / 10) CPU_STATS NoData 0)
         }
         else do {
           r \<leftarrow> cpu_lock_process_event h st event_type data;
           r \<leftarrow> (case r of Some st' \<Rightarrow> Some (Some st')
                 | None \<Rightarrow> cpu_rwlock_process_event h st event_type data);
           (case r of
              Some st' \<Rightarrow> Some st'
            | None \<Rightarrow>
                if cpu_busy st
                then Some (st\<lparr>cpu_queue := cpu_list_push (cpu_queue st)
                                (cpu_list_item_new event_type data data_size)\<rparr>)
                else cpu_process h st event_type data data_size)
         })"

text \<open>
  \<open>cpu_setup\<close>. The fields it does not assign are not initialised in the source either: each of them is
  written before it is read.
\<close>

definition cpu_setup ::
  "lpid_t \<Rightarrow> simtime \<Rightarrow> u32 \<Rightarrow> ('p, 'z) cpu_state_scheme \<Rightarrow> ('p, 'z) cpu_state_scheme" where
  "cpu_setup lpid now n st =
     ScheduleNewEvent
       (st\<lparr>cpu_lpid := lpid, cpu_st_stats := cpu_stats_new, cpu_queue := cpu_list_init, cores := n,
           busy_cores := 0, elapsed_time := 0, locks := [], rwlocks := [], lock_called := False\<rparr>)
       lpid (now + 1 / 10) CPU_STATS NoData 0"

end
