(* ===== verification/Cpu_Invariant.thy ===== *)
theory Cpu_Invariant
  imports Cpu_Process
begin

text \<open>
  What the CPU simulation promises and what it asks of the code that runs on it.

  The interface is the locale \<open>cpu_client\<close>: the event handler of a logical process may only touch
  the CPU through the functions of \<open>src/cpu/*.h\<close>, which is the relation \<open>cpu_frame\<close>. Under it
  the busy cores are exactly the events under way that will give a core back, and a waiting event
  always has an event under way that will look at the queue.
\<close>

section \<open>Events that hold a core\<close>

definition core_event :: "event_type \<Rightarrow> bool" where
  "core_event t \<longleftrightarrow> t = CPU_FREE_CORE \<or> is_lock_event t \<or> is_rwlock_event t"

definition ncore :: "'p sim_event list \<Rightarrow> nat" where
  "ncore es = length (filter (\<lambda>e. core_event (ev_type e)) es)"

definition wakes :: "'p sim_event list \<Rightarrow> bool" where
  "wakes es \<longleftrightarrow> (\<exists>e \<in> set es. ev_type e = CPU_EVENT)"

lemma ncore_append [simp]: "ncore (xs @ ys) = ncore xs + ncore ys"
  by (simp add: ncore_def)

lemma ncore_Nil [simp]: "ncore [] = 0"
  by (simp add: ncore_def)

lemma ncore_single [simp]: "ncore [e] = of_bool (core_event (ev_type e))"
  by (simp add: ncore_def)

lemma wakes_append [simp]: "wakes (xs @ ys) \<longleftrightarrow> wakes xs \<or> wakes ys"
  by (auto simp: wakes_def)

lemma wakes_single [simp]: "wakes [e] \<longleftrightarrow> ev_type e = CPU_EVENT"
  by (simp add: wakes_def)

lemma core_event_simps [simp]:
  "core_event CPU_FREE_CORE" "core_event CPU_LOCK_LOCK" "core_event CPU_LOCK_UNLOCK"
  "core_event CPU_RWLOCK_READ_LOCK" "core_event CPU_RWLOCK_READ_UNLOCK"
  "core_event CPU_RWLOCK_WRITE_LOCK" "core_event CPU_RWLOCK_WRITE_UNLOCK"
  "\<not> core_event CPU_EVENT" "\<not> core_event CPU_STATS"
  by (simp_all add: core_event_def is_lock_event_def is_rwlock_event_def)

section \<open>What a handler may do\<close>

definition cpu_frame :: "('p, 'z) cpu_state_scheme \<Rightarrow> ('p, 'z) cpu_state_scheme \<Rightarrow> bool" where
  "cpu_frame st st' \<longleftrightarrow>
     cpu_queue st' = cpu_queue st \<and> cores st' = cores st \<and> busy_cores st' = busy_cores st \<and>
     cpu_lpid st' = cpu_lpid st \<and> cpu_now st' = cpu_now st \<and>
     locks st' = locks st \<and> rwlocks st' = rwlocks st \<and> cfg st' = cfg st \<and>
     (\<exists>es. scheduled st' = scheduled st @ es \<and>
        (free_core_after_event_processing st = (\<not> continues_in_scheduled_event st) \<longrightarrow>
           free_core_after_event_processing st' = (\<not> continues_in_scheduled_event st') \<and>
           ncore es + of_bool (free_core_after_event_processing st') =
             of_bool (free_core_after_event_processing st)))"

lemma cpu_frame_refl [simp]: "cpu_frame st st"
  by (simp add: cpu_frame_def)

lemma cpu_frame_trans: "cpu_frame a b \<Longrightarrow> cpu_frame b c \<Longrightarrow> cpu_frame a c"
  by (auto simp: cpu_frame_def)

lemma post_frame_trans:
  "post e (cpu_frame st) \<Longrightarrow> cpu_frame st0 st \<Longrightarrow> post e (cpu_frame st0)"
  by (erule post_mono) (rule cpu_frame_trans)

lemma cpu_frame_lp [simp]:
  "cpu_frame st0 (st\<lparr>draws := n\<rparr>) = cpu_frame st0 st"
  "cpu_frame st0 (st\<lparr>elapsed_time := t\<rparr>) = cpu_frame st0 st"
  "cpu_frame st0 (st\<lparr>allow_no_time := b\<rparr>) = cpu_frame st0 st"
  "cpu_frame st0 (st\<lparr>cpu_st_stats := c\<rparr>) = cpu_frame st0 st"
  "cpu_frame st0 (cpu_state.more_update f st) = cpu_frame st0 st"
  by (simp_all add: cpu_frame_def)

lemma frame_add_time: "cpu_frame st0 st \<Longrightarrow> post (cpu_add_time st t) (cpu_frame st0)"
  by (simp add: cpu_add_time_def post_simps)

lemma frame_add_timing: "cpu_frame st0 st \<Longrightarrow> post (cpu_add_timing st k p) (cpu_frame st0)"
  by (rule postI)
    (auto simp: cpu_add_timing_def cpu_add_time_def bind_eq_Some_conv dest!: timing_func_draws)

lemma frame_allow_no_time [simp]: "cpu_frame st0 (cpu_allow_no_time st) = cpu_frame st0 st"
  by (simp add: cpu_allow_no_time_def)

lemma frame_ScheduleNewEvent [simp]:
  "\<not> core_event t \<Longrightarrow> cpu_frame st0 st \<Longrightarrow> cpu_frame st0 (ScheduleNewEvent st to w t d n)"
  by (erule cpu_frame_trans) (simp add: cpu_frame_def ScheduleNewEvent_def)

lemma frame_schedule_event:
  "\<not> core_event t \<Longrightarrow> cpu_frame st0 st \<Longrightarrow> post (cpu_schedule_event st delay t d n) (cpu_frame st0)"
  by (simp add: cpu_schedule_event_def post_simps)

text \<open>A lock call gives up the core of the event: the lock message under way holds it instead.\<close>

lemma frame_schedule_lock_msg:
  "core_event c \<Longrightarrow> cpu_frame st0 st \<Longrightarrow> post (cpu_schedule_lock_msg st c i t d n) (cpu_frame st0)"
  by (rule post_frame_trans [rotated], assumption)
    (auto simp: cpu_schedule_lock_msg_def cpu_schedule_event_def post_simps Let_def cpu_frame_def
      cpu_processing_continues_in_scheduled_event_def ScheduleNewEvent_def split: prod.splits)

lemma frame_lock_lock: "cpu_frame st0 st \<Longrightarrow> post (cpu_lock_lock st i t d n) (cpu_frame st0)"
  and frame_rwlock_read_lock: "cpu_frame st0 st \<Longrightarrow> post (cpu_rwlock_read_lock st i t d n) (cpu_frame st0)"
  and frame_rwlock_read_unlock: "cpu_frame st0 st \<Longrightarrow> post (cpu_rwlock_read_unlock st i t d n) (cpu_frame st0)"
  and frame_rwlock_write_lock: "cpu_frame st0 st \<Longrightarrow> post (cpu_rwlock_write_lock st i t d n) (cpu_frame st0)"
  by (auto simp: cpu_lock_lock_def cpu_rwlock_read_lock_def cpu_rwlock_read_unlock_def
      cpu_rwlock_write_lock_def post_bind post_assert
      intro!: post_mono [OF frame_add_timing] frame_schedule_lock_msg)

lemma frame_lock_unlock: "cpu_frame st0 st \<Longrightarrow> post (cpu_lock_unlock st i t d n) (cpu_frame st0)"
  by (rule postI)
    (auto simp: cpu_lock_unlock_def bind_eq_Some_conv
      dest!: postD [OF frame_add_timing, rotated] elim: postD [OF frame_schedule_lock_msg, rotated 2])

lemma frame_rwlock_write_unlock:
  "cpu_frame st0 st \<Longrightarrow> post (cpu_rwlock_write_unlock st i t d n) (cpu_frame st0)"
  by (rule postI)
    (auto simp: cpu_rwlock_write_unlock_def bind_eq_Some_conv
      dest!: postD [OF frame_add_timing, rotated] elim: postD [OF frame_schedule_lock_msg, rotated 2])

lemmas cpu_frame_intros =
  frame_add_time frame_add_timing frame_schedule_event frame_lock_lock frame_lock_unlock
  frame_rwlock_read_lock frame_rwlock_read_unlock frame_rwlock_write_lock frame_rwlock_write_unlock

section \<open>What a run of the CPU does\<close>

text \<open>
  \<open>run_post R k st st'\<close>: the run from \<open>st\<close> to \<open>st'\<close> gives back \<open>k\<close> cores more than it takes
  and announces: the busy cores and the core-holding events change together; and if events are left
  in the queue then a core is busy or a \<open>CPU_EVENT\<close> has been scheduled.
\<close>

definition run_post :: "('z \<Rightarrow> 'z \<Rightarrow> bool) \<Rightarrow> nat \<Rightarrow> ('p, 'z) cpu_state_scheme \<Rightarrow> ('p, 'z) cpu_state_scheme \<Rightarrow> bool" where
  "run_post R k st st' \<longleftrightarrow>
     unat (busy_cores st') + k + ncore (scheduled st) = unat (busy_cores st) + ncore (scheduled st') \<and>
     busy_cores st' \<le> cores st' \<and> cores st' = cores st \<and> cpu_lpid st' = cpu_lpid st \<and>
     length (locks st') = length (locks st) \<and> length (rwlocks st') = length (rwlocks st) \<and>
     (\<exists>es. scheduled st' = scheduled st @ es) \<and>
     R (cpu_state.more st) (cpu_state.more st') \<and>
     (cl_items (cpu_queue st') = [] \<or> 0 < busy_cores st' \<or> wakes (scheduled st'))"

definition run_pre :: "('p, 'z) cpu_state_scheme \<Rightarrow> bool" where
  "run_pre st \<longleftrightarrow> busy_cores st \<le> cores st \<and> \<not> continues_in_scheduled_event st"

lemma run_pre_updates [simp]:
  "run_pre (st\<lparr>elapsed_time := e, lock_called := l, allow_no_time := a,
     free_core_after_event_processing := f\<rparr>) = run_pre st"
  "run_pre (st\<lparr>cpu_queue := q\<rparr>) = run_pre st" "run_pre (st\<lparr>draws := n\<rparr>) = run_pre st"
  "run_pre (set_lock st i l') = run_pre st" "run_pre (set_rwlock st i r) = run_pre st"
  by (simp_all add: run_pre_def set_lock_def set_rwlock_def)

lemma run_post_updates [simp]:
  "run_post R k (st\<lparr>elapsed_time := e, lock_called := l, allow_no_time := a,
     free_core_after_event_processing := f\<rparr>) = run_post R k st"
  "run_post R k (st\<lparr>cpu_queue := q\<rparr>) = run_post R k st" "run_post R k (st\<lparr>draws := n\<rparr>) = run_post R k st"
  "run_post R k (set_lock st i l') = run_post R k st" "run_post R k (set_rwlock st i r) = run_post R k st"
  "run_post R k st (st'\<lparr>free_core_after_event_processing := g\<rparr>) = run_post R k st st'"
  "run_post R k st (st'\<lparr>cpu_st_stats := s\<rparr>) = run_post R k st st'"
  by (simp_all add: run_post_def set_lock_def set_rwlock_def fun_eq_iff)

lemma cpu_busy_cores_inc_eq_Some:
  "cpu_busy_cores_inc st = Some st' \<longleftrightarrow>
     busy_cores st < cores st \<and> st' = st\<lparr>busy_cores := busy_cores st + 1\<rparr>"
  by (auto simp: cpu_busy_cores_inc_def bind_eq_Some_conv)

lemma cpu_busy_cores_dec_eq_Some:
  "cpu_busy_cores_dec st = Some st' \<longleftrightarrow>
     0 < busy_cores st \<and> st' = st\<lparr>busy_cores := busy_cores st - 1\<rparr>"
  by (auto simp: cpu_busy_cores_dec_def bind_eq_Some_conv)

lemma unat_busy_inc: "b < (c::u32) \<Longrightarrow> unat (b + 1) = unat b + 1 \<and> b + 1 \<le> c \<and> 0 < b + 1"
  by unat_arith

lemma unat_busy_dec: "0 < (b::u32) \<Longrightarrow> b \<le> c \<Longrightarrow> unat (b - 1) + 1 = unat b \<and> b - 1 \<le> c"
  by unat_arith

lemma run_inc:
  assumes "cpu_busy_cores_inc st = Some st1" and "run_pre st"
  shows "run_pre st1" and "run_post R (Suc k) st1 st' \<Longrightarrow> run_post R k st st'"
  using assms unat_busy_inc [of "busy_cores st" "cores st"]
  by (auto simp: cpu_busy_cores_inc_eq_Some run_pre_def run_post_def)

lemma run_dec:
  assumes "cpu_busy_cores_dec st = Some st1" and "run_pre st"
  shows "run_pre st1" and "run_post R k st1 st' \<Longrightarrow> run_post R (Suc k) st st'"
  using assms unat_busy_dec [of "busy_cores st" "cores st"]
  by (auto simp: cpu_busy_cores_dec_eq_Some run_pre_def run_post_def)

lemma run_timing:
  assumes "cpu_add_timing st k p = Some st1"
  shows "run_pre st1 = run_pre st" and "run_post R j st1 = run_post R j st"
  using assms
  by (auto simp: cpu_add_timing_def cpu_add_time_def bind_eq_Some_conv run_pre_def run_post_def
      fun_eq_iff dest!: timing_func_draws)

text \<open>A blocked lock request: the core is free again and a \<open>CPU_EVENT\<close> follows at once.\<close>

lemma run_blocked:
  assumes "cpu_schedule_event st delay CPU_EVENT d n = Some st'" and "run_pre st" and "\<forall>z. R z z"
  shows "run_post R 0 st st'"
  using assms
  by (auto simp: cpu_schedule_event_def bind_eq_Some_conv run_post_def run_pre_def ScheduleNewEvent_def)

lemma run_lock_release [simp]:
  "run_pre (lock_release st i l) = run_pre st" "run_post R k (lock_release st i l) = run_post R k st"
  "run_pre (rwlock_release st i r) = run_pre st" "run_post R k (rwlock_release st i r) = run_post R k st"
  by (simp_all add: lock_release_def rwlock_release_def Let_def split: prod.splits)

text \<open>The end of \<open>cpu_process\<close>, after a handler that kept the frame.\<close>

lemma run_handled:
  assumes inc: "cpu_busy_cores_inc st = Some st1" and pre: "run_pre st"
    and frame: "cpu_frame (st1\<lparr>elapsed_time := 0, lock_called := False, allow_no_time := False,
                   free_core_after_event_processing := True\<rparr>) st2"
    and R: "R (cpu_state.more st1) (cpu_state.more st2)"
    and fin: "(if free_core_after_event_processing st2
         then cpu_schedule_event (st2\<lparr>cpu_st_stats := s\<rparr>) (elapsed_time st2) CPU_FREE_CORE NoData 0
         else Some (st2\<lparr>cpu_st_stats := s\<rparr>)) = Some st'"
  shows "run_post R 0 st st'"
  using assms unat_busy_inc [of "busy_cores st" "cores st"]
  by (auto simp: cpu_busy_cores_inc_eq_Some run_pre_def run_post_def cpu_frame_def
      cpu_schedule_event_def bind_eq_Some_conv ScheduleNewEvent_def split: if_splits)

text \<open>The common beginning of the lock handlers.\<close>

lemma run_lock_opI:
  assumes "run_pre st"
    and "\<And>st1 st2. cpu_add_timing st 1 p = Some st1 \<Longrightarrow> cpu_busy_cores_dec st1 = Some st2
           \<Longrightarrow> run_pre st2 \<Longrightarrow> post (f st2) (run_post R 0 st2)"
  shows "post (do { st1 \<leftarrow> cpu_add_timing st 1 p; st2 \<leftarrow> cpu_busy_cores_dec st1; f st2 }) (run_post R 1 st)"
proof (rule postI, clarsimp simp: bind_eq_Some_conv)
  fix st' st1 st2
  assume t: "cpu_add_timing st 1 p = Some st1" and d: "cpu_busy_cores_dec st1 = Some st2"
    and f: "f st2 = Some st'"
  have pre: "run_pre st1" using assms(1) run_timing(1) [OF t] by simp
  have "run_post R 0 st2 st'" using assms(2) [OF t d run_dec(1) [OF d pre]] f by (simp add: post_def)
  then show "run_post R (Suc 0) st st'" using run_dec(2) [OF d pre] run_timing(2) [OF t] by simp
qed

lemma post_map_option: "post (map_option f e) Q \<longleftrightarrow> post e (\<lambda>r. Q (f r))"
  by (cases e) simp_all

definition start_processing :: "('p, 'z) cpu_state_scheme \<Rightarrow> ('p, 'z) cpu_state_scheme" where
  "start_processing st = st\<lparr>elapsed_time := 0, lock_called := False, allow_no_time := False,
     free_core_after_event_processing := True\<rparr>"

lemma cpu_process_real:
  assumes "type \<noteq> CPU_NO_EVENT"
  shows "cpu_process h st type data data_size = do {
     st1 \<leftarrow> cpu_busy_cores_inc st;
     r \<leftarrow> cpu_lock_process_event h (start_processing st1) type data;
     r \<leftarrow> (case r of Some st' \<Rightarrow> Some (Some st')
           | None \<Rightarrow> cpu_rwlock_process_event h (start_processing st1) type data);
     st2 \<leftarrow> (case r of Some st' \<Rightarrow> Some (st'\<lparr>free_core_after_event_processing := False\<rparr>)
           | None \<Rightarrow> h type data data_size (start_processing st1));
     _ \<leftarrow> c_assert (allow_no_time st2 \<or> 0 < elapsed_time st2);
     s \<leftarrow> cpu_stats_event_processed (cpu_st_stats st2) (elapsed_time st2) type;
     (if free_core_after_event_processing st2
      then cpu_schedule_event (st2\<lparr>cpu_st_stats := s\<rparr>) (elapsed_time st2) CPU_FREE_CORE NoData 0
      else Some (st2\<lparr>cpu_st_stats := s\<rparr>))
   }"
  using assms
  by (simp add: cpu_process.simps [of h st] start_processing_def Let_def cong: option.case_cong if_cong)

text \<open>The two ways \<open>cpu_process\<close> handles a real event: as a lock message, or with the handler.\<close>

lemma cpu_process_cases:
  assumes "cpu_process h st type data data_size = Some st'" and "type \<noteq> CPU_NO_EVENT"
    and "\<And>st1 r s. cpu_busy_cores_inc st = Some st1 \<Longrightarrow>
          cpu_lock_process_event h (start_processing st1) type data = Some (Some r) \<or>
          cpu_lock_process_event h (start_processing st1) type data = Some None \<and>
          cpu_rwlock_process_event h (start_processing st1) type data = Some (Some r) \<Longrightarrow>
          st' = r\<lparr>free_core_after_event_processing := False, cpu_st_stats := s\<rparr> \<Longrightarrow> thesis"
    and "\<And>st1 st2 s. cpu_busy_cores_inc st = Some st1 \<Longrightarrow>
          h type data data_size (start_processing st1) = Some st2 \<Longrightarrow>
          (if free_core_after_event_processing st2
             then cpu_schedule_event (st2\<lparr>cpu_st_stats := s\<rparr>) (elapsed_time st2) CPU_FREE_CORE NoData 0
             else Some (st2\<lparr>cpu_st_stats := s\<rparr>)) = Some st' \<Longrightarrow> thesis"
  shows thesis
proof -
  from assms(1,2) obtain st1 r r' st2 s where st1: "cpu_busy_cores_inc st = Some st1"
    and r: "cpu_lock_process_event h (start_processing st1) type data = Some r"
    and r': "(case r of Some st' \<Rightarrow> Some (Some st')
       | None \<Rightarrow> cpu_rwlock_process_event h (start_processing st1) type data) = Some r'"
    and st2: "(case r' of Some st' \<Rightarrow> Some (st'\<lparr>free_core_after_event_processing := False\<rparr>)
       | None \<Rightarrow> h type data data_size (start_processing st1)) = Some st2"
    and fin: "(if free_core_after_event_processing st2
        then cpu_schedule_event (st2\<lparr>cpu_st_stats := s\<rparr>) (elapsed_time st2) CPU_FREE_CORE NoData 0
        else Some (st2\<lparr>cpu_st_stats := s\<rparr>)) = Some st'"
    unfolding cpu_process_real [OF assms(2)] bind_eq_Some_conv
    by (elim exE conjE) (rule that, assumption+)
  show thesis
  proof (cases r')
    case None
    with st1 st2 fin show thesis by (intro assms(4)) simp_all
  next
    case (Some x)
    with r r' have "cpu_lock_process_event h (start_processing st1) type data = Some (Some x) \<or>
          cpu_lock_process_event h (start_processing st1) type data = Some None \<and>
          cpu_rwlock_process_event h (start_processing st1) type data = Some (Some x)"
      by (simp split: option.splits)
    moreover from Some st2 fin have "st' = x\<lparr>free_core_after_event_processing := False, cpu_st_stats := s\<rparr>"
      by (auto split: if_splits)
    ultimately show thesis using st1 by (intro assms(3))
  qed
qed

definition run_lock_post ::
  "('z \<Rightarrow> 'z \<Rightarrow> bool) \<Rightarrow> ('p, 'z) cpu_state_scheme \<Rightarrow> ('p, 'z) cpu_state_scheme option \<Rightarrow> bool" where
  "run_lock_post R st r \<longleftrightarrow> (case r of None \<Rightarrow> True | Some st' \<Rightarrow> run_post R 1 st st')"

definition keeps_frame :: "('z \<Rightarrow> 'z \<Rightarrow> bool) \<Rightarrow> ('p, 'z) cpu_handler \<Rightarrow> bool" where
  "keeps_frame R h \<longleftrightarrow> (\<forall>z. R z z) \<and>
     (\<forall>t d n st. post (h t d n st) (\<lambda>st'. cpu_frame st st' \<and> R (cpu_state.more st) (cpu_state.more st')))"

lemma run_blocked_client:
  "cpu_schedule_event st delay CPU_EVENT d n = Some st' \<Longrightarrow> run_pre st \<Longrightarrow> keeps_frame R h \<Longrightarrow> run_post R 0 st st'"
  by (rule run_blocked) (simp_all add: keeps_frame_def)

lemmas run_induct = cpu_process_cpu_process_next_in_queue_on_lock_lock_on_lock_unlock_cpu_lock_process_event_on_rwlock_read_lock_on_rwlock_read_unlock_on_rwlock_write_lock_on_rwlock_write_unlock_cpu_rwlock_process_event.induct
  [where ?P1.0 = "\<lambda>h st t d n. keeps_frame R h \<longrightarrow> run_pre st \<longrightarrow> post (cpu_process h st t d n) (run_post R 0 st)"
     and ?P2.0 = "\<lambda>h st. keeps_frame R h \<longrightarrow> run_pre st \<longrightarrow> post (cpu_process_next_in_queue h st) (run_post R 0 st)"
     and ?P3.0 = "\<lambda>h st d. keeps_frame R h \<longrightarrow> run_pre st \<longrightarrow> post (on_lock_lock h st d) (run_post R 1 st)"
     and ?P4.0 = "\<lambda>h st d. keeps_frame R h \<longrightarrow> run_pre st \<longrightarrow> post (on_lock_unlock h st d) (run_post R 1 st)"
     and ?P5.0 = "\<lambda>h st t d. keeps_frame R h \<longrightarrow> run_pre st \<longrightarrow> post (cpu_lock_process_event h st t d) (run_lock_post R st)"
     and ?P6.0 = "\<lambda>h st d. keeps_frame R h \<longrightarrow> run_pre st \<longrightarrow> post (on_rwlock_read_lock h st d) (run_post R 1 st)"
     and ?P7.0 = "\<lambda>h st d. keeps_frame R h \<longrightarrow> run_pre st \<longrightarrow> post (on_rwlock_read_unlock h st d) (run_post R 1 st)"
     and ?P8.0 = "\<lambda>h st d. keeps_frame R h \<longrightarrow> run_pre st \<longrightarrow> post (on_rwlock_write_lock h st d) (run_post R 1 st)"
     and ?P9.0 = "\<lambda>h st d. keeps_frame R h \<longrightarrow> run_pre st \<longrightarrow> post (on_rwlock_write_unlock h st d) (run_post R 1 st)"
     and ?P10.0 = "\<lambda>h st t d. keeps_frame R h \<longrightarrow> run_pre st \<longrightarrow> post (cpu_rwlock_process_event h st t d) (run_lock_post R st)" for R]

lemma run_posts:
  fixes h :: "('p, 'z) cpu_handler"
  shows "keeps_frame R h \<longrightarrow> run_pre st \<longrightarrow> post (cpu_process h st t d n) (run_post R 0 st)"
    and "keeps_frame R h \<longrightarrow> run_pre st \<longrightarrow> post (cpu_process_next_in_queue h st) (run_post R 0 st)"
    and "keeps_frame R h \<longrightarrow> run_pre st \<longrightarrow> post (on_lock_lock h st d) (run_post R 1 st)"
    and "keeps_frame R h \<longrightarrow> run_pre st \<longrightarrow> post (on_lock_unlock h st d) (run_post R 1 st)"
    and "keeps_frame R h \<longrightarrow> run_pre st \<longrightarrow> post (cpu_lock_process_event h st t d) (run_lock_post R st)"
    and "keeps_frame R h \<longrightarrow> run_pre st \<longrightarrow> post (on_rwlock_read_lock h st d) (run_post R 1 st)"
    and "keeps_frame R h \<longrightarrow> run_pre st \<longrightarrow> post (on_rwlock_read_unlock h st d) (run_post R 1 st)"
    and "keeps_frame R h \<longrightarrow> run_pre st \<longrightarrow> post (on_rwlock_write_lock h st d) (run_post R 1 st)"
    and "keeps_frame R h \<longrightarrow> run_pre st \<longrightarrow> post (on_rwlock_write_unlock h st d) (run_post R 1 st)"
    and "keeps_frame R h \<longrightarrow> run_pre st \<longrightarrow> post (cpu_rwlock_process_event h st t d) (run_lock_post R st)"
proof (induction rule: run_induct)
  case (1 h st type data data_size)
  show ?case
  proof (cases "type = CPU_NO_EVENT")
    case True
    with 1 show ?thesis by (simp add: cpu_process.simps)
  next
    case False
    show ?thesis
    proof (intro impI postI)
      fix st'
      assume h: "keeps_frame R h" and pre: "run_pre st"
      assume "cpu_process h st type data data_size = Some st'"
      then show "run_post R 0 st st'" using False
      proof (rule cpu_process_cases)
        fix st1 r s
        assume inc: "cpu_busy_cores_inc st = Some st1"
          and r: "cpu_lock_process_event h (start_processing st1) type data = Some (Some r) \<or>
            cpu_lock_process_event h (start_processing st1) type data = Some None \<and>
            cpu_rwlock_process_event h (start_processing st1) type data = Some (Some r)"
          and st': "st' = r\<lparr>free_core_after_event_processing := False, cpu_st_stats := s\<rparr>"
        have "run_pre (start_processing st1)"
          using run_inc(1) [OF inc pre] by (simp add: start_processing_def)
        with r h have "run_post R 1 (start_processing st1) r"
          using 1(2) [OF False inc refl] 1(3) [OF False inc refl]
          by (auto simp: start_processing_def run_lock_post_def post_def)
        then show "run_post R 0 st st'"
          using run_inc(2) [OF inc pre] by (simp add: st' start_processing_def)
      next
        fix st1 st2 s
        assume inc: "cpu_busy_cores_inc st = Some st1"
          and h2: "h type data data_size (start_processing st1) = Some st2"
          and fin: "(if free_core_after_event_processing st2
             then cpu_schedule_event (st2\<lparr>cpu_st_stats := s\<rparr>) (elapsed_time st2) CPU_FREE_CORE NoData 0
             else Some (st2\<lparr>cpu_st_stats := s\<rparr>)) = Some st'"
        from h h2 have "cpu_frame (start_processing st1) st2"
          and "R (cpu_state.more (start_processing st1)) (cpu_state.more st2)"
          by (simp_all add: keeps_frame_def post_def)
        then show "run_post R 0 st st'"
          by (intro run_handled [OF inc pre _ _ fin]) (simp_all add: start_processing_def)
      qed
    qed
  qed
next
  case (2 h st)
  then show ?case
    by (auto simp: cpu_process_next_in_queue.simps cpu_list_shift_def run_post_def run_pre_def
        keeps_frame_def split: list.splits)
next
  case (3 h st msg)
  show ?case
  proof (cases msg)
    case (LockMsg i event_type data_size data)
    show ?thesis unfolding on_lock_lock.simps LockMsg event_data.case
      by (intro impI, rule run_lock_opI, assumption, rule postI)
        (use 3 [OF LockMsg] in \<open>auto simp: bind_eq_Some_conv Let_def post_def dest: run_blocked_client split: if_splits\<close>)
  qed (simp_all add: on_lock_lock.simps)
next
  case (4 h st msg)
  show ?case
  proof (cases msg)
    case (LockMsg i event_type data_size data)
    show ?thesis unfolding on_lock_unlock.simps LockMsg event_data.case
      by (intro impI, rule run_lock_opI, assumption, rule postI)
        (use 4 [OF LockMsg] in \<open>auto simp: bind_eq_Some_conv Let_def post_def dest: run_blocked_client split: if_splits\<close>)
  qed (simp_all add: on_lock_unlock.simps)
next
  case (5 h st t d)
  then show ?case
    by (simp add: cpu_lock_process_event.simps post_map_option run_lock_post_def)
next
  case (6 h st msg)
  show ?case
  proof (cases msg)
    case (LockMsg i event_type data_size data)
    show ?thesis unfolding on_rwlock_read_lock.simps LockMsg event_data.case
      by (intro impI, rule run_lock_opI, assumption, rule postI)
        (use 6 [OF LockMsg] in \<open>auto simp: bind_eq_Some_conv Let_def post_def dest: run_blocked_client split: if_splits\<close>)
  qed (simp_all add: on_rwlock_read_lock.simps)
next
  case (7 h st msg)
  show ?case
  proof (cases msg)
    case (LockMsg i event_type data_size data)
    show ?thesis unfolding on_rwlock_read_unlock.simps LockMsg event_data.case
      by (intro impI, rule run_lock_opI, assumption, unfold post_bind post_assert post_if, rule postI)
        (use 7(1) [OF LockMsg] 7(2) [OF LockMsg] in simp)
  qed (simp_all add: on_rwlock_read_unlock.simps)
next
  case (8 h st msg)
  show ?case
  proof (cases msg)
    case (LockMsg i event_type data_size data)
    show ?thesis unfolding on_rwlock_write_lock.simps LockMsg event_data.case
      by (intro impI, rule run_lock_opI, assumption, rule postI)
        (use 8 [OF LockMsg] in \<open>auto simp: bind_eq_Some_conv Let_def post_def dest: run_blocked_client split: if_splits\<close>)
  qed (simp_all add: on_rwlock_write_lock.simps)
next
  case (9 h st msg)
  show ?case
  proof (cases msg)
    case (LockMsg i event_type data_size data)
    show ?thesis unfolding on_rwlock_write_unlock.simps LockMsg event_data.case
      by (intro impI, rule run_lock_opI, assumption, rule postI)
        (use 9 [OF LockMsg] in \<open>auto simp: bind_eq_Some_conv Let_def post_def dest: run_blocked_client split: if_splits\<close>)
  qed (simp_all add: on_rwlock_write_unlock.simps)
next
  case (10 h st t d)
  then show ?case
    by (simp add: cpu_rwlock_process_event.simps post_map_option run_lock_post_def)
qed

section \<open>One event\<close>

text \<open>The invariant of a logical process with a CPU, between two events.\<close>

definition cpu_inv :: "('p, 'z) cpu_state_scheme \<Rightarrow> bool" where
  "cpu_inv st \<longleftrightarrow>
     unat (busy_cores st) = ncore (scheduled st) \<and> busy_cores st \<le> cores st \<and> 0 < cores st \<and>
     (cl_items (cpu_queue st) \<noteq> [] \<longrightarrow> 0 < busy_cores st \<or> wakes (scheduled st))"

definition deliver :: "'p sim_event \<Rightarrow> ('p, 'z) cpu_state_scheme \<Rightarrow> ('p, 'z) cpu_state_scheme" where
  "deliver e st = st\<lparr>scheduled := remove1 e (scheduled st)\<rparr>"

lemma ncore_remove1:
  "e \<in> set es \<Longrightarrow> ncore (remove1 e es) + of_bool (core_event (ev_type e)) = ncore es"
  by (induction es) (auto simp: ncore_def)

lemma wakes_remove1: "wakes es \<Longrightarrow> ev_type e \<noteq> CPU_EVENT \<Longrightarrow> wakes (remove1 e es)"
  unfolding wakes_def by (metis in_set_remove1)

section \<open>Runs\<close>

text \<open>
  The kernel delivers the events sent to the process in any order (their times are not constrained
  here), and other processes may send it any event that is not one of its own core events.
\<close>

inductive lp_step :: "('p, 'z) cpu_handler \<Rightarrow> ('p, 'z) cpu_state_scheme \<Rightarrow> ('p, 'z) cpu_state_scheme \<Rightarrow> bool"
  for h where
  lp_deliver: "e \<in> set (scheduled st) \<Longrightarrow> ev_to e = cpu_lpid st \<Longrightarrow>
    cpu_process_event h (cpu_lpid st) (ev_time e) (ev_type e) (ev_data e) (ev_size e) (deliver e st) = Some st'
    \<Longrightarrow> lp_step h st st'"
| lp_receive: "\<not> core_event (ev_type e) \<Longrightarrow> lp_step h st (st\<lparr>scheduled := scheduled st @ [e]\<rparr>)"

lemma cpu_inv_setup: "ncore (scheduled st) = 0 \<Longrightarrow> 0 < n \<Longrightarrow> cpu_inv (cpu_setup lpid now n st)"
  by (simp add: cpu_inv_def cpu_setup_def ScheduleNewEvent_def cpu_list_new_def cpu_list_init_def)

locale cpu_client =
  fixes h :: "('p, 'z) cpu_handler" and R :: "'z \<Rightarrow> 'z \<Rightarrow> bool"
  assumes h_frame: "post (h t d n st) (cpu_frame st)"
    and h_rel: "post (h t d n st) (\<lambda>st'. R (cpu_state.more st) (cpu_state.more st'))"
    and R_refl: "R z z"
begin

lemma h_keeps: "keeps_frame R h"
  using h_frame h_rel R_refl by (auto simp: keeps_frame_def post_def)

lemmas process_post = run_posts(1) [rule_format, OF h_keeps]
  and next_post = run_posts(2) [rule_format, OF h_keeps]
  and lock_event_post = run_posts(5) [rule_format, OF h_keeps]
  and rwlock_event_post = run_posts(10) [rule_format, OF h_keeps]

lemma lock_event_not_handled:
  "cpu_lock_process_event h st t d = Some (Some st') \<Longrightarrow> is_lock_event t"
  "cpu_rwlock_process_event h st t d = Some (Some st') \<Longrightarrow> is_rwlock_event t"
  "cpu_lock_process_event h st t d = Some None \<Longrightarrow> \<not> is_lock_event t"
  "cpu_rwlock_process_event h st t d = Some None \<Longrightarrow> \<not> is_rwlock_event t"
  by (auto simp: cpu_lock_process_event.simps cpu_rwlock_process_event.simps is_lock_event_def
      is_rwlock_event_def split: if_splits)

lemma process_event_post:
  assumes "busy_cores st \<le> cores st" and "0 < cores st"
    and q: "cl_items (cpu_queue st) \<noteq> [] \<Longrightarrow> t \<noteq> CPU_EVENT \<Longrightarrow> 0 < busy_cores st \<or> wakes (scheduled st)"
  shows "post (cpu_process_event h lpid now t d n st) (run_post R (of_bool (core_event t)) st)"
proof (rule postI)
  fix st'
  define s0 where "s0 = st\<lparr>cpu_now := now, continues_in_scheduled_event := False\<rparr>"
  have pre: "run_pre s0" using assms by (simp add: run_pre_def s0_def)
  have eq: "run_post R k s0 = run_post R k st" for k by (simp add: run_post_def s0_def fun_eq_iff)
  assume r: "cpu_process_event h lpid now t d n st = Some st'"
  consider "t = CPU_FREE_CORE" | "t = CPU_EVENT" | "t = CPU_STATS"
    | "t \<noteq> CPU_FREE_CORE" "t \<noteq> CPU_EVENT" "t \<noteq> CPU_STATS" by blast
  then have "run_post R (of_bool (core_event t)) s0 st'"
  proof cases
    case 1
    with r obtain s1 where s1: "cpu_busy_cores_dec s0 = Some s1" "cpu_process_next_in_queue h s1 = Some st'"
      by (auto simp: cpu_process_event_def s0_def bind_eq_Some_conv)
    with next_post [OF run_dec(1) [OF s1(1) pre]] have "run_post R 0 s1 st'" by (simp add: post_def)
    from run_dec(2) [OF s1(1) pre this] 1 show ?thesis by simp
  next
    case 2
    with r next_post [OF pre] show ?thesis
      by (auto simp: cpu_process_event_def s0_def post_def bind_eq_Some_conv Let_def)
  next
    case 3
    with r assms show ?thesis
      by (auto simp: cpu_process_event_def s0_def run_post_def ScheduleNewEvent_def R_refl)
  next
    case 4
    then obtain a b where a: "cpu_lock_process_event h s0 t d = Some a"
      and b: "(case a of Some st' \<Rightarrow> Some (Some st') | None \<Rightarrow> cpu_rwlock_process_event h s0 t d) = Some b"
      and b': "(case b of Some st' \<Rightarrow> Some st' | None \<Rightarrow>
          if cpu_busy s0
          then Some (s0\<lparr>cpu_queue := cpu_list_push (cpu_queue s0) (cpu_list_item_new t d n)\<rparr>)
          else cpu_process h s0 t d n) = Some st'"
      using r [unfolded cpu_process_event_def Let_def, folded s0_def]
      by (simp add: bind_eq_Some_conv) blast
    show ?thesis
    proof (cases b)
      case None
      with a b have "\<not> core_event t"
        using 4 by (auto simp: core_event_def dest: lock_event_not_handled split: option.splits)
      moreover have "0 < busy_cores st \<and> busy_cores st \<le> cores st" if "cpu_busy s0"
        using that assms(1,2) by (simp add: cpu_busy_def s0_def)
      ultimately show ?thesis
        using b' None process_post [OF pre, of t d n]
        by (auto simp: post_def run_post_def s0_def R_refl split: if_splits)
    next
      case (Some x)
      with a b have "core_event t" "run_lock_post R s0 (Some x)"
        using lock_event_post [OF pre, of t d] rwlock_event_post [OF pre, of t d]
        by (auto simp: core_event_def post_def dest: lock_event_not_handled split: option.splits)
      with Some b' show ?thesis by (simp add: run_lock_post_def)
    qed
  qed
  then show "run_post R (of_bool (core_event t)) st st'" by (simp add: eq)
qed

text \<open>The invariant is kept by the delivery of any event the process has been sent.\<close>

lemma deliver_post:
  assumes inv: "cpu_inv st"
  shows "post (cpu_process_event h lpid now (ev_type e) (ev_data e) (ev_size e) (deliver e st))
      (run_post R (of_bool (core_event (ev_type e))) (deliver e st))"
proof -
  have "0 < busy_cores (deliver e st) \<or> wakes (scheduled (deliver e st))"
    if "cl_items (cpu_queue (deliver e st)) \<noteq> []" and "ev_type e \<noteq> CPU_EVENT"
    using inv that by (auto simp: cpu_inv_def deliver_def intro: wakes_remove1)
  with inv show ?thesis
    by (intro process_event_post) (auto simp: cpu_inv_def deliver_def)
qed

lemma cpu_inv_step:
  assumes inv: "cpu_inv st" and e: "e \<in> set (scheduled st)"
  shows "post (cpu_process_event h lpid now (ev_type e) (ev_data e) (ev_size e) (deliver e st))
    (\<lambda>st'. cpu_inv st' \<and> R (cpu_state.more st) (cpu_state.more st'))"
  by (rule post_mono [OF deliver_post [OF inv]])
    (use inv ncore_remove1 [OF e] in \<open>auto simp: run_post_def cpu_inv_def deliver_def\<close>)

lemma lp_step_inv:
  assumes "lp_step h st st'" and "cpu_inv st"
  shows "cpu_inv st' \<and> R (cpu_state.more st) (cpu_state.more st')"
  using assms
proof cases
  case (lp_deliver e)
  with cpu_inv_step assms(2) show ?thesis by (metis (mono_tags, lifting) postD)
next
  case (lp_receive e)
  with assms(2) show ?thesis by (auto simp: cpu_inv_def R_refl)
qed

lemma reachable_inv:
  assumes "(lp_step h)\<^sup>*\<^sup>* st st'" and "cpu_inv st" and trans: "\<And>x y z. R x y \<Longrightarrow> R y z \<Longrightarrow> R x z"
  shows "cpu_inv st' \<and> R (cpu_state.more st) (cpu_state.more st')"
  using assms(1)
proof (induction rule: rtranclp_induct)
  case base
  then show ?case using assms(2) by (simp add: R_refl)
next
  case (step y z)
  then show ?case using lp_step_inv [OF step.hyps(2)] by (auto intro: trans)
qed

end

end
