(* ===== verification/Network.thy ===== *)
theory Network
  imports Lp
begin

text \<open>
  The network simulation, \<open>src/network.c\<close>: transmission time, propagation delay, and the order in
  which messages of one sender reach one destination.

  \<open>network_state->conf\<close> and \<open>server_config->network\<close> point to the same configuration; it is the
  first argument \<open>conf\<close> here. The array \<open>last_reception_time_by_lp[MAX_LP]\<close> is a function with the
  bound of the array checked at each access. Writing the usage report is output and is not modelled,
  the busy time it reports is.
\<close>

section \<open>Operations\<close>

record network_config =
  num_lps :: u32
  transmission_rates :: "rat list"
  network_delay :: "simtime list list"

record network_state =
  busy_until :: simtime
  busy_time :: simtime
  last_reception_time_by_lp :: "lpid_t \<Rightarrow> simtime"

definition DISCONNECTED :: simtime where
  "DISCONNECTED = - 1"

definition network_setup :: "u32 \<Rightarrow> network_config" where
  "network_setup n =
     \<lparr>num_lps = n, transmission_rates = replicate (unat n) 0,
      network_delay = replicate (unat n) (replicate (unat n) DISCONNECTED)\<rparr>"

definition network_init :: network_state where
  "network_init = \<lparr>busy_until = 0, busy_time = 0, last_reception_time_by_lp = (\<lambda>_. 0)\<rparr>"

definition network_set_delay ::
  "network_config \<Rightarrow> lpid_t \<Rightarrow> lpid_t \<Rightarrow> simtime \<Rightarrow> network_config option" where
  "network_set_delay conf from_lp to_lp delay = do {
     row \<leftarrow> arr_get (network_delay conf) from_lp;
     row \<leftarrow> arr_set row to_lp delay;
     rows \<leftarrow> arr_set (network_delay conf) from_lp row;
     Some (conf\<lparr>network_delay := rows\<rparr>)
   }"

definition network_set_transmission_rate :: "network_config \<Rightarrow> lpid_t \<Rightarrow> rat \<Rightarrow> network_config option" where
  "network_set_transmission_rate conf lpid rate = do {
     c_assert (lpid < num_lps conf);
     c_assert (0 < rate);
     rates \<leftarrow> arr_set (transmission_rates conf) lpid (rate / 8);
     Some (conf\<lparr>transmission_rates := rates\<rparr>)
   }"

definition get_delay :: "network_config \<Rightarrow> lpid_t \<Rightarrow> lpid_t \<Rightarrow> simtime option" where
  "get_delay conf from_lpid to_lpid = do {
     row \<leftarrow> arr_get (network_delay conf) from_lpid;
     arr_get row to_lpid
   }"

definition network_send ::
  "network_config \<Rightarrow> network_state \<Rightarrow> ('p, 'z) lp_scheme \<Rightarrow> lpid_t \<Rightarrow> lpid_t \<Rightarrow> simtime \<Rightarrow> event_type
   \<Rightarrow> 'p event_data \<Rightarrow> nat \<Rightarrow> nat \<Rightarrow> (network_state \<times> ('p, 'z) lp_scheme) option" where
  "network_send conf ns st from_lpid to_lpid now event_type data data_size simulated_size = do {
     c_assert (from_lpid < num_lps conf);
     c_assert (to_lpid < num_lps conf);
     propagation_time \<leftarrow> get_delay conf from_lpid to_lpid;
     c_assert (propagation_time \<noteq> DISCONNECTED);
     c_assert (0 \<le> propagation_time);
     transmission_rate \<leftarrow> arr_get (transmission_rates conf) from_lpid;
     c_assert (0 < transmission_rate);
     let transmission_time = of_nat simulated_size / transmission_rate;
     c_assert (0 \<le> transmission_time);
     let ns = (if busy_until ns < now then ns\<lparr>busy_until := now\<rparr> else ns);
     let ns = ns\<lparr>busy_until := busy_until ns + transmission_time\<rparr>;
     let when = busy_until ns + propagation_time;
     c_assert (unat to_lpid < MAX_LP);
     c_assert (last_reception_time_by_lp ns to_lpid \<le> when);
     let ns = ns\<lparr>last_reception_time_by_lp := (last_reception_time_by_lp ns)(to_lpid := when)\<rparr>;
     c_assert (data_size \<le> UINT_MAX);
     let st = ScheduleNewEvent st to_lpid when event_type data data_size;
     let ns = (if ignore_initial_seconds st \<le> now
               then ns\<lparr>busy_time := busy_time ns + transmission_time\<rparr> else ns);
     Some (ns, st)
   }"

section \<open>Delivery in order\<close>

text \<open>
  \<open>network_inv\<close>: nothing has been announced for a destination later than what the sender's interface
  finishes now plus the delay to it. Under it the assertion that messages do not overtake each other
  cannot fail.
\<close>

definition network_inv :: "network_config \<Rightarrow> lpid_t \<Rightarrow> network_state \<Rightarrow> bool" where
  "network_inv conf from_lpid ns \<longleftrightarrow>
     0 \<le> busy_until ns \<and>
     (\<forall>to. last_reception_time_by_lp ns to \<le>
        busy_until ns + (case get_delay conf from_lpid to of Some d \<Rightarrow> if 0 \<le> d then d else 0 | None \<Rightarrow> 0))"

definition reachable_lp :: "network_config \<Rightarrow> lpid_t \<Rightarrow> lpid_t \<Rightarrow> bool" where
  "reachable_lp conf from_lpid to \<longleftrightarrow>
     from_lpid < num_lps conf \<and> to < num_lps conf \<and> unat to < MAX_LP \<and>
     (\<exists>d. get_delay conf from_lpid to = Some d \<and> 0 \<le> d) \<and>
     (\<exists>r. arr_get (transmission_rates conf) from_lpid = Some r \<and> 0 < r)"

lemma network_inv_init: "network_inv conf from_lpid network_init"
  by (auto simp: network_inv_def network_init_def split: option.splits)

text \<open>What \<open>network_send\<close> does to the sender's state, and when the message arrives.\<close>

definition sent ::
  "network_config \<Rightarrow> lpid_t \<Rightarrow> lpid_t \<Rightarrow> simtime \<Rightarrow> nat \<Rightarrow> network_state \<Rightarrow> network_state \<Rightarrow> simtime \<Rightarrow> bool" where
  "sent conf from_lpid to now simulated_size ns ns' when \<longleftrightarrow>
     (\<exists>d r. get_delay conf from_lpid to = Some d \<and> 0 \<le> d \<and>
        arr_get (transmission_rates conf) from_lpid = Some r \<and> 0 < r \<and>
        busy_until ns' = max (busy_until ns) now + of_nat simulated_size / r \<and>
        when = busy_until ns' + d \<and>
        last_reception_time_by_lp ns' = (last_reception_time_by_lp ns)(to := when))"

lemma network_send_sent:
  assumes "network_send conf ns st from_lpid to now t d n m = Some (ns', st')"
  shows "\<exists>when. sent conf from_lpid to now m ns ns' when \<and> st' = ScheduleNewEvent st to when t d n \<and>
     last_reception_time_by_lp ns to \<le> when"
  using assms
  by (auto simp: network_send_def bind_eq_Some_conv Let_def sent_def max_def DISCONNECTED_def
      split: if_splits)

lemma sent_inv:
  assumes "sent conf from_lpid to now m ns ns' when" and inv: "network_inv conf from_lpid ns"
  shows "network_inv conf from_lpid ns'" and "busy_until ns \<le> busy_until ns'" and "now \<le> when"
    and "last_reception_time_by_lp ns to \<le> when"
proof -
  from assms obtain d r where d: "get_delay conf from_lpid to = Some d" "0 \<le> d" and r: "0 < r"
    and b: "busy_until ns' = max (busy_until ns) now + of_nat m / r"
    and w: "when = busy_until ns' + d"
    and l: "last_reception_time_by_lp ns' = (last_reception_time_by_lp ns)(to := when)"
    by (auto simp: sent_def)
  have tt: "0 \<le> (of_nat m :: rat) / r" using r by simp
  show mono: "busy_until ns \<le> busy_until ns'" using tt b by linarith
  show "now \<le> when" using tt b w d by linarith
  have old: "last_reception_time_by_lp ns x \<le>
      busy_until ns' + (case get_delay conf from_lpid x of Some d \<Rightarrow> if 0 \<le> d then d else 0 | None \<Rightarrow> 0)" for x
    using inv mono by (auto simp: network_inv_def intro: order_trans [OF _ add_right_mono])
  show "last_reception_time_by_lp ns to \<le> when" using old [of to] d w by simp
  show "network_inv conf from_lpid ns'"
    using old inv mono w d by (auto simp: network_inv_def l)
qed

lemma network_send_returns:
  assumes inv: "network_inv conf from_lpid ns" and r: "reachable_lp conf from_lpid to" and n: "n \<le> UINT_MAX"
  shows "\<exists>ns' st'. network_send conf ns st from_lpid to now t d n m = Some (ns', st')"
proof -
  from r obtain dl rt where dl: "get_delay conf from_lpid to = Some dl" "0 \<le> dl"
    and rt: "arr_get (transmission_rates conf) from_lpid = Some rt" "0 < rt"
    and to: "from_lpid < num_lps conf" "to < num_lps conf" "unat to < MAX_LP"
    by (auto simp: reachable_lp_def)
  have "last_reception_time_by_lp ns to \<le> busy_until ns + dl"
    using inv dl by (auto simp: network_inv_def dest: spec [of _ to])
  moreover have "0 \<le> (of_nat m :: rat) / rt" using rt by simp
  ultimately have "last_reception_time_by_lp ns to \<le> (if busy_until ns < now then now else busy_until ns) + of_nat m / rt + dl"
    by (auto split: if_splits)
  with dl rt to n \<open>0 \<le> of_nat m / rt\<close> show ?thesis
    by (auto simp: network_send_def DISCONNECTED_def Let_def split: if_splits)
qed

text \<open>A sequence of sends of one process, and what arrives at each destination.\<close>

record 'p send_call =
  call_to :: lpid_t
  call_now :: simtime
  call_type :: event_type
  call_data :: "'p event_data"
  call_size :: nat
  call_simulated_size :: nat

definition network_send_all ::
  "network_config \<Rightarrow> lpid_t \<Rightarrow> 'p send_call list \<Rightarrow> network_state \<times> ('p, 'z) lp_scheme
   \<Rightarrow> (network_state \<times> ('p, 'z) lp_scheme) option" where
  "network_send_all conf from_lpid = foldM (\<lambda>c (ns, st).
     network_send conf ns st from_lpid (call_to c) (call_now c) (call_type c) (call_data c) (call_size c)
       (call_simulated_size c))"

definition events_to :: "lpid_t \<Rightarrow> 'p sim_event list \<Rightarrow> 'p sim_event list" where
  "events_to to es = filter (\<lambda>e. ev_to e = to) es"

definition in_order :: "network_state \<Rightarrow> ('p, 'z) lp_scheme \<Rightarrow> bool" where
  "in_order ns st \<longleftrightarrow>
     (\<forall>to. sorted (map ev_time (events_to to (scheduled st))) \<and>
        (\<forall>e \<in> set (events_to to (scheduled st)). ev_time e \<le> last_reception_time_by_lp ns to))"

lemma in_order_send:
  assumes "network_send conf ns st from_lpid to now t d n m = Some (ns', st')" and "in_order ns st"
  shows "in_order ns' st'"
proof -
  from network_send_sent [OF assms(1)] obtain w where
    s: "sent conf from_lpid to now m ns ns' w" and st': "st' = ScheduleNewEvent st to w t d n"
    and le: "last_reception_time_by_lp ns to \<le> w" by blast
  have l: "last_reception_time_by_lp ns' = (last_reception_time_by_lp ns)(to := w)"
    using s by (auto simp: sent_def)
  show ?thesis
    using assms(2) le
    by (fastforce simp: in_order_def events_to_def st' l ScheduleNewEvent_def sorted_append)
qed

lemma network_send_all_in_order:
  assumes "in_order ns st"
  shows "post (network_send_all conf from_lpid calls (ns, st)) (\<lambda>(ns', st'). in_order ns' st')"
  unfolding network_send_all_def
proof (rule post_foldM [where I = "\<lambda>(ns, st). in_order ns st"])
  show "case (ns, st) of (ns, st) \<Rightarrow> in_order ns st" using assms by simp
qed (auto simp: post_def dest: in_order_send)

lemma network_send_all_returns:
  fixes st :: "('p, 'z) lp_scheme" and calls :: "'p send_call list"
  assumes "network_inv conf from_lpid ns"
    and "\<And>c. c \<in> set calls \<Longrightarrow> reachable_lp conf from_lpid (call_to c) \<and> call_size c \<le> UINT_MAX"
  shows "returns (network_send_all conf from_lpid calls (ns, st)) (\<lambda>(ns', st'). network_inv conf from_lpid ns')"
  unfolding network_send_all_def
proof (rule returns_foldM [where I = "\<lambda>(ns, st). network_inv conf from_lpid ns"])
  show "case (ns, st) of (ns, st) \<Rightarrow> network_inv conf from_lpid ns" using assms by simp
next
  fix c and s :: "network_state \<times> ('p, 'z) lp_scheme"
  assume c: "c \<in> set calls" and s: "case s of (ns, st) \<Rightarrow> network_inv conf from_lpid ns"
  obtain ns st where sq: "s = (ns, st)" by force
  from network_send_returns [of conf from_lpid ns "call_to c" "call_size c"] c assms(2) s sq
  obtain ns' st' where r: "network_send conf ns st from_lpid (call_to c) (call_now c) (call_type c) (call_data c)
      (call_size c) (call_simulated_size c) = Some (ns', st')" by fastforce
  with network_send_sent [OF r] sent_inv(1) s sq
  show "returns (case s of (ns, st) \<Rightarrow> network_send conf ns st from_lpid (call_to c) (call_now c) (call_type c)
      (call_data c) (call_size c) (call_simulated_size c)) (\<lambda>(ns', st'). network_inv conf from_lpid ns')"
    by (auto simp: returns_def)
qed

section \<open>Correctness\<close>

lemma network_send_all_data:
  "network_send_all conf from_lpid calls (ns, st) = Some (ns', st') \<Longrightarrow>
   map ev_data (events_to to (scheduled st')) =
     map ev_data (events_to to (scheduled st)) @ map call_data (filter (\<lambda>c. call_to c = to) calls)"
proof (induction calls arbitrary: ns st)
  case Nil
  then show ?case by (simp add: network_send_all_def)
next
  case (Cons c calls)
  then obtain ns1 st1 where s: "network_send conf ns st from_lpid (call_to c) (call_now c) (call_type c) (call_data c)
      (call_size c) (call_simulated_size c) = Some (ns1, st1)"
    and r: "network_send_all conf from_lpid calls (ns1, st1) = Some (ns', st')"
    by (auto simp: network_send_all_def bind_eq_Some_conv)
  from network_send_sent [OF s] Cons.IH [OF r] show ?case
    by (auto simp: ScheduleNewEvent_def events_to_def)
qed

text \<open>C27: messages that one process sends, whatever their sizes and the times of sending, are all
  accepted when their destinations are connected, and those to one destination arrive in the order in
  which they were sent; the assertion on overtaking never fails.\<close>

theorem network_fifo:
  assumes "scheduled st = []"
    and "\<forall>c \<in> set calls. reachable_lp conf from_lpid (call_to c) \<and> call_size c \<le> UINT_MAX"
  shows "\<exists>ns' st'. network_send_all conf from_lpid calls (network_init, st) = Some (ns', st') \<and>
     (\<forall>to. sorted (map ev_time (events_to to (scheduled st'))) \<and>
        map ev_data (events_to to (scheduled st')) = map call_data (filter (\<lambda>c. call_to c = to) calls))"
proof -
  from network_send_all_returns [OF network_inv_init, of calls conf from_lpid st] assms(2)
  obtain ns' st' where r: "network_send_all conf from_lpid calls (network_init, st) = Some (ns', st')"
    by (auto simp: returns_def)
  have "in_order network_init st" using assms(1) by (simp add: in_order_def events_to_def)
  from postD [OF network_send_all_in_order [OF this] r] have "in_order ns' st'" by simp
  with r network_send_all_data [OF r] assms(1) show ?thesis by (simp add: in_order_def events_to_def)
qed

theorem network_fifo_witness:
  "let conf = \<lparr>num_lps = 2, transmission_rates = [10, 10], network_delay = [[0, 1], [1, 0]]\<rparr>;
       st = \<lparr>cfg = (\<lambda>_. None), timing_dist = Constant, ignore_initial_seconds = 0, normal_source = (\<lambda>_. 0),
             expent_source = (\<lambda>_ m. m), draws = 0, scheduled = [] :: nat sim_event list\<rparr>;
       c = (\<lambda>t d. \<lparr>call_to = 1, call_now = t, call_type = 0, call_data = Data d, call_size = 8, call_simulated_size = 800\<rparr>);
       calls = [c 5 0, c 3 1, c 6 2]
   in \<exists>ns' st'. network_send_all conf 0 calls (network_init, st) = Some (ns', st') \<and>
     (\<forall>to. sorted (map ev_time (events_to to (scheduled st'))) \<and>
        map ev_data (events_to to (scheduled st')) = map call_data (filter (\<lambda>c. call_to c = to) calls))"
  unfolding Let_def
  by (rule network_fifo) (simp_all add: reachable_lp_def get_delay_def arr_get_def MAX_LP_def UINT_MAX_def)

end
