(* ===== verification/Cluster.thy ===== *)
theory Cluster
  imports Prelude
begin

text \<open>
  The cluster configuration, \<open>src/cluster.c\<close>: the table of server processes, the placement of keys
  on partitions, the random choice of a key, and the iterators over servers.

  \<open>RandomRange\<close> and \<open>Zipf\<close> belong to ROOT-Sim and are arguments (\<open>rr\<close>, \<open>zipf\<close>) of the functions
  that draw a key.
\<close>

section \<open>Operations\<close>

record cluster_config =
  num_replicas :: u32
  num_partitions :: u32
  server_lpids :: "lpid_t list"
  key_min :: gr_key
  key_max :: gr_key
  cl_clock_skew :: rat

definition partition_index :: "cluster_config \<Rightarrow> replica_t \<Rightarrow> partition_t \<Rightarrow> u32" where
  "partition_index cluster replica part = replica * num_partitions cluster + part"

text \<open>\<open>block\<close> is the content of the freshly allocated table.\<close>

definition cluster_new ::
  "(nat \<Rightarrow> lpid_t) \<Rightarrow> u32 \<Rightarrow> u32 \<Rightarrow> u32 \<Rightarrow> rat \<Rightarrow> cluster_config option" where
  "cluster_new block nr np num_keys clock_skew = do {
     c_assert (0 \<le> clock_skew);
     Some \<lparr>num_replicas = nr, num_partitions = np, server_lpids = map block [0..<unat (nr * np)],
           key_min = 0, key_max = ucast num_keys, cl_clock_skew = clock_skew\<rparr>
   }"

definition cluster_set_lpid ::
  "cluster_config \<Rightarrow> replica_t \<Rightarrow> partition_t \<Rightarrow> lpid_t \<Rightarrow> cluster_config option" where
  "cluster_set_lpid cluster replica part lpid = do {
     lpids \<leftarrow> arr_set (server_lpids cluster) (partition_index cluster replica part) lpid;
     Some (cluster\<lparr>server_lpids := lpids\<rparr>)
   }"

definition cluster_get_lpid :: "cluster_config \<Rightarrow> replica_t \<Rightarrow> partition_t \<Rightarrow> lpid_t option" where
  "cluster_get_lpid cluster replica part = do {
     c_assert (replica < num_replicas cluster);
     c_assert (part < num_partitions cluster);
     arr_get (server_lpids cluster) (partition_index cluster replica part)
   }"

text \<open>The remainder by zero traps.\<close>

definition partition_for_key :: "cluster_config \<Rightarrow> gr_key \<Rightarrow> partition_t option" where
  "partition_for_key cluster key = do {
     c_assert (num_partitions cluster \<noteq> 0);
     Some (ucast (key mod ucast (num_partitions cluster)))
   }"

definition cluster_random_key :: "(int \<Rightarrow> int \<Rightarrow> int) \<Rightarrow> cluster_config \<Rightarrow> gr_key option" where
  "cluster_random_key rr cluster =
     (if unat (key_max cluster) = UINT_MAX
      then Some (of_int (rr (- 2147483648) 2147483647))
      else do {
        c_assert (unat (key_max cluster) \<le> INT_MAX);
        Some (of_int (rr 0 (uint (key_max cluster))))
      })"

definition cluster_random_key_on_partition ::
  "(int \<Rightarrow> int \<Rightarrow> int) \<Rightarrow> cluster_config \<Rightarrow> partition_t \<Rightarrow> gr_key option" where
  "cluster_random_key_on_partition rr cluster part = do {
     c_assert (part < num_partitions cluster);
     key \<leftarrow> cluster_random_key rr cluster;
     p \<leftarrow> partition_for_key cluster key;
     (if p = part then Some key
      else do {
        let delta = (if p < part then part - p
                     else num_partitions cluster - p + part);
        let new_key = key + ucast delta;
        let key = (if key < new_key
                   then if new_key \<le> key_max cluster then new_key else ucast part
                   else ucast part);
        p \<leftarrow> partition_for_key cluster key;
        c_assert (part = p);
        Some key
      })
   }"

definition cluster_random_key_zipf :: "(rat \<Rightarrow> int \<Rightarrow> int) \<Rightarrow> cluster_config \<Rightarrow> rat \<Rightarrow> gr_key option" where
  "cluster_random_key_zipf zipf cluster skew = do {
     c_assert (unat (key_max cluster) \<le> INT_MAX);
     Some (of_int (zipf skew (uint (key_max cluster))))
   }"

definition cluster_random_key_zipf_on_partition ::
  "(rat \<Rightarrow> int \<Rightarrow> int) \<Rightarrow> cluster_config \<Rightarrow> partition_t \<Rightarrow> rat \<Rightarrow> gr_key option" where
  "cluster_random_key_zipf_on_partition zipf cluster part skew = do {
     c_assert (num_partitions cluster \<noteq> 0);
     let keys_per_partition = key_max cluster div ucast (num_partitions cluster);
     c_assert (unat keys_per_partition < INT_MAX);
     Some (ucast part * keys_per_partition + of_int (zipf skew (uint keys_per_partition)))
   }"

section \<open>Iterators\<close>

definition foreach_server ::
  "cluster_config \<Rightarrow> (lpid_t \<Rightarrow> replica_t \<Rightarrow> partition_t \<Rightarrow> 's \<Rightarrow> 's option) \<Rightarrow> 's \<Rightarrow> 's option" where
  "foreach_server cluster f s =
     foldM (\<lambda>r. foldM (\<lambda>p s. do {
         l \<leftarrow> arr_get (server_lpids cluster) (partition_index cluster r p);
         f l r p s
       }) (idx_upto (num_partitions cluster))) (idx_upto (num_replicas cluster)) s"

definition foreach_partition ::
  "cluster_config \<Rightarrow> replica_t \<Rightarrow> (lpid_t \<Rightarrow> partition_t \<Rightarrow> 's \<Rightarrow> 's option) \<Rightarrow> 's \<Rightarrow> 's option" where
  "foreach_partition cluster replica f s =
     foldM (\<lambda>p s. do {
         l \<leftarrow> arr_get (server_lpids cluster) (partition_index cluster replica p);
         f l p s
       }) (idx_upto (num_partitions cluster)) s"

definition foreach_replica ::
  "cluster_config \<Rightarrow> partition_t \<Rightarrow> (lpid_t \<Rightarrow> replica_t \<Rightarrow> 's \<Rightarrow> 's option) \<Rightarrow> 's \<Rightarrow> 's option" where
  "foreach_replica cluster part f s =
     foldM (\<lambda>r s. do {
         l \<leftarrow> arr_get (server_lpids cluster) (partition_index cluster r part);
         f l r s
       }) (idx_upto (num_replicas cluster)) s"

section \<open>The table of servers\<close>

text \<open>A cluster whose table has one entry per server, and whose size fits an \<open>unsigned int\<close>.\<close>

definition cluster_wf :: "cluster_config \<Rightarrow> bool" where
  "cluster_wf c \<longleftrightarrow>
     0 < num_partitions c \<and> 0 < num_replicas c \<and>
     unat (num_replicas c) * unat (num_partitions c) \<le> UINT_MAX \<and>
     length (server_lpids c) = unat (num_replicas c) * unat (num_partitions c)"

lemma partition_index_unat:
  assumes "cluster_wf c" and "r < num_replicas c" and "p < num_partitions c"
  shows "unat (partition_index c r p) = unat r * unat (num_partitions c) + unat p"
    and "unat r * unat (num_partitions c) + unat p < length (server_lpids c)"
proof -
  let ?n = "unat (num_partitions c)"
  have r: "unat r < unat (num_replicas c)" and p: "unat p < ?n"
    using assms by (simp_all add: word_less_nat_alt)
  then have "unat r * ?n + ?n \<le> unat (num_replicas c) * ?n"
    by (metis add.commute mult.commute mult_Suc_right mult_le_mono2 Suc_leI)
  with p have b: "unat r * ?n + unat p < unat (num_replicas c) * ?n" by linarith
  then show "unat r * ?n + unat p < length (server_lpids c)" using assms by (simp add: cluster_wf_def)
  have "unat r * ?n + unat p < 4294967296"
    using b assms(1) by (simp add: cluster_wf_def UINT_MAX_def)
  then show "unat (partition_index c r p) = unat r * ?n + unat p"
    by (simp add: partition_index_def unat_word_ariths mod_simps)
qed

lemma partition_index_inj:
  assumes "cluster_wf c" and "r < num_replicas c" "p < num_partitions c"
    and "r' < num_replicas c" "p' < num_partitions c"
    and "partition_index c r p = partition_index c r' p'"
  shows "r = r' \<and> p = p'"
proof -
  let ?n = "unat (num_partitions c)"
  have eq: "unat r * ?n + unat p = unat r' * ?n + unat p'"
    using assms by (metis partition_index_unat(1))
  have lt: "unat p < ?n" "unat p' < ?n" using assms by (simp_all add: word_less_nat_alt)
  then have "unat r = (unat r * ?n + unat p) div ?n" "unat r' = (unat r' * ?n + unat p') div ?n"
    by simp_all
  with eq have "unat r = unat r'" by metis
  with eq show ?thesis by (simp add: word_unat_eq_iff)
qed

lemma cluster_set_lpid_returns:
  assumes "cluster_wf c" and "r < num_replicas c" and "p < num_partitions c"
  shows "\<exists>c'. cluster_set_lpid c r p l = Some c' \<and> cluster_wf c' \<and>
     num_replicas c' = num_replicas c \<and> num_partitions c' = num_partitions c"
  using partition_index_unat [OF assms] assms(1)
  by (simp add: cluster_set_lpid_def arr_set_def cluster_wf_def)

lemma cluster_set_get:
  assumes c: "cluster_wf c" and rp: "r < num_replicas c" "p < num_partitions c"
    and rp': "r' < num_replicas c" "p' < num_partitions c"
    and set: "cluster_set_lpid c r p l = Some c'"
  shows "cluster_get_lpid c' r' p' = (if r' = r \<and> p' = p then Some l else cluster_get_lpid c r' p')"
proof -
  from set obtain ls where ls: "arr_set (server_lpids c) (partition_index c r p) l = Some ls"
    and c': "c' = c\<lparr>server_lpids := ls\<rparr>"
    by (auto simp: cluster_set_lpid_def bind_eq_Some_conv)
  have "partition_index c' r' p' = partition_index c r' p'" by (simp add: c' partition_index_def)
  then show ?thesis
    using rp' partition_index_inj [OF c rp rp'] arr_get_set [OF ls, of "partition_index c r' p'"]
    by (auto simp: cluster_get_lpid_def c')
qed

section \<open>Placement of keys\<close>

lemma partition_for_key_eq_Some:
  "partition_for_key c key = Some p \<longleftrightarrow>
     num_partitions c \<noteq> 0 \<and> unat p = unat key mod unat (num_partitions c)"
  by (auto simp: partition_for_key_def bind_eq_Some_conv unat_ucast_mod word_unat_eq_iff)

lemma partition_for_key_small:
  "part < num_partitions c \<Longrightarrow> partition_for_key c (ucast part) = Some part"
  by (auto simp: partition_for_key_eq_Some word_less_nat_alt)

text \<open>
  The step from a key of partition \<open>p\<close> to the next key of \<open>part\<close>: unless the sum wraps, the new key
  is on \<open>part\<close>.
\<close>

lemma partition_for_key_delta:
  fixes key :: gr_key
  assumes p: "partition_for_key c key = Some p" and part: "part < num_partitions c" "p \<noteq> part"
    and delta: "delta = (if p < part then part - p else num_partitions c - p + part)"
    and nowrap: "key < key + ucast delta"
  shows "partition_for_key c (key + ucast delta) = Some part"
proof -
  let ?n = "unat (num_partitions c)"
  have up: "unat p = unat key mod ?n" and n: "num_partitions c \<noteq> 0"
    using p by (simp_all add: partition_for_key_eq_Some)
  have lt: "unat p < ?n" "unat part < ?n"
    using up n part(1) by (simp_all add: word_less_nat_alt unat_gt_0)
  have d: "unat delta = (if unat p < unat part then unat part - unat p else ?n - unat p + unat part)"
  proof (cases "p < part")
    case True
    then have "unat (part - p) = unat part - unat p" by (intro unat_sub) simp
    with True delta show ?thesis by (simp add: word_less_nat_alt)
  next
    case False
    have np: "unat (num_partitions c - p) = ?n - unat p"
      using lt by (intro unat_sub) (simp add: word_le_nat_alt)
    have "unat part \<le> unat p" using False by (simp add: word_le_nat_alt not_less)
    then have "?n - unat p + unat part < 4294967296"
      using lt unat_u32_less [of "num_partitions c"] by linarith
    then have "unat (num_partitions c - p + part) = ?n - unat p + unat part"
      using unat_word_ariths(1) [of "num_partitions c - p" part] np by simp
    moreover have "\<not> unat p < unat part" "delta = num_partitions c - p + part"
      using False delta by (simp_all add: word_less_nat_alt)
    ultimately show ?thesis by simp
  qed
  have "unat key + unat delta < 2 ^ LENGTH(64)"
  proof (rule ccontr)
    assume "\<not> ?thesis"
    then have "(unat key + unat delta) mod 18446744073709551616 = unat key + unat delta - 18446744073709551616"
      using unsigned_less [of key] unat_u32_less [of delta] by (intro mod_add_once) simp_all
    then have "unat (key + ucast delta) = unat key + unat delta - 18446744073709551616"
      using unat_word_ariths(1) [of key "ucast delta"] by simp
    with nowrap unat_u32_less [of delta] show False by (simp add: word_less_nat_alt)
  qed
  then have k: "unat (key + ucast delta) = unat key + unat delta"
    using unat_word_ariths(1) [of key "ucast delta"] by simp
  have "(unat key + unat delta) mod ?n = (unat p + unat delta) mod ?n"
    by (simp add: up mod_simps)
  also have "\<dots> = unat part" using lt d mod_add_once [of "unat part" ?n ?n]
    by (cases "unat p < unat part") (simp_all add: add.commute)
  finally show ?thesis using n by (simp add: partition_for_key_eq_Some k)
qed

lemma first_key_of_partition: "partition_for_key c k = Some part \<Longrightarrow> ucast part \<le> k"
  by (simp add: partition_for_key_eq_Some word_le_nat_alt)

lemma cluster_random_key_on_partition_returns:
  assumes part: "part < num_partitions c" and key: "cluster_random_key rr c = Some key"
  shows "\<exists>k. cluster_random_key_on_partition rr c part = Some k \<and> partition_for_key c k = Some part \<and>
     (key \<le> key_max c \<longrightarrow> (k \<le> key_max c \<longleftrightarrow> ucast part \<le> key_max c))"
proof -
  have "num_partitions c \<noteq> 0" using part by auto
  then obtain p where p: "partition_for_key c key = Some p" by (simp add: partition_for_key_def)
  have "\<exists>k. cluster_random_key_on_partition rr c part = Some k \<and> partition_for_key c k = Some part \<and>
     (key \<le> key_max c \<longrightarrow> ucast part \<le> key_max c \<longrightarrow> k \<le> key_max c)"
  proof (cases "p = part")
    case True
    with p part key show ?thesis by (simp add: cluster_random_key_on_partition_def)
  next
    case False
    show ?thesis
      using part key p False partition_for_key_delta [OF p part False refl] partition_for_key_small [OF part]
      by (auto simp: cluster_random_key_on_partition_def Let_def)
  qed
  then obtain k where k: "cluster_random_key_on_partition rr c part = Some k" "partition_for_key c k = Some part"
    "key \<le> key_max c \<longrightarrow> ucast part \<le> key_max c \<longrightarrow> k \<le> key_max c" by blast
  from first_key_of_partition [OF k(2)] k show ?thesis by (intro exI [of _ k]) auto
qed

text \<open>
  The Zipfian choice takes partition \<open>part\<close> to hold the keys from \<open>part * keys_per_partition\<close> on.
\<close>

abbreviation keys_per_partition :: "cluster_config \<Rightarrow> gr_key" where
  "keys_per_partition c \<equiv> key_max c div ucast (num_partitions c)"

lemma unat_u64_less: "unat (k :: gr_key) < 2 ^ 64"
  using unsigned_less [of k] by simp

lemma unat_of_nat_u64: "k < 2 ^ 64 \<Longrightarrow> unat (of_nat k :: gr_key) = k"
  by (simp add: unat_of_nat)

lemma zipf_key_returns:
  assumes part: "part < num_partitions c" and kpp: "unat (keys_per_partition c) < INT_MAX"
    and "0 \<le> zipf skew (uint (keys_per_partition c))" and "zipf skew (uint (keys_per_partition c)) \<le> uint (keys_per_partition c)"
  shows "\<exists>key. cluster_random_key_zipf_on_partition zipf c part skew = Some key \<and> key \<le> key_max c \<and>
     unat key = unat part * unat (keys_per_partition c) + nat (zipf skew (uint (keys_per_partition c)))"
proof -
  define kpp where "kpp = keys_per_partition c"
  define z where "z = zipf skew (uint kpp)"
  have z: "0 \<le> z" "z \<le> uint kpp" using assms(3,4) by (simp_all add: z_def kpp_def)
  let ?n = "unat (num_partitions c)" and ?key = "ucast part * kpp + of_int z :: gr_key"
  have n: "0 < ?n" "unat part + 1 \<le> ?n" using part by (auto simp: word_less_nat_alt)
  have uk: "unat kpp = unat (key_max c) div ?n" by (simp add: kpp_def unat_div)
  have zk: "nat z \<le> unat kpp" using z by (simp add: nat_le_iff)
  have "(unat part + 1) * unat kpp \<le> ?n * unat kpp" using n(2) by (rule mult_le_mono1)
  also have "\<dots> \<le> unat (key_max c)" by (simp add: uk)
  finally have le: "unat part * unat kpp + nat z \<le> unat (key_max c)" using zk by simp
  then have lt: "unat part * unat kpp + nat z < 2 ^ 64" by (rule le_less_trans) (rule unat_u64_less)
  have "of_int z = (of_nat (nat z) :: gr_key)" using z(1) by simp
  then have "?key = of_nat (unat part * unat kpp + nat z)" by (simp add: unsigned_ucast_eq)
  then have "unat ?key = unat (of_nat (unat part * unat kpp + nat z) :: gr_key)" by (rule arg_cong)
  also have "\<dots> = unat part * unat kpp + nat z" using lt by (rule unat_of_nat_u64)
  finally have "unat ?key = unat part * unat kpp + nat z" .
  moreover from this le have "?key \<le> key_max c" by (simp add: word_le_nat_alt)
  moreover have "num_partitions c \<noteq> 0" using part by auto
  ultimately show ?thesis
    using kpp by (simp add: cluster_random_key_zipf_on_partition_def Let_def kpp_def z_def)
qed

section \<open>Correctness\<close>

text \<open>Recording the process of a server succeeds, and afterwards every server of the cluster is found
  at its own entry of the table: the one recorded under its replica and partition, every other one where
  it was.\<close>

theorem cluster_lookup_after_set:
  assumes "cluster_wf c" and "r < num_replicas c" and "p < num_partitions c"
  shows "\<exists>c'. cluster_set_lpid c r p l = Some c' \<and> (\<forall>r' p'. r' < num_replicas c \<longrightarrow> p' < num_partitions c \<longrightarrow>
     cluster_get_lpid c' r' p' = (if r' = r \<and> p' = p then Some l else cluster_get_lpid c r' p'))"
  using cluster_set_lpid_returns [OF assms] cluster_set_get [OF assms] by blast

theorem cluster_lookup_after_set_witness:
  "let c = \<lparr>num_replicas = 2, num_partitions = 3, server_lpids = [0, 1, 2, 3, 4, 5], key_min = 0, key_max = 9,
     cl_clock_skew = 0\<rparr>
   in \<exists>c'. cluster_set_lpid c 1 2 7 = Some c' \<and> (\<forall>r' p'. r' < num_replicas c \<longrightarrow> p' < num_partitions c \<longrightarrow>
     cluster_get_lpid c' r' p' = (if r' = 1 \<and> p' = 2 then Some 7 else cluster_get_lpid c r' p'))"
  unfolding Let_def by (rule cluster_lookup_after_set) (simp_all add: cluster_wf_def UINT_MAX_def)

text \<open>C35: \<open>cluster_random_key_on_partition\<close>, the uniform choice of a key for a partition, returns a key that the
  cluster stores on that partition, and the assertion that checks it never fails. When the key drawn is in
  the key range, the result is in it exactly when the partition has a key in the range, that is, when its
  first key, its own number, is not above \<open>key_max\<close>.\<close>

theorem random_key_on_partition:
  assumes "part < num_partitions c" and "cluster_random_key rr c = Some key"
  shows "\<exists>k. cluster_random_key_on_partition rr c part = Some k \<and> partition_for_key c k = Some part \<and>
     (key \<le> key_max c \<longrightarrow> (k \<le> key_max c \<longleftrightarrow> ucast part \<le> key_max c))"
  by (rule cluster_random_key_on_partition_returns [OF assms])

theorem random_key_on_partition_witness:
  "let c = \<lparr>num_replicas = 2, num_partitions = 3, server_lpids = [0, 1, 2, 3, 4, 5], key_min = 0, key_max = 9,
     cl_clock_skew = 0\<rparr>
   in \<exists>k. cluster_random_key_on_partition (\<lambda>lo hi. hi) c 1 = Some k \<and> partition_for_key c k = Some 1 \<and>
     (9 \<le> key_max c \<longrightarrow> (k \<le> key_max c \<longleftrightarrow> ucast (1::u32) \<le> key_max c))"
  unfolding Let_def
  by (rule random_key_on_partition) (simp_all add: cluster_random_key_def UINT_MAX_def INT_MAX_def)

text \<open>C36: \<open>cluster_random_key_zipf_on_partition\<close>, the Zipfian choice of a key for a partition, returns a key of the
  key range when the draw is between 0 and \<open>keys_per_partition\<close>, but it places the keys in contiguous blocks while the cluster stores key \<open>k\<close> on partition \<open>k\<close> modulo
  the number of partitions: the key is on partition \<open>part * keys_per_partition + z\<close> modulo the number of
  partitions, where \<open>z\<close> is the draw. With two partitions or more and two keys or more in each, there is
  for every partition a draw, 1 or 2, whose key is stored on another partition.\<close>

theorem zipf_key_not_on_partition:
  assumes "part < num_partitions c" and "unat (keys_per_partition c) < INT_MAX"
  shows "(\<forall>zipf. 0 \<le> zipf skew (uint (keys_per_partition c)) \<longrightarrow> zipf skew (uint (keys_per_partition c)) \<le> uint (keys_per_partition c) \<longrightarrow>
       (\<exists>key p. cluster_random_key_zipf_on_partition zipf c part skew = Some key \<and> key \<le> key_max c \<and>
          partition_for_key c key = Some p \<and>
          unat p = (unat part * unat (keys_per_partition c) + nat (zipf skew (uint (keys_per_partition c)))) mod unat (num_partitions c))) \<and>
     (1 < num_partitions c \<longrightarrow> 2 \<le> keys_per_partition c \<longrightarrow> (\<exists>z \<in> {1, 2}. \<exists>key.
        cluster_random_key_zipf_on_partition (\<lambda>_ _. z) c part skew = Some key \<and> partition_for_key c key \<noteq> Some part))"
proof (intro conjI allI impI)
  have n: "num_partitions c \<noteq> 0" using assms(1) by auto
  let ?n = "unat (num_partitions c)"
  { fix zipf :: "rat \<Rightarrow> int \<Rightarrow> int"
    assume "0 \<le> zipf skew (uint (keys_per_partition c))" "zipf skew (uint (keys_per_partition c)) \<le> uint (keys_per_partition c)"
    with zipf_key_returns [where zipf = zipf, OF assms] obtain key where
      "cluster_random_key_zipf_on_partition zipf c part skew = Some key" "key \<le> key_max c"
      "unat key = unat part * unat (keys_per_partition c) + nat (zipf skew (uint (keys_per_partition c)))" by blast
    moreover obtain p where "partition_for_key c key = Some p" using n by (simp add: partition_for_key_def)
    ultimately show "\<exists>key p. cluster_random_key_zipf_on_partition zipf c part skew = Some key \<and> key \<le> key_max c \<and>
        partition_for_key c key = Some p \<and> unat p = (unat part * unat (keys_per_partition c) + nat (zipf skew (uint (keys_per_partition c)))) mod ?n"
      by (intro exI [of _ key] exI [of _ p]) (simp add: partition_for_key_eq_Some) }
  assume big: "1 < num_partitions c" "2 \<le> keys_per_partition c"
  have two: "2 \<le> uint (keys_per_partition c)" using big(2) by (simp add: word_le_def)
  obtain k1 k2 where k1: "cluster_random_key_zipf_on_partition (\<lambda>_ _. 1) c part skew = Some k1" "unat k1 = unat part * unat (keys_per_partition c) + 1"
    and k2: "cluster_random_key_zipf_on_partition (\<lambda>_ _. 2) c part skew = Some k2" "unat k2 = unat part * unat (keys_per_partition c) + 2"
    using zipf_key_returns [OF assms, of "\<lambda>_ _. 1" skew] zipf_key_returns [OF assms, of "\<lambda>_ _. 2" skew] two by auto
  have "\<not> (partition_for_key c k1 = Some part \<and> partition_for_key c k2 = Some part)"
  proof
    assume "partition_for_key c k1 = Some part \<and> partition_for_key c k2 = Some part"
    then have "(unat part * unat (keys_per_partition c) + 1) mod ?n = (unat part * unat (keys_per_partition c) + 2) mod ?n"
      using k1(2) k2(2) by (simp add: partition_for_key_eq_Some)
    then have "?n dvd 1" by (metis add_diff_cancel_left add_left_mono mod_eq_dvd_iff_nat one_le_numeral nat_1_add_1 add_diff_cancel_right')
    with big(1) show False by (simp add: word_less_nat_alt)
  qed
  with k1 k2 show "\<exists>z \<in> {1, 2}. \<exists>key. cluster_random_key_zipf_on_partition (\<lambda>_ _. z) c part skew = Some key \<and>
      partition_for_key c key \<noteq> Some part" by blast
qed

theorem zipf_key_not_on_partition_witness:
  "let c = \<lparr>num_replicas = 2, num_partitions = 3, server_lpids = [0, 1, 2, 3, 4, 5], key_min = 0, key_max = 9,
     cl_clock_skew = 0\<rparr>
   in \<exists>z \<in> {1, 2}. \<exists>key. cluster_random_key_zipf_on_partition (\<lambda>_ _. z) c 1 (1 / 2) = Some key \<and> partition_for_key c key \<noteq> Some 1"
proof -
  let ?c = "\<lparr>num_replicas = 2, num_partitions = 3, server_lpids = [0, 1, 2, 3, 4, 5], key_min = 0, key_max = 9,
     cl_clock_skew = 0\<rparr>"
  have "\<exists>z \<in> {1, 2}. \<exists>key. cluster_random_key_zipf_on_partition (\<lambda>_ _. z) ?c 1 (1 / 2) = Some key \<and> partition_for_key ?c key \<noteq> Some 1"
    using zipf_key_not_on_partition [of 1 ?c "1 / 2"] by (simp add: INT_MAX_def)
  then show ?thesis by (simp add: Let_def)
qed

end
