(* ===== verification/Store.thy ===== *)
theory Store
  imports Prelude
begin

text \<open>
  The hash table of \<open>src/store.c\<close>. The bucket array that \<open>calloc\<close> clears is a function from the
  bucket number to the chain of the bucket; a chain is the list of its \<open>store_item\<close>s, in the order
  of their \<open>next\<close> pointers.
\<close>

record 'v store =
  num_buckets :: u32
  buckets :: "u32 \<Rightarrow> (gr_key \<times> 'v) list"

definition hash :: "'v store \<Rightarrow> gr_key \<Rightarrow> u32" where
  "hash s key = ucast (key mod ucast (num_buckets s))"

definition store_new :: "'v store" where
  "store_new = \<lparr>num_buckets = 32768, buckets = (\<lambda>_. [])\<rparr>"

fun chain_get :: "(gr_key \<times> 'v) list \<Rightarrow> gr_key \<Rightarrow> 'v option" where
  "chain_get [] key = None"
| "chain_get ((k, v) # items) key = (if k = key then Some v else chain_get items key)"

definition store_get :: "'v store \<Rightarrow> gr_key \<Rightarrow> 'v option" where
  "store_get s key = chain_get (buckets s (hash s key)) key"

fun chain_put :: "(gr_key \<times> 'v) list \<Rightarrow> gr_key \<Rightarrow> 'v \<Rightarrow> (gr_key \<times> 'v) list" where
  "chain_put [] key value = [(key, value)]"
| "chain_put ((k, v) # items) key value =
     (if k = key then (k, value) # items else (k, v) # chain_put items key value)"

definition store_put :: "'v store \<Rightarrow> gr_key \<Rightarrow> 'v \<Rightarrow> 'v store" where
  "store_put s key value =
     (let b = hash s key in s\<lparr>buckets := (buckets s)(b := chain_put (buckets s b) key value)\<rparr>)"

definition store_foreach_item ::
  "'v store \<Rightarrow> (gr_key \<Rightarrow> 'v \<Rightarrow> 's \<Rightarrow> 's option) \<Rightarrow> 's \<Rightarrow> 's option" where
  "store_foreach_item s f st =
     foldM (\<lambda>b st. foldM (\<lambda>(k, v) st. f k v st) (buckets s b) st) (idx_upto (num_buckets s)) st"

section \<open>The table as a map\<close>

definition store_wf :: "'v store \<Rightarrow> bool" where
  "store_wf s \<longleftrightarrow> num_buckets s \<noteq> 0
     \<and> (\<forall>b. distinct (map fst (buckets s b)) \<and> (\<forall>k \<in> fst ` set (buckets s b). hash s k = b))"

definition store_items :: "'v store \<Rightarrow> (gr_key \<times> 'v) list" where
  "store_items s = concat (map (buckets s) (idx_upto (num_buckets s)))"

lemma hash_bound: "num_buckets s \<noteq> 0 \<Longrightarrow> hash s key < num_buckets s"
proof -
  assume n: "num_buckets s \<noteq> 0"
  have u: "unat (ucast (num_buckets s) :: u64) = unat (num_buckets s)"
    by (simp add: unsigned_ucast_eq take_bit_nat_eq_self less_trans [OF unsigned_less])
  have "unat (key mod ucast (num_buckets s)) = unat key mod unat (num_buckets s)"
    by (simp add: unat_mod u)
  also have "\<dots> < unat (num_buckets s)" using n by (simp add: unat_gt_0)
  finally have lt: "unat (key mod ucast (num_buckets s)) < unat (num_buckets s)" .
  have "unat (key mod ucast (num_buckets s)) < 2 ^ LENGTH(32)"
    by (rule less_trans [OF lt unsigned_less])
  then have "unat (hash s key) = unat (key mod ucast (num_buckets s))"
    unfolding hash_def unsigned_ucast_eq by (simp add: take_bit_nat_eq_self)
  with lt show ?thesis by (simp add: word_less_nat_alt)
qed

lemma chain_get_map_of: "chain_get c key = map_of c key"
  by (induction c) auto

lemma chain_get_put: "chain_get (chain_put c k v) k' = (if k = k' then Some v else chain_get c k')"
  by (induction c) auto

lemma keys_chain_put: "fst ` set (chain_put c k v) = insert k (fst ` set c)"
  by (induction c k v rule: chain_put.induct) auto

lemma distinct_chain_put: "distinct (map fst c) \<Longrightarrow> distinct (map fst (chain_put c k v))"
proof (induction c k v rule: chain_put.induct)
  case (2 k' v' c k v)
  then show ?case using keys_chain_put [of c k v] by auto
qed simp

lemma hash_store_put [simp]: "hash (store_put s k v) = hash s"
  by (simp add: hash_def store_put_def Let_def fun_eq_iff)

lemma num_buckets_put [simp]: "num_buckets (store_put s k v) = num_buckets s"
  by (simp add: store_put_def Let_def)

lemma store_wf_new: "store_wf store_new"
  by (simp add: store_wf_def store_new_def)

lemma store_get_new: "store_get store_new key = None"
  by (simp add: store_get_def store_new_def)

lemma store_wf_put:
  assumes "store_wf s"
  shows "store_wf (store_put s k v)"
proof -
  have "distinct (map fst (buckets (store_put s k v) b))
      \<and> (\<forall>k' \<in> fst ` set (buckets (store_put s k v) b). hash s k' = b)" for b
  proof (cases "b = hash s k")
    case True
    then have "buckets (store_put s k v) b = chain_put (buckets s b) k v"
      by (simp add: store_put_def Let_def)
    with True assms show ?thesis
      by (simp only: keys_chain_put) (simp add: store_wf_def distinct_chain_put)
  next
    case False
    then have "buckets (store_put s k v) b = buckets s b" by (simp add: store_put_def Let_def)
    with assms show ?thesis unfolding store_wf_def by metis
  qed
  with assms show ?thesis unfolding store_wf_def hash_store_put num_buckets_put by blast
qed

lemma store_get_put: "store_get (store_put s k v) k' = (if k = k' then Some v else store_get s k')"
  by (auto simp: store_get_def store_put_def Let_def chain_get_put hash_def)

lemma store_foreach_items: "store_foreach_item s f st = foldM (\<lambda>(k, v) st. f k v st) (store_items s) st"
  by (simp add: store_foreach_item_def store_items_def foldM_concat)

lemma store_items_get:
  assumes "store_wf s"
  shows "(k, v) \<in> set (store_items s) \<longleftrightarrow> store_get s k = Some v"
proof
  assume "(k, v) \<in> set (store_items s)"
  then obtain b where b: "(k, v) \<in> set (buckets s b)" by (auto simp: store_items_def)
  with assms have "hash s k = b" by (force simp: store_wf_def)
  with b assms show "store_get s k = Some v"
    by (simp add: store_get_def chain_get_map_of store_wf_def)
next
  assume "store_get s k = Some v"
  then have "(k, v) \<in> set (buckets s (hash s k))"
    by (simp add: store_get_def chain_get_map_of map_of_SomeD)
  moreover have "hash s k < num_buckets s" using assms by (simp add: store_wf_def hash_bound)
  ultimately show "(k, v) \<in> set (store_items s)" by (auto simp: store_items_def set_upto)
qed

lemma disjointI_keys: "(\<And>k. k \<in> A \<Longrightarrow> k \<in> B \<Longrightarrow> False) \<Longrightarrow> A \<inter> B = {}"
  by blast

lemma distinct_store_items: "store_wf s \<Longrightarrow> distinct (map fst (store_items s))"
proof -
  assume wf: "store_wf s"
  have "distinct (map fst (concat (map (buckets s) bs)))" if "distinct bs" for bs
    using that
  proof (induction bs)
    case (Cons b bs)
    have "fst ` set (buckets s b) \<inter> fst ` set (concat (map (buckets s) bs)) = {}"
    proof (rule disjointI_keys)
      fix k assume b: "k \<in> fst ` set (buckets s b)"
      assume "k \<in> fst ` set (concat (map (buckets s) bs))"
      then obtain b' where "b' \<in> set bs" and "k \<in> fst ` set (buckets s b')" by auto
      with b wf have "b = b'" unfolding store_wf_def by metis
      with \<open>b' \<in> set bs\<close> Cons.prems show False by simp
    qed
    with Cons wf show ?case by (simp add: store_wf_def map_concat image_UN)
  qed simp
  then show ?thesis by (simp add: store_items_def distinct_upto)
qed

section \<open>The interface\<close>

locale key_value =
  fixes new :: 's
    and get :: "'s \<Rightarrow> gr_key \<Rightarrow> 'v option"
    and put :: "'s \<Rightarrow> gr_key \<Rightarrow> 'v \<Rightarrow> 's"
    and items :: "'s \<Rightarrow> (gr_key \<times> 'v) list"
    and wf :: "'s \<Rightarrow> bool"
  assumes wf_new: "wf new"
    and get_new: "get new k = None"
    and wf_put: "wf s \<Longrightarrow> wf (put s k v)"
    and get_put: "wf s \<Longrightarrow> get (put s k v) k' = (if k = k' then Some v else get s k')"
    and items_get: "wf s \<Longrightarrow> (k, v) \<in> set (items s) \<longleftrightarrow> get s k = Some v"
    and items_distinct: "wf s \<Longrightarrow> distinct (map fst (items s))"
begin

lemma put_all:
  "wf s \<Longrightarrow> get (foldl (\<lambda>s (k, v). put s k v) s kvs) k = (case map_of (rev kvs) k of Some v \<Rightarrow> Some v | None \<Rightarrow> get s k)"
proof (induction kvs arbitrary: s)
  case Nil
  then show ?case by simp
next
  case (Cons kv kvs)
  then show ?case by (cases kv) (auto simp: wf_put get_put map_add_def split: option.splits)
qed

lemma items_map: "wf s \<Longrightarrow> map_of (items s) = get s"
proof
  fix k assume wf: "wf s"
  show "map_of (items s) k = get s k"
    using items_get [OF wf] items_distinct [OF wf]
    by (metis map_of_eq_None_iff map_of_eq_Some_iff not_None_eq)
qed

end

interpretation kv: key_value store_new store_get store_put store_items store_wf
  by unfold_locales
    (simp_all add: store_wf_new store_get_new store_wf_put store_get_put store_items_get
      distinct_store_items)

section \<open>Correctness\<close>

definition puts :: "(gr_key \<times> 'v) list \<Rightarrow> 'v store" where
  "puts kvs = foldl (\<lambda>s (k, v). store_put s k v) store_new kvs"

lemma puts_wf:
  fixes kvs :: "(gr_key \<times> 'v) list"
  shows "store_wf (puts kvs)"
proof -
  have "store_wf s \<Longrightarrow> store_wf (foldl (\<lambda>s (k, v). store_put s k v) s kvs)" for s :: "'v store"
    by (induction kvs arbitrary: s) (auto simp: store_wf_put)
  then show ?thesis by (simp add: puts_def store_wf_new)
qed

text \<open>C34: after any sequence of puts into a new table, a get returns the last value put under the key,
  and nothing for a key that was never put.\<close>

theorem store_get_puts: "store_get (puts kvs) k = map_of (rev kvs) k"
  using kv.put_all [OF store_wf_new, of kvs k] by (simp add: puts_def store_get_new split: option.splits)

text \<open>Iterating over the table visits every stored key exactly once, with its current value.\<close>

theorem store_foreach_each_once:
  fixes kvs :: "(gr_key \<times> 'v) list"
  shows "\<exists>items. store_foreach_item (puts kvs) (\<lambda>k v acc. Some (acc @ [(k, v)])) [] = Some items \<and>
     distinct (map fst items) \<and> map_of items = store_get (puts kvs)"
proof -
  have collect: "foldM (\<lambda>(k, v) acc. Some (acc @ [(k, v)])) xs acc = Some (acc @ xs)" for xs acc :: "(gr_key \<times> 'v) list"
    by (induction xs arbitrary: acc) auto
  show ?thesis
    using kv.items_map [OF puts_wf [of kvs]] distinct_store_items [OF puts_wf [of kvs]] by (simp add: store_foreach_items collect)
qed

end
