(* ===== verification/Server.thy ===== *)
theory Server
  imports Cpu_Invariant Network Cluster Store
begin

text \<open>
  The server common to all protocols: \<open>src/server/server.c\<close>, \<open>src/server/clock_skew.c\<close> and
  \<open>src/server/stats.c\<close>.

  \<open>SERVER_STATE_STRUCT\<close> is a record that extends the CPU record, and the state of a protocol extends
  it in turn, as the union at the start of the C struct does. \<open>'v\<close> is the type of the values in the
  store, \<open>'p\<close> the messages of the protocol. The callbacks of \<open>server_functions_t\<close> are arguments.
\<close>

section \<open>Statistics\<close>

record stat_array =
  sa_name :: string
  sa_values :: "rat parray"

record stat_counter =
  sc_name :: string
  sc_value :: int

record server_stats =
  st_arrays :: "stat_array list"
  st_counters :: "stat_counter list"

definition REPLICATION_TIME :: u32 where "REPLICATION_TIME = 0"
definition VALUE_STALENESS :: u32 where "VALUE_STALENESS = 1"
definition VISIBILITY_LATENCY :: u32 where "VISIBILITY_LATENCY = 2"
definition GET_REQUESTS :: u32 where "GET_REQUESTS = 0"
definition PUT_REQUESTS :: u32 where "PUT_REQUESTS = 1"
definition ROTX_REQUESTS :: u32 where "ROTX_REQUESTS = 2"
definition REPLICA_UPDATES :: u32 where "REPLICA_UPDATES = 3"

definition stats_array_new :: "server_stats \<Rightarrow> string \<Rightarrow> u32 \<times> server_stats" where
  "stats_array_new stats name =
     (of_nat (length (st_arrays stats)),
      stats\<lparr>st_arrays := array_push (st_arrays stats) \<lparr>sa_name = name, sa_values = parray_new\<rparr>\<rparr>)"

definition stats_array_average :: "stat_array \<Rightarrow> rat" where
  "stats_array_average a =
     (if pr_values (sa_values a) = [] then 0
      else foldl (+) 0 (pr_values (sa_values a)) / of_nat (length (pr_values (sa_values a))))"

definition stats_counter_new :: "server_stats \<Rightarrow> string \<Rightarrow> u32 \<times> server_stats" where
  "stats_counter_new stats name =
     (of_nat (length (st_counters stats)),
      stats\<lparr>st_counters := array_push (st_counters stats) \<lparr>sc_name = name, sc_value = 0\<rparr>\<rparr>)"

definition server_stats_new :: "server_stats option" where
  "server_stats_new = do {
     let stats = \<lparr>st_arrays = [], st_counters = []\<rparr>;
     let (i, stats) = stats_array_new stats ''replication time'';
     c_assert (i = REPLICATION_TIME);
     let (i, stats) = stats_array_new stats ''value staleness'';
     c_assert (i = VALUE_STALENESS);
     let (i, stats) = stats_array_new stats ''visibility latency'';
     c_assert (i = VISIBILITY_LATENCY);
     let (i, stats) = stats_counter_new stats ''get requests'';
     c_assert (i = GET_REQUESTS);
     let (i, stats) = stats_counter_new stats ''put requests'';
     c_assert (i = PUT_REQUESTS);
     let (i, stats) = stats_counter_new stats ''rotx requests'';
     c_assert (i = ROTX_REQUESTS);
     let (i, stats) = stats_counter_new stats ''replica updates'';
     c_assert (i = REPLICA_UPDATES);
     Some stats
   }"

section \<open>State\<close>

record server_config =
  sc_cluster :: cluster_config
  sc_network :: network_config
  sc_lpid :: lpid_t
  sc_partition :: partition_t
  sc_replica :: replica_t
  tree_fanout :: u32
  num_cores :: u32

record ('p, 'v) server_state = "'p cpu_state" +
  clock :: gr_tsp
  now :: simtime
  start_time :: simtime
  finished :: bool
  config :: server_config
  store :: "'v store"
  stats :: server_stats
  network :: network_state
  clock_offset :: simtime

definition server_stats_array_new ::
  "('p, 'v, 'z) server_state_scheme \<Rightarrow> string \<Rightarrow> u32 \<times> ('p, 'v, 'z) server_state_scheme" where
  "server_stats_array_new st name = (let (i, s) = stats_array_new (stats st) name in (i, st\<lparr>stats := s\<rparr>))"

definition server_stats_array_push ::
  "('p, 'v, 'z) server_state_scheme \<Rightarrow> u32 \<Rightarrow> rat \<Rightarrow> ('p, 'v, 'z) server_state_scheme option" where
  "server_stats_array_push st i value = do {
     c_assert (unat i < length (st_arrays (stats st)));
     (if now st < ignore_initial_seconds st then Some st
      else do {
        a \<leftarrow> arr_get (st_arrays (stats st)) i;
        as \<leftarrow> arr_set (st_arrays (stats st)) i (a\<lparr>sa_values := parray_push (sa_values a) value\<rparr>);
        Some (st\<lparr>stats := (stats st)\<lparr>st_arrays := as\<rparr>\<rparr>)
      })
   }"

definition server_stats_counter_new ::
  "('p, 'v, 'z) server_state_scheme \<Rightarrow> string \<Rightarrow> u32 \<times> ('p, 'v, 'z) server_state_scheme" where
  "server_stats_counter_new st name = (let (i, s) = stats_counter_new (stats st) name in (i, st\<lparr>stats := s\<rparr>))"

definition server_stats_counter_inc ::
  "('p, 'v, 'z) server_state_scheme \<Rightarrow> u32 \<Rightarrow> ('p, 'v, 'z) server_state_scheme option" where
  "server_stats_counter_inc st i = do {
     c_assert (unat i < length (st_counters (stats st)));
     (if now st < ignore_initial_seconds st then Some st
      else do {
        c \<leftarrow> arr_get (st_counters (stats st)) i;
        cs \<leftarrow> arr_set (st_counters (stats st)) i (c\<lparr>sc_value := sc_value c + 1\<rparr>);
        Some (st\<lparr>stats := (stats st)\<lparr>st_counters := cs\<rparr>\<rparr>)
      })
   }"

section \<open>Clock skew\<close>

definition server_clock_skew_init ::
  "('p, 'v, 'z) server_state_scheme \<Rightarrow> ('p, 'v, 'z) server_state_scheme" where
  "server_clock_skew_init st =
     st\<lparr>clock_offset := \<bar>normal_source st (draws st)\<bar> * cl_clock_skew (sc_cluster (config st)),
        draws := draws st + 1\<rparr>"

definition server_clock_skew :: "('p, 'v, 'z) server_state_scheme \<Rightarrow> simtime \<Rightarrow> simtime" where
  "server_clock_skew st universal_time = universal_time + clock_offset st"

section \<open>Sending and scheduling\<close>

text \<open>The header of every message, \<open>MESSAGE_STRUCT\<close>.\<close>

record message =
  m_size :: nat
  simulated_size :: nat

definition server_schedule_self ::
  "('p, 'v, 'z) server_state_scheme \<Rightarrow> simtime \<Rightarrow> event_type \<Rightarrow> 'p event_data \<Rightarrow> nat
   \<Rightarrow> ('p, 'v, 'z) server_state_scheme option" where
  "server_schedule_self st delay event_type data data_size = do {
     c_assert (data_size < UINT_MAX);
     c_assert (\<not> cpu_lock_called st);
     let time = now st + cpu_elapsed_time st + delay;
     Some (ScheduleNewEvent st (sc_lpid (config st)) time event_type data data_size)
   }"

definition server_send ::
  "('p, 'v, 'z) server_state_scheme \<Rightarrow> lpid_t \<Rightarrow> event_type \<Rightarrow> 'm message_scheme \<Rightarrow> 'p event_data
   \<Rightarrow> ('p, 'v, 'z) server_state_scheme option" where
  "server_send st to_lpid event_type message data = do {
     c_assert (\<not> cpu_lock_called st);
     (send_time, st) \<leftarrow> timing_func st [''server_send_time''];
     (per_byte, st) \<leftarrow> timing_func st [''server_send_per_byte_time''];
     st \<leftarrow> cpu_add_time st (send_time + of_nat (simulated_size message) * per_byte);
     let time = now st + cpu_elapsed_time st;
     (ns, st) \<leftarrow> network_send (sc_network (config st)) (network st) st (sc_lpid (config st)) to_lpid time
       event_type data (m_size message) (simulated_size message);
     Some (st\<lparr>network := ns\<rparr>)
   }"

text \<open>What a returning \<open>server_send\<close> has done: one event, on the network, and CPU time.\<close>

definition send_effect ::
  "('p, 'v, 'z) server_state_scheme \<Rightarrow> lpid_t \<Rightarrow> event_type \<Rightarrow> 'm message_scheme \<Rightarrow> 'p event_data
   \<Rightarrow> ('p, 'v, 'z) server_state_scheme \<Rightarrow> bool" where
  "send_effect st to t m d st' \<longleftrightarrow>
     (\<exists>n e w ns. st' = (ScheduleNewEvent (st\<lparr>draws := n, elapsed_time := elapsed_time st + e\<rparr>) to w t d (m_size m))\<lparr>network := ns\<rparr> \<and>
        0 \<le> e \<and> sent (sc_network (config st)) (sc_lpid (config st)) to (now st + (elapsed_time st + e))
          (simulated_size m) (network st) ns w \<and>
        last_reception_time_by_lp (network st) to \<le> w)"

lemma server_send_effect:
  assumes "server_send st to t m d = Some st'"
  shows "send_effect st to t m d st'"
proof -
  from assms obtain a s1 b s2 s3 ns s4 where
    1: "timing_func st [''server_send_time''] = Some (a, s1)"
    and 2: "timing_func s1 [''server_send_per_byte_time''] = Some (b, s2)"
    and 3: "cpu_add_time s2 (a + of_nat (simulated_size m) * b) = Some s3"
    and 4: "network_send (sc_network (config s3)) (network s3) s3 (sc_lpid (config s3)) to
        (now s3 + cpu_elapsed_time s3) t d (m_size m) (simulated_size m) = Some (ns, s4)"
    and 5: "st' = s4\<lparr>network := ns\<rparr>"
    by (auto simp: server_send_def bind_eq_Some_conv Let_def split: prod.splits)
  from timing_func_draws [OF 1] timing_func_draws [OF 2] obtain n where s2: "s2 = st\<lparr>draws := n\<rparr>" by auto
  from 3 have e: "0 \<le> a + of_nat (simulated_size m) * b"
    and s3: "s3 = st\<lparr>draws := n, elapsed_time := elapsed_time st + (a + of_nat (simulated_size m) * b)\<rparr>"
    by (auto simp: cpu_add_time_def bind_eq_Some_conv s2)
  from network_send_sent [OF 4] 5 e show ?thesis
    unfolding send_effect_def s3 cpu_elapsed_time_def by fastforce
qed

text \<open>The cost of filling a struct of \<open>n\<close> bytes, in every protocol.\<close>

definition build_struct_per_byte_time ::
  "('p, 'v, 'z) server_state_scheme \<Rightarrow> nat \<Rightarrow> ('p, 'v, 'z) server_state_scheme option" where
  "build_struct_per_byte_time st n = cpu_add_timing st (of_nat n) [''build_struct_per_byte_time'']"

section \<open>The partition tree\<close>

definition server_parent_partition_id :: "server_config \<Rightarrow> u32 option" where
  "server_parent_partition_id c = do {
     c_assert (sc_partition c \<noteq> 0);
     c_assert (tree_fanout c \<noteq> 0);
     Some ((sc_partition c - 1) div tree_fanout c)
   }"

definition server_child_partition_index :: "server_config \<Rightarrow> u32 \<Rightarrow> u32 option" where
  "server_child_partition_index c partition_id = do {
     c_assert (partition_id \<noteq> 0);
     c_assert (tree_fanout c \<noteq> 0);
     Some ((partition_id - 1) mod tree_fanout c)
   }"

definition server_first_child_id :: "server_config \<Rightarrow> u32" where
  "server_first_child_id c = sc_partition c * tree_fanout c + 1"

definition server_last_child_id :: "server_config \<Rightarrow> u32" where
  "server_last_child_id c = sc_partition c * tree_fanout c + tree_fanout c"

definition server_is_leaf_partition :: "server_config \<Rightarrow> bool" where
  "server_is_leaf_partition c \<longleftrightarrow> num_partitions (sc_cluster c) \<le> server_first_child_id c"

definition server_num_children_partitions :: "server_config \<Rightarrow> u32" where
  "server_num_children_partitions c =
     (let last_child_id = server_last_child_id c;
          first_child_id = server_first_child_id c
      in if last_child_id < num_partitions (sc_cluster c) then tree_fanout c
         else if first_child_id < num_partitions (sc_cluster c)
         then tree_fanout c - (last_child_id - num_partitions (sc_cluster c) + 1)
         else 0)"

text \<open>
  The counter of the loop of \<open>server_foreach_children_partition\<close> from \<open>i\<close>: it is below the number of
  partitions when the body runs, so its increment does not wrap.
\<close>

function children_from :: "u32 \<Rightarrow> u32 \<Rightarrow> u32 \<Rightarrow> u32 list" where
  "children_from i hi n = (if i \<le> hi \<and> i < n then i # children_from (i + 1) hi n else [])"
  by pat_completeness auto
termination
proof (relation "measure (\<lambda>(i, hi, n). unat n - unat i)")
  fix i hi n :: u32
  assume a: "i \<le> hi \<and> i < n"
  then have "unat (i + 1) = unat i + 1"
    using unat_u32_less [of n] by (intro unat_inc) (simp add: word_less_nat_alt UINT_MAX_def)
  with a show "((i + 1, hi, n), i, hi, n) \<in> measure (\<lambda>(i, hi, n). unat n - unat i)"
    by (auto simp: word_less_nat_alt)
qed simp

declare children_from.simps [simp del]

definition server_children :: "server_config \<Rightarrow> u32 list" where
  "server_children c =
     children_from (server_first_child_id c) (server_last_child_id c) (num_partitions (sc_cluster c))"

definition server_foreach_children_partition ::
  "server_config \<Rightarrow> (partition_t \<Rightarrow> 's \<Rightarrow> 's option) \<Rightarrow> 's \<Rightarrow> 's option" where
  "server_foreach_children_partition c f s = foldM f (server_children c) s"

section \<open>Setup and dispatch\<close>

definition server_setup ::
  "lpid_t \<Rightarrow> cluster_config \<Rightarrow> replica_t \<Rightarrow> partition_t \<Rightarrow> network_config \<Rightarrow> u32 \<Rightarrow> u32
   \<Rightarrow> server_config option" where
  "server_setup lpid cluster replica part network_conf fanout cores_per_server = do {
     c_assert (replica < num_replicas cluster);
     c_assert (part < num_partitions cluster);
     Some \<lparr>sc_cluster = cluster, sc_network = network_conf, sc_lpid = lpid, sc_partition = part,
           sc_replica = replica, tree_fanout = fanout, num_cores = cores_per_server\<rparr>
   }"

text \<open>
  The nested function \<open>set_network_delay\<close>. \<open>delay_matrix\<close> is the configured inter-datacenter delay,
  read through the JSON library.
\<close>

definition set_network_delay ::
  "server_config \<Rightarrow> (replica_t \<Rightarrow> replica_t \<Rightarrow> rat option) \<Rightarrow> rat \<Rightarrow> lpid_t \<Rightarrow> replica_t \<Rightarrow> partition_t
   \<Rightarrow> network_config \<Rightarrow> network_config option" where
  "set_network_delay c delay_matrix intra other_lpid replica part conf =
     (if replica = sc_replica c then network_set_delay conf (sc_lpid c) other_lpid intra
      else if part = sc_partition c then do {
        delay \<leftarrow> delay_matrix (sc_replica c) replica;
        network_set_delay conf (sc_lpid c) other_lpid delay
      }
      else Some conf)"

definition server_init ::
  "(replica_t \<Rightarrow> replica_t \<Rightarrow> rat option) \<Rightarrow> (('p, 'v, 'z) server_state_scheme \<Rightarrow> ('p, 'v, 'z) server_state_scheme option)
   \<Rightarrow> server_config \<Rightarrow> lpid_t \<Rightarrow> simtime \<Rightarrow> ('p, 'v, 'z) server_state_scheme
   \<Rightarrow> ('p, 'v, 'z) server_state_scheme option" where
  "server_init delay_matrix init_state c lpid t st = do {
     s \<leftarrow> server_stats_new;
     let st = st\<lparr>config := c, clock := t, now := t, store := store_new, stats := s, start_time := t,
                 finished := False, network := network_init\<rparr>;
     intra \<leftarrow> cfg st [''network'', ''intra_datacenter_delay''];
     self \<leftarrow> cfg st [''network'', ''self_delay''];
     conf \<leftarrow> foreach_server (sc_cluster c) (set_network_delay c delay_matrix intra) (sc_network c);
     conf \<leftarrow> network_set_delay conf lpid lpid self;
     rate \<leftarrow> cfg st [''network'', ''transmission_rate''];
     conf \<leftarrow> network_set_transmission_rate conf lpid rate;
     let st = st\<lparr>config := c\<lparr>sc_network := conf\<rparr>\<rparr>;
     let st = cpu_setup lpid t (num_cores c) st;
     let st = server_clock_skew_init st;
     init_state st
   }"

text \<open>
  \<open>server_process_event\<close> on an initialised server (the state is not NULL and the event is not \<open>ROOTSIM_INIT\<close>, alias \<open>INIT\<close>).
  \<open>process_event\<close> returns \<open>Some None\<close> where the C function returns 0; the caller then exits.
\<close>

definition server_process_event ::
  "(event_type \<Rightarrow> 'p event_data \<Rightarrow> nat \<Rightarrow> ('p, 'v, 'z) server_state_scheme \<Rightarrow> ('p, 'v, 'z) server_state_scheme option option)
   \<Rightarrow> lpid_t \<Rightarrow> simtime \<Rightarrow> event_type \<Rightarrow> 'p event_data \<Rightarrow> nat \<Rightarrow> ('p, 'v, 'z) server_state_scheme
   \<Rightarrow> ('p, 'v, 'z) server_state_scheme option" where
  "server_process_event process_event lpid t event_type data data_size st = do {
     c_assert (lpid = sc_lpid (config st));
     c_assert (now st \<le> t);
     let st = st\<lparr>now := t\<rparr>;
     let st = st\<lparr>clock := server_clock_skew st t\<rparr>;
     c_assert (event_type \<noteq> ROOTSIM_INIT);
     r \<leftarrow> process_event event_type data data_size st;
     r
   }"

text \<open>The callback that \<open>cpu_process\<close> calls, with \<open>cpu->lpid\<close> and \<open>cpu->now\<close>.\<close>

definition server_handler ::
  "(event_type \<Rightarrow> 'p event_data \<Rightarrow> nat \<Rightarrow> ('p, 'v, 'z) server_state_scheme \<Rightarrow> ('p, 'v, 'z) server_state_scheme option option)
   \<Rightarrow> event_type \<Rightarrow> 'p event_data \<Rightarrow> nat \<Rightarrow> ('p, 'v, 'z) server_state_scheme
   \<Rightarrow> ('p, 'v, 'z) server_state_scheme option" where
  "server_handler process_event t d n st =
     server_process_event process_event (cpu_lpid st) (cpu_now st) t d n st"

text \<open>
  A handler applied to the message it expects, in the dispatch of a protocol; any other payload has
  another layout and the handler would read outside it.
\<close>

definition on_msg :: "('p \<Rightarrow> 'm option) \<Rightarrow> ('s \<Rightarrow> 'm \<Rightarrow> 's option) \<Rightarrow> 's \<Rightarrow> 'p event_data \<Rightarrow> 's option option" where
  "on_msg sel f st data = (case data of
     Data m \<Rightarrow> do { m \<leftarrow> sel m; map_option Some (f st m) }
   | _ \<Rightarrow> None)"

definition no_msg :: "('s \<Rightarrow> 's option) \<Rightarrow> 's \<Rightarrow> 's option option" where
  "no_msg f st = map_option Some (f st)"

text \<open>\<open>server_on_gvt\<close> without the report it writes; \<open>real_time\<close> is \<open>time(NULL)\<close>.\<close>

definition server_on_gvt ::
  "simtime \<Rightarrow> int \<Rightarrow> int \<Rightarrow> ('p, 'v, 'z) server_state_scheme \<Rightarrow> bool \<times> ('p, 'v, 'z) server_state_scheme" where
  "server_on_gvt stop_after_simulated_seconds stop_after_real_time real_time st =
     (if stop_after_simulated_seconds < now st
         \<or> (stop_after_real_time \<noteq> 0 \<and> stop_after_real_time < real_time)
      then (True, if \<not> finished st then st\<lparr>finished := True\<rparr> else st)
      else (False, st))"

end
