(* ===== verification/Ptr_Array.thy ===== *)
theory Ptr_Array
  imports Prelude
begin

text \<open>
  The pointer array of \<open>src/ptr_array.c\<close>, which hands out the identifiers of the requests in
  flight. \<open>pa_data\<close> holds the first \<open>size\<close> slots, a NULL slot being \<open>None\<close>; the slots between
  \<open>size\<close> and \<open>allocated_size\<close> are never read. Growing past \<open>2^31\<close> slots makes the doubled
  \<open>allocated_size\<close> wrap around, so that the write that follows is outside of the block; that
  write is an abort of the model.
\<close>

record 'a ptr_array =
  pa_size :: u32
  pa_allocated_size :: u32
  pa_data :: "'a option list"

definition ptr_array_init :: "'a ptr_array" where
  "ptr_array_init = \<lparr>pa_size = 0, pa_allocated_size = 0, pa_data = []\<rparr>"

definition ptr_array_get :: "'a ptr_array \<Rightarrow> u32 \<Rightarrow> 'a option option" where
  "ptr_array_get a i = do { c_assert (i < pa_size a); arr_get (pa_data a) i }"

definition ptr_array_set :: "'a ptr_array \<Rightarrow> u32 \<Rightarrow> 'a option \<Rightarrow> 'a ptr_array option" where
  "ptr_array_set a i p = do {
     c_assert (i < pa_size a);
     d \<leftarrow> arr_set (pa_data a) i p;
     Some (a\<lparr>pa_data := d\<rparr>)
   }"

text \<open>The first NULL slot, as the loop of \<open>ptr_array_put\<close> finds it.\<close>

fun first_null :: "'a option list \<Rightarrow> nat \<Rightarrow> nat option" where
  "first_null [] i = None"
| "first_null (None # xs) i = Some i"
| "first_null (Some x # xs) i = first_null xs (Suc i)"

definition ptr_array_put :: "'a ptr_array \<Rightarrow> 'a \<Rightarrow> (u32 \<times> 'a ptr_array) option" where
  "ptr_array_put a p =
     (case first_null (pa_data a) 0 of
        Some i \<Rightarrow> Some (of_nat i, a\<lparr>pa_data := (pa_data a)[i := Some p]\<rparr>)
      | None \<Rightarrow>
          let a = (if pa_size a = pa_allocated_size a
                   then a\<lparr>pa_allocated_size := (if pa_allocated_size a = 0 then 4
                                               else pa_allocated_size a * 2)\<rparr>
                   else a);
              i = pa_size a;
              a = a\<lparr>pa_size := pa_size a + 1\<rparr>
          in do {
            c_assert (i < pa_allocated_size a);
            Some (i, a\<lparr>pa_data := pa_data a @ [Some p]\<rparr>)
          })"

text \<open>
  The callback of \<open>ptr_array_foreach\<close> works on the state that holds the array, so the loop reads
  the slot again in every round.
\<close>

definition ptr_array_foreach ::
  "('s \<Rightarrow> 'a ptr_array) \<Rightarrow> (u32 \<Rightarrow> 'a \<Rightarrow> 's \<Rightarrow> 's option) \<Rightarrow> 's \<Rightarrow> 's option" where
  "ptr_array_foreach arr f s =
     foldM (\<lambda>i s. do {
              p \<leftarrow> arr_get (pa_data (arr s)) i;
              (case p of None \<Rightarrow> Some s | Some v \<Rightarrow> f i v s)
            }) (idx_upto (pa_size (arr s))) s"

section \<open>The live slots\<close>

definition ptr_array_wf :: "'a ptr_array \<Rightarrow> bool" where
  "ptr_array_wf a \<longleftrightarrow> length (pa_data a) = unat (pa_size a) \<and> pa_size a \<le> pa_allocated_size a"

definition ptr_array_room :: "'a ptr_array \<Rightarrow> bool" where
  "ptr_array_room a \<longleftrightarrow> unat (pa_size a) < 2 ^ 31"

definition ptr_array_live :: "'a ptr_array \<Rightarrow> u32 \<Rightarrow> 'a option" where
  "ptr_array_live a i = (if unat i < length (pa_data a) then pa_data a ! unat i else None)"

lemma ptr_array_wf_init: "ptr_array_wf ptr_array_init"
  by (simp add: ptr_array_wf_def ptr_array_init_def)

lemma ptr_array_live_init: "ptr_array_live ptr_array_init = Map.empty"
  by (simp add: ptr_array_live_def ptr_array_init_def fun_eq_iff)

lemma ptr_array_get_live:
  "ptr_array_wf a \<Longrightarrow> ptr_array_live a i = Some v \<Longrightarrow> ptr_array_get a i = Some (Some v)"
  by (auto simp: ptr_array_wf_def ptr_array_live_def ptr_array_get_def arr_get_def
      word_less_nat_alt split: if_splits)

lemma ptr_array_get_in_range:
  "ptr_array_get a i = Some p \<Longrightarrow> i < pa_size a \<and> ptr_array_live a i = p"
  by (auto simp: ptr_array_get_def ptr_array_live_def arr_get_eq_Some bind_eq_Some_conv)

lemma ptr_array_set_live:
  assumes "ptr_array_wf a" and "i < pa_size a"
  shows "\<exists>a'. ptr_array_set a i p = Some a' \<and> ptr_array_wf a'
     \<and> ptr_array_live a' = (ptr_array_live a)(i := p) \<and> pa_size a' = pa_size a"
proof -
  have i: "unat i < length (pa_data a)"
    using assms by (simp add: ptr_array_wf_def word_less_nat_alt)
  let ?a = "a\<lparr>pa_data := (pa_data a)[unat i := p]\<rparr>"
  have "ptr_array_set a i p = Some ?a"
    using assms(2) i by (simp add: ptr_array_set_def arr_set_def)
  moreover have "ptr_array_live ?a = (ptr_array_live a)(i := p)"
    using i by (auto simp: ptr_array_live_def fun_eq_iff nth_list_update word_unat_eq_iff)
  ultimately show ?thesis using assms(1) by (auto simp: ptr_array_wf_def)
qed

lemma live_in_range: "ptr_array_wf a \<Longrightarrow> ptr_array_live a i = Some v \<Longrightarrow> i < pa_size a"
  by (auto simp: ptr_array_wf_def ptr_array_live_def word_less_nat_alt split: if_splits)

lemma first_null_Some:
  "first_null xs k = Some i \<Longrightarrow> k \<le> i \<and> i - k < length xs \<and> xs ! (i - k) = None"
proof (induction xs k rule: first_null.induct)
  case (3 x xs k)
  then have "Suc k \<le> i" and "i - Suc k < length xs" and "xs ! (i - Suc k) = None" by simp_all
  moreover from \<open>Suc k \<le> i\<close> have "i - k = Suc (i - Suc k)" by simp
  ultimately show ?case by simp
qed simp_all

lemma ptr_array_put_reuse:
  assumes wf: "ptr_array_wf a" and i: "first_null (pa_data a) 0 = Some i"
  shows "ptr_array_put a p = Some (of_nat i, a\<lparr>pa_data := (pa_data a)[i := Some p]\<rparr>)"
    and "ptr_array_live a (of_nat i) = None"
    and "ptr_array_live (a\<lparr>pa_data := (pa_data a)[i := Some p]\<rparr>) = (ptr_array_live a)(of_nat i \<mapsto> p)"
proof -
  from first_null_Some [OF i] have lt: "i < length (pa_data a)" and nth: "pa_data a ! i = None"
    by simp_all
  with wf have u: "unat (of_nat i :: u32) = i"
    by (simp add: ptr_array_wf_def unat_of_nat_u32)
  show "ptr_array_put a p = Some (of_nat i, a\<lparr>pa_data := (pa_data a)[i := Some p]\<rparr>)"
    using i by (simp add: ptr_array_put_def)
  show "ptr_array_live a (of_nat i) = None" using nth u by (simp add: ptr_array_live_def)
  show "ptr_array_live (a\<lparr>pa_data := (pa_data a)[i := Some p]\<rparr>) = (ptr_array_live a)(of_nat i \<mapsto> p)"
  proof
    fix j :: u32
    show "ptr_array_live (a\<lparr>pa_data := (pa_data a)[i := Some p]\<rparr>) j
        = ((ptr_array_live a)(of_nat i \<mapsto> p)) j"
      using lt u by (auto simp: ptr_array_live_def nth_list_update word_unat_eq_iff)
  qed
qed

lemma ptr_array_put_grow:
  assumes wf: "ptr_array_wf a" and room: "ptr_array_room a" and full: "first_null (pa_data a) 0 = None"
  shows "\<exists>a'. ptr_array_put a p = Some (pa_size a, a') \<and> ptr_array_wf a'
     \<and> pa_data a' = pa_data a @ [Some p]"
proof -
  have inc: "unat (pa_size a + 1) = unat (pa_size a) + 1"
    using room by (simp add: ptr_array_room_def UINT_MAX_def unat_inc)
  let ?n = "if pa_size a = pa_allocated_size a
      then (if pa_allocated_size a = 0 then 4 else pa_allocated_size a * 2) else pa_allocated_size a"
  have lt: "pa_size a < ?n"
  proof (cases "pa_size a = pa_allocated_size a")
    case True
    have "unat (pa_size a * 2) = unat (pa_size a) * 2"
      using room by (simp add: ptr_array_room_def unat_word_ariths)
    with True show ?thesis
      by (auto simp: word_less_nat_alt unat_gt_0)
  next
    case False
    with wf show ?thesis by (auto simp: ptr_array_wf_def)
  qed
  then have le: "pa_size a + 1 \<le> ?n"
    using inc by (simp only: word_le_nat_alt word_less_nat_alt)
  let ?a = "a\<lparr>pa_allocated_size := ?n, pa_size := pa_size a + 1, pa_data := pa_data a @ [Some p]\<rparr>"
  have "ptr_array_put a p = Some (pa_size a, ?a)"
    using full lt by (cases "pa_size a = pa_allocated_size a") (simp_all add: ptr_array_put_def Let_def)
  moreover have "ptr_array_wf ?a"
    using wf le inc by (simp add: ptr_array_wf_def)
  ultimately show ?thesis by auto
qed

lemma ptr_array_put_live:
  assumes wf: "ptr_array_wf a" and room: "ptr_array_room a"
  shows "\<exists>i a'. ptr_array_put a p = Some (i, a') \<and> ptr_array_wf a' \<and> ptr_array_live a i = None
     \<and> ptr_array_live a' = (ptr_array_live a)(i \<mapsto> p)"
proof (cases "first_null (pa_data a) 0")
  case None
  from ptr_array_put_grow [OF wf room None, of p] obtain a' where
    a': "ptr_array_put a p = Some (pa_size a, a')" "ptr_array_wf a'" "pa_data a' = pa_data a @ [Some p]"
    by blast
  have len: "length (pa_data a) = unat (pa_size a)" using wf by (simp add: ptr_array_wf_def)
  have "ptr_array_live a' = (ptr_array_live a)(pa_size a \<mapsto> p)"
    using a'(3) len by (auto simp: ptr_array_live_def fun_eq_iff nth_append word_unat_eq_iff)
  with a' len show ?thesis by (auto simp: ptr_array_live_def)
next
  case (Some i)
  with ptr_array_put_reuse [OF wf Some] wf show ?thesis by (fastforce simp: ptr_array_wf_def)
qed

section \<open>The interface\<close>

locale slots =
  fixes new :: 'arr
    and put :: "'arr \<Rightarrow> 'a \<Rightarrow> (u32 \<times> 'arr) option"
    and get :: "'arr \<Rightarrow> u32 \<Rightarrow> 'a option option"
    and set_slot :: "'arr \<Rightarrow> u32 \<Rightarrow> 'a option \<Rightarrow> 'arr option"
    and wf :: "'arr \<Rightarrow> bool"
    and room :: "'arr \<Rightarrow> bool"
    and live :: "'arr \<Rightarrow> u32 \<Rightarrow> 'a option"
  assumes wf_new: "wf new"
    and live_new: "live new = Map.empty"
    and put_fresh: "wf a \<Longrightarrow> room a \<Longrightarrow>
      \<exists>i a'. put a x = Some (i, a') \<and> wf a' \<and> live a i = None \<and> live a' = (live a)(i \<mapsto> x)"
    and get_live: "wf a \<Longrightarrow> live a i = Some v \<Longrightarrow> get a i = Some (Some v)"
    and set_live: "wf a \<Longrightarrow> live a i = Some v \<Longrightarrow>
      \<exists>a'. set_slot a i p = Some a' \<and> wf a' \<and> live a' = (live a)(i := p)"
begin

text \<open>A request keeps its slot whatever other requests are opened.\<close>

lemma put_other:
  assumes "wf a" "room a" "live a j = Some w"
  shows "\<exists>i a'. put a p = Some (i, a') \<and> wf a' \<and> i \<noteq> j \<and> get a' i = Some (Some p)
    \<and> get a' j = Some (Some w)"
proof -
  from put_fresh [OF assms(1,2)] obtain i a' where
    *: "put a p = Some (i, a')" "wf a'" "live a i = None" "live a' = (live a)(i \<mapsto> p)" by blast
  then have "i \<noteq> j" using assms(3) by auto
  moreover have "get a' i = Some (Some p)" using * by (simp add: get_live)
  moreover have "get a' j = Some (Some w)" using * \<open>i \<noteq> j\<close> assms(3) by (simp add: get_live)
  ultimately show ?thesis using * by blast
qed

text \<open>Opening a request, updating its slot and releasing it leaves the others as they were.\<close>

lemma put_set_release:
  assumes "wf a" "room a"
  shows "\<exists>i a1 a2 a3. put a p = Some (i, a1) \<and> set_slot a1 i (Some p') = Some a2
    \<and> get a2 i = Some (Some p') \<and> set_slot a2 i None = Some a3 \<and> live a3 = live a"
proof -
  from put_fresh [OF assms] obtain i a1 where
    1: "put a p = Some (i, a1)" "wf a1" "live a i = None" "live a1 = (live a)(i \<mapsto> p)" by blast
  from 1 set_live [of a1 i p "Some p'"] obtain a2 where
    2: "set_slot a1 i (Some p') = Some a2" "wf a2" "live a2 = (live a1)(i := Some p')" by auto
  from 2 set_live [of a2 i p' None] obtain a3 where
    3: "set_slot a2 i None = Some a3" "live a3 = (live a2)(i := None)" by auto
  have "live a3 = live a" using 1 2 3 by auto
  with 1 2 3 show ?thesis by (auto intro: get_live)
qed

end

lemma ptr_array_set_of_live:
  "ptr_array_wf a \<Longrightarrow> ptr_array_live a i = Some v \<Longrightarrow>
   \<exists>a'. ptr_array_set a i p = Some a' \<and> ptr_array_wf a' \<and> ptr_array_live a' = (ptr_array_live a)(i := p)"
  using live_in_range ptr_array_set_live by metis

interpretation pa: slots ptr_array_init ptr_array_put ptr_array_get ptr_array_set ptr_array_wf
  ptr_array_room ptr_array_live
  by unfold_locales
    (fact ptr_array_wf_init ptr_array_live_init ptr_array_put_live ptr_array_get_live
      ptr_array_set_of_live)+

section \<open>Correctness\<close>

text \<open>C33: opening a request succeeds, also on the empty array: it takes a slot that no request in flight
  uses, the new request is found under its identifier, every other one is still found under its own, and
  releasing the new one gives back the array as it was seen before.\<close>

theorem ptr_array_fresh_slot:
  assumes "ptr_array_wf a" and "ptr_array_room a"
  shows "\<exists>i a' a''. ptr_array_put a p = Some (i, a') \<and> ptr_array_wf a' \<and> ptr_array_live a i = None \<and>
     ptr_array_get a' i = Some (Some p) \<and>
     (\<forall>j w. ptr_array_live a j = Some w \<longrightarrow> i \<noteq> j \<and> ptr_array_get a' j = Some (Some w)) \<and>
     ptr_array_set a' i None = Some a'' \<and> ptr_array_wf a'' \<and> ptr_array_live a'' = ptr_array_live a"
proof -
  from pa.put_fresh [OF assms] obtain i a' where
    1: "ptr_array_put a p = Some (i, a')" "ptr_array_wf a'" "ptr_array_live a i = None"
      "ptr_array_live a' = (ptr_array_live a)(i \<mapsto> p)" by blast
  from pa.set_live [of a' i p None] 1 obtain a'' where
    2: "ptr_array_set a' i None = Some a''" "ptr_array_wf a''" "ptr_array_live a'' = ptr_array_live a"
    by (auto simp: fun_upd_idem)
  have "i \<noteq> j \<and> ptr_array_get a' j = Some (Some w)" if "ptr_array_live a j = Some w" for j w
  proof -
    have "i \<noteq> j" using 1(3) that by auto
    with 1 that show ?thesis by (auto intro: pa.get_live)
  qed
  with 1 2 show ?thesis by (auto intro: pa.get_live)
qed

theorem ptr_array_fresh_slot_witness:
  "(\<exists>i a' a''. ptr_array_put ptr_array_init (8::nat) = Some (i, a') \<and> ptr_array_get a' i = Some (Some 8) \<and>
     ptr_array_set a' i None = Some a'' \<and> ptr_array_live a'' = ptr_array_live ptr_array_init) \<and>
   (\<exists>i a'. ptr_array_put \<lparr>pa_size = 2, pa_allocated_size = 4, pa_data = [None, Some 7]\<rparr> (8::nat) = Some (i, a') \<and>
     i \<noteq> 1 \<and> ptr_array_get a' i = Some (Some 8) \<and> ptr_array_get a' 1 = Some (Some 7))"
proof
  have "ptr_array_room ptr_array_init" by (simp add: ptr_array_room_def ptr_array_init_def)
  from ptr_array_fresh_slot [OF ptr_array_wf_init this, of "8::nat"]
  show "\<exists>i a' a''. ptr_array_put ptr_array_init (8::nat) = Some (i, a') \<and> ptr_array_get a' i = Some (Some 8) \<and>
     ptr_array_set a' i None = Some a'' \<and> ptr_array_live a'' = ptr_array_live ptr_array_init" by blast
  let ?a = "\<lparr>pa_size = 2, pa_allocated_size = 4, pa_data = [None, Some (7::nat)]\<rparr>"
  have "ptr_array_wf ?a" "ptr_array_room ?a" "ptr_array_live ?a 1 = Some 7"
    by (simp_all add: ptr_array_wf_def ptr_array_room_def ptr_array_live_def)
  with ptr_array_fresh_slot [of ?a 8]
  show "\<exists>i a'. ptr_array_put ?a 8 = Some (i, a') \<and> i \<noteq> 1 \<and> ptr_array_get a' i = Some (Some 8) \<and>
     ptr_array_get a' 1 = Some (Some 7)" by blast
qed

end
