(* ===== verification/Queue.thy ===== *)
theory Queue
  imports Linked
begin

text \<open>
  The FIFO queue of \<open>src/queue.c\<close>: a linked list of heap cells with a head and a tail pointer. The
  cells of a queue belong to it alone, so the store is part of the queue; \<open>q_fresh\<close> is the address
  the next \<open>malloc\<close> returns. A dequeue or a peek of an empty queue returns the NULL pointer.

  The locale \<open>fifo\<close> is the interface the clients rely on; the pointer structure is an
  interpretation of it.
\<close>

record 'a queue_elem =
  elem_next :: ptr
  elem_data :: 'a

record 'a queue =
  q_heap :: "addr \<rightharpoonup> 'a queue_elem"
  q_fresh :: addr
  q_head :: ptr
  q_tail :: ptr

definition queue_new :: "'a queue" where
  "queue_new = \<lparr>q_heap = Map.empty, q_fresh = 0, q_head = None, q_tail = None\<rparr>"

definition queue_enqueue :: "'a queue \<Rightarrow> 'a \<Rightarrow> 'a queue option" where
  "queue_enqueue q data =
     (let a = q_fresh q;
          h = (q_heap q)(a \<mapsto> \<lparr>elem_next = None, elem_data = data\<rparr>)
      in do {
        h \<leftarrow> (case q_tail q of
                None \<Rightarrow> Some h
              | Some t \<Rightarrow> do { e \<leftarrow> h t; Some (h(t \<mapsto> e\<lparr>elem_next := Some a\<rparr>)) });
        Some (q\<lparr>q_heap := h, q_fresh := a + 1, q_tail := Some a,
                q_head := (if q_head q = None then Some a else q_head q)\<rparr>)
      })"

definition queue_dequeue :: "'a queue \<Rightarrow> ('a option \<times> 'a queue) option" where
  "queue_dequeue q =
     (case q_head q of
        None \<Rightarrow> Some (None, q)
      | Some a \<Rightarrow> do {
          e \<leftarrow> q_heap q a;
          let q = (if elem_next e = None then q\<lparr>q_head := None, q_tail := None\<rparr>
                   else q\<lparr>q_head := elem_next e\<rparr>);
          Some (Some (elem_data e), q\<lparr>q_heap := (q_heap q)(a := None)\<rparr>)
        })"

definition queue_peek :: "'a queue \<Rightarrow> 'a option option" where
  "queue_peek q =
     (case q_head q of
        None \<Rightarrow> Some None
      | Some a \<Rightarrow> do { e \<leftarrow> q_heap q a; Some (Some (elem_data e)) })"

definition queue_is_empty :: "'a queue \<Rightarrow> bool" where
  "queue_is_empty q \<longleftrightarrow> q_head q = None"

section \<open>What the structure represents\<close>

definition queue_repr_at :: "'a queue \<Rightarrow> addr list \<Rightarrow> 'a list \<Rightarrow> bool" where
  "queue_repr_at q as xs \<longleftrightarrow>
     chain elem_next (q_heap q) (q_head q) as \<and> distinct as \<and>
     map (\<lambda>a. elem_data (the (q_heap q a))) as = xs \<and>
     q_tail q = (if as = [] then None else Some (last as)) \<and>
     (\<forall>a \<in> dom (q_heap q). a < q_fresh q)"

definition queue_repr :: "'a queue \<Rightarrow> 'a list \<Rightarrow> bool" where
  "queue_repr q xs \<longleftrightarrow> (\<exists>as. queue_repr_at q as xs)"

lemma queue_repr_atI:
  "chain elem_next (q_heap q) (q_head q) as \<Longrightarrow> distinct as \<Longrightarrow>
   map (\<lambda>a. elem_data (the (q_heap q a))) as = xs \<Longrightarrow>
   q_tail q = (if as = [] then None else Some (last as)) \<Longrightarrow>
   (\<And>a. a \<in> dom (q_heap q) \<Longrightarrow> a < q_fresh q) \<Longrightarrow> queue_repr_at q as xs"
  by (simp add: queue_repr_at_def)

lemma queue_repr_at_fresh: "queue_repr_at q as xs \<Longrightarrow> q_fresh q \<notin> set as"
  by (auto simp: queue_repr_at_def dest: chain_allocated)

lemma queue_new_repr: "queue_repr queue_new []"
  unfolding queue_repr_def
  by (rule exI [of _ "[]"]) (simp add: queue_repr_at_def queue_new_def)

lemma queue_enqueue_empty:
  "queue_repr_at q [] xs \<Longrightarrow> \<exists>q'. queue_enqueue q x = Some q' \<and> queue_repr_at q' [q_fresh q] (xs @ [x])"
  by (auto simp: queue_repr_at_def queue_enqueue_def Let_def dest: less_SucI)

lemma queue_enqueue_snoc:
  assumes "queue_repr_at q (as @ [a]) xs"
  shows "\<exists>q'. queue_enqueue q x = Some q' \<and> queue_repr_at q' (as @ [a, q_fresh q]) (xs @ [x])"
proof -
  from assms have ch: "chain elem_next (q_heap q) (q_head q) (as @ [a])"
    and dist: "distinct (as @ [a])" and tl: "q_tail q = Some a"
    and bound: "\<forall>a \<in> dom (q_heap q). a < q_fresh q"
    and xs: "xs = map (\<lambda>a. elem_data (the (q_heap q a))) (as @ [a])"
    by (auto simp: queue_repr_at_def)
  from assms have fresh: "q_fresh q \<notin> set (as @ [a])" by (rule queue_repr_at_fresh)
  from ch obtain e where e: "q_heap q a = Some e"
    using chain_last_allocated [OF ch] by auto
  from ch have hd: "q_head q \<noteq> None" by (cases as) auto
  let ?h = "(q_heap q)(a \<mapsto> e\<lparr>elem_next := Some (q_fresh q)\<rparr>,
              q_fresh q \<mapsto> \<lparr>elem_next = None, elem_data = x\<rparr>)"
  have heap_eq: "(q_heap q)(q_fresh q \<mapsto> \<lparr>elem_next = None, elem_data = x\<rparr>,
      a \<mapsto> e\<lparr>elem_next := Some (q_fresh q)\<rparr>) = ?h"
    using fresh by (auto simp: fun_upd_twist)
  let ?q = "q\<lparr>q_heap := ?h, q_fresh := q_fresh q + 1, q_tail := Some (q_fresh q)\<rparr>"
  have "queue_enqueue q x = Some ?q"
    using fresh e hd tl heap_eq by (auto simp: queue_enqueue_def Let_def)
  moreover have "queue_repr_at ?q (as @ [a, q_fresh q]) (xs @ [x])"
  proof (rule queue_repr_atI)
    show "chain elem_next (q_heap ?q) (q_head ?q) (as @ [a, q_fresh q])"
      using chain_snoc [OF ch dist fresh] by simp
    show "map (\<lambda>a. elem_data (the (q_heap ?q a))) (as @ [a, q_fresh q]) = xs @ [x]"
      using dist fresh e by (auto simp: xs intro!: map_cong)
    show "\<And>b. b \<in> dom (q_heap ?q) \<Longrightarrow> b < q_fresh ?q"
      using bound e by (auto split: if_splits dest: less_SucI)
  qed (use dist fresh in auto)
  ultimately show ?thesis by blast
qed

lemma queue_enqueue_repr:
  assumes "queue_repr q xs"
  shows "\<exists>q'. queue_enqueue q x = Some q' \<and> queue_repr q' (xs @ [x])"
proof -
  from assms obtain as where as: "queue_repr_at q as xs" by (auto simp: queue_repr_def)
  show ?thesis
  proof (cases as rule: rev_cases)
    case Nil
    with as queue_enqueue_empty [of q xs x] show ?thesis by (auto simp: queue_repr_def)
  next
    case (snoc bs a)
    with as queue_enqueue_snoc [of q bs a xs x] show ?thesis by (auto simp: queue_repr_def)
  qed
qed

lemma queue_dequeue_Nil: "queue_repr q [] \<Longrightarrow> queue_dequeue q = Some (None, q)"
  by (auto simp: queue_repr_def queue_repr_at_def queue_dequeue_def)

lemma queue_dequeue_Cons:
  assumes "queue_repr q (x # xs)"
  shows "\<exists>q'. queue_dequeue q = Some (Some x, q') \<and> queue_repr q' xs"
proof -
  from assms obtain a as where r: "queue_repr_at q (a # as) (x # xs)"
    by (auto simp: queue_repr_def queue_repr_at_def Cons_eq_map_conv)
  then obtain e where hd: "q_head q = Some a" and e: "q_heap q a = Some e"
    and x: "x = elem_data e" and ch: "chain elem_next (q_heap q) (elem_next e) as"
    and a: "a \<notin> set as" and d: "distinct as"
    by (auto simp: queue_repr_at_def)
  let ?q = "(if elem_next e = None then q\<lparr>q_head := None, q_tail := None\<rparr>
             else q\<lparr>q_head := elem_next e\<rparr>)\<lparr>q_heap := (q_heap q)(a := None)\<rparr>"
  have "queue_dequeue q = Some (Some x, ?q)"
    using hd e x by (simp add: queue_dequeue_def)
  moreover have "queue_repr_at ?q as xs"
  proof (rule queue_repr_atI)
    show "chain elem_next (q_heap ?q) (q_head ?q) as" using ch a by auto
    show "map (\<lambda>a. elem_data (the (q_heap ?q a))) as = xs"
      using r a by (auto simp: queue_repr_at_def intro!: map_cong)
    show "q_tail ?q = (if as = [] then None else Some (last as))"
      using r ch by (cases as) (auto simp: queue_repr_at_def)
    show "\<And>b. b \<in> dom (q_heap ?q) \<Longrightarrow> b < q_fresh ?q"
      using r by (auto simp: queue_repr_at_def split: if_splits)
  qed (rule d)
  ultimately show ?thesis by (auto simp: queue_repr_def)
qed

lemma queue_peek_repr: "queue_repr q xs \<Longrightarrow> queue_peek q = Some (if xs = [] then None else Some (hd xs))"
  by (cases xs) (auto simp: queue_repr_def queue_repr_at_def queue_peek_def Cons_eq_map_conv)

lemma queue_is_empty_repr: "queue_repr q xs \<Longrightarrow> queue_is_empty q \<longleftrightarrow> xs = []"
  by (cases xs) (auto simp: queue_repr_def queue_repr_at_def queue_is_empty_def Cons_eq_map_conv)

lemma queue_repr_unique: "queue_repr q xs \<Longrightarrow> queue_repr q ys \<Longrightarrow> xs = ys"
  by (auto simp: queue_repr_def queue_repr_at_def dest: chain_unique)

section \<open>Sequences of operations\<close>

datatype 'a queue_op = Enqueue 'a | Dequeue

text \<open>What the dequeues of a sequence return, for any implementation and for a list.\<close>

fun queue_run ::
  "('q \<Rightarrow> 'a \<Rightarrow> 'q option) \<Rightarrow> ('q \<Rightarrow> ('a option \<times> 'q) option) \<Rightarrow> 'a queue_op list \<Rightarrow> 'q \<Rightarrow> ('a option list \<times> 'q) option" where
  "queue_run enq deq [] q = Some ([], q)"
| "queue_run enq deq (Enqueue x # ops) q = do { q \<leftarrow> enq q x; queue_run enq deq ops q }"
| "queue_run enq deq (Dequeue # ops) q = do {
     (r, q) \<leftarrow> deq q;
     (rs, q) \<leftarrow> queue_run enq deq ops q;
     Some (r # rs, q)
   }"

fun list_run :: "'a queue_op list \<Rightarrow> 'a list \<Rightarrow> 'a option list \<times> 'a list" where
  "list_run [] xs = ([], xs)"
| "list_run (Enqueue x # ops) xs = list_run ops (xs @ [x])"
| "list_run (Dequeue # ops) [] = (let (rs, ys) = list_run ops [] in (None # rs, ys))"
| "list_run (Dequeue # ops) (x # xs) = (let (rs, ys) = list_run ops xs in (Some x # rs, ys))"

section \<open>The interface\<close>

locale fifo =
  fixes new :: 'q
    and enq :: "'q \<Rightarrow> 'a \<Rightarrow> 'q option"
    and deq :: "'q \<Rightarrow> ('a option \<times> 'q) option"
    and peek :: "'q \<Rightarrow> 'a option option"
    and is_empty :: "'q \<Rightarrow> bool"
    and repr :: "'q \<Rightarrow> 'a list \<Rightarrow> bool"
  assumes repr_new: "repr new []"
    and repr_enq: "repr q xs \<Longrightarrow> \<exists>q'. enq q x = Some q' \<and> repr q' (xs @ [x])"
    and deq_Nil: "repr q [] \<Longrightarrow> deq q = Some (None, q)"
    and deq_Cons: "repr q (x # xs) \<Longrightarrow> \<exists>q'. deq q = Some (Some x, q') \<and> repr q' xs"
    and peek_repr: "repr q xs \<Longrightarrow> peek q = Some (if xs = [] then None else Some (hd xs))"
    and is_empty_repr: "repr q xs \<Longrightarrow> is_empty q \<longleftrightarrow> xs = []"
    and repr_unique: "repr q xs \<Longrightarrow> repr q ys \<Longrightarrow> xs = ys"
begin

text \<open>The structure answers every sequence of operations as the list does.\<close>

lemma run_refines:
  "repr q xs \<Longrightarrow> \<exists>q'. queue_run enq deq ops q = Some (fst (list_run ops xs), q') \<and> repr q' (snd (list_run ops xs))"
proof (induction ops arbitrary: q xs)
  case Nil
  then show ?case by simp
next
  case (Cons op ops)
  show ?case
  proof (cases op)
    case (Enqueue x)
    with repr_enq [OF Cons.prems] obtain q' where "enq q x = Some q'" "repr q' (xs @ [x])" by blast
    with Cons.IH [of q' "xs @ [x]"] Enqueue show ?thesis by auto
  next
    case Dequeue
    show ?thesis
    proof (cases xs)
      case Nil
      with Cons.IH [OF Cons.prems] Cons.prems deq_Nil Dequeue show ?thesis
        by (auto simp: split_beta)
    next
      case (Cons x ys)
      with deq_Cons Cons.prems obtain q' where "deq q = Some (Some x, q')" "repr q' ys" by blast
      with Cons.IH [of q' ys] Cons Dequeue show ?thesis by (auto simp: split_beta)
    qed
  qed
qed

end

interpretation qf: fifo queue_new queue_enqueue queue_dequeue queue_peek queue_is_empty queue_repr
  by unfold_locales
    (auto intro: queue_new_repr queue_enqueue_repr queue_dequeue_Nil queue_dequeue_Cons
       queue_repr_unique simp: queue_is_empty_repr queue_peek_repr)

section \<open>Correctness\<close>

text \<open>C31: whatever sequence of enqueues and dequeues is applied to a new queue, the pointer structure
  never fails, every dequeue returns what a first-in first-out list returns (NULL when it is empty), and
  the structure ends up representing that list.\<close>

theorem queue_refines_list:
  "\<exists>q. queue_run queue_enqueue queue_dequeue ops queue_new = Some (fst (list_run ops []), q) \<and>
     queue_repr q (snd (list_run ops []))"
  by (rule qf.run_refines [OF queue_new_repr])

end
