(* ===== verification/Gr_State.thy ===== *)
theory Gr_State
  imports Server Ptr_Array Queue
begin

text \<open>
  The messages (\<open>src/messages/gr.h\<close>, \<open>src/messages/gr.c\<close>) and the server state
  (\<open>src/server/protocols/gr/gr.h\<close> and the structs of its siblings) of the GentleRain protocol.

  A message struct is a record that extends the header \<open>message\<close>; the array that trails a struct in
  its buffer is a list. The functions \<open>*_new\<close> that the macros of \<open>src/messages/macros.h\<close> define set
  the two sizes; the other fields, which the C code leaves uninitialised, are zero until they are
  assigned. The sizes are those of the structs on a 64-bit machine.
\<close>

section \<open>Messages\<close>

definition GR_SIMULATED_VALUE_SIZE :: nat where
  "GR_SIMULATED_VALUE_SIZE = 64"

definition sizeof_gr_value :: nat where
  "sizeof_gr_value = 1"

definition sizeof_gr_tsp :: nat where
  "sizeof_gr_tsp = 8"

definition sizeof_gr_key :: nat where
  "sizeof_gr_key = 8"

definition sizeof_uint :: nat where
  "sizeof_uint = 4"

record gr_get_request = message +
  getq_client_lpid :: lpid_t
  getq_proxy_lpid :: lpid_t
  getq_key :: gr_key
  getq_gst :: gr_tsp

record gr_get_response = message +
  getr_client_lpid :: lpid_t
  getr_gst :: gr_tsp
  getr_update_timestamp :: gr_tsp
  getr_value :: gr_value

record gr_put_request = message +
  putq_client_lpid :: lpid_t
  putq_proxy_lpid :: lpid_t
  putq_key :: gr_key
  putq_value :: gr_value
  putq_dependency_time :: gr_tsp

record gr_put_response = message +
  putr_client_lpid :: lpid_t
  putr_update_timestamp :: gr_tsp

record gr_replica_update = message +
  ru_key :: gr_key
  ru_value :: gr_value
  ru_update_time :: gr_tsp
  ru_update_time_no_skew :: gr_tsp
  ru_source_replica :: replica_t
  ru_previous_update_time :: gr_tsp
  ru_previous_source_replica :: replica_t

record gr_gst_from_root = message +
  gfr_gst :: gr_tsp

record gr_heartbeat = message +
  hb_replica :: replica_t
  hb_time :: gr_tsp

record gr_lst_from_leaf = message +
  lfl_leaf_partition_id :: u32
  lfl_lst :: gr_tsp

record gr_get_snapshot_request = message +
  snq_request_id :: u32
  snq_client_lpid :: lpid_t
  snq_gst :: gr_tsp
  snq_num_keys :: u32
  snq_keys :: "gr_key list"

record gr_get_snapshot_response = message +
  snr_request_id :: u32
  snr_gst :: gr_tsp
  snr_update_timestamp :: gr_tsp
  snr_num_values :: u32
  snr_values :: "gr_value list"

record gr_slice_request = message +
  slq_from_lpid :: lpid_t
  slq_snapshot_time :: gr_tsp
  slq_snapshot_id :: u32
  slq_key :: gr_key
  slq_key_id :: u32

record gr_slice_response = message +
  slr_snapshot_id :: u32
  slr_value :: gr_value
  slr_update_time :: gr_tsp
  slr_gst :: gr_tsp
  slr_key_id :: u32

record gr_get_rotx_request = message +
  rxq_client_lpid :: lpid_t
  rxq_dependency_time :: gr_tsp
  rxq_num_keys :: u32
  rxq_gst :: gr_tsp
  rxq_keys :: "gr_key list"

record gr_get_rotx_response = message +
  rxr_num_values :: u32
  rxr_gst :: gr_tsp
  rxr_update_timestamp :: gr_tsp
  rxr_values :: "gr_value list"

definition gr_get_request_new :: gr_get_request where
  "gr_get_request_new =
     \<lparr>m_size = 40, simulated_size = 40, getq_client_lpid = 0, getq_proxy_lpid = 0, getq_key = 0, getq_gst = 0\<rparr>"

definition gr_get_response_new :: gr_get_response where
  "gr_get_response_new =
     \<lparr>m_size = 48, simulated_size = 48 + (GR_SIMULATED_VALUE_SIZE - sizeof_gr_value),
      getr_client_lpid = 0, getr_gst = 0, getr_update_timestamp = 0, getr_value = 0\<rparr>"

definition gr_put_request_new :: gr_put_request where
  "gr_put_request_new =
     \<lparr>m_size = 48, simulated_size = 48 + (GR_SIMULATED_VALUE_SIZE - sizeof_gr_value),
      putq_client_lpid = 0, putq_proxy_lpid = 0, putq_key = 0, putq_value = 0, putq_dependency_time = 0\<rparr>"

definition sizeof_gr_put_response :: nat where
  "sizeof_gr_put_response = 32"

definition gr_put_response_new :: gr_put_response where
  "gr_put_response_new =
     \<lparr>m_size = sizeof_gr_put_response, simulated_size = sizeof_gr_put_response,
      putr_client_lpid = 0, putr_update_timestamp = 0\<rparr>"

definition gr_replica_update_new :: gr_replica_update where
  "gr_replica_update_new =
     \<lparr>m_size = 72, simulated_size = 72 + (GR_SIMULATED_VALUE_SIZE - sizeof_gr_value - sizeof_gr_tsp),
      ru_key = 0, ru_value = 0, ru_update_time = 0, ru_update_time_no_skew = 0, ru_source_replica = 0,
      ru_previous_update_time = 0, ru_previous_source_replica = 0\<rparr>"

definition gr_slice_request_new :: gr_slice_request where
  "gr_slice_request_new =
     \<lparr>m_size = 56, simulated_size = 56, slq_from_lpid = 0, slq_snapshot_time = 0, slq_snapshot_id = 0,
      slq_key = 0, slq_key_id = 0\<rparr>"

definition gr_slice_response_new :: gr_slice_response where
  "gr_slice_response_new =
     \<lparr>m_size = 48, simulated_size = 48 + (GR_SIMULATED_VALUE_SIZE - sizeof_gr_value),
      slr_snapshot_id = 0, slr_value = 0, slr_update_time = 0, slr_gst = 0, slr_key_id = 0\<rparr>"

definition gr_get_snapshot_request_new :: "u32 \<Rightarrow> gr_get_snapshot_request" where
  "gr_get_snapshot_request_new num_keys =
     \<lparr>m_size = 40 + unat num_keys * sizeof_gr_key, simulated_size = 40 + unat num_keys * sizeof_gr_key,
      snq_request_id = 0, snq_client_lpid = 0, snq_gst = 0, snq_num_keys = num_keys,
      snq_keys = replicate (unat num_keys) 0\<rparr>"

definition gr_get_snapshot_response_new :: "u32 \<Rightarrow> gr_get_snapshot_response" where
  "gr_get_snapshot_response_new num_values =
     \<lparr>m_size = 48 + unat num_values * sizeof_gr_value,
      simulated_size = 48 + unat num_values * GR_SIMULATED_VALUE_SIZE,
      snr_request_id = 0, snr_gst = 0, snr_update_timestamp = 0, snr_num_values = num_values,
      snr_values = replicate (unat num_values) 0\<rparr>"

definition gr_get_rotx_request_new :: "u32 \<Rightarrow> gr_get_rotx_request" where
  "gr_get_rotx_request_new num_keys =
     \<lparr>m_size = 48 + unat num_keys * sizeof_gr_key, simulated_size = 48 + unat num_keys * sizeof_gr_key,
      rxq_client_lpid = 0, rxq_dependency_time = 0, rxq_num_keys = num_keys, rxq_gst = 0,
      rxq_keys = replicate (unat num_keys) 0\<rparr>"

definition gr_get_rotx_response_new :: "u32 \<Rightarrow> gr_get_rotx_response" where
  "gr_get_rotx_response_new num_values =
     \<lparr>m_size = 40 + unat num_values * sizeof_gr_value,
      simulated_size = 40 + unat num_values * GR_SIMULATED_VALUE_SIZE,
      rxr_num_values = num_values, rxr_gst = 0, rxr_update_timestamp = 0,
      rxr_values = replicate (unat num_values) 0\<rparr>"

definition gr_gst_from_root_new :: gr_gst_from_root where
  "gr_gst_from_root_new = \<lparr>m_size = 24, simulated_size = 24, gfr_gst = 0\<rparr>"

definition gr_lst_from_leaf_new :: gr_lst_from_leaf where
  "gr_lst_from_leaf_new = \<lparr>m_size = 32, simulated_size = 32, lfl_leaf_partition_id = 0, lfl_lst = 0\<rparr>"

definition sizeof_gr_heartbeat :: nat where
  "sizeof_gr_heartbeat = 32"

definition gr_heartbeat_new :: gr_heartbeat where
  "gr_heartbeat_new =
     \<lparr>m_size = sizeof_gr_heartbeat, simulated_size = sizeof_gr_heartbeat, hb_replica = 0, hb_time = 0\<rparr>"

text \<open>Everything a GentleRain event can carry.\<close>

datatype gr_msg =
    GetRequest gr_get_request
  | GetResponse gr_get_response
  | PutRequest gr_put_request
  | PutResponse gr_put_response
  | ReplicaUpdate gr_replica_update
  | GstFromRoot gr_gst_from_root
  | Heartbeat gr_heartbeat
  | LstFromLeaf gr_lst_from_leaf
  | SnapshotRequest gr_get_snapshot_request
  | SnapshotResponse gr_get_snapshot_response
  | SliceRequest gr_slice_request
  | SliceResponse gr_slice_response
  | RotxRequest gr_get_rotx_request
  | RotxResponse gr_get_rotx_response
  | GetStateMessage u32
  | PutStateMessage u32
  | SnapshotStateMessage u32
  | SendTime bool

section \<open>State\<close>

text \<open>A version of a value; a chain of versions linked by \<open>previous_version\<close> is a list, newest first.\<close>

record gr_item =
  it_value :: gr_value
  it_update_time :: gr_tsp
  it_source_replica :: replica_t

record gr_get_state =
  gs_key :: gr_key
  gs_gst :: gr_tsp
  gs_destination :: lpid_t
  gs_response :: gr_get_response

record gr_put_state =
  ps_key :: gr_key
  ps_value :: gr_value
  ps_response :: gr_put_response
  ps_destination :: lpid_t
  ps_previous_update_time :: simtime
  ps_previous_source_replica :: replica_t
  ps_update_time_no_skew :: gr_tsp
  ps_discarded :: bool

record gr_snapshot_state =
  sn_client_lpid :: lpid_t
  sn_request_id :: u32
  sn_update_time :: gr_tsp
  sn_gst :: gr_tsp
  sn_time :: gr_tsp
  sn_size :: u32
  sn_received_values :: u32
  sn_keys :: "gr_key list"
  sn_values :: "gr_value list"

record gr_rotx_state =
  rx_client_lpid :: lpid_t
  rx_dependency_time :: gr_tsp
  rx_snapshot_request :: gr_get_snapshot_request
  rx_waiting_gst :: bool

record gr_server_state = "(gr_msg, gr_item list) server_state" +
  version_vector :: "gr_tsp list"
  gst :: gr_tsp
  min_lst :: gr_tsp
  lst_received :: "bool list"
  forwarded_get_id :: u32
  forwarded_put_id :: u32
  gr_lock :: u32
  get_states :: "gr_get_state ptr_array"
  put_states :: "gr_put_state ptr_array"
  snapshot_states :: "gr_snapshot_state ptr_array"
  rotx_states :: "gr_rotx_state ptr_array"
  replica_locks :: "u32 list"
  replica_update_queues :: "gr_replica_update queue list"

type_synonym gr_state = gr_server_state

end
