(* ===== verification/Gr_Store.thy ===== *)
theory Gr_Store
  imports Gr_State
begin

text \<open>
  The multi-version store of a GentleRain server: \<open>src/server/protocols/gr/store.c\<close> and the
  statistics of \<open>src/server/protocols/gr/stats.c\<close>. An item of the C store points to its previous
  version; the value stored under a key here is the list of the versions from the newest on.
\<close>

section \<open>Operations\<close>

definition gr_lpid_for_key :: "gr_key \<Rightarrow> gr_state \<Rightarrow> lpid_t option" where
  "gr_lpid_for_key key st = do {
     part \<leftarrow> partition_for_key (sc_cluster (config st)) key;
     cluster_get_lpid (sc_cluster (config st)) (sc_replica (config st)) part
   }"

text \<open>
  The loop of \<open>garbage_collect_item\<close> over the versions after the newest: the first one older than
  the stable time is the last one kept.
\<close>

fun gc_versions :: "gr_tsp \<Rightarrow> gr_item list \<Rightarrow> gr_item list" where
  "gc_versions t [] = []"
| "gc_versions t (item # older) = (if it_update_time item < t then [item] else item # gc_versions t older)"

definition garbage_collect_item :: "gr_tsp \<Rightarrow> gr_item list \<Rightarrow> gr_item list option" where
  "garbage_collect_item t versions =
     (case versions of [] \<Rightarrow> None | newest # older \<Rightarrow> Some (newest # gc_versions t older))"

text \<open>The items are shortened in place: the new chains replace the old ones in the store.\<close>

definition gr_garbage_collect :: "gr_state \<Rightarrow> gr_state option" where
  "gr_garbage_collect st =
     store_foreach_item (store st)
       (\<lambda>key versions st. do {
          versions \<leftarrow> garbage_collect_item (gst st) versions;
          Some (st\<lparr>store := store_put (store st) key versions\<rparr>)
        }) st"

definition gr_is_value_visible :: "gr_state \<Rightarrow> gr_item \<Rightarrow> gr_tsp \<Rightarrow> (bool \<times> gr_state) option" where
  "gr_is_value_visible st item t = do {
     st \<leftarrow> cpu_add_timing st 1 [''gr'', ''is_value_visible_time''];
     Some (it_source_replica item = sc_replica (config st) \<or> it_update_time item \<le> t, st)
   }"

definition gr_always_visible :: "gr_state \<Rightarrow> gr_item \<Rightarrow> gr_tsp \<Rightarrow> (bool \<times> gr_state) option" where
  "gr_always_visible st item t = Some (True, st)"

text \<open>The loop of \<open>gr_get_value_at\<close>: walk the versions until one is visible.\<close>

fun first_visible ::
  "(('p, 'v, 'z) server_state_scheme \<Rightarrow> 'i gr_item_scheme \<Rightarrow> 't \<Rightarrow> (bool \<times> ('p, 'v, 'z) server_state_scheme) option)
   \<Rightarrow> 't \<Rightarrow> 'i gr_item_scheme list \<Rightarrow> ('p, 'v, 'z) server_state_scheme
   \<Rightarrow> ('i gr_item_scheme option \<times> ('p, 'v, 'z) server_state_scheme) option" where
  "first_visible is_visible t [] st = Some (None, st)"
| "first_visible is_visible t (item # older) st = do {
     (visible, st) \<leftarrow> is_visible st item t;
     (if visible then Some (Some item, st)
      else do {
        c_assert (it_source_replica item < num_replicas (sc_cluster (config st)));
        first_visible is_visible t older st
      })
   }"

definition chain_at :: "'i list store \<Rightarrow> gr_key \<Rightarrow> 'i list" where
  "chain_at s key = (case store_get s key of None \<Rightarrow> [] | Some versions \<Rightarrow> versions)"

text \<open>
  The three output parameters are the result; a caller that passes NULL for one ignores it.
\<close>

definition gr_get_value_at ::
  "gr_state \<Rightarrow> gr_key \<Rightarrow> gr_tsp \<Rightarrow> (gr_state \<Rightarrow> gr_item \<Rightarrow> gr_tsp \<Rightarrow> (bool \<times> gr_state) option)
   \<Rightarrow> (gr_value \<times> gr_tsp \<times> replica_t \<times> gr_state) option" where
  "gr_get_value_at st key t is_visible = do {
     l \<leftarrow> gr_lpid_for_key key st;
     c_assert (l = sc_lpid (config st));
     let versions = chain_at (store st) key;
     c_assert (versions = [] \<or> it_source_replica (hd versions) < num_replicas (sc_cluster (config st)));
     (item, st) \<leftarrow> first_visible is_visible t versions st;
     st \<leftarrow> cpu_add_timing st 1 [''gr'', ''get_value_time''];
     (case item of
        None \<Rightarrow> Some (0, 0, 0, st)
      | Some item \<Rightarrow> Some (it_value item, it_update_time item, it_source_replica item, st))
   }"

definition gr_get_value :: "gr_state \<Rightarrow> gr_key \<Rightarrow> (gr_value \<times> gr_tsp \<times> replica_t \<times> gr_state) option" where
  "gr_get_value st key = gr_get_value_at st key (gst st) gr_is_value_visible"

text \<open>\<open>None\<close> as the first component is the NULL result of a discarded update.\<close>

definition gr_put_value ::
  "gr_state \<Rightarrow> gr_key \<Rightarrow> gr_value \<Rightarrow> gr_tsp \<Rightarrow> replica_t \<Rightarrow> (gr_item list option \<times> gr_state) option" where
  "gr_put_value st key value update_time source_replica = do {
     l \<leftarrow> gr_lpid_for_key key st;
     c_assert (l = sc_lpid (config st));
     st \<leftarrow> cpu_add_timing st 1 [''gr'', ''put_value_time''];
     let previous = chain_at (store st) key;
     let item = \<lparr>it_value = value, it_update_time = update_time, it_source_replica = source_replica\<rparr>;
     (if previous \<noteq> [] \<and> update_time < it_update_time (hd previous)
      then Some (None, st)
      else Some (Some (item # previous), st\<lparr>store := store_put (store st) key (item # previous)\<rparr>))
   }"

section \<open>Statistics\<close>

definition gr_stats_get_request :: "gr_state \<Rightarrow> gr_key \<Rightarrow> gr_tsp \<Rightarrow> gr_state option" where
  "gr_stats_get_request st key update_timestamp =
     (if now st < ignore_initial_seconds st then Some st
      else do {
        st \<leftarrow> server_stats_counter_inc st GET_REQUESTS;
        let versions = chain_at (store st) key;
        let latest_update = (if versions = [] then 0 else it_update_time (hd versions));
        server_stats_array_push st VALUE_STALENESS (latest_update - update_timestamp)
      })"

text \<open>The nested function \<open>process_item\<close> of \<open>gr_stats_gst_update\<close>, on the versions of one key.\<close>

fun gst_update_item :: "gr_tsp \<Rightarrow> gr_tsp \<Rightarrow> gr_item list \<Rightarrow> gr_state \<Rightarrow> gr_state option" where
  "gst_update_item old_gst new_gst [] st = Some st"
| "gst_update_item old_gst new_gst (item # older) st = do {
     (visible, st) \<leftarrow> gr_is_value_visible st item old_gst;
     (if visible then Some st
      else do {
        (visible_now, st) \<leftarrow> gr_is_value_visible st item new_gst;
        st \<leftarrow> (if visible_now
               then server_stats_array_push st VISIBILITY_LATENCY (now st - it_update_time item)
               else Some st);
        gst_update_item old_gst new_gst older st
      })
   }"

definition gr_stats_gst_update :: "gr_state \<Rightarrow> gr_tsp \<Rightarrow> gr_tsp \<Rightarrow> gr_state option" where
  "gr_stats_gst_update st old_gst new_gst =
     (if now st < ignore_initial_seconds st then Some st
      else do {
        let saved_time = cpu_elapsed_time st;
        st \<leftarrow> store_foreach_item (store st) (\<lambda>key versions. gst_update_item old_gst new_gst versions) st;
        Some (cpu_set_elapsed_time st saved_time)
      })"

end
