(* ===== verification/Gr_Gst.thy ===== *)
theory Gr_Gst
  imports Gr_Store
begin

text \<open>
  Read-only transactions waiting for the stable time, the computation of the global stable time, and
  heartbeats: \<open>rotx.c\<close>, \<open>gst.c\<close> and \<open>heartbeat.c\<close> of \<open>src/server/protocols/gr/\<close>.
\<close>

section \<open>Read-only transactions\<close>

definition sizeof_gr_rotx_state :: nat where
  "sizeof_gr_rotx_state = 32"

definition gr_rotx_state_new :: "gr_state \<Rightarrow> (u32 \<times> gr_state) option" where
  "gr_rotx_state_new st = do {
     let rotx = \<lparr>rx_client_lpid = 0, rx_dependency_time = 0,
                 rx_snapshot_request = gr_get_snapshot_request_new 0, rx_waiting_gst = False\<rparr>;
     (i, a) \<leftarrow> ptr_array_put (rotx_states st) rotx;
     Some (i, st\<lparr>rotx_states := a\<rparr>)
   }"

text \<open>Reading through the pointer aborts when the slot is empty; \<open>gr_rotx_state_set\<close> writes through it.\<close>

definition gr_rotx_state_get :: "gr_state \<Rightarrow> u32 \<Rightarrow> gr_rotx_state option" where
  "gr_rotx_state_get st i = do { p \<leftarrow> ptr_array_get (rotx_states st) i; p }"

definition gr_rotx_state_set :: "gr_state \<Rightarrow> u32 \<Rightarrow> gr_rotx_state \<Rightarrow> gr_state option" where
  "gr_rotx_state_set st i rotx = do {
     a \<leftarrow> ptr_array_set (rotx_states st) i (Some rotx);
     Some (st\<lparr>rotx_states := a\<rparr>)
   }"

definition gr_rotx_state_free :: "gr_state \<Rightarrow> u32 \<Rightarrow> gr_state option" where
  "gr_rotx_state_free st i = do {
     p \<leftarrow> ptr_array_get (rotx_states st) i;
     a \<leftarrow> ptr_array_set (rotx_states st) i None;
     Some (st\<lparr>rotx_states := a\<rparr>)
   }"

definition gr_send_rotx_snapshot_request :: "gr_state \<Rightarrow> u32 \<Rightarrow> gr_state option" where
  "gr_send_rotx_snapshot_request st i = do {
     rotx \<leftarrow> gr_rotx_state_get st i;
     server_schedule_self st 0 GR_GET_SNAPSHOT_REQUEST
       (Data (SnapshotRequest (rx_snapshot_request rotx))) (m_size (rx_snapshot_request rotx))
   }"

definition gr_process_rotx_request :: "gr_state \<Rightarrow> gr_get_rotx_request \<Rightarrow> gr_state option" where
  "gr_process_rotx_request st request = do {
     st \<leftarrow> build_struct_per_byte_time st
       (sizeof_gr_rotx_state + sizeof_gr_key * unat (rxq_num_keys request));
     (i, st) \<leftarrow> gr_rotx_state_new st;
     rotx \<leftarrow> gr_rotx_state_get st i;
     c_assert (length (rxq_keys request) = unat (rxq_num_keys request));
     let snapshot_request = (gr_get_snapshot_request_new (rxq_num_keys request))
           \<lparr>snq_client_lpid := sc_lpid (config st), snq_gst := rxq_gst request, snq_request_id := i,
            snq_keys := rxq_keys request\<rparr>;
     let rotx = rotx\<lparr>rx_client_lpid := rxq_client_lpid request,
                     rx_dependency_time := rxq_dependency_time request,
                     rx_snapshot_request := snapshot_request\<rparr>;
     st \<leftarrow> build_struct_per_byte_time st (simulated_size snapshot_request);
     (if rxq_dependency_time request \<le> gst st
      then do {
        st \<leftarrow> gr_rotx_state_set st i (rotx\<lparr>rx_waiting_gst := False\<rparr>);
        gr_send_rotx_snapshot_request st i
      }
      else gr_rotx_state_set st i (rotx\<lparr>rx_waiting_gst := True\<rparr>))
   }"

definition gr_process_rotx_snapshot_response ::
  "gr_state \<Rightarrow> gr_get_snapshot_response \<Rightarrow> gr_state option" where
  "gr_process_rotx_snapshot_response st snapshot = do {
     let rotx_id = snr_request_id snapshot;
     rotx \<leftarrow> gr_rotx_state_get st rotx_id;
     c_assert (length (snr_values snapshot) = unat (snr_num_values snapshot));
     let response = (gr_get_rotx_response_new (snr_num_values snapshot))
           \<lparr>rxr_values := snr_values snapshot, rxr_gst := snr_gst snapshot,
            rxr_update_timestamp := snr_update_timestamp snapshot\<rparr>;
     st \<leftarrow> build_struct_per_byte_time st (simulated_size response);
     st \<leftarrow> server_send st (rx_client_lpid rotx) GR_ROTX_RESPONSE response (Data (RotxResponse response));
     st \<leftarrow> server_stats_counter_inc st ROTX_REQUESTS;
     gr_rotx_state_free st rotx_id
   }"

definition rotx_gst_update_callback :: "u32 \<Rightarrow> gr_rotx_state \<Rightarrow> gr_state \<Rightarrow> gr_state option" where
  "rotx_gst_update_callback i rotx st = do {
     st \<leftarrow> cpu_add_timing st 1 [''gr'', ''update_gst_per_rotx_time''];
     (if rx_waiting_gst rotx \<and> rx_dependency_time rotx < gst st
      then do {
        st \<leftarrow> gr_rotx_state_set st i (rotx\<lparr>rx_waiting_gst := False\<rparr>);
        gr_send_rotx_snapshot_request st i
      }
      else Some st)
   }"

definition gr_rotx_on_gst_updated :: "gr_state \<Rightarrow> gr_state option" where
  "gr_rotx_on_gst_updated st = ptr_array_foreach rotx_states rotx_gst_update_callback st"

section \<open>Global stable time\<close>

definition count_lst_received :: "gr_state \<Rightarrow> u32 option" where
  "count_lst_received st =
     foldM (\<lambda>i count. do {
         b \<leftarrow> arr_get (lst_received st) i;
         Some (if b then count + 1 else count)
       }) (idx_upto (tree_fanout (config st))) 0"

definition reset_lst_received :: "gr_state \<Rightarrow> gr_state option" where
  "reset_lst_received st =
     foldM (\<lambda>i st. do {
         l \<leftarrow> arr_set (lst_received st) i False;
         Some (st\<lparr>lst_received := l\<rparr>)
       }) (idx_upto (tree_fanout (config st))) st"

definition min_version_loop :: "gr_tsp list \<Rightarrow> u32 \<Rightarrow> gr_tsp option" where
  "min_version_loop vv n = do {
     v \<leftarrow> arr_get vv 0;
     foldM (\<lambda>i m. do {
         version \<leftarrow> arr_get vv i;
         Some (if version < m then version else m)
       }) (tl (idx_upto n)) v
   }"

definition min_replica_version :: "gr_state \<Rightarrow> (gr_tsp \<times> gr_state) option" where
  "min_replica_version st = do {
     let n = num_replicas (sc_cluster (config st));
     m \<leftarrow> min_version_loop (version_vector st) n;
     st \<leftarrow> cpu_add_timing st (of_nat (unat n)) [''gr'', ''min_replica_version_per_replica_time''];
     Some (m, st)
   }"

definition gr_gst_need_update :: "gr_state \<Rightarrow> gr_tsp \<Rightarrow> (bool \<times> gr_state) option" where
  "gr_gst_need_update st t = do {
     st \<leftarrow> cpu_add_timing st 1 [''gr'', ''check_gst_time''];
     Some (gst st < t, st)
   }"

definition gr_update_gst :: "gr_state \<Rightarrow> gr_tsp \<Rightarrow> gr_state option" where
  "gr_update_gst st t = do {
     st \<leftarrow> cpu_add_timing st 1 [''gr'', ''update_gst_time''];
     (if gst st < t
      then do {
        st \<leftarrow> gr_stats_gst_update st (gst st) t;
        gr_rotx_on_gst_updated (st\<lparr>gst := t\<rparr>)
      }
      else Some st)
   }"

definition gr_send_gst :: "gr_gst_from_root \<Rightarrow> partition_t \<Rightarrow> gr_state \<Rightarrow> gr_state option" where
  "gr_send_gst root_gst part st = do {
     child_lpid \<leftarrow> cluster_get_lpid (sc_cluster (config st)) (sc_replica (config st)) part;
     server_send st child_lpid GR_GST_FROM_ROOT root_gst (Data (GstFromRoot root_gst))
   }"

definition gr_send_gst_to_children :: "gr_state \<Rightarrow> gr_state option" where
  "gr_send_gst_to_children st = do {
     let root_gst = gr_gst_from_root_new\<lparr>gfr_gst := gst st\<rparr>;
     st \<leftarrow> build_struct_per_byte_time st (simulated_size root_gst);
     server_foreach_children_partition (config st) (gr_send_gst root_gst) st
   }"

definition gr_send_lst_to_parent :: "gr_state \<Rightarrow> gr_state option" where
  "gr_send_lst_to_parent st = do {
     c_assert (sc_partition (config st) \<noteq> 0);
     let leaf_lst = gr_lst_from_leaf_new\<lparr>lfl_lst := min_lst st,
                      lfl_leaf_partition_id := sc_partition (config st)\<rparr>;
     st \<leftarrow> build_struct_per_byte_time st (simulated_size leaf_lst);
     st \<leftarrow> reset_lst_received st;
     parent_partition \<leftarrow> server_parent_partition_id (config st);
     parent_lpid \<leftarrow> cluster_get_lpid (sc_cluster (config st)) (sc_replica (config st)) parent_partition;
     server_send st parent_lpid GR_LST_FROM_LEAF leaf_lst (Data (LstFromLeaf leaf_lst))
   }"

definition gr_schedule_gst_computation_start :: "gr_state \<Rightarrow> gr_state option" where
  "gr_schedule_gst_computation_start st = do {
     interval \<leftarrow> parameter_func st [''gr'', ''gst_interval''];
     server_schedule_self st interval GR_START_GST_COMPUTATION NoData 0
   }"

definition gr_process_lst_from_leaf :: "gr_state \<Rightarrow> gr_lst_from_leaf \<Rightarrow> gr_state option" where
  "gr_process_lst_from_leaf st leaf_lst = do {
     c_assert (lfl_leaf_partition_id leaf_lst \<noteq> 0);
     i \<leftarrow> server_child_partition_index (config st) (lfl_leaf_partition_id leaf_lst);
     b \<leftarrow> arr_get (lst_received st) i;
     c_assert (\<not> b);
     received \<leftarrow> count_lst_received st;
     let st = (if received = 0 \<or> lfl_lst leaf_lst < min_lst st then st\<lparr>min_lst := lfl_lst leaf_lst\<rparr> else st);
     st \<leftarrow> cpu_add_timing st 1 [''gr'', ''process_lst_from_leaf_per_replica_time''];
     l \<leftarrow> arr_set (lst_received st) i True;
     let st = st\<lparr>lst_received := l\<rparr>;
     (if received = server_num_children_partitions (config st) - 1
      then do {
        st \<leftarrow> reset_lst_received st;
        (min_version, st) \<leftarrow> min_replica_version st;
        let st = (if min_version < min_lst st then st\<lparr>min_lst := min_version\<rparr> else st);
        st \<leftarrow> cpu_add_timing st 1 [''gr'', ''process_lst_from_leaf_end_per_replica_time''];
        (if sc_partition (config st) = 0
         then cpu_lock_lock st (gr_lock st) GR_LST_FROM_LEAF_ROOT_LOCKED NoData 0
         else gr_send_lst_to_parent st)
      }
      else Some st)
   }"

definition gr_process_lst_from_leaf_root_locked :: "gr_state \<Rightarrow> gr_state option" where
  "gr_process_lst_from_leaf_root_locked st = do {
     st \<leftarrow> gr_update_gst st (min_lst st);
     cpu_lock_unlock st (gr_lock st) GR_LST_FROM_LEAF_ROOT_UNLOCKED NoData 0
   }"

definition gr_process_lst_from_leaf_root_unlocked :: "gr_state \<Rightarrow> gr_state option" where
  "gr_process_lst_from_leaf_root_unlocked st = gr_send_gst_to_children st"

definition gr_process_gst_from_root :: "gr_state \<Rightarrow> gr_gst_from_root \<Rightarrow> gr_state option" where
  "gr_process_gst_from_root st root_gst =
     cpu_lock_lock st (gr_lock st) GR_GST_FROM_ROOT_LOCKED (Data (GstFromRoot root_gst)) (m_size root_gst)"

definition gr_process_gst_from_root_locked :: "gr_state \<Rightarrow> gr_gst_from_root \<Rightarrow> gr_state option" where
  "gr_process_gst_from_root_locked st root_gst = do {
     st \<leftarrow> gr_update_gst st (gfr_gst root_gst);
     cpu_lock_unlock st (gr_lock st) GR_GST_FROM_ROOT_UNLOCKED (Data (GstFromRoot root_gst)) (m_size root_gst)
   }"

definition gr_process_gst_from_root_unlocked :: "gr_state \<Rightarrow> gr_gst_from_root \<Rightarrow> gr_state option" where
  "gr_process_gst_from_root_unlocked st root_gst =
     (if server_is_leaf_partition (config st)
      then gr_schedule_gst_computation_start (cpu_allow_no_time st)
      else server_foreach_children_partition (config st) (gr_send_gst root_gst) st)"

definition gr_process_start_gst_computation :: "gr_state \<Rightarrow> gr_state option" where
  "gr_process_start_gst_computation st = do {
     c_assert (server_is_leaf_partition (config st));
     (if sc_partition (config st) = 0
      then do {
        v \<leftarrow> arr_get (version_vector st) 0;
        st \<leftarrow> gr_update_gst st v;
        gr_schedule_gst_computation_start st
      }
      else do {
        (m, st) \<leftarrow> min_replica_version st;
        let leaf_lst = gr_lst_from_leaf_new\<lparr>lfl_lst := m,
                         lfl_leaf_partition_id := sc_partition (config st)\<rparr>;
        st \<leftarrow> build_struct_per_byte_time st (simulated_size leaf_lst);
        parent_partition \<leftarrow> server_parent_partition_id (config st);
        parent_lpid \<leftarrow> cluster_get_lpid (sc_cluster (config st)) (sc_replica (config st)) parent_partition;
        server_send st parent_lpid GR_LST_FROM_LEAF leaf_lst (Data (LstFromLeaf leaf_lst))
      })
   }"

section \<open>Heartbeats\<close>

definition gr_heartbeat_size :: "gr_heartbeat \<Rightarrow> nat" where
  "gr_heartbeat_size heartbeat = sizeof_gr_heartbeat"

definition gr_process_heartbeat :: "gr_state \<Rightarrow> gr_heartbeat \<Rightarrow> gr_state option" where
  "gr_process_heartbeat st heartbeat = do {
     st \<leftarrow> cpu_add_timing st 1 [''gr'', ''process_heartbeat_time''];
     v \<leftarrow> arr_get (version_vector st) (hb_replica heartbeat);
     (if v < hb_time heartbeat
      then do {
        lock \<leftarrow> arr_get (replica_locks st) (hb_replica heartbeat);
        cpu_lock_lock st lock GR_HEARTBEAT_LOCKED (Data (Heartbeat heartbeat)) (gr_heartbeat_size heartbeat)
      }
      else Some st)
   }"

definition gr_process_heartbeat_locked :: "gr_state \<Rightarrow> gr_heartbeat \<Rightarrow> gr_state option" where
  "gr_process_heartbeat_locked st heartbeat = do {
     st \<leftarrow> cpu_add_timing st 1 [''gr'', ''process_heartbeat_time''];
     v \<leftarrow> arr_get (version_vector st) (hb_replica heartbeat);
     st \<leftarrow> (if v < hb_time heartbeat
            then do {
              vv \<leftarrow> arr_set (version_vector st) (hb_replica heartbeat) (hb_time heartbeat);
              Some (st\<lparr>version_vector := vv\<rparr>)
            }
            else Some st);
     lock \<leftarrow> arr_get (replica_locks st) (hb_replica heartbeat);
     cpu_lock_unlock st lock CPU_NO_EVENT NoData 0
   }"

definition send_heartbeat_message :: "gr_heartbeat \<Rightarrow> lpid_t \<Rightarrow> replica_t \<Rightarrow> gr_state \<Rightarrow> gr_state option" where
  "send_heartbeat_message heartbeat replica_lpid replica st =
     (if replica = sc_replica (config st) then Some st
      else server_send st replica_lpid GR_HEARTBEAT heartbeat (Data (Heartbeat heartbeat)))"

definition gr_send_heartbeat :: "gr_state \<Rightarrow> bool \<Rightarrow> gr_state option" where
  "gr_send_heartbeat st send_time = do {
     let heartbeat = gr_heartbeat_new\<lparr>hb_replica := sc_replica (config st),
                       hb_time := (if send_time then clock st else 0)\<rparr>;
     st \<leftarrow> build_struct_per_byte_time st (simulated_size heartbeat);
     foreach_replica (sc_cluster (config st)) (sc_partition (config st)) (send_heartbeat_message heartbeat) st
   }"

end
