(* ===== verification/Gr_Replication.thy ===== *)
theory Gr_Replication
  imports Gr_Gst
begin

text \<open>
  Replication of updates between the replicas of a partition:
  \<open>src/server/protocols/gr/replication.c\<close>. Updates from one replica wait in a queue, and the one at
  its head is being processed.

  \<open>gr_process_replica_update_work\<close> and \<open>gr_process_replica_update_unlocked\<close> call each other, once for
  each update that is discarded because of a conflict. The model bounds the calls by \<open>fuel\<close>; every
  call removes an update from the queue, so the number of updates ever enqueued (\<open>q_fresh\<close>) plus one
  is enough, which is proved with the properties of the protocol.
\<close>

definition update_conflict :: "'u gr_replica_update_scheme \<Rightarrow> gr_tsp \<Rightarrow> replica_t \<Rightarrow> bool" where
  "update_conflict update update_time source_replica \<longleftrightarrow>
     ru_previous_update_time update \<noteq> update_time \<or> ru_previous_source_replica update \<noteq> source_replica"

definition update_older :: "'u gr_replica_update_scheme \<Rightarrow> gr_tsp \<Rightarrow> replica_t \<Rightarrow> bool" where
  "update_older update update_time source_replica \<longleftrightarrow>
     ru_update_time update < update_time \<or>
     (ru_update_time update = update_time \<and> ru_source_replica update < source_replica)"

text \<open>The part of \<open>gr_process_replica_update_unlocked\<close> that removes the update from its queue.\<close>

definition dequeue_update :: "gr_state \<Rightarrow> gr_replica_update \<Rightarrow> (gr_replica_update queue \<times> gr_state) option" where
  "dequeue_update st update = do {
     q \<leftarrow> arr_get (replica_update_queues st) (ru_source_replica update);
     (enqueued_update, q) \<leftarrow> queue_dequeue q;
     enqueued_update \<leftarrow> enqueued_update;
     c_assert (ru_key enqueued_update = ru_key update);
     c_assert (ru_value enqueued_update = ru_value update);
     c_assert (ru_update_time enqueued_update = ru_update_time update);
     c_assert (ru_source_replica enqueued_update = ru_source_replica update);
     qs \<leftarrow> arr_set (replica_update_queues st) (ru_source_replica update) q;
     Some (q, st\<lparr>replica_update_queues := qs\<rparr>)
   }"

fun gr_process_replica_update_work :: "nat \<Rightarrow> gr_state \<Rightarrow> gr_replica_update \<Rightarrow> gr_state option"
  and replica_update_unlocked :: "nat \<Rightarrow> gr_state \<Rightarrow> gr_replica_update \<Rightarrow> gr_state option"
where
  "gr_process_replica_update_work fuel st update = do {
     c_assert (ru_source_replica update \<noteq> sc_replica (config st));
     st \<leftarrow> cpu_add_timing st 1 [''gr'', ''process_replica_update_time''];
     (value, update_time, source_replica, st) \<leftarrow> gr_get_value_at st (ru_key update) 0 gr_always_visible;
     (if update_conflict update update_time source_replica
      then if update_older update update_time source_replica
           then do {
             c_assert (ru_source_replica update \<noteq> source_replica);
             (case fuel of 0 \<Rightarrow> None | Suc fuel' \<Rightarrow> replica_update_unlocked fuel' st update)
           }
           else Some st
      else do {
        lock \<leftarrow> arr_get (replica_locks st) (ru_source_replica update);
        cpu_lock_lock st lock GR_REPLICA_UPDATE_LOCKED (Data (ReplicaUpdate update)) (m_size update)
      })
   }"
| "replica_update_unlocked fuel st update = do {
     (q, st) \<leftarrow> dequeue_update st update;
     enqueued_update \<leftarrow> queue_peek q;
     (case enqueued_update of
        Some enqueued_update \<Rightarrow> gr_process_replica_update_work fuel st enqueued_update
      | None \<Rightarrow> Some (cpu_allow_no_time st))
   }"

declare gr_process_replica_update_work.simps [simp del] replica_update_unlocked.simps [simp del]

definition update_fuel :: "gr_state \<Rightarrow> gr_replica_update \<Rightarrow> nat" where
  "update_fuel st update =
     (case arr_get (replica_update_queues st) (ru_source_replica update) of
        None \<Rightarrow> 0 | Some q \<Rightarrow> q_fresh q + 1)"

definition gr_process_replica_update_unlocked :: "gr_state \<Rightarrow> gr_replica_update \<Rightarrow> gr_state option" where
  "gr_process_replica_update_unlocked st update = replica_update_unlocked (update_fuel st update) st update"

definition gr_process_replica_update :: "gr_state \<Rightarrow> gr_replica_update \<Rightarrow> gr_state option" where
  "gr_process_replica_update st update = do {
     q \<leftarrow> arr_get (replica_update_queues st) (ru_source_replica update);
     let process_immediately = queue_is_empty q;
     q \<leftarrow> queue_enqueue q update;
     qs \<leftarrow> arr_set (replica_update_queues st) (ru_source_replica update) q;
     let st = st\<lparr>replica_update_queues := qs\<rparr>;
     (if process_immediately then gr_process_replica_update_work (update_fuel st update) st update
      else Some (cpu_allow_no_time st))
   }"

definition gr_process_replica_update_locked :: "gr_state \<Rightarrow> gr_replica_update \<Rightarrow> gr_state option" where
  "gr_process_replica_update_locked st update = do {
     (item, st) \<leftarrow> gr_put_value st (ru_key update) (ru_value update) (ru_update_time update) (ru_source_replica update);
     vv \<leftarrow> arr_set (version_vector st) (ru_source_replica update) (ru_update_time update);
     let st = st\<lparr>version_vector := vv\<rparr>;
     st \<leftarrow> server_stats_counter_inc st REPLICA_UPDATES;
     let replication_time = now st - ru_update_time_no_skew update;
     c_assert (0 < replication_time);
     st \<leftarrow> server_stats_array_push st REPLICATION_TIME replication_time;
     lock \<leftarrow> arr_get (replica_locks st) (ru_source_replica update);
     cpu_lock_unlock st lock GR_REPLICA_UPDATE_UNLOCKED (Data (ReplicaUpdate update)) (m_size update)
   }"

definition send_update :: "gr_replica_update \<Rightarrow> lpid_t \<Rightarrow> replica_t \<Rightarrow> gr_state \<Rightarrow> gr_state option" where
  "send_update update replica_lpid replica st =
     (if replica = sc_replica (config st) then Some st
      else server_send st replica_lpid GR_REPLICA_UPDATE update (Data (ReplicaUpdate update)))"

definition gr_replicate_value ::
  "gr_state \<Rightarrow> gr_key \<Rightarrow> gr_value \<Rightarrow> gr_tsp \<Rightarrow> gr_tsp \<Rightarrow> replica_t \<Rightarrow> gr_tsp \<Rightarrow> gr_state option" where
  "gr_replicate_value st key value update_time previous_update_time previous_source_replica update_time_no_skew =
     do {
       let update = gr_replica_update_new\<lparr>ru_key := key, ru_value := value, ru_update_time := update_time,
             ru_update_time_no_skew := update_time_no_skew, ru_source_replica := sc_replica (config st),
             ru_previous_update_time := previous_update_time,
             ru_previous_source_replica := previous_source_replica\<rparr>;
       st \<leftarrow> build_struct_per_byte_time st (simulated_size update);
       foreach_replica (sc_cluster (config st)) (sc_partition (config st)) (send_update update) st
     }"

end
