(* ===== verification/Gr_Getput.thy ===== *)
theory Gr_Getput
  imports Gr_Replication
begin

text \<open>
  Get and put requests: \<open>src/server/protocols/gr/getput.c\<close>. The state of a request between two of
  its events is in a slot of \<open>get_states\<close> or \<open>put_states\<close>, and the event carries the slot's number.
\<close>

section \<open>Request states\<close>

definition gr_get_state_new :: "gr_state \<Rightarrow> (u32 \<times> gr_state) option" where
  "gr_get_state_new st = do {
     let get_state = \<lparr>gs_key = 0, gs_gst = 0, gs_destination = 0, gs_response = gr_get_response_new\<rparr>;
     (i, a) \<leftarrow> ptr_array_put (get_states st) get_state;
     Some (i, st\<lparr>get_states := a\<rparr>)
   }"

definition gr_get_state_get :: "gr_state \<Rightarrow> u32 \<Rightarrow> gr_get_state option" where
  "gr_get_state_get st i = do { p \<leftarrow> ptr_array_get (get_states st) i; p }"

definition gr_get_state_set :: "gr_state \<Rightarrow> u32 \<Rightarrow> gr_get_state \<Rightarrow> gr_state option" where
  "gr_get_state_set st i get_state = do {
     a \<leftarrow> ptr_array_set (get_states st) i (Some get_state);
     Some (st\<lparr>get_states := a\<rparr>)
   }"

definition gr_get_state_free :: "gr_state \<Rightarrow> u32 \<Rightarrow> gr_state option" where
  "gr_get_state_free st i = do {
     get_state \<leftarrow> gr_get_state_get st i;
     a \<leftarrow> ptr_array_set (get_states st) i None;
     Some (st\<lparr>get_states := a\<rparr>)
   }"

definition gr_put_state_new :: "gr_state \<Rightarrow> (u32 \<times> gr_state) option" where
  "gr_put_state_new st = do {
     let put_state = \<lparr>ps_key = 0, ps_value = 0, ps_response = gr_put_response_new, ps_destination = 0,
                      ps_previous_update_time = 0, ps_previous_source_replica = 0,
                      ps_update_time_no_skew = 0, ps_discarded = False\<rparr>;
     (i, a) \<leftarrow> ptr_array_put (put_states st) put_state;
     Some (i, st\<lparr>put_states := a\<rparr>)
   }"

definition gr_put_state_get :: "gr_state \<Rightarrow> u32 \<Rightarrow> gr_put_state option" where
  "gr_put_state_get st i = do { p \<leftarrow> ptr_array_get (put_states st) i; p }"

definition gr_put_state_set :: "gr_state \<Rightarrow> u32 \<Rightarrow> gr_put_state \<Rightarrow> gr_state option" where
  "gr_put_state_set st i put_state = do {
     a \<leftarrow> ptr_array_set (put_states st) i (Some put_state);
     Some (st\<lparr>put_states := a\<rparr>)
   }"

definition gr_put_state_free :: "gr_state \<Rightarrow> u32 \<Rightarrow> gr_state option" where
  "gr_put_state_free st i = do {
     put_state \<leftarrow> gr_put_state_get st i;
     a \<leftarrow> ptr_array_set (put_states st) i None;
     Some (st\<lparr>put_states := a\<rparr>)
   }"

text \<open>\<open>gr_get_state_message_size\<close> and \<open>gr_put_state_message_size\<close>: structs of one \<open>unsigned int\<close>.\<close>

definition gr_state_message_size :: nat where
  "gr_state_message_size = sizeof_uint"

section \<open>Get requests\<close>

definition gr_process_get_request_unlocked :: "gr_state \<Rightarrow> u32 \<Rightarrow> gr_state option" where
  "gr_process_get_request_unlocked st i = do {
     get_state \<leftarrow> gr_get_state_get st i;
     let response = (gs_response get_state)\<lparr>getr_gst := gst st\<rparr>;
     (value, update_timestamp, source_replica, st) \<leftarrow> gr_get_value st (gs_key get_state);
     let response = response\<lparr>getr_value := value, getr_update_timestamp := update_timestamp\<rparr>;
     st \<leftarrow> gr_get_state_set st i (get_state\<lparr>gs_response := response\<rparr>);
     st \<leftarrow> gr_stats_get_request st (gs_key get_state) (getr_update_timestamp response);
     st \<leftarrow> build_struct_per_byte_time st (simulated_size response);
     st \<leftarrow> server_send st (gs_destination get_state) GR_GET_RESPONSE response (Data (GetResponse response));
     gr_get_state_free st i
   }"

definition gr_process_get_request :: "gr_state \<Rightarrow> gr_get_request \<Rightarrow> gr_state option" where
  "gr_process_get_request st request = do {
     key_location \<leftarrow> gr_lpid_for_key (getq_key request) st;
     st \<leftarrow> cpu_add_timing st 1 [''gr'', ''process_get_request_pre_time''];
     (if key_location \<noteq> sc_lpid (config st)
      then do {
        c_assert (getq_proxy_lpid request = NO_PROXY_LPID);
        let request = request\<lparr>getq_proxy_lpid := sc_lpid (config st)\<rparr>;
        st \<leftarrow> server_send st key_location GR_GET_REQUEST request (Data (GetRequest request));
        st \<leftarrow> server_stats_counter_inc st (forwarded_get_id st);
        (need_update, st) \<leftarrow> gr_gst_need_update st (getq_gst request);
        (if need_update
         then cpu_lock_lock st (gr_lock st) GR_FORWARD_GET_REQUEST_LOCKED (Data (GetRequest request)) (m_size request)
         else Some st)
      }
      else do {
        (i, st) \<leftarrow> gr_get_state_new st;
        get_state \<leftarrow> gr_get_state_get st i;
        let get_state = get_state\<lparr>gs_key := getq_key request, gs_gst := getq_gst request,
              gs_destination := (if getq_proxy_lpid request = NO_PROXY_LPID
                                 then getq_client_lpid request else getq_proxy_lpid request),
              gs_response := (gs_response get_state)\<lparr>getr_client_lpid := getq_client_lpid request\<rparr>\<rparr>;
        st \<leftarrow> gr_get_state_set st i get_state;
        (need_update, st) \<leftarrow> gr_gst_need_update st (gs_gst get_state);
        (if need_update
         then cpu_lock_lock st (gr_lock st) GR_GET_REQUEST_LOCKED (Data (GetStateMessage i)) gr_state_message_size
         else gr_process_get_request_unlocked st i)
      })
   }"

definition gr_process_forward_get_request_locked :: "gr_state \<Rightarrow> gr_get_request \<Rightarrow> gr_state option" where
  "gr_process_forward_get_request_locked st request = do {
     st \<leftarrow> gr_update_gst st (getq_gst request);
     cpu_lock_unlock st (gr_lock st) CPU_NO_EVENT NoData 0
   }"

definition gr_process_get_request_locked :: "gr_state \<Rightarrow> u32 \<Rightarrow> gr_state option" where
  "gr_process_get_request_locked st i = do {
     get_state \<leftarrow> gr_get_state_get st i;
     st \<leftarrow> gr_update_gst st (gs_gst get_state);
     cpu_lock_unlock st (gr_lock st) GR_GET_REQUEST_UNLOCKED (Data (GetStateMessage i)) gr_state_message_size
   }"

definition gr_process_get_response :: "gr_state \<Rightarrow> gr_get_response \<Rightarrow> gr_state option" where
  "gr_process_get_response st response = do {
     c_assert (getr_client_lpid response \<noteq> sc_lpid (config st));
     server_send st (getr_client_lpid response) GR_GET_RESPONSE response (Data (GetResponse response))
   }"

section \<open>Put requests\<close>

definition gr_process_put_request :: "gr_state \<Rightarrow> gr_put_request \<Rightarrow> gr_state option" where
  "gr_process_put_request st request = do {
     key_location \<leftarrow> gr_lpid_for_key (putq_key request) st;
     st \<leftarrow> cpu_add_timing st 1 [''gr'', ''process_put_request_pre_time''];
     (if key_location \<noteq> sc_lpid (config st)
      then do {
        c_assert (putq_proxy_lpid request = NO_PROXY_LPID);
        let request = request\<lparr>putq_proxy_lpid := sc_lpid (config st)\<rparr>;
        st \<leftarrow> server_send st key_location GR_PUT_REQUEST request (Data (PutRequest request));
        server_stats_counter_inc st (forwarded_put_id st)
      }
      else if clock st < putq_dependency_time request
      then server_schedule_self st (putq_dependency_time request - clock st) GR_PUT_REQUEST
             (Data (PutRequest request)) (m_size request)
      else do {
        st \<leftarrow> server_stats_counter_inc st PUT_REQUESTS;
        st \<leftarrow> build_struct_per_byte_time st sizeof_gr_put_response;
        (i, st) \<leftarrow> gr_put_state_new st;
        put_state \<leftarrow> gr_put_state_get st i;
        let put_state = put_state\<lparr>ps_key := putq_key request, ps_value := putq_value request,
              ps_response := (ps_response put_state)\<lparr>putr_client_lpid := putq_client_lpid request\<rparr>,
              ps_destination := (if putq_proxy_lpid request = NO_PROXY_LPID
                                 then putq_client_lpid request else putq_proxy_lpid request)\<rparr>;
        st \<leftarrow> gr_put_state_set st i put_state;
        cpu_lock_lock st (gr_lock st) GR_PUT_REQUEST_LOCKED (Data (PutStateMessage i)) gr_state_message_size
      })
   }"

definition gr_process_put_request_locked :: "gr_state \<Rightarrow> u32 \<Rightarrow> gr_state option" where
  "gr_process_put_request_locked st i = do {
     put_state \<leftarrow> gr_put_state_get st i;
     vv \<leftarrow> arr_set (version_vector st) (sc_replica (config st)) (clock st);
     let st = st\<lparr>version_vector := vv\<rparr>;
     let put_state = put_state\<lparr>ps_response := (ps_response put_state)\<lparr>putr_update_timestamp := clock st\<rparr>,
           ps_update_time_no_skew := now st\<rparr>;
     (item, st) \<leftarrow> gr_put_value st (ps_key put_state) (ps_value put_state) (clock st) (sc_replica (config st));
     let put_state = (case item of
           None \<Rightarrow> put_state\<lparr>ps_discarded := True\<rparr>
         | Some versions \<Rightarrow> put_state\<lparr>ps_discarded := False,
             ps_previous_update_time := (case tl versions of [] \<Rightarrow> 0 | p # _ \<Rightarrow> it_update_time p),
             ps_previous_source_replica := (case tl versions of [] \<Rightarrow> 0 | p # _ \<Rightarrow> it_source_replica p)\<rparr>);
     st \<leftarrow> gr_put_state_set st i put_state;
     cpu_lock_unlock st (gr_lock st) GR_PUT_REQUEST_UNLOCKED (Data (PutStateMessage i)) gr_state_message_size
   }"

definition gr_process_put_request_unlocked :: "gr_state \<Rightarrow> u32 \<Rightarrow> gr_state option" where
  "gr_process_put_request_unlocked st i = do {
     put_state \<leftarrow> gr_put_state_get st i;
     st \<leftarrow> server_send st (ps_destination put_state) GR_PUT_RESPONSE (ps_response put_state)
       (Data (PutResponse (ps_response put_state)));
     st \<leftarrow> (if \<not> ps_discarded put_state
            then gr_replicate_value st (ps_key put_state) (ps_value put_state)
                   (putr_update_timestamp (ps_response put_state)) (ps_previous_update_time put_state)
                   (ps_previous_source_replica put_state) (ps_update_time_no_skew put_state)
            else Some st);
     gr_put_state_free st i
   }"

definition gr_process_put_response :: "gr_state \<Rightarrow> gr_put_response \<Rightarrow> gr_state option" where
  "gr_process_put_response st response = do {
     c_assert (putr_client_lpid response \<noteq> sc_lpid (config st));
     server_send st (putr_client_lpid response) GR_PUT_RESPONSE response (Data (PutResponse response))
   }"

end
