(* ===== verification/Gr_Snapshot.thy ===== *)
theory Gr_Snapshot
  imports Gr_Getput
begin

text \<open>
  Snapshots: the coordinator (\<open>src/server/protocols/gr/snapshot.c\<close>) asks the partitions of its replica
  for the value of each key at the snapshot time, and they answer (\<open>src/server/protocols/gr/slice.c\<close>).
\<close>

section \<open>Snapshot states\<close>

definition sizeof_gr_snapshot_state :: nat where
  "sizeof_gr_snapshot_state = 64"

definition gr_snapshot_state_new :: "gr_state \<Rightarrow> u32 \<Rightarrow> (u32 \<times> gr_state) option" where
  "gr_snapshot_state_new st n = do {
     let snapshot_state = \<lparr>sn_client_lpid = 0, sn_request_id = 0, sn_update_time = 0, sn_gst = 0, sn_time = 0,
           sn_size = n, sn_received_values = 0, sn_keys = replicate (unat n) 0,
           sn_values = replicate (unat n) 0\<rparr>;
     (i, a) \<leftarrow> ptr_array_put (snapshot_states st) snapshot_state;
     Some (i, st\<lparr>snapshot_states := a\<rparr>)
   }"

definition gr_snapshot_state_get :: "gr_state \<Rightarrow> u32 \<Rightarrow> gr_snapshot_state option" where
  "gr_snapshot_state_get st i = do { p \<leftarrow> ptr_array_get (snapshot_states st) i; p }"

definition gr_snapshot_state_set :: "gr_state \<Rightarrow> u32 \<Rightarrow> gr_snapshot_state \<Rightarrow> gr_state option" where
  "gr_snapshot_state_set st i snapshot = do {
     a \<leftarrow> ptr_array_set (snapshot_states st) i (Some snapshot);
     Some (st\<lparr>snapshot_states := a\<rparr>)
   }"

definition gr_snapshot_state_free :: "gr_state \<Rightarrow> u32 \<Rightarrow> gr_state option" where
  "gr_snapshot_state_free st i = do {
     snapshot \<leftarrow> gr_snapshot_state_get st i;
     a \<leftarrow> ptr_array_set (snapshot_states st) i None;
     Some (st\<lparr>snapshot_states := a\<rparr>)
   }"

definition gr_snapshot_state_simulated_size :: "gr_snapshot_state \<Rightarrow> nat" where
  "gr_snapshot_state_simulated_size snapshot =
     sizeof_gr_snapshot_state + unat (sn_size snapshot) * (sizeof_gr_key + GR_SIMULATED_VALUE_SIZE)"

definition gr_snapshot_state_message_size :: nat where
  "gr_snapshot_state_message_size = sizeof_uint"

section \<open>The coordinator\<close>

definition gr_process_get_snapshot_request :: "gr_state \<Rightarrow> gr_get_snapshot_request \<Rightarrow> gr_state option" where
  "gr_process_get_snapshot_request st request = do {
     (snapshot_id, st) \<leftarrow> gr_snapshot_state_new st (snq_num_keys request);
     snapshot \<leftarrow> gr_snapshot_state_get st snapshot_id;
     c_assert (length (snq_keys request) = unat (snq_num_keys request));
     let snapshot = snapshot\<lparr>sn_client_lpid := snq_client_lpid request, sn_request_id := snq_request_id request,
           sn_update_time := 0, sn_gst := snq_gst request, sn_keys := snq_keys request,
           sn_received_values := 0\<rparr>;
     st \<leftarrow> gr_snapshot_state_set st snapshot_id snapshot;
     st \<leftarrow> build_struct_per_byte_time st (gr_snapshot_state_simulated_size snapshot);
     cpu_lock_lock st (gr_lock st) GR_GET_SNAPSHOT_REQUEST_LOCKED (Data (SnapshotStateMessage snapshot_id))
       gr_snapshot_state_message_size
   }"

definition gr_process_get_snapshot_request_locked :: "gr_state \<Rightarrow> u32 \<Rightarrow> gr_state option" where
  "gr_process_get_snapshot_request_locked st i = do {
     snapshot \<leftarrow> gr_snapshot_state_get st i;
     st \<leftarrow> gr_update_gst st (sn_gst snapshot);
     st \<leftarrow> gr_snapshot_state_set st i (snapshot\<lparr>sn_gst := 0, sn_time := gst st\<rparr>);
     cpu_lock_unlock st (gr_lock st) GR_GET_SNAPSHOT_REQUEST_UNLOCKED (Data (SnapshotStateMessage i))
       gr_snapshot_state_message_size
   }"

definition gr_process_get_snapshot_request_unlocked :: "gr_state \<Rightarrow> u32 \<Rightarrow> gr_state option" where
  "gr_process_get_snapshot_request_unlocked st i = do {
     snapshot \<leftarrow> gr_snapshot_state_get st i;
     let slice = gr_slice_request_new\<lparr>slq_from_lpid := sc_lpid (config st), slq_snapshot_time := sn_time snapshot,
           slq_snapshot_id := i\<rparr>;
     st \<leftarrow> build_struct_per_byte_time st (simulated_size slice);
     foldM (\<lambda>k st. do {
         key \<leftarrow> arr_get (sn_keys snapshot) k;
         let slice = slice\<lparr>slq_key_id := k, slq_key := key\<rparr>;
         to \<leftarrow> gr_lpid_for_key key st;
         server_send st to GR_SLICE_REQUEST slice (Data (SliceRequest slice))
       }) (idx_upto (sn_size snapshot)) st
   }"

definition gr_send_snapshot_response :: "gr_state \<Rightarrow> u32 \<Rightarrow> gr_state option" where
  "gr_send_snapshot_response st snapshot_id = do {
     snapshot \<leftarrow> gr_snapshot_state_get st snapshot_id;
     let response = (gr_get_snapshot_response_new (sn_size snapshot))
           \<lparr>snr_gst := sn_gst snapshot, snr_update_timestamp := sn_update_time snapshot,
            snr_request_id := sn_request_id snapshot, snr_values := sn_values snapshot\<rparr>;
     st \<leftarrow> build_struct_per_byte_time st (simulated_size response);
     st \<leftarrow> (if sc_lpid (config st) = sn_client_lpid snapshot
            then gr_process_rotx_snapshot_response st response
            else server_send st (sn_client_lpid snapshot) GR_GET_SNAPSHOT_RESPONSE response
                   (Data (SnapshotResponse response)));
     gr_snapshot_state_free st snapshot_id
   }"

section \<open>Slices\<close>

definition is_value_visible_snapshot :: "gr_state \<Rightarrow> gr_item \<Rightarrow> gr_tsp \<Rightarrow> (bool \<times> gr_state) option" where
  "is_value_visible_snapshot st item t = Some (it_update_time item \<le> t, st)"

definition gr_process_slice_request_unlocked :: "gr_state \<Rightarrow> gr_slice_request \<Rightarrow> gr_state option" where
  "gr_process_slice_request_unlocked st request = do {
     (value, update_time, source_replica, st) \<leftarrow>
       gr_get_value_at st (slq_key request) (slq_snapshot_time request) is_value_visible_snapshot;
     let response = gr_slice_response_new\<lparr>slr_value := value, slr_update_time := update_time, slr_gst := gst st,
           slr_snapshot_id := slq_snapshot_id request, slr_key_id := slq_key_id request\<rparr>;
     st \<leftarrow> build_struct_per_byte_time st (simulated_size response);
     server_send st (slq_from_lpid request) GR_SLICE_RESPONSE response (Data (SliceResponse response))
   }"

definition gr_process_slice_request :: "gr_state \<Rightarrow> gr_slice_request \<Rightarrow> gr_state option" where
  "gr_process_slice_request st request = do {
     (need_update, st) \<leftarrow> gr_gst_need_update st (slq_snapshot_time request);
     (if need_update
      then cpu_lock_lock st (gr_lock st) GR_SLICE_REQUEST_LOCKED (Data (SliceRequest request)) (simulated_size request)
      else gr_process_slice_request_unlocked st request)
   }"

definition gr_process_slice_request_locked :: "gr_state \<Rightarrow> gr_slice_request \<Rightarrow> gr_state option" where
  "gr_process_slice_request_locked st request = do {
     st \<leftarrow> gr_update_gst st (slq_snapshot_time request);
     cpu_lock_unlock st (gr_lock st) GR_SLICE_REQUEST_UNLOCKED (Data (SliceRequest request)) (simulated_size request)
   }"

definition gr_process_slice_response_unlocked :: "gr_state \<Rightarrow> gr_slice_response \<Rightarrow> gr_state option" where
  "gr_process_slice_response_unlocked st resp = do {
     snapshot \<leftarrow> gr_snapshot_state_get st (slr_snapshot_id resp);
     vs \<leftarrow> arr_set (sn_values snapshot) (slr_key_id resp) (slr_value resp);
     let snapshot = snapshot\<lparr>sn_values := vs, sn_update_time := set_max (sn_update_time snapshot) (slr_update_time resp),
           sn_gst := set_max (sn_gst snapshot) (slr_gst resp), sn_received_values := sn_received_values snapshot + 1\<rparr>;
     st \<leftarrow> gr_snapshot_state_set st (slr_snapshot_id resp) snapshot;
     st \<leftarrow> cpu_add_timing st 1 [''gr'', ''process_slice_response_per_value_time''];
     (if sn_received_values snapshot = sn_size snapshot
      then gr_send_snapshot_response st (slr_snapshot_id resp)
      else Some st)
   }"

definition gr_process_slice_response :: "gr_state \<Rightarrow> gr_slice_response \<Rightarrow> gr_state option" where
  "gr_process_slice_response st resp = do {
     (need_update, st) \<leftarrow> gr_gst_need_update st (slr_gst resp);
     (if need_update
      then cpu_lock_lock st (gr_lock st) GR_SLICE_RESPONSE_LOCKED (Data (SliceResponse resp)) (m_size resp)
      else gr_process_slice_response_unlocked st resp)
   }"

definition gr_process_slice_response_locked :: "gr_state \<Rightarrow> gr_slice_response \<Rightarrow> gr_state option" where
  "gr_process_slice_response_locked st resp = do {
     st \<leftarrow> gr_update_gst st (slr_gst resp);
     cpu_lock_unlock st (gr_lock st) GR_SLICE_RESPONSE_UNLOCKED (Data (SliceResponse resp)) (m_size resp)
   }"

end
