(* ===== verification/Gr_Server.thy ===== *)
theory Gr_Server
  imports Gr_Snapshot
begin

text \<open>
  The GentleRain server: initialisation, the clock tick and the dispatch of events,
  \<open>src/server/protocols/gr/gr.c\<close>. The server with its CPU is \<open>gr_handle\<close>, the function that ROOT-Sim
  calls for every event after the first.
\<close>

section \<open>Initialisation\<close>

definition new_replica_lock :: "replica_t \<Rightarrow> gr_state \<Rightarrow> gr_state option" where
  "new_replica_lock i st =
     (let (l, st) = cpu_lock_new st in Some (st\<lparr>replica_locks := replica_locks st @ [l]\<rparr>))"

text \<open>
  The two loops fill arrays of \<open>num_replicas\<close> entries from the start; here the arrays grow with them.
\<close>

definition gr_init_state :: "gr_state \<Rightarrow> gr_state option" where
  "gr_init_state st = do {
     let n = num_replicas (sc_cluster (config st));
     let st = st\<lparr>version_vector := replicate (unat n) 0, gst := 0, min_lst := 0,
                 lst_received := replicate (unat (tree_fanout (config st))) False\<rparr>;
     let (i, st) = server_stats_counter_new st ''forwarded get requests'';
     let st = st\<lparr>forwarded_get_id := i\<rparr>;
     let (i, st) = server_stats_counter_new st ''forwarded put requests'';
     let st = st\<lparr>forwarded_put_id := i\<rparr>;
     let (l, st) = cpu_lock_new st;
     let st = st\<lparr>gr_lock := l, get_states := ptr_array_init, put_states := ptr_array_init,
                 snapshot_states := ptr_array_init, rotx_states := ptr_array_init\<rparr>;
     st \<leftarrow> foldM new_replica_lock (idx_upto n) (st\<lparr>replica_locks := []\<rparr>);
     let st = st\<lparr>replica_update_queues := replicate (unat n) queue_new\<rparr>;
     st \<leftarrow> (if server_is_leaf_partition (config st) then gr_schedule_gst_computation_start st else Some st);
     interval \<leftarrow> parameter_func st [''gr'', ''clock_interval''];
     server_schedule_self st interval GR_CLOCK_TICK NoData 0
   }"

section \<open>Clock tick\<close>

definition gr_process_clock_tick_unlocked :: "gr_state \<Rightarrow> bool \<Rightarrow> gr_state option" where
  "gr_process_clock_tick_unlocked st send_time = do {
     st \<leftarrow> gr_send_heartbeat st send_time;
     interval \<leftarrow> parameter_func st [''gr'', ''clock_interval''];
     server_schedule_self st interval GR_CLOCK_TICK NoData 0
   }"

definition gr_process_clock_tick :: "gr_state \<Rightarrow> gr_state option" where
  "gr_process_clock_tick st = do {
     st \<leftarrow> cpu_add_timing st 1 [''gr'', ''process_clock_tick_time''];
     v \<leftarrow> arr_get (version_vector st) (sc_replica (config st));
     interval \<leftarrow> parameter_func st [''gr'', ''clock_interval''];
     (if v + interval \<le> clock st
      then cpu_lock_lock st (gr_lock st) GR_CLOCK_TICK_LOCKED NoData 0
      else gr_process_clock_tick_unlocked st False)
   }"

definition gr_process_clock_tick_locked :: "gr_state \<Rightarrow> gr_state option" where
  "gr_process_clock_tick_locked st = do {
     st \<leftarrow> cpu_add_timing st 1 [''gr'', ''process_clock_tick_time''];
     v \<leftarrow> arr_get (version_vector st) (sc_replica (config st));
     interval \<leftarrow> parameter_func st [''gr'', ''clock_interval''];
     (send_time, st) \<leftarrow> (if v + interval \<le> clock st
        then do {
          vv \<leftarrow> arr_set (version_vector st) (sc_replica (config st)) (clock st);
          Some (True, st\<lparr>version_vector := vv\<rparr>)
        }
        else Some (False, st));
     cpu_lock_unlock st (gr_lock st) GR_CLOCK_TICK_UNLOCKED (Data (SendTime send_time)) sizeof_uint
   }"

section \<open>Dispatch\<close>

definition as_GetRequest :: "gr_msg \<Rightarrow> gr_get_request option" where
  "as_GetRequest m = (case m of GetRequest r \<Rightarrow> Some r | _ \<Rightarrow> None)"
definition as_GetResponse :: "gr_msg \<Rightarrow> gr_get_response option" where
  "as_GetResponse m = (case m of GetResponse r \<Rightarrow> Some r | _ \<Rightarrow> None)"
definition as_PutRequest :: "gr_msg \<Rightarrow> gr_put_request option" where
  "as_PutRequest m = (case m of PutRequest r \<Rightarrow> Some r | _ \<Rightarrow> None)"
definition as_PutResponse :: "gr_msg \<Rightarrow> gr_put_response option" where
  "as_PutResponse m = (case m of PutResponse r \<Rightarrow> Some r | _ \<Rightarrow> None)"
definition as_ReplicaUpdate :: "gr_msg \<Rightarrow> gr_replica_update option" where
  "as_ReplicaUpdate m = (case m of ReplicaUpdate r \<Rightarrow> Some r | _ \<Rightarrow> None)"
definition as_GstFromRoot :: "gr_msg \<Rightarrow> gr_gst_from_root option" where
  "as_GstFromRoot m = (case m of GstFromRoot r \<Rightarrow> Some r | _ \<Rightarrow> None)"
definition as_Heartbeat :: "gr_msg \<Rightarrow> gr_heartbeat option" where
  "as_Heartbeat m = (case m of Heartbeat r \<Rightarrow> Some r | _ \<Rightarrow> None)"
definition as_LstFromLeaf :: "gr_msg \<Rightarrow> gr_lst_from_leaf option" where
  "as_LstFromLeaf m = (case m of LstFromLeaf r \<Rightarrow> Some r | _ \<Rightarrow> None)"
definition as_SnapshotRequest :: "gr_msg \<Rightarrow> gr_get_snapshot_request option" where
  "as_SnapshotRequest m = (case m of SnapshotRequest r \<Rightarrow> Some r | _ \<Rightarrow> None)"
definition as_SliceRequest :: "gr_msg \<Rightarrow> gr_slice_request option" where
  "as_SliceRequest m = (case m of SliceRequest r \<Rightarrow> Some r | _ \<Rightarrow> None)"
definition as_SliceResponse :: "gr_msg \<Rightarrow> gr_slice_response option" where
  "as_SliceResponse m = (case m of SliceResponse r \<Rightarrow> Some r | _ \<Rightarrow> None)"
definition as_RotxRequest :: "gr_msg \<Rightarrow> gr_get_rotx_request option" where
  "as_RotxRequest m = (case m of RotxRequest r \<Rightarrow> Some r | _ \<Rightarrow> None)"
definition as_GetStateMessage :: "gr_msg \<Rightarrow> u32 option" where
  "as_GetStateMessage m = (case m of GetStateMessage i \<Rightarrow> Some i | _ \<Rightarrow> None)"
definition as_PutStateMessage :: "gr_msg \<Rightarrow> u32 option" where
  "as_PutStateMessage m = (case m of PutStateMessage i \<Rightarrow> Some i | _ \<Rightarrow> None)"
definition as_SnapshotStateMessage :: "gr_msg \<Rightarrow> u32 option" where
  "as_SnapshotStateMessage m = (case m of SnapshotStateMessage i \<Rightarrow> Some i | _ \<Rightarrow> None)"
definition as_SendTime :: "gr_msg \<Rightarrow> bool option" where
  "as_SendTime m = (case m of SendTime b \<Rightarrow> Some b | _ \<Rightarrow> None)"

definition gr_process_event ::
  "event_type \<Rightarrow> gr_msg event_data \<Rightarrow> nat \<Rightarrow> gr_state \<Rightarrow> gr_state option option" where
  "gr_process_event event_type data data_size st =
     (if event_type = GR_GET_REQUEST then on_msg as_GetRequest gr_process_get_request st data
      else if event_type = GR_FORWARD_GET_REQUEST_LOCKED
      then on_msg as_GetRequest gr_process_forward_get_request_locked st data
      else if event_type = GR_GET_REQUEST_LOCKED
      then on_msg as_GetStateMessage gr_process_get_request_locked st data
      else if event_type = GR_GET_REQUEST_UNLOCKED
      then on_msg as_GetStateMessage gr_process_get_request_unlocked st data
      else if event_type = GR_GET_RESPONSE then on_msg as_GetResponse gr_process_get_response st data
      else if event_type = GR_PUT_REQUEST then on_msg as_PutRequest gr_process_put_request st data
      else if event_type = GR_PUT_REQUEST_LOCKED
      then on_msg as_PutStateMessage gr_process_put_request_locked st data
      else if event_type = GR_PUT_REQUEST_UNLOCKED
      then on_msg as_PutStateMessage gr_process_put_request_unlocked st data
      else if event_type = GR_PUT_RESPONSE then on_msg as_PutResponse gr_process_put_response st data
      else if event_type = GR_REPLICA_UPDATE then on_msg as_ReplicaUpdate gr_process_replica_update st data
      else if event_type = GR_REPLICA_UPDATE_LOCKED
      then on_msg as_ReplicaUpdate gr_process_replica_update_locked st data
      else if event_type = GR_REPLICA_UPDATE_UNLOCKED
      then on_msg as_ReplicaUpdate gr_process_replica_update_unlocked st data
      else if event_type = GR_LST_FROM_LEAF then on_msg as_LstFromLeaf gr_process_lst_from_leaf st data
      else if event_type = GR_LST_FROM_LEAF_ROOT_LOCKED then no_msg gr_process_lst_from_leaf_root_locked st
      else if event_type = GR_LST_FROM_LEAF_ROOT_UNLOCKED then no_msg gr_process_lst_from_leaf_root_unlocked st
      else if event_type = GR_GST_FROM_ROOT then on_msg as_GstFromRoot gr_process_gst_from_root st data
      else if event_type = GR_GST_FROM_ROOT_LOCKED
      then on_msg as_GstFromRoot gr_process_gst_from_root_locked st data
      else if event_type = GR_GST_FROM_ROOT_UNLOCKED
      then on_msg as_GstFromRoot gr_process_gst_from_root_unlocked st data
      else if event_type = GR_START_GST_COMPUTATION then no_msg gr_process_start_gst_computation st
      else if event_type = GR_CLOCK_TICK then no_msg gr_process_clock_tick st
      else if event_type = GR_CLOCK_TICK_LOCKED then no_msg gr_process_clock_tick_locked st
      else if event_type = GR_CLOCK_TICK_UNLOCKED
      then on_msg as_SendTime gr_process_clock_tick_unlocked st data
      else if event_type = GR_HEARTBEAT then on_msg as_Heartbeat gr_process_heartbeat st data
      else if event_type = GR_HEARTBEAT_LOCKED then on_msg as_Heartbeat gr_process_heartbeat_locked st data
      else if event_type = GR_GET_SNAPSHOT_REQUEST
      then on_msg as_SnapshotRequest gr_process_get_snapshot_request st data
      else if event_type = GR_GET_SNAPSHOT_REQUEST_LOCKED
      then on_msg as_SnapshotStateMessage gr_process_get_snapshot_request_locked st data
      else if event_type = GR_GET_SNAPSHOT_REQUEST_UNLOCKED
      then on_msg as_SnapshotStateMessage gr_process_get_snapshot_request_unlocked st data
      else if event_type = GR_SLICE_REQUEST then on_msg as_SliceRequest gr_process_slice_request st data
      else if event_type = GR_SLICE_REQUEST_LOCKED
      then on_msg as_SliceRequest gr_process_slice_request_locked st data
      else if event_type = GR_SLICE_REQUEST_UNLOCKED
      then on_msg as_SliceRequest gr_process_slice_request_unlocked st data
      else if event_type = GR_SLICE_RESPONSE then on_msg as_SliceResponse gr_process_slice_response st data
      else if event_type = GR_SLICE_RESPONSE_LOCKED
      then on_msg as_SliceResponse gr_process_slice_response_locked st data
      else if event_type = GR_SLICE_RESPONSE_UNLOCKED
      then on_msg as_SliceResponse gr_process_slice_response_unlocked st data
      else if event_type = GR_ROTX_REQUEST then on_msg as_RotxRequest gr_process_rotx_request st data
      else Some None)"

definition gr_handle ::
  "lpid_t \<Rightarrow> simtime \<Rightarrow> event_type \<Rightarrow> gr_msg event_data \<Rightarrow> nat \<Rightarrow> gr_state \<Rightarrow> gr_state option" where
  "gr_handle = cpu_process_event (server_handler gr_process_event)"

end
