(* ===== verification/Server_Frame.thy ===== *)
theory Server_Frame
  imports Server
begin

text \<open>
  The interface between a storage protocol and the server it runs on. The locale \<open>server_rel\<close> is
  about a relation between the state before and after a handler: once the relation is shown to allow
  what the CPU, the statistics and the network do, the rules that walk through the body of a handler
  follow for every function of \<open>src/server/server.h\<close> and \<open>src/cpu/cpu.h\<close> that a handler calls. The
  locale \<open>server_protocol\<close> lifts a relation that the dispatch function of a protocol keeps to all runs
  of a server.
\<close>

section \<open>States that differ only in time, random numbers and statistics\<close>

definition heavy :: "('p, 'v, 'z) server_state_scheme \<Rightarrow> ('p, 'v, 'z) server_state_scheme" where
  "heavy st = st\<lparr>draws := 0, stats := \<lparr>st_arrays = [], st_counters = []\<rparr>, elapsed_time := 0\<rparr>"

definition light :: "('p, 'v, 'z) server_state_scheme \<Rightarrow> ('p, 'v, 'z) server_state_scheme \<Rightarrow> bool" where
  "light st st' \<longleftrightarrow> heavy st' = heavy st"

lemma light_refl [simp]: "light st st"
  by (simp add: light_def)

lemma light_trans: "light a b \<Longrightarrow> light b c \<Longrightarrow> light a c"
  by (simp add: light_def)

lemma light_updates [simp]:
  "light s0 (st\<lparr>draws := n\<rparr>) = light s0 st" "light s0 (st\<lparr>stats := s\<rparr>) = light s0 st"
  "light s0 (st\<lparr>elapsed_time := e\<rparr>) = light s0 st" "light s0 (cpu_set_elapsed_time st e) = light s0 st"
  by (simp_all add: light_def heavy_def cpu_set_elapsed_time_def)

lemma lightD:
  assumes "light st st'"
  shows "config st' = config st" "store st' = store st" "now st' = now st" "clock st' = clock st"
    "scheduled st' = scheduled st" "server_state.more st' = server_state.more st"
  using assms unfolding light_def heavy_def
  by (auto dest: arg_cong [where f = config] arg_cong [where f = store] arg_cong [where f = now]
      arg_cong [where f = clock] arg_cong [where f = scheduled] arg_cong [where f = server_state.more])

lemma light_add_timing: "light s0 st \<Longrightarrow> post (cpu_add_timing st k p) (light s0)"
  by (auto simp: cpu_add_timing_def cpu_add_time_def post_def bind_eq_Some_conv dest!: timing_func_draws)

lemma light_counter_inc: "light s0 st \<Longrightarrow> post (server_stats_counter_inc st i) (light s0)"
  by (auto simp: server_stats_counter_inc_def post_def bind_eq_Some_conv split: if_splits)

lemma light_array_push: "light s0 st \<Longrightarrow> post (server_stats_array_push st i v) (light s0)"
  by (auto simp: server_stats_array_push_def post_def bind_eq_Some_conv split: if_splits)

lemma bind_light: "post e (light s0) \<Longrightarrow> (\<And>st. light s0 st \<Longrightarrow> post (f st) Q) \<Longrightarrow> post (Option.bind e f) Q"
  by (auto simp: post_def bind_eq_Some_conv)

lemma bind_light_pair:
  "post e (\<lambda>r. light s0 (snd r)) \<Longrightarrow> (\<And>x st. light s0 st \<Longrightarrow> post (f (x, st)) Q) \<Longrightarrow> post (Option.bind e f) Q"
  by (auto simp: post_def bind_eq_Some_conv)

section \<open>Returning\<close>

text \<open>Every timing parameter is configured, and the CPU accepts time.\<close>

definition can_time :: "('p, 'z) cpu_state_scheme \<Rightarrow> bool" where
  "can_time st \<longleftrightarrow> timing_ok UNIV st \<and> \<not> lock_called st"

lemma can_time_cpu [simp]:
  "can_time (st\<lparr>draws := n\<rparr>) = can_time st" "can_time (st\<lparr>elapsed_time := e\<rparr>) = can_time st"
  "can_time (cpu_state.more_update f st) = can_time st"
  by (simp_all add: can_time_def timing_ok_def)

lemma can_time_server [simp]:
  "can_time (st\<lparr>store := s\<rparr>) = can_time st" "can_time (st\<lparr>stats := x\<rparr>) = can_time st"
  "can_time (server_state.more_update f st) = can_time st"
  by (simp_all add: can_time_def timing_ok_def)

lemma add_timing_returns:
  assumes "can_time st" and "0 \<le> k"
  shows "\<exists>n e. cpu_add_timing st k p = Some (st\<lparr>draws := n, elapsed_time := e\<rparr>)"
proof -
  from assms timing_func_returns [of UNIV st p] obtain t n where
    "timing_func st p = Some (t, st\<lparr>draws := n\<rparr>)" "0 \<le> t" by (auto simp: can_time_def)
  with assms show ?thesis by (simp add: cpu_add_timing_def cpu_add_time_def can_time_def) blast
qed

text \<open>Asking for a lock succeeds and schedules the request.\<close>

lemma lock_lock_effect:
  assumes "can_time st" and "\<not> continues_in_scheduled_event st" and "t \<noteq> 0" and "n + 16 < UINT_MAX"
  shows "\<exists>st' e. cpu_lock_lock st i t d n = Some st' \<and> scheduled st' = scheduled st @ [e] \<and> ev_type e = CPU_LOCK_LOCK \<and>
     ev_data e = LockMsg i t n d \<and> cpu_state.more st' = cpu_state.more st"
proof -
  from add_timing_returns [OF assms(1) zero_le_one, of "[''lock_time'']"] obtain k e where
    "cpu_add_timing st 1 [''lock_time''] = Some (st\<lparr>draws := k, elapsed_time := e\<rparr>)" by blast
  with assms(2-) show ?thesis
    by (simp add: cpu_lock_lock_def cpu_schedule_lock_msg_def cpu_processing_continues_in_scheduled_event_def
        cpu_lock_msg_new_def cpu_schedule_event_def sizeof_cpu_lock_msg_def ScheduleNewEvent_def)
qed

section \<open>Rules for the body of a handler\<close>

lemma bind_value: "(\<And>x. e = Some x \<Longrightarrow> post (f x) Q) \<Longrightarrow> post (Option.bind e f) Q"
  by (auto simp: post_def bind_eq_Some_conv)

lemma post_ifI: "(b \<Longrightarrow> post e1 Q) \<Longrightarrow> (\<not> b \<Longrightarrow> post e2 Q) \<Longrightarrow> post (if b then e1 else e2) Q"
  by simp

lemma post_SomeI: "Q r \<Longrightarrow> post (Some r) Q"
  by simp

lemma not_core [simp]: "13 \<le> t \<Longrightarrow> \<not> core_event t"
  by (simp add: core_event_def is_lock_event_def is_rwlock_event_def)

text \<open>What the functions of the CPU leave alone: everything that extends its record.\<close>

lemma more_add_timing: "cpu_add_timing st k p = Some st' \<Longrightarrow> cpu_state.more st' = cpu_state.more st"
  by (auto simp: cpu_add_timing_def cpu_add_time_def bind_eq_Some_conv dest!: timing_func_draws)

lemma more_ScheduleNewEvent [simp]: "cpu_state.more (ScheduleNewEvent st to w t d n) = cpu_state.more st"
  by (simp add: ScheduleNewEvent_def)

lemma more_schedule_lock_msg: "cpu_schedule_lock_msg st c i t d n = Some st' \<Longrightarrow> cpu_state.more st' = cpu_state.more st"
  by (auto simp: cpu_schedule_lock_msg_def cpu_schedule_event_def bind_eq_Some_conv Let_def
      cpu_processing_continues_in_scheduled_event_def ScheduleNewEvent_def split: prod.splits)

lemma more_lock_lock: "cpu_lock_lock st i t d n = Some st' \<Longrightarrow> cpu_state.more st' = cpu_state.more st"
  by (auto simp: cpu_lock_lock_def bind_eq_Some_conv dest!: more_add_timing more_schedule_lock_msg)

lemma more_lock_unlock: "cpu_lock_unlock st i t d n = Some st' \<Longrightarrow> cpu_state.more st' = cpu_state.more st"
  by (auto simp: cpu_lock_unlock_def bind_eq_Some_conv dest!: more_add_timing more_schedule_lock_msg)

locale server_rel =
  fixes R :: "('p, 'v, 'z) server_state_scheme \<Rightarrow> ('p, 'v, 'z) server_state_scheme \<Rightarrow> bool"
  assumes R_trans: "R a b \<Longrightarrow> R b c \<Longrightarrow> R a c"
    and R_cpu: "cpu_frame st st' \<Longrightarrow> cpu_state.more st' = cpu_state.more st \<Longrightarrow> R st st'"
    and R_stats: "R st (st\<lparr>stats := s\<rparr>)"
    and R_network: "sent (sc_network (config st)) (sc_lpid (config st)) to departure bytes (network st) ns arrival \<Longrightarrow>
      R st (st\<lparr>network := ns\<rparr>)"
begin

lemma r_refl: "R st st"
  by (rule R_cpu) simp_all

lemma r_post: "post e (R st) \<Longrightarrow> R s0 st \<Longrightarrow> post e (R s0)"
  by (erule post_mono) (rule R_trans)

lemma r_bind: "post e (R s0) \<Longrightarrow> (\<And>st. R s0 st \<Longrightarrow> post (f st) Q) \<Longrightarrow> post (Option.bind e f) Q"
  by (auto simp: post_def bind_eq_Some_conv)

lemma r_bind_pair:
  "post e (\<lambda>r. R s0 (snd r)) \<Longrightarrow> (\<And>x st. R s0 st \<Longrightarrow> post (f (x, st)) Q) \<Longrightarrow> post (Option.bind e f) Q"
  by (auto simp: post_def bind_eq_Some_conv)

lemma r_bind_quad:
  "post e (\<lambda>r. R s0 (snd (snd (snd r)))) \<Longrightarrow> (\<And>x y z st. R s0 st \<Longrightarrow> post (f (x, y, z, st)) Q)
   \<Longrightarrow> post (Option.bind e f) Q"
  by (auto simp: post_def bind_eq_Some_conv)

lemma r_add_timing: "R s0 st \<Longrightarrow> post (cpu_add_timing st k p) (R s0)"
  by (rule r_post [rotated], assumption, rule postI)
    (auto intro: R_cpu more_add_timing postD [OF frame_add_timing [OF cpu_frame_refl]])

lemma r_lock_lock: "R s0 st \<Longrightarrow> post (cpu_lock_lock st i t d n) (R s0)"
  by (rule r_post [rotated], assumption, rule postI)
    (auto intro: R_cpu more_lock_lock postD [OF frame_lock_lock [OF cpu_frame_refl]])

lemma r_lock_unlock: "R s0 st \<Longrightarrow> post (cpu_lock_unlock st i t d n) (R s0)"
  by (rule r_post [rotated], assumption, rule postI)
    (auto intro: R_cpu more_lock_unlock postD [OF frame_lock_unlock [OF cpu_frame_refl]])

lemma r_schedule_self: "R s0 st \<Longrightarrow> \<not> core_event t \<Longrightarrow> post (server_schedule_self st delay t d n) (R s0)"
  by (rule r_post [rotated], assumption)
    (auto simp: server_schedule_self_def post_simps Let_def intro!: R_cpu)

lemma r_counter_inc: "R s0 st \<Longrightarrow> post (server_stats_counter_inc st i) (R s0)"
  by (rule r_post [rotated], assumption)
    (auto simp: server_stats_counter_inc_def post_def bind_eq_Some_conv r_refl R_stats split: if_splits)

lemma r_array_push: "R s0 st \<Longrightarrow> post (server_stats_array_push st i v) (R s0)"
  by (rule r_post [rotated], assumption)
    (auto simp: server_stats_array_push_def post_def bind_eq_Some_conv r_refl R_stats split: if_splits)

lemma r_build_struct: "R s0 st \<Longrightarrow> post (build_struct_per_byte_time st n) (R s0)"
  unfolding build_struct_per_byte_time_def by (rule r_add_timing)

text \<open>A message: CPU time and an event first, then the state of the network interface.\<close>

lemma r_send:
  assumes "R s0 st" and t: "\<not> core_event t"
  shows "post (server_send st to t m d) (R s0)"
proof (rule r_post [OF postI assms(1)])
  fix st' assume "server_send st to t m d = Some st'"
  from server_send_effect [OF this] obtain n e w ns where
    st': "st' = (ScheduleNewEvent (st\<lparr>draws := n, elapsed_time := elapsed_time st + e\<rparr>) to w t d (m_size m))\<lparr>network := ns\<rparr>"
    and s: "sent (sc_network (config st)) (sc_lpid (config st)) to (now st + (elapsed_time st + e))
       (simulated_size m) (network st) ns w"
    by (auto simp: send_effect_def)
  let ?s1 = "ScheduleNewEvent (st\<lparr>draws := n, elapsed_time := elapsed_time st + e\<rparr>) to w t d (m_size m)"
  have "R st ?s1" by (rule R_cpu) (use t in \<open>simp_all add: ScheduleNewEvent_def cpu_frame_def\<close>)
  moreover have "R ?s1 (?s1\<lparr>network := ns\<rparr>)" by (rule R_network) (use s in \<open>simp add: ScheduleNewEvent_def\<close>)
  ultimately show "R st st'" unfolding st' by (rule R_trans)
qed

lemmas r_posts = r_add_timing r_lock_lock r_lock_unlock r_schedule_self r_counter_inc r_array_push
  r_build_struct r_send

lemmas r_binds = r_posts [THEN r_bind]

text \<open>The same rules for a block whose result is a state: the first state is fixed by the goal.\<close>

lemma r_hbind: "post e (R s0) \<Longrightarrow> (\<And>st. R s0 st \<Longrightarrow> post (f st) (R s0)) \<Longrightarrow> post (Option.bind e f) (R s0)"
  by (rule r_bind)

lemma r_hbind_pair:
  "post e (\<lambda>r. R s0 (snd r)) \<Longrightarrow> (\<And>x st. R s0 st \<Longrightarrow> post (f (x, st)) (R s0)) \<Longrightarrow> post (Option.bind e f) (R s0)"
  by (rule r_bind_pair)

lemma r_hbind_quad:
  "post e (\<lambda>r. R s0 (snd (snd (snd r)))) \<Longrightarrow> (\<And>x y z st. R s0 st \<Longrightarrow> post (f (x, y, z, st)) (R s0))
   \<Longrightarrow> post (Option.bind e f) (R s0)"
  by (rule r_bind_quad)

lemmas r_hbinds = r_posts [THEN r_hbind]

lemma r_foldM:
  assumes "R s0 st" and "\<And>x st. R s0 st \<Longrightarrow> post (f x st) (R s0)"
  shows "post (foldM f xs st) (R s0)"
  using assms by (intro post_foldM) auto

lemma r_light: "R s0 st \<Longrightarrow> light st st' \<Longrightarrow> R s0 st'"
proof -
  have h: "R st (heavy st)" "R (heavy st) st" for st
  proof -
    let ?s = "st\<lparr>draws := 0, elapsed_time := 0\<rparr>"
    have "heavy st = ?s\<lparr>stats := \<lparr>st_arrays = [], st_counters = []\<rparr>\<rparr>" by (simp add: heavy_def)
    moreover have "R st ?s" "R ?s st" by (rule R_cpu; simp add: cpu_frame_def)+
    moreover have "?s = (heavy st)\<lparr>stats := stats st\<rparr>" by (simp add: heavy_def)
    ultimately show "R st (heavy st)" "R (heavy st) st" by (metis R_stats R_trans)+
  qed
  assume "R s0 st" "light st st'"
  then show "R s0 st'" unfolding light_def using h [of st] h [of st'] R_trans by metis
qed

definition handled :: "('p, 'v, 'z) server_state_scheme \<Rightarrow> ('p, 'v, 'z) server_state_scheme option \<Rightarrow> bool" where
  "handled st r \<longleftrightarrow> (case r of None \<Rightarrow> True | Some st' \<Rightarrow> R st st')"

lemma handled_None [simp]: "handled st None"
  by (simp add: handled_def)

lemma r_on_msg: "(\<And>m. post (f st m) (R st)) \<Longrightarrow> post (on_msg sel f st d) (handled st)"
  by (auto simp: on_msg_def post_def handled_def bind_eq_Some_conv split: event_data.splits)

lemma r_no_msg: "post (f st) (R st) \<Longrightarrow> post (no_msg f st) (handled st)"
  by (auto simp: no_msg_def post_def handled_def)

end

section \<open>Runs of a server\<close>

text \<open>
  A protocol whose dispatch keeps the relation \<open>K\<close>, which looks only at the server's part of the
  record and not at the current time.
\<close>

locale server_protocol =
  fixes process_event ::
      "event_type \<Rightarrow> 'p event_data \<Rightarrow> nat \<Rightarrow> ('p, 'v, 'z) server_state_scheme \<Rightarrow> ('p, 'v, 'z) server_state_scheme option option"
    and K :: "('p, 'v, 'z) server_state_scheme \<Rightarrow> ('p, 'v, 'z) server_state_scheme \<Rightarrow> bool"
  assumes K_refl: "K st st"
    and K_trans: "K a b \<Longrightarrow> K b c \<Longrightarrow> K a c"
    and K_more: "cpu_state.more a = cpu_state.more a' \<Longrightarrow> cpu_state.more b = cpu_state.more b' \<Longrightarrow> K a b = K a' b'"
    and K_now: "K st (st\<lparr>now := t', clock := c'\<rparr>)"
    and dispatch: "process_event t d n st = Some (Some st') \<Longrightarrow> cpu_frame st st' \<and> K st st'"
begin

definition K_ext where
  "K_ext z z' \<longleftrightarrow> (\<forall>st st'. cpu_state.more st = z \<longrightarrow> cpu_state.more st' = z' \<longrightarrow> K st st')"

lemma K_ext_more: "K_ext (cpu_state.more st) (cpu_state.more st') \<longleftrightarrow> K st st'"
  unfolding K_ext_def by (metis K_more)

lemma K_ext_refl: "K_ext z z"
  unfolding K_ext_def by (metis K_more K_refl)

lemma K_ext_trans: "K_ext x y \<Longrightarrow> K_ext y z \<Longrightarrow> K_ext x z"
  unfolding K_ext_def
proof (intro allI impI)
  fix st st' :: "('p, 'v, 'z) server_state_scheme"
  let ?m = "cpu_state.more_update (\<lambda>_. y) st"
  assume "\<forall>st st'. cpu_state.more st = x \<longrightarrow> cpu_state.more st' = y \<longrightarrow> K st st'"
    and "\<forall>st st'. cpu_state.more st = y \<longrightarrow> cpu_state.more st' = z \<longrightarrow> K st st'"
    and "cpu_state.more st = x" "cpu_state.more st' = z"
  then have "K st ?m" "K ?m st'" by simp_all
  then show "K st st'" by (rule K_trans)
qed

lemma handler_keeps:
  "post (server_handler process_event t d n st) (\<lambda>st'. cpu_frame st st' \<and> K st st')"
proof (rule postI)
  fix st' assume "server_handler process_event t d n st = Some st'"
  then obtain c where "process_event t d n (st\<lparr>now := cpu_now st, clock := c\<rparr>) = Some (Some st')"
    by (auto simp: server_handler_def server_process_event_def bind_eq_Some_conv Let_def)
  from dispatch [OF this] show "cpu_frame st st' \<and> K st st'"
    using K_trans [OF K_now] by (auto simp: cpu_frame_def)
qed

end

sublocale server_protocol \<subseteq> cpu: cpu_client "server_handler process_event" K_ext
proof
  fix t d n and st :: "('p, 'v, 'z) server_state_scheme"
  show "post (server_handler process_event t d n st) (cpu_frame st)"
    by (rule post_mono [OF handler_keeps]) simp
  show "post (server_handler process_event t d n st) (\<lambda>st'. K_ext (cpu_state.more st) (cpu_state.more st'))"
    by (rule post_mono [OF handler_keeps]) (simp add: K_ext_more)
qed (rule K_ext_refl)

context server_protocol
begin

lemma run_keeps:
  assumes "(lp_step (server_handler process_event))\<^sup>*\<^sup>* st st'" and "cpu_inv st"
  shows "cpu_inv st'" and "K st st'"
  using cpu.reachable_inv [OF assms K_ext_trans] by (auto simp: K_ext_more)

end

section \<open>A server that has just been initialised\<close>

definition fresh_server :: "('p, 'v, 'z) server_state_scheme \<Rightarrow> bool" where
  "fresh_server st \<longleftrightarrow> busy_cores st = 0 \<and> cl_items (cpu_queue st) = [] \<and> ncore (scheduled st) = 0 \<and> 0 < cores st \<and>
     store st = store_new \<and> network st = network_init"

lemma fresh_schedule_self:
  "fresh_server st \<Longrightarrow> \<not> core_event t \<Longrightarrow> post (server_schedule_self st delay t d n) fresh_server"
  by (simp add: server_schedule_self_def post_simps Let_def fresh_server_def ScheduleNewEvent_def)

lemma bind_post: "post e P \<Longrightarrow> (\<And>r. P r \<Longrightarrow> post (f r) Q) \<Longrightarrow> post (Option.bind e f) Q"
  by (auto simp: post_def bind_eq_Some_conv)

lemma server_init_fresh:
  assumes "ncore (scheduled st) = 0" and "0 < num_cores c"
    and init: "\<And>st. fresh_server st \<Longrightarrow> post (init_state st) Q"
  shows "post (server_init m init_state c lpid t st) Q"
  unfolding server_init_def Let_def
  by (rule bind_value init)+
    (use assms in \<open>simp add: fresh_server_def cpu_setup_def server_clock_skew_init_def ScheduleNewEvent_def
      cpu_list_init_def\<close>)

definition net_ok :: "('p, 'v, 'z) server_state_scheme \<Rightarrow> bool" where
  "net_ok st \<longleftrightarrow> network_inv (sc_network (config st)) (sc_lpid (config st)) (network st)"

lemma net_ok_sent:
  "sent (sc_network (config st)) (sc_lpid (config st)) to departure bytes (network st) ns arrival \<Longrightarrow> net_ok st \<Longrightarrow>
   net_ok (st\<lparr>network := ns\<rparr>)"
  by (auto simp: net_ok_def dest: sent_inv(1))

end
