(* ===== verification/Versions.thy ===== *)
theory Versions
  imports Gr_Replication Server_Frame "HOL-Library.Sublist"
begin

text \<open>
  The versions of a key and the queues of updates, in the form the two GentleRain protocols share:
  what a well-formed store is, when no version is lost, and what a read of a list of versions
  returns.
\<close>

section \<open>Well-formed stores\<close>

definition versions_sorted :: "'i gr_item_scheme list \<Rightarrow> bool" where
  "versions_sorted = sorted_wrt (\<lambda>a b. it_update_time b \<le> it_update_time a)"

definition store_ok :: "('p, 'i gr_item_scheme list, 'z) server_state_scheme \<Rightarrow> bool" where
  "store_ok st \<longleftrightarrow> store_wf (store st) \<and> (\<forall>k. versions_sorted (chain_at (store st) k)) \<and>
     (\<forall>k. store_get (store st) k \<noteq> Some [])"

text \<open>Queue \<open>i\<close> is a well-formed structure that holds updates of replica \<open>i\<close> only.\<close>

definition queue_of :: "nat \<Rightarrow> 'u gr_replica_update_scheme queue \<Rightarrow> bool" where
  "queue_of i q \<longleftrightarrow> (\<exists>us. queue_repr q us \<and> (\<forall>u \<in> set us. unat (ru_source_replica u) = i))"

definition keeps_versions ::
  "('p, 'i list, 'z) server_state_scheme \<Rightarrow> ('p, 'i list, 'z) server_state_scheme \<Rightarrow> bool" where
  "keeps_versions st st' \<longleftrightarrow> (\<forall>k. suffix (chain_at (store st) k) (chain_at (store st') k))"

lemma keeps_versions_refl [simp]: "keeps_versions st st"
  by (simp add: keeps_versions_def)

lemma keeps_versions_trans: "keeps_versions a b \<Longrightarrow> keeps_versions b c \<Longrightarrow> keeps_versions a c"
  by (auto simp: keeps_versions_def intro: suffix_order.trans)

lemma versions_sorted_Cons:
  "versions_sorted vs \<Longrightarrow> vs = [] \<or> it_update_time (hd vs) \<le> it_update_time item \<Longrightarrow> versions_sorted (item # vs)"
  by (cases vs) (auto simp: versions_sorted_def intro: order_trans)

lemma chain_at_put:
  "chain_at (store_put s key versions) k = (if k = key then versions else chain_at s k)"
  by (auto simp: chain_at_def store_get_put)

lemma cpu_frame_server [simp]:
  "cpu_frame st0 (st\<lparr>now := t\<rparr>) = cpu_frame st0 st" "cpu_frame st0 (st\<lparr>clock := t\<rparr>) = cpu_frame st0 st"
  "cpu_frame st0 (st\<lparr>stats := s\<rparr>) = cpu_frame st0 st" "cpu_frame st0 (st\<lparr>network := n\<rparr>) = cpu_frame st0 st"
  "cpu_frame st0 (st\<lparr>store := d\<rparr>) = cpu_frame st0 st"
  by (simp_all add: cpu_frame_def)

section \<open>Queues of updates\<close>

lemma queue_dequeue_repr: "queue_repr q us \<Longrightarrow> queue_dequeue q = Some (e, q') \<Longrightarrow> queue_repr q' (tl us)"
  by (cases us) (use queue_dequeue_Nil queue_dequeue_Cons in fastforce)+

lemma queue_enqueue_reprD: "queue_repr q us \<Longrightarrow> queue_enqueue q u = Some q' \<Longrightarrow> queue_repr q' (us @ [u])"
  using queue_enqueue_repr [of q us u] by simp

lemma queue_of_dequeue: "queue_of i q \<Longrightarrow> queue_dequeue q = Some (e, q') \<Longrightarrow> queue_of i q'"
  unfolding queue_of_def by (metis list.set_sel(2) queue_dequeue_repr tl_Nil)

lemma queue_of_enqueue: "queue_of (unat (ru_source_replica u)) q \<Longrightarrow> queue_enqueue q u = Some q' \<Longrightarrow> queue_of (unat (ru_source_replica u)) q'"
  unfolding queue_of_def using queue_enqueue_reprD by fastforce

section \<open>What a read returns\<close>

definition read_result :: "('i gr_item_scheme \<Rightarrow> bool) \<Rightarrow> 'i gr_item_scheme list \<Rightarrow> gr_value \<times> gr_tsp \<times> replica_t" where
  "read_result visible versions = (case find visible versions of
     None \<Rightarrow> (0, 0, 0)
   | Some item \<Rightarrow> (it_value item, it_update_time item, it_source_replica item))"

lemma find_newest:
  assumes "versions_sorted vs" and "find P vs = Some i"
  shows "i \<in> set vs \<and> P i \<and> (\<forall>j \<in> set vs. P j \<longrightarrow> it_update_time j \<le> it_update_time i)"
  using assms by (induction vs) (auto simp: versions_sorted_def split: if_splits)

text \<open>The newest version that \<open>P\<close> lets through, or zeroes when there is none.\<close>

definition newest_visible :: "('i gr_item_scheme \<Rightarrow> bool) \<Rightarrow> 'i gr_item_scheme list \<Rightarrow> gr_value \<times> gr_tsp \<times> replica_t \<Rightarrow> bool" where
  "newest_visible P versions r \<longleftrightarrow>
     (\<forall>i \<in> set versions. \<not> P i) \<and> r = (0, 0, 0) \<or>
     (\<exists>i \<in> set versions. P i \<and> r = (it_value i, it_update_time i, it_source_replica i) \<and>
        (\<forall>j \<in> set versions. P j \<longrightarrow> it_update_time j \<le> it_update_time i))"

lemma read_result_newest:
  assumes "versions_sorted vs"
  shows "newest_visible P vs (read_result P vs)"
proof (cases "find P vs")
  case None
  then have "\<forall>i \<in> set vs. \<not> P i" by (simp add: find_None_iff)
  with None show ?thesis by (simp add: newest_visible_def read_result_def)
next
  case (Some i)
  with find_newest [OF assms Some] show ?thesis by (auto simp: newest_visible_def read_result_def)
qed

text \<open>The loop over the versions, for a test that costs time and answers \<open>P\<close>.\<close>

lemma first_visible_find:
  assumes "\<forall>i \<in> set vs. it_source_replica i < num_replicas (sc_cluster (config st))" and "can_time st"
    and "\<And>n e item. item \<in> set vs \<Longrightarrow>
      \<exists>n' e'. vis (st\<lparr>draws := n, elapsed_time := e\<rparr>) item t = Some (P item, st\<lparr>draws := n', elapsed_time := e'\<rparr>)"
  shows "\<exists>n e. first_visible vis t vs st = Some (find P vs, st\<lparr>draws := n, elapsed_time := e\<rparr>)"
proof -
  have "\<exists>n' e'. first_visible vis t vs (st\<lparr>draws := n, elapsed_time := e\<rparr>) =
      Some (find P vs, st\<lparr>draws := n', elapsed_time := e'\<rparr>)" for n e
    using assms(1,3)
  proof (induction vs arbitrary: n e)
    case (Cons i vs)
    from Cons.prems(2) [where item = i and n = n and e = e] obtain n1 e1 where
      1: "vis (st\<lparr>draws := n, elapsed_time := e\<rparr>) i t = Some (P i, st\<lparr>draws := n1, elapsed_time := e1\<rparr>)" by auto
    from Cons.IH [where n = n1 and e = e1] Cons.prems obtain n2 e2 where
      "first_visible vis t vs (st\<lparr>draws := n1, elapsed_time := e1\<rparr>) =
        Some (find P vs, st\<lparr>draws := n2, elapsed_time := e2\<rparr>)" by auto
    with 1 Cons.prems(1) show ?case by auto
  qed auto
  from this [where n = "draws st" and e = "elapsed_time st"] show ?thesis by simp
qed

lemma first_visible_partial:
  assumes "\<And>s item b s'. light st s \<Longrightarrow> vis s item t = Some (b, s') \<Longrightarrow> b = P item \<and> light st s'"
  shows "light st s \<Longrightarrow> first_visible vis t vs s = Some (x, s') \<Longrightarrow> x = find P vs"
proof (induction vs arbitrary: s)
  case (Cons i vs)
  from Cons.prems(2) obtain b s1 where 1: "vis s i t = Some (b, s1)"
    by (cases "vis s i t") auto
  from assms [OF Cons.prems(1) 1] Cons 1 show ?case by (auto simp: bind_eq_Some_conv split: if_splits)
qed simp

text \<open>What was visible stays covered when versions are only added and visibility only grows.\<close>

lemma newest_mono:
  assumes "versions_sorted vs'" and "suffix vs vs'" and "\<And>i. i \<in> set vs \<Longrightarrow> P i \<Longrightarrow> P' i"
    and "i \<in> set vs" and "P i"
  shows "\<exists>j. find P' vs' = Some j \<and> it_update_time i \<le> it_update_time j"
proof -
  have i: "i \<in> set vs'" "P' i" using assms(2-5) by (auto dest: set_mono_suffix)
  then obtain j where j: "find P' vs' = Some j" by (cases "find P' vs'") (auto simp: find_None_iff)
  with find_newest [OF assms(1) j] i show ?thesis by blast
qed

end
