(* ===== verification/Gr_Frame.thy ===== *)
theory Gr_Frame
  imports Gr_Server Versions
begin

text \<open>
  What every handler of a GentleRain server keeps: the relation \<open>gr_rel\<close> between the state before
  and after. It contains \<open>cpu_frame\<close>, which the CPU asks of its client, and the promises of the
  protocol: the stable time never goes back, no version of a value is lost, the versions of a key
  stay ordered, the update queues stay well formed, and messages to one destination stay in order.
\<close>

section \<open>The relation\<close>

definition queues_ok :: "gr_state \<Rightarrow> bool" where
  "queues_ok st \<longleftrightarrow> (\<forall>i < length (replica_update_queues st). queue_of i (replica_update_queues st ! i))"

definition gr_rel :: "gr_state \<Rightarrow> gr_state \<Rightarrow> bool" where
  "gr_rel st st' \<longleftrightarrow>
     cpu_frame st st' \<and> config st' = config st \<and> now st' = now st \<and> clock st' = clock st \<and>
     clock_offset st' = clock_offset st \<and>
     gst st \<le> gst st' \<and> keeps_versions st st' \<and>
     (store_ok st \<longrightarrow> store_ok st') \<and> (queues_ok st \<longrightarrow> queues_ok st') \<and> (net_ok st \<longrightarrow> net_ok st')"

lemma gr_rel_refl [simp]: "gr_rel st st"
  by (simp add: gr_rel_def)

lemma gr_rel_trans: "gr_rel a b \<Longrightarrow> gr_rel b c \<Longrightarrow> gr_rel a c"
  by (auto simp: gr_rel_def intro: cpu_frame_trans keeps_versions_trans)

text \<open>Fields the relation does not look at.\<close>

lemma gr_rel_updates [simp]:
  "gr_rel s0 (st\<lparr>draws := n\<rparr>) = gr_rel s0 st"
  "gr_rel s0 (st\<lparr>elapsed_time := t\<rparr>) = gr_rel s0 st"
  "gr_rel s0 (st\<lparr>allow_no_time := b\<rparr>) = gr_rel s0 st"
  "gr_rel s0 (st\<lparr>stats := s\<rparr>) = gr_rel s0 st"
  "gr_rel s0 (st\<lparr>version_vector := vv\<rparr>) = gr_rel s0 st"
  "gr_rel s0 (st\<lparr>min_lst := t\<rparr>) = gr_rel s0 st"
  "gr_rel s0 (st\<lparr>lst_received := l\<rparr>) = gr_rel s0 st"
  "gr_rel s0 (st\<lparr>get_states := gs\<rparr>) = gr_rel s0 st"
  "gr_rel s0 (st\<lparr>put_states := ps\<rparr>) = gr_rel s0 st"
  "gr_rel s0 (st\<lparr>snapshot_states := ss\<rparr>) = gr_rel s0 st"
  "gr_rel s0 (st\<lparr>rotx_states := rs\<rparr>) = gr_rel s0 st"
  "gr_rel s0 (cpu_allow_no_time st) = gr_rel s0 st"
  "gr_rel s0 (cpu_set_elapsed_time st t) = gr_rel s0 st"
  by (simp_all add: gr_rel_def cpu_frame_def keeps_versions_def store_ok_def queues_ok_def net_ok_def
      cpu_allow_no_time_def cpu_set_elapsed_time_def)

lemma gr_rel_gst: "gr_rel s0 st \<Longrightarrow> gst st \<le> t \<Longrightarrow> gr_rel s0 (st\<lparr>gst := t\<rparr>)"
  by (auto simp: gr_rel_def cpu_frame_def keeps_versions_def store_ok_def queues_ok_def net_ok_def)

text \<open>
  The rules that walk through the body of a handler, one statement at a time: \<open>gr_posts\<close> are about a
  statement at the end, \<open>gr_binds\<close> about a statement with more to follow.
\<close>

interpretation gf: server_rel gr_rel
proof
  fix a b c :: gr_state
  show "gr_rel a b \<Longrightarrow> gr_rel b c \<Longrightarrow> gr_rel a c" by (rule gr_rel_trans)
next
  fix st st' :: gr_state
  assume "cpu_frame st st'" "cpu_state.more st' = cpu_state.more st"
  then show "gr_rel st st'"
    by (cases st; cases st') (simp add: gr_rel_def keeps_versions_def store_ok_def queues_ok_def net_ok_def)
next
  fix st :: gr_state and to departure bytes ns arrival
  assume "sent (sc_network (config st)) (sc_lpid (config st)) to departure bytes (network st) ns arrival"
  from net_ok_sent [OF this] show "gr_rel st (st\<lparr>network := ns\<rparr>)"
    by (simp add: gr_rel_def keeps_versions_def store_ok_def queues_ok_def)
qed simp

lemmas gr_posts = gf.r_posts
  and gr_binds = gf.r_binds
  and gr_hbinds = gf.r_hbinds
  and bind_state = gf.r_bind
  and bind_pair = gf.r_bind_pair
  and bind_quad = gf.r_bind_quad
  and hbind_state = gf.r_hbind
  and hbind_pair = gf.r_hbind_pair
  and hbind_quad = gf.r_hbind_quad
  and post_foldM_rel = gf.r_foldM
  and gr_rel_light = gf.r_light

end
