(* ===== verification/Gr_Keep.thy ===== *)
theory Gr_Keep
  imports Gr_Frame
begin

text \<open>
  Every handler of the GentleRain server keeps the relation \<open>gr_rel\<close>: one lemma per function of
  \<open>src/server/protocols/gr/\<close>, each proved by walking through its body with the rules of
  \<open>Gr_Frame\<close>, and their sum, the dispatch.
\<close>

section \<open>Reading, writing and counting\<close>

lemma gr_visible: "gr_rel s0 st \<Longrightarrow> post (gr_is_value_visible st item t) (\<lambda>r. gr_rel s0 (snd r))"
  unfolding gr_is_value_visible_def
  by (rule gr_binds post_SomeI bind_value post_ifI | assumption | simp)+

lemma gr_visible_always: "gr_rel s0 st \<Longrightarrow> post (gr_always_visible st item t) (\<lambda>r. gr_rel s0 (snd r))"
  by (simp add: gr_always_visible_def)

lemma gr_visible_snapshot: "gr_rel s0 st \<Longrightarrow> post (is_value_visible_snapshot st item t) (\<lambda>r. gr_rel s0 (snd r))"
  by (simp add: is_value_visible_snapshot_def)

lemma gr_first_visible:
  assumes "\<And>st item t. gr_rel s0 st \<Longrightarrow> post (vis st item t) (\<lambda>r. gr_rel s0 (snd r))"
  shows "gr_rel s0 st \<Longrightarrow> post (first_visible vis t versions st) (\<lambda>r. gr_rel s0 (snd r))"
proof (induction versions arbitrary: st)
  case (Cons item older)
  show ?case
    unfolding first_visible.simps
    by (rule bind_pair [OF assms] Cons.prems bind_value post_ifI Cons.IH | assumption | simp only: prod.case | simp)+
qed simp

lemma gr_get_value_at_rel:
  assumes "\<And>st item t. gr_rel s0 st \<Longrightarrow> post (vis st item t) (\<lambda>r. gr_rel s0 (snd r))" and "gr_rel s0 st"
  shows "post (gr_get_value_at st key t vis) (\<lambda>r. gr_rel s0 (snd (snd (snd r))))"
  unfolding gr_get_value_at_def Let_def
  by (rule gr_binds bind_pair [OF gr_first_visible] assms bind_value | assumption | simp only: prod.case | simp split: option.split)+

lemma gr_get_value_rel: "gr_rel s0 st \<Longrightarrow> post (gr_get_value st key) (\<lambda>r. gr_rel s0 (snd (snd (snd r))))"
  unfolding gr_get_value_def by (rule gr_get_value_at_rel [OF gr_visible])

lemma gr_rel_put:
  assumes "gr_rel s0 st" and "chain_at (store st) key = [] \<or> it_update_time (hd (chain_at (store st) key)) \<le> it_update_time item"
  shows "gr_rel s0 (st\<lparr>store := store_put (store st) key (item # chain_at (store st) key)\<rparr>)"
proof -
  let ?s = "store_put (store st) key (item # chain_at (store st) key)"
  have c: "chain_at ?s k = (if k = key then item # chain_at (store st) key else chain_at (store st) k)" for k
    by (auto simp: chain_at_def store_get_put)
  have kv: "keeps_versions st (st\<lparr>store := ?s\<rparr>)"
    by (auto simp: keeps_versions_def c suffix_ConsI)
  have "store_ok st \<Longrightarrow> store_ok (st\<lparr>store := ?s\<rparr>)"
    using assms(2) by (simp add: store_ok_def c store_wf_put store_get_put versions_sorted_Cons)
  then have "gr_rel st (st\<lparr>store := ?s\<rparr>)"
    using kv by (simp add: gr_rel_def queues_ok_def net_ok_def)
  with assms(1) show ?thesis by (rule gr_rel_trans)
qed

lemma gr_put_value_rel: "gr_rel s0 st \<Longrightarrow> post (gr_put_value st key v t r) (\<lambda>x. gr_rel s0 (snd x))"
  unfolding gr_put_value_def Let_def
  by (rule gr_binds bind_value post_ifI post_SomeI | assumption | simp only: prod.case snd_conv | rule gr_rel_put | auto)+

lemma gr_stats_get_request_rel: "gr_rel s0 st \<Longrightarrow> post (gr_stats_get_request st key t) (gr_rel s0)"
  unfolding gr_stats_get_request_def Let_def
  by (rule gr_binds gr_posts post_ifI | assumption | simp)+

lemma gr_lightD:
  assumes "light st (st' :: gr_state)"
  shows "gst st' = gst st" "version_vector st' = version_vector st" "rotx_states st' = rotx_states st"
    "replica_update_queues st' = replica_update_queues st"
  using lightD(6) [OF assms] by (cases st; cases st'; simp)+

lemma light_visible: "light s0 st \<Longrightarrow> post (gr_is_value_visible st item t) (\<lambda>r. light s0 (snd r))"
  unfolding gr_is_value_visible_def
  by (rule bind_light [OF light_add_timing] post_SomeI | assumption | simp)+

lemma light_gst_update_item: "light s0 st \<Longrightarrow> post (gst_update_item old new versions st) (light s0)"
proof (induction versions arbitrary: st)
  case (Cons item older)
  show ?case unfolding gst_update_item.simps
    by (rule bind_light_pair [OF light_visible] bind_light light_array_push Cons bind_value post_ifI post_SomeI
        | assumption | simp only: prod.case | simp)+
qed simp

lemma light_stats_gst_update: "light s0 st \<Longrightarrow> post (gr_stats_gst_update st old new) (light s0)"
  unfolding gr_stats_gst_update_def Let_def store_foreach_items
  by (rule bind_light [OF post_foldM] post_ifI post_SomeI
      | assumption | simp add: light_gst_update_item split: prod.split)+

section \<open>Transactions and stable time\<close>

lemma gr_rotx_state_new_rel: "gr_rel s0 st \<Longrightarrow> post (gr_rotx_state_new st) (\<lambda>r. gr_rel s0 (snd r))"
  unfolding gr_rotx_state_new_def Let_def by (rule bind_value post_SomeI | simp split: prod.split)+

lemma gr_rotx_state_set_rel: "gr_rel s0 st \<Longrightarrow> post (gr_rotx_state_set st i r) (gr_rel s0)"
  unfolding gr_rotx_state_set_def by (rule bind_value post_SomeI | simp)+

lemma gr_rotx_state_free_rel: "gr_rel s0 st \<Longrightarrow> post (gr_rotx_state_free st i) (gr_rel s0)"
  unfolding gr_rotx_state_free_def by (rule bind_value post_SomeI | simp)+

lemma gr_send_rotx_snapshot_request_rel: "gr_rel s0 st \<Longrightarrow> post (gr_send_rotx_snapshot_request st i) (gr_rel s0)"
  unfolding gr_send_rotx_snapshot_request_def
  by (rule bind_value gr_posts | assumption | simp add: core_event_def is_lock_event_def is_rwlock_event_def)+

lemma rotx_gst_update_callback_rel: "gr_rel s0 st \<Longrightarrow> post (rotx_gst_update_callback i r st) (gr_rel s0)"
  unfolding rotx_gst_update_callback_def
  by (rule gr_binds bind_state [OF gr_rotx_state_set_rel] gr_send_rotx_snapshot_request_rel post_ifI post_SomeI
      | assumption | simp)+

lemma gr_rotx_on_gst_updated_rel: "gr_rel s0 st \<Longrightarrow> post (gr_rotx_on_gst_updated st) (gr_rel s0)"
  unfolding gr_rotx_on_gst_updated_def ptr_array_foreach_def
  by (rule post_foldM_rel bind_value | assumption | simp add: rotx_gst_update_callback_rel split: option.split)+

lemma gr_process_rotx_request_rel: "gr_rel s0 st \<Longrightarrow> post (gr_process_rotx_request st m) (gr_rel s0)"
  unfolding gr_process_rotx_request_def Let_def
  by (rule gr_binds bind_pair [OF gr_rotx_state_new_rel] bind_state [OF gr_rotx_state_set_rel] gr_rotx_state_set_rel
      gr_send_rotx_snapshot_request_rel bind_value post_ifI | assumption | simp only: prod.case)+

lemma gr_process_rotx_snapshot_response_rel:
  "gr_rel s0 st \<Longrightarrow> post (gr_process_rotx_snapshot_response st m) (gr_rel s0)"
  unfolding gr_process_rotx_snapshot_response_def Let_def
  by (rule gr_binds gr_rotx_state_free_rel bind_value | assumption | simp)+

lemma gr_update_gst_rel: "gr_rel s0 st \<Longrightarrow> post (gr_update_gst st t) (gr_rel s0)"
  unfolding gr_update_gst_def
proof (rule gr_binds(1), assumption, rule post_ifI)
  fix st1 assume 1: "gr_rel s0 st1" and t: "gst st1 < t"
  show "post (do { st \<leftarrow> gr_stats_gst_update st1 (gst st1) t; gr_rotx_on_gst_updated (st\<lparr>gst := t\<rparr>) }) (gr_rel s0)"
  proof (rule bind_light [OF light_stats_gst_update [OF light_refl]])
    fix st2 assume "light st1 st2"
    then have "gr_rel s0 (st2\<lparr>gst := t\<rparr>)"
      using 1 t by (auto intro!: gr_rel_gst intro: gr_rel_light simp: gr_lightD)
    then show "post (gr_rotx_on_gst_updated (st2\<lparr>gst := t\<rparr>)) (gr_rel s0)" by (rule gr_rotx_on_gst_updated_rel)
  qed
qed simp

lemma min_replica_version_rel: "gr_rel s0 st \<Longrightarrow> post (min_replica_version st) (\<lambda>r. gr_rel s0 (snd r))"
  unfolding min_replica_version_def Let_def by (rule gr_binds bind_value post_SomeI | assumption | simp)+

lemma gr_gst_need_update_rel: "gr_rel s0 st \<Longrightarrow> post (gr_gst_need_update st t) (\<lambda>r. gr_rel s0 (snd r))"
  unfolding gr_gst_need_update_def by (rule gr_binds bind_value post_SomeI | assumption | simp)+

lemma reset_lst_received_rel: "gr_rel s0 st \<Longrightarrow> post (reset_lst_received st) (gr_rel s0)"
  unfolding reset_lst_received_def by (rule post_foldM_rel bind_value post_SomeI | assumption | simp)+

lemma gr_send_gst_rel: "gr_rel s0 st \<Longrightarrow> post (gr_send_gst m p st) (gr_rel s0)"
  unfolding gr_send_gst_def by (rule gr_posts bind_value | assumption | simp)+

lemma gr_send_gst_to_children_rel: "gr_rel s0 st \<Longrightarrow> post (gr_send_gst_to_children st) (gr_rel s0)"
  unfolding gr_send_gst_to_children_def Let_def server_foreach_children_partition_def
  by (rule gr_binds post_foldM_rel gr_send_gst_rel | assumption)+

lemma gr_send_lst_to_parent_rel: "gr_rel s0 st \<Longrightarrow> post (gr_send_lst_to_parent st) (gr_rel s0)"
  unfolding gr_send_lst_to_parent_def Let_def
  by (rule gr_binds gr_posts bind_state [OF reset_lst_received_rel] bind_value | assumption | simp)+

lemma gr_schedule_gst_computation_start_rel:
  "gr_rel s0 st \<Longrightarrow> post (gr_schedule_gst_computation_start st) (gr_rel s0)"
  unfolding gr_schedule_gst_computation_start_def by (rule gr_posts bind_value | assumption | simp)+

lemmas gst_hbinds = hbind_state [OF gr_update_gst_rel] hbind_state [OF reset_lst_received_rel]
  hbind_pair [OF min_replica_version_rel] hbind_pair [OF gr_gst_need_update_rel]

lemma gr_process_lst_from_leaf_rel: "gr_rel s0 st \<Longrightarrow> post (gr_process_lst_from_leaf st m) (gr_rel s0)"
  unfolding gr_process_lst_from_leaf_def Let_def
  by (rule gr_hbinds gr_posts gst_hbinds gr_send_lst_to_parent_rel bind_value post_ifI post_SomeI
      | assumption | simp only: prod.case | simp split: if_split)+

lemma gr_process_lst_from_leaf_root_locked_rel:
  "gr_rel s0 st \<Longrightarrow> post (gr_process_lst_from_leaf_root_locked st) (gr_rel s0)"
  unfolding gr_process_lst_from_leaf_root_locked_def by (rule gst_hbinds gr_posts | assumption)+

lemma gr_process_gst_from_root_rel: "gr_rel s0 st \<Longrightarrow> post (gr_process_gst_from_root st m) (gr_rel s0)"
  unfolding gr_process_gst_from_root_def by (rule gr_posts)

lemma gr_process_gst_from_root_locked_rel:
  "gr_rel s0 st \<Longrightarrow> post (gr_process_gst_from_root_locked st m) (gr_rel s0)"
  unfolding gr_process_gst_from_root_locked_def by (rule gst_hbinds gr_posts | assumption)+

lemma gr_process_gst_from_root_unlocked_rel:
  "gr_rel s0 st \<Longrightarrow> post (gr_process_gst_from_root_unlocked st m) (gr_rel s0)"
  unfolding gr_process_gst_from_root_unlocked_def server_foreach_children_partition_def
  by (rule post_ifI post_foldM_rel gr_send_gst_rel gr_schedule_gst_computation_start_rel | assumption | simp)+

lemma gr_process_start_gst_computation_rel:
  "gr_rel s0 st \<Longrightarrow> post (gr_process_start_gst_computation st) (gr_rel s0)"
  unfolding gr_process_start_gst_computation_def Let_def
  by (rule gst_hbinds gr_hbinds gr_posts gr_schedule_gst_computation_start_rel bind_value post_ifI
      | assumption | simp only: prod.case | simp)+

lemma gr_process_heartbeat_rel: "gr_rel s0 st \<Longrightarrow> post (gr_process_heartbeat st m) (gr_rel s0)"
  unfolding gr_process_heartbeat_def by (rule gr_hbinds gr_posts bind_value post_ifI post_SomeI | assumption)+

lemma gr_process_heartbeat_locked_rel: "gr_rel s0 st \<Longrightarrow> post (gr_process_heartbeat_locked st m) (gr_rel s0)"
  unfolding gr_process_heartbeat_locked_def
  by (rule gr_hbinds gr_posts bind_value post_ifI post_SomeI hbind_state | assumption | simp)+

lemma gr_send_heartbeat_rel: "gr_rel s0 st \<Longrightarrow> post (gr_send_heartbeat st b) (gr_rel s0)"
  unfolding gr_send_heartbeat_def Let_def foreach_replica_def send_heartbeat_message_def
  by (rule gr_hbinds gr_posts post_foldM_rel bind_value post_ifI post_SomeI | assumption | simp)+

section \<open>Replication\<close>

lemma gr_rel_queues:
  "gr_rel s0 st \<Longrightarrow> (queues_ok st \<Longrightarrow> \<forall>i < length qs. queue_of i (qs ! i)) \<Longrightarrow> gr_rel s0 (st\<lparr>replica_update_queues := qs\<rparr>)"
  by (auto simp: gr_rel_def cpu_frame_def keeps_versions_def store_ok_def queues_ok_def net_ok_def)

lemma queues_ok_set:
  "queues_ok st \<Longrightarrow> arr_get (replica_update_queues st) i = Some q \<Longrightarrow> arr_set (replica_update_queues st) i q' = Some qs \<Longrightarrow>
   (queue_of (unat i) q \<Longrightarrow> queue_of (unat i) q') \<Longrightarrow> \<forall>j < length qs. queue_of j (qs ! j)"
  by (auto simp: queues_ok_def arr_get_eq_Some arr_set_eq_Some nth_list_update)

lemma dequeue_update_rel: "gr_rel s0 st \<Longrightarrow> post (dequeue_update st u) (\<lambda>r. gr_rel s0 (snd r))"
proof (rule postI)
  fix r assume rel: "gr_rel s0 st" and r: "dequeue_update st u = Some r"
  from r obtain q e q' qs where
    q: "arr_get (replica_update_queues st) (ru_source_replica u) = Some q"
    and e: "queue_dequeue q = Some (e, q')"
    and qs: "arr_set (replica_update_queues st) (ru_source_replica u) q' = Some qs"
    and r': "snd r = st\<lparr>replica_update_queues := qs\<rparr>"
    by (auto simp: dequeue_update_def bind_eq_Some_conv)
  show "gr_rel s0 (snd r)"
    unfolding r' by (rule gr_rel_queues [OF rel]) (rule queues_ok_set [OF _ q qs queue_of_dequeue [OF _ e]])
qed

lemmas value_hbinds = hbind_quad [OF gr_get_value_at_rel [OF gr_visible_always]] hbind_quad [OF gr_get_value_rel]
  hbind_quad [OF gr_get_value_at_rel [OF gr_visible_snapshot]] hbind_pair [OF gr_put_value_rel]

lemma replica_update_unlocked_rel:
  assumes "\<And>st u. gr_rel s0 st \<Longrightarrow> post (gr_process_replica_update_work fuel st u) (gr_rel s0)"
  shows "gr_rel s0 st \<Longrightarrow> post (replica_update_unlocked fuel st u) (gr_rel s0)"
  unfolding replica_update_unlocked.simps
  by (rule hbind_pair [OF dequeue_update_rel] bind_value assms | assumption | simp only: prod.case
      | simp add: assms split: option.split)+

lemma gr_process_replica_update_work_rel:
  "gr_rel s0 st \<Longrightarrow> post (gr_process_replica_update_work fuel st u) (gr_rel s0)"
proof (induction fuel arbitrary: st u)
  case 0
  show ?case
    unfolding gr_process_replica_update_work.simps
    by (rule gr_hbinds gr_posts value_hbinds bind_value post_ifI post_SomeI 0 | assumption | simp only: prod.case
        | simp)+
next
  case (Suc fuel)
  show ?case
    unfolding gr_process_replica_update_work.simps nat.case
    by (rule gr_hbinds gr_posts value_hbinds bind_value post_ifI post_SomeI Suc
        replica_update_unlocked_rel | assumption | simp only: prod.case)+
qed

lemma gr_process_replica_update_unlocked_rel:
  "gr_rel s0 st \<Longrightarrow> post (gr_process_replica_update_unlocked st u) (gr_rel s0)"
  unfolding gr_process_replica_update_unlocked_def
  by (rule replica_update_unlocked_rel [OF gr_process_replica_update_work_rel])

lemma gr_process_replica_update_rel: "gr_rel s0 st \<Longrightarrow> post (gr_process_replica_update st u) (gr_rel s0)"
proof -
  assume rel: "gr_rel s0 st"
  have "gr_rel s0 (st\<lparr>replica_update_queues := qs\<rparr>)"
    if q: "arr_get (replica_update_queues st) (ru_source_replica u) = Some q" and e: "queue_enqueue q u = Some q'"
      and qs: "arr_set (replica_update_queues st) (ru_source_replica u) q' = Some qs" for q q' qs
    by (rule gr_rel_queues [OF rel]) (rule queues_ok_set [OF _ q qs queue_of_enqueue [OF _ e]])
  then show ?thesis
    unfolding gr_process_replica_update_def Let_def
    by (intro bind_value post_ifI post_SomeI gr_process_replica_update_work_rel) simp_all
qed

lemma gr_process_replica_update_locked_rel:
  "gr_rel s0 st \<Longrightarrow> post (gr_process_replica_update_locked st u) (gr_rel s0)"
  unfolding gr_process_replica_update_locked_def Let_def
  by (rule gr_hbinds gr_posts value_hbinds bind_value | assumption | simp only: prod.case | simp)+

lemma gr_replicate_value_rel: "gr_rel s0 st \<Longrightarrow> post (gr_replicate_value st k v t pt pr tn) (gr_rel s0)"
  unfolding gr_replicate_value_def Let_def foreach_replica_def send_update_def
  by (rule gr_hbinds gr_posts post_foldM_rel bind_value post_ifI post_SomeI | assumption | simp)+

section \<open>Get and put\<close>

lemma gr_get_state_rel:
  "gr_rel s0 st \<Longrightarrow> post (gr_get_state_new st) (\<lambda>r. gr_rel s0 (snd r))"
  "gr_rel s0 st \<Longrightarrow> post (gr_get_state_set st i g) (gr_rel s0)"
  "gr_rel s0 st \<Longrightarrow> post (gr_get_state_free st i) (gr_rel s0)"
  by (auto simp: gr_get_state_new_def gr_get_state_set_def gr_get_state_free_def post_def bind_eq_Some_conv Let_def)

lemma gr_put_state_rel:
  "gr_rel s0 st \<Longrightarrow> post (gr_put_state_new st) (\<lambda>r. gr_rel s0 (snd r))"
  "gr_rel s0 st \<Longrightarrow> post (gr_put_state_set st i p) (gr_rel s0)"
  "gr_rel s0 st \<Longrightarrow> post (gr_put_state_free st i) (gr_rel s0)"
  by (auto simp: gr_put_state_new_def gr_put_state_set_def gr_put_state_free_def post_def bind_eq_Some_conv Let_def)

lemmas getput_hbinds = hbind_pair [OF gr_get_state_rel(1)] hbind_state [OF gr_get_state_rel(2)]
  hbind_pair [OF gr_put_state_rel(1)] hbind_state [OF gr_put_state_rel(2)]
  hbind_state [OF gr_stats_get_request_rel] hbind_state [OF gr_replicate_value_rel]

lemma gr_process_get_request_unlocked_rel:
  "gr_rel s0 st \<Longrightarrow> post (gr_process_get_request_unlocked st i) (gr_rel s0)"
  unfolding gr_process_get_request_unlocked_def Let_def
  by (rule gr_hbinds getput_hbinds value_hbinds gr_get_state_rel bind_value | assumption | simp only: prod.case | simp)+

lemma gr_process_get_request_rel: "gr_rel s0 st \<Longrightarrow> post (gr_process_get_request st m) (gr_rel s0)"
  unfolding gr_process_get_request_def Let_def
  by (rule gr_hbinds gr_posts gst_hbinds getput_hbinds gr_process_get_request_unlocked_rel bind_value post_ifI post_SomeI
      | assumption | simp only: prod.case | simp)+

lemma gr_process_forward_get_request_locked_rel:
  "gr_rel s0 st \<Longrightarrow> post (gr_process_forward_get_request_locked st m) (gr_rel s0)"
  unfolding gr_process_forward_get_request_locked_def by (rule gst_hbinds gr_posts | assumption)+

lemma gr_process_get_request_locked_rel:
  "gr_rel s0 st \<Longrightarrow> post (gr_process_get_request_locked st i) (gr_rel s0)"
  unfolding gr_process_get_request_locked_def by (rule gst_hbinds gr_posts bind_value | assumption)+

lemma gr_process_get_response_rel: "gr_rel s0 st \<Longrightarrow> post (gr_process_get_response st m) (gr_rel s0)"
  unfolding gr_process_get_response_def by (rule gr_posts bind_value | assumption | simp)+

lemma gr_process_put_request_rel: "gr_rel s0 st \<Longrightarrow> post (gr_process_put_request st m) (gr_rel s0)"
  unfolding gr_process_put_request_def Let_def
  by (rule gr_hbinds gr_posts getput_hbinds bind_value post_ifI post_SomeI
      | assumption | simp only: prod.case | simp)+

lemma gr_process_put_request_locked_rel: "gr_rel s0 st \<Longrightarrow> post (gr_process_put_request_locked st i) (gr_rel s0)"
  unfolding gr_process_put_request_locked_def Let_def
  by (rule gr_hbinds gr_posts getput_hbinds value_hbinds bind_value | assumption | simp only: prod.case | simp)+

lemma gr_process_put_request_unlocked_rel: "gr_rel s0 st \<Longrightarrow> post (gr_process_put_request_unlocked st i) (gr_rel s0)"
  unfolding gr_process_put_request_unlocked_def Let_def
  by (rule gr_hbinds gr_posts getput_hbinds hbind_state gr_replicate_value_rel gr_put_state_rel bind_value post_ifI post_SomeI
      | assumption | simp only: prod.case | simp)+

lemma gr_process_put_response_rel: "gr_rel s0 st \<Longrightarrow> post (gr_process_put_response st m) (gr_rel s0)"
  unfolding gr_process_put_response_def by (rule gr_posts bind_value | assumption | simp)+

section \<open>Snapshots\<close>

lemma gr_snapshot_state_rel:
  "gr_rel s0 st \<Longrightarrow> post (gr_snapshot_state_new st n) (\<lambda>r. gr_rel s0 (snd r))"
  "gr_rel s0 st \<Longrightarrow> post (gr_snapshot_state_set st i g) (gr_rel s0)"
  "gr_rel s0 st \<Longrightarrow> post (gr_snapshot_state_free st i) (gr_rel s0)"
  by (auto simp: gr_snapshot_state_new_def gr_snapshot_state_set_def gr_snapshot_state_free_def post_def
      bind_eq_Some_conv Let_def)

lemmas snapshot_hbinds = hbind_pair [OF gr_snapshot_state_rel(1)] hbind_state [OF gr_snapshot_state_rel(2)]

lemma gr_process_get_snapshot_request_rel:
  "gr_rel s0 st \<Longrightarrow> post (gr_process_get_snapshot_request st m) (gr_rel s0)"
  unfolding gr_process_get_snapshot_request_def Let_def
  by (rule gr_hbinds gr_posts snapshot_hbinds bind_value | assumption | simp only: prod.case)+

lemma gr_process_get_snapshot_request_locked_rel:
  "gr_rel s0 st \<Longrightarrow> post (gr_process_get_snapshot_request_locked st i) (gr_rel s0)"
  unfolding gr_process_get_snapshot_request_locked_def Let_def
  by (rule gst_hbinds gr_posts snapshot_hbinds bind_value | assumption | simp only: prod.case)+

lemma gr_process_get_snapshot_request_unlocked_rel:
  "gr_rel s0 st \<Longrightarrow> post (gr_process_get_snapshot_request_unlocked st i) (gr_rel s0)"
  unfolding gr_process_get_snapshot_request_unlocked_def Let_def
  by (rule gr_hbinds gr_posts post_foldM_rel bind_value | assumption | simp)+

lemma gr_send_snapshot_response_rel: "gr_rel s0 st \<Longrightarrow> post (gr_send_snapshot_response st i) (gr_rel s0)"
  unfolding gr_send_snapshot_response_def Let_def
  by (rule gr_hbinds gr_posts hbind_state gr_process_rotx_snapshot_response_rel gr_snapshot_state_rel(3) bind_value post_ifI
      | assumption | simp)+

lemma gr_process_slice_request_unlocked_rel:
  "gr_rel s0 st \<Longrightarrow> post (gr_process_slice_request_unlocked st m) (gr_rel s0)"
  unfolding gr_process_slice_request_unlocked_def Let_def
  by (rule gr_hbinds gr_posts value_hbinds bind_value | assumption | simp only: prod.case | simp)+

lemma gr_process_slice_request_rel: "gr_rel s0 st \<Longrightarrow> post (gr_process_slice_request st m) (gr_rel s0)"
  unfolding gr_process_slice_request_def
  by (rule gst_hbinds gr_posts gr_process_slice_request_unlocked_rel post_ifI | assumption | simp only: prod.case)+

lemma gr_process_slice_request_locked_rel: "gr_rel s0 st \<Longrightarrow> post (gr_process_slice_request_locked st m) (gr_rel s0)"
  unfolding gr_process_slice_request_locked_def by (rule gst_hbinds gr_posts | assumption)+

lemma gr_process_slice_response_unlocked_rel:
  "gr_rel s0 st \<Longrightarrow> post (gr_process_slice_response_unlocked st m) (gr_rel s0)"
  unfolding gr_process_slice_response_unlocked_def Let_def
  by (rule gr_hbinds snapshot_hbinds gr_send_snapshot_response_rel bind_value post_ifI post_SomeI | assumption)+

lemma gr_process_slice_response_rel: "gr_rel s0 st \<Longrightarrow> post (gr_process_slice_response st m) (gr_rel s0)"
  unfolding gr_process_slice_response_def
  by (rule gst_hbinds gr_posts gr_process_slice_response_unlocked_rel post_ifI | assumption | simp only: prod.case)+

lemma gr_process_slice_response_locked_rel: "gr_rel s0 st \<Longrightarrow> post (gr_process_slice_response_locked st m) (gr_rel s0)"
  unfolding gr_process_slice_response_locked_def by (rule gst_hbinds gr_posts | assumption)+

section \<open>The clock\<close>

lemma gr_process_clock_tick_unlocked_rel:
  "gr_rel s0 st \<Longrightarrow> post (gr_process_clock_tick_unlocked st b) (gr_rel s0)"
  unfolding gr_process_clock_tick_unlocked_def
  by (rule hbind_state [OF gr_send_heartbeat_rel] gr_posts bind_value | assumption | simp)+

lemma gr_process_clock_tick_rel: "gr_rel s0 st \<Longrightarrow> post (gr_process_clock_tick st) (gr_rel s0)"
  unfolding gr_process_clock_tick_def
  by (rule gr_hbinds gr_posts gr_process_clock_tick_unlocked_rel bind_value post_ifI | assumption)+

lemma gr_process_clock_tick_locked_rel: "gr_rel s0 st \<Longrightarrow> post (gr_process_clock_tick_locked st) (gr_rel s0)"
  unfolding gr_process_clock_tick_locked_def
  by (rule gr_hbinds gr_posts hbind_pair bind_value post_ifI post_SomeI | assumption | simp only: prod.case | simp)+

section \<open>The whole server\<close>

lemmas gr_handler_rels =
  gr_process_get_request_rel gr_process_forward_get_request_locked_rel gr_process_get_request_locked_rel
  gr_process_get_request_unlocked_rel gr_process_get_response_rel gr_process_put_request_rel
  gr_process_put_request_locked_rel gr_process_put_request_unlocked_rel gr_process_put_response_rel
  gr_process_replica_update_rel gr_process_replica_update_locked_rel gr_process_replica_update_unlocked_rel
  gr_process_lst_from_leaf_rel gr_process_lst_from_leaf_root_locked_rel gr_process_gst_from_root_rel
  gr_process_gst_from_root_locked_rel gr_process_gst_from_root_unlocked_rel gr_process_start_gst_computation_rel
  gr_process_clock_tick_rel gr_process_clock_tick_locked_rel gr_process_clock_tick_unlocked_rel
  gr_process_heartbeat_rel gr_process_heartbeat_locked_rel gr_process_get_snapshot_request_rel
  gr_process_get_snapshot_request_locked_rel gr_process_get_snapshot_request_unlocked_rel
  gr_process_slice_request_rel gr_process_slice_request_locked_rel gr_process_slice_request_unlocked_rel
  gr_process_slice_response_rel gr_process_slice_response_locked_rel gr_process_slice_response_unlocked_rel
  gr_process_rotx_request_rel gr_send_gst_to_children_rel

lemma gr_process_event_rel: "post (gr_process_event t d n st) (gf.handled st)"
  unfolding gr_process_event_def gr_process_lst_from_leaf_root_unlocked_def
  by (intro post_ifI gf.r_on_msg gf.r_no_msg gr_handler_rels gr_rel_refl) simp

end
