(* ===== verification/Gr_Invariant.thy ===== *)
theory Gr_Invariant
  imports Gr_Keep
begin

text \<open>
  The GentleRain server as a client of the CPU, and what holds along every run of it: the
  interpretation of \<open>server_protocol\<close> with \<open>gr_process_event\<close>, and the state that \<open>server_init\<close> sets up.
\<close>

section \<open>The interpretation\<close>

text \<open>The part of \<open>gr_rel\<close> that also holds from one event to the next, when the clock has moved.\<close>

definition gr_keep :: "gr_state \<Rightarrow> gr_state \<Rightarrow> bool" where
  "gr_keep st st' \<longleftrightarrow>
     config st' = config st \<and> clock_offset st' = clock_offset st \<and> gst st \<le> gst st' \<and> keeps_versions st st' \<and>
     (store_ok st \<longrightarrow> store_ok st') \<and> (queues_ok st \<longrightarrow> queues_ok st') \<and> (net_ok st \<longrightarrow> net_ok st')"

lemma gr_keep_more:
  "cpu_state.more st1 = cpu_state.more st \<Longrightarrow> cpu_state.more st1' = cpu_state.more st' \<Longrightarrow> gr_keep st1 st1' = gr_keep st st'"
  by (cases st; cases st1; cases st'; cases st1')
    (simp add: gr_keep_def keeps_versions_def store_ok_def queues_ok_def net_ok_def)

lemma gr_keep_refl [simp]: "gr_keep st st"
  by (simp add: gr_keep_def)

lemma gr_keep_trans: "gr_keep a b \<Longrightarrow> gr_keep b c \<Longrightarrow> gr_keep a c"
  by (auto simp: gr_keep_def intro: keeps_versions_trans)

interpretation gr: server_protocol gr_process_event gr_keep
proof
  fix st :: gr_state and t' c'
  show "gr_keep st (st\<lparr>now := t', clock := c'\<rparr>)"
    by (simp add: gr_keep_def keeps_versions_def store_ok_def queues_ok_def net_ok_def)
next
  fix t d n and st st' :: gr_state
  assume "gr_process_event t d n st = Some (Some st')"
  with gr_process_event_rel [of t d n st] show "cpu_frame st st' \<and> gr_keep st st'"
    by (simp add: post_def gf.handled_def gr_rel_def gr_keep_def)
qed (simp, rule gr_keep_trans, assumption+, rule gr_keep_more)

section \<open>Runs\<close>

abbreviation gr_step :: "gr_state \<Rightarrow> gr_state \<Rightarrow> bool" where
  "gr_step \<equiv> lp_step (server_handler gr_process_event)"

lemma gr_run_keeps:
  assumes "gr_step\<^sup>*\<^sup>* st st'" and "cpu_inv st"
  shows "cpu_inv st'" and "gr_keep st st'"
  by (rule gr.run_keeps [OF assms])+

section \<open>The initial state\<close>

definition gr_fresh :: "gr_state \<Rightarrow> bool" where
  "gr_fresh st \<longleftrightarrow> fresh_server st \<and> gst st = 0 \<and> queues_ok st"

lemma gr_fresh_schedule_self:
  "gr_fresh st \<Longrightarrow> \<not> core_event t \<Longrightarrow> post (server_schedule_self st delay t d n) gr_fresh"
  by (simp add: server_schedule_self_def post_simps Let_def gr_fresh_def fresh_server_def ScheduleNewEvent_def
      queues_ok_def)

lemma gr_fresh_inv: "gr_fresh st \<Longrightarrow> cpu_inv st \<and> store_ok st \<and> queues_ok st \<and> net_ok st \<and> gst st = 0"
  by (simp add: gr_fresh_def fresh_server_def cpu_inv_def store_ok_def net_ok_def network_inv_init store_wf_new
      chain_at_def store_get_new versions_sorted_def)

lemma fresh_new_replica_lock:
  "fresh_server st \<and> gst st = t \<Longrightarrow> post (new_replica_lock i st) (\<lambda>st. fresh_server st \<and> gst st = t)"
  by (simp add: new_replica_lock_def cpu_lock_new_def fresh_server_def)

lemma gr_fresh_gst_start: "gr_fresh st \<Longrightarrow> post (gr_schedule_gst_computation_start st) gr_fresh"
  unfolding gr_schedule_gst_computation_start_def by (rule bind_value gr_fresh_schedule_self | assumption | simp)+

lemma gr_fresh_queues:
  "fresh_server st \<and> gst st = 0 \<Longrightarrow> gr_fresh (st\<lparr>replica_update_queues := replicate n queue_new\<rparr>)"
  by (auto simp: gr_fresh_def fresh_server_def queues_ok_def queue_of_def intro!: exI [of _ "[]"] queue_new_repr)

lemma gr_init_state_fresh:
  assumes "fresh_server st"
  shows "post (gr_init_state st) gr_fresh"
  unfolding gr_init_state_def Let_def server_stats_counter_new_def stats_counter_new_def cpu_lock_new_def prod.case
proof (rule bind_post [OF post_foldM [where I = "\<lambda>st. fresh_server st \<and> gst st = 0"]], goal_cases)
  case 1
  show ?case using assms by (simp add: fresh_server_def)
next
  case (2 i s)
  then show ?case by (intro fresh_new_replica_lock)
next
  case (3 s)
  note f = gr_fresh_queues [OF 3]
  show ?case
    by (rule bind_post [where P = gr_fresh] bind_value post_ifI post_SomeI gr_fresh_gst_start gr_fresh_schedule_self f
        | assumption | simp)+
qed

text \<open>A server that \<open>server_init\<close> has set up, before its first event.\<close>

definition gr_started :: "(replica_t \<Rightarrow> replica_t \<Rightarrow> rat option) \<Rightarrow> server_config \<Rightarrow> gr_state \<Rightarrow> gr_state \<Rightarrow> bool" where
  "gr_started m c blank st \<longleftrightarrow>
     scheduled blank = [] \<and> 0 < num_cores c \<and> server_init m gr_init_state c (sc_lpid c) 0 blank = Some st"

lemma gr_started_fresh: "gr_started m c blank st \<Longrightarrow> gr_fresh st"
  using server_init_fresh [of blank c gr_init_state gr_fresh m "sc_lpid c" 0] gr_init_state_fresh
  by (auto simp: gr_started_def post_def)

lemmas gr_started_inv = gr_fresh_inv [OF gr_started_fresh]

lemma gr_run_inv:
  assumes "gr_started m c blank st" and "gr_step\<^sup>*\<^sup>* st st'"
  shows "cpu_inv st' \<and> store_ok st' \<and> queues_ok st' \<and> net_ok st'"
  using gr_started_inv [OF assms(1)] gr_run_keeps [OF assms(2)] by (simp add: gr_keep_def)

end
