(* ===== verification/Run.thy ===== *)
theory Run
  imports Server_Frame Ptr_Array Queue
begin

text \<open>
  Executable runs. A script says which pending event the kernel delivers next, or which event arrives
  from another process; running it gives a state that the step relation reaches. The configuration of
  a small server is the starting point of the concrete runs, which are evaluated by rewriting.
\<close>

section \<open>Scripts\<close>

datatype 'p command = Deliver nat | Receive "'p sim_event"

definition run_command :: "('p, 'z) cpu_handler \<Rightarrow> 'p command \<Rightarrow> ('p, 'z) cpu_state_scheme \<Rightarrow> ('p, 'z) cpu_state_scheme option" where
  "run_command h c st = (case c of
     Deliver i \<Rightarrow> (if i < length (scheduled st) then
         (let e = scheduled st ! i in
          if ev_to e = cpu_lpid st
          then cpu_process_event h (cpu_lpid st) (ev_time e) (ev_type e) (ev_data e) (ev_size e)
                 (deliver e st)
          else None)
       else None)
   | Receive e \<Rightarrow> (if core_event (ev_type e) then None else Some (st\<lparr>scheduled := scheduled st @ [e]\<rparr>)))"

definition run_script :: "('p, 'z) cpu_handler \<Rightarrow> 'p command list \<Rightarrow> ('p, 'z) cpu_state_scheme \<Rightarrow> ('p, 'z) cpu_state_scheme option" where
  "run_script h cs st = foldM (run_command h) cs st"

lemma run_script_steps: "run_script h cs st = Some st' \<Longrightarrow> (lp_step h)\<^sup>*\<^sup>* st st'"
  unfolding run_script_def
proof (induction cs arbitrary: st)
  case (Cons c cs)
  then obtain st1 where c: "run_command h c st = Some st1" and cs: "foldM (run_command h) cs st1 = Some st'"
    by (auto simp: bind_eq_Some_conv)
  from c have "lp_step h st st1"
    by (auto simp: run_command_def Let_def split: command.splits if_splits
        intro: lp_receive lp_deliver [OF nth_mem])
  then show ?case using Cons.IH [OF cs] by (rule converse_rtranclp_into_rtranclp)
qed simp

section \<open>A small server\<close>

definition demo_config :: server_config where
  "demo_config =
     \<lparr>sc_cluster = \<lparr>num_replicas = 2, num_partitions = 1, server_lpids = [0, 1], key_min = 0, key_max = 9,
        cl_clock_skew = 0\<rparr>,
      sc_network = \<lparr>num_lps = 3, transmission_rates = [1, 1, 1], network_delay = [[1, 1, 1], [1, 1, 1], [1, 1, 1]]\<rparr>,
      sc_lpid = 0, sc_partition = 0, sc_replica = 0, tree_fanout = 2, num_cores = 1\<rparr>"

section \<open>Evaluation\<close>

text \<open>
  The runs are evaluated by rewriting. The congruence rules keep the simplifier out of the statements
  that are not reached yet.
\<close>

lemma bind_weak_cong: "e = e' \<Longrightarrow> Option.bind e f = Option.bind e' f"
  by simp

lemma list_update_numeral: "(x # xs)[numeral k := y] = x # xs[pred_numeral k := y]"
  by (simp add: numeral_eq_Suc)

lemma replicate_num: "replicate (numeral k) y = y # replicate (pred_numeral k) y"
  by (simp add: numeral_eq_Suc)

definition stats_step :: "cpu_stats \<Rightarrow> simtime \<Rightarrow> event_type \<Rightarrow> cpu_stats" where
  "stats_step s e t = the (cpu_stats_event_processed s e t)"

lemma stats_step_wf: "cpu_stats_wf s \<Longrightarrow> cpu_stats_wf (stats_step s e t)"
  using cpu_stats_event_processed_returns [of s e t] by (auto simp: stats_step_def)

lemma stats_step_eq: "cpu_stats_wf s \<Longrightarrow> cpu_stats_event_processed s e t = Some (stats_step s e t)"
  using cpu_stats_event_processed_returns [of s e t] by (auto simp: stats_step_def)

lemmas eval_cpu =
  cpu_busy_def cpu_busy_cores_dec_def cpu_busy_cores_inc_def cpu_processing_continues_in_scheduled_event_def
  cpu_add_time_def cpu_add_timing_def cpu_elapsed_time_def cpu_set_elapsed_time_def cpu_allow_no_time_def
  cpu_lock_called_def cpu_schedule_event_def cpu_schedule_lock_msg_def get_lock_def set_lock_def
  cpu_lock_new_def cpu_lock_lock_def cpu_lock_unlock_def get_rwlock_def set_rwlock_def cpu_rwlock_new_def
  cpu_rwlock_read_lock_def cpu_rwlock_read_unlock_def cpu_rwlock_write_lock_def cpu_rwlock_write_unlock_def
  cpu_rwlock_write_locked_def wake_first_def sizeof_cpu_lock_msg_def cpu_lock_msg_data_def
  cpu_lock_msg_new_def cpu_lock_msg_size_def cpu_list_init_def cpu_list_new_def cpu_list_empty_def
  cpu_list_push_def cpu_list_shift_def cpu_list_unshift_def cpu_list_item_new_def
  cpu_list_item_new_from_lock_msg_def normal_timing_distribution_def exponential_timing_distribution_def
  timing_distribution_def timing_func_def parameter_func_def ScheduleNewEvent_def cpu_process.simps
  cpu_process_next_in_queue.simps on_lock_lock.simps on_lock_unlock.simps cpu_lock_process_event.simps
  cpu_rwlock_process_event.simps cpu_process_event_def cpu_setup_def lock_release_def

lemmas eval_server =
  REPLICATION_TIME_def VALUE_STALENESS_def VISIBILITY_LATENCY_def GET_REQUESTS_def PUT_REQUESTS_def
  ROTX_REQUESTS_def REPLICA_UPDATES_def stats_array_new_def stats_counter_new_def server_stats_new_def
  server_stats_array_new_def server_stats_array_push_def server_stats_counter_new_def
  server_stats_counter_inc_def server_clock_skew_init_def server_clock_skew_def server_schedule_self_def
  server_send_def server_parent_partition_id_def server_child_partition_index_def server_first_child_id_def
  server_last_child_id_def server_is_leaf_partition_def server_num_children_partitions_def
  server_children_def server_foreach_children_partition_def set_network_delay_def server_init_def
  server_process_event_def server_handler_def DISCONNECTED_def network_setup_def network_init_def
  network_set_delay_def network_set_transmission_rate_def get_delay_def network_send_def partition_index_def
  cluster_new_def cluster_set_lpid_def cluster_get_lpid_def partition_for_key_def cluster_random_key_def
  cluster_random_key_on_partition_def cluster_random_key_zipf_def cluster_random_key_zipf_on_partition_def
  foreach_server_def foreach_partition_def foreach_replica_def parray_new_def parray_push_def
  ptr_array_init_def ptr_array_get_def ptr_array_set_def ptr_array_put_def ptr_array_foreach_def
  queue_new_def queue_enqueue_def queue_dequeue_def queue_peek_def queue_is_empty_def children_from.simps
  arr_get_def arr_set_def idx_upto_def array_push_def UINT_MAX_def INT_MAX_def MAX_LP_def NO_PROXY_LPID_def
  store_new_def store_get_def store_put_def hash_def

lemmas eval_base = eval_cpu eval_server build_struct_per_byte_time_def on_msg_def no_msg_def stats_step_wf
  stats_step_eq cpu_stats_wf_new upt_rec run_script_def run_command_def deliver_def core_event_def
  is_lock_event_def is_rwlock_event_def Let_def list_update_numeral replicate_num demo_config_def

end
