(* ===== verification/Gr_Run.thy ===== *)
theory Gr_Run
  imports Gr_Invariant Run
begin

text \<open>
  A small GentleRain server, set up by \<open>server_init\<close>, and a script that the properties are tried on.
\<close>

section \<open>A small server\<close>

definition demo_blank :: gr_state where
  "demo_blank =
     \<lparr>cfg = (\<lambda>_. Some 1), timing_dist = Constant, ignore_initial_seconds = 1000, normal_source = (\<lambda>_. 0),
      expent_source = (\<lambda>_ m. m), draws = 0, scheduled = [],
      cpu_lpid = 0, cpu_queue = cpu_list_init, cores = 0, busy_cores = 0, elapsed_time = 0, cpu_now = 0,
      cpu_st_stats = cpu_stats_new, free_core_after_event_processing = False, allow_no_time = False,
      lock_called = False, locks = [], rwlocks = [], continues_in_scheduled_event = False,
      clock = 0, now = 0, start_time = 0, finished = False, config = demo_config, store = store_new,
      stats = \<lparr>st_arrays = [], st_counters = []\<rparr>, network = network_init, clock_offset = 0,
      version_vector = [], gst = 0, min_lst = 0, lst_received = [], forwarded_get_id = 0, forwarded_put_id = 0,
      gr_lock = 0, get_states = ptr_array_init, put_states = ptr_array_init, snapshot_states = ptr_array_init,
      rotx_states = ptr_array_init, replica_locks = [], replica_update_queues = []\<rparr>"

definition demo_start :: "gr_state option" where
  "demo_start = server_init (\<lambda>_ _. Some 1) gr_init_state demo_config 0 0 demo_blank"

definition client_put :: "gr_key \<Rightarrow> gr_value \<Rightarrow> gr_msg sim_event" where
  "client_put key value = \<lparr>ev_to = 0, ev_time = 1, ev_type = GR_PUT_REQUEST,
     ev_data = Data (PutRequest (gr_put_request_new\<lparr>putq_client_lpid := 2, putq_proxy_lpid := NO_PROXY_LPID,
       putq_key := key, putq_value := value\<rparr>)), ev_size = 48\<rparr>"

text \<open>
  A client writes a value; while the put waits for the lock, the start of the computation of the stable
  time arrives and is queued, and is processed when the core is free again.
\<close>

definition demo_script :: "gr_msg command list" where
  "demo_script = [Receive (client_put 1 7), Deliver 3, Deliver 1, Deliver 2, Deliver 2, Deliver 4]"

section \<open>Evaluation\<close>

lemmas eval_gr =
  gr_lpid_for_key_def gr_is_value_visible_def gr_always_visible_def chain_at_def gr_get_value_at_def
  gr_get_value_def gr_put_value_def gr_stats_get_request_def gr_stats_gst_update_def
  sizeof_gr_rotx_state_def gr_rotx_state_new_def gr_rotx_state_get_def
  gr_rotx_state_set_def gr_rotx_state_free_def gr_send_rotx_snapshot_request_def gr_process_rotx_request_def
  gr_process_rotx_snapshot_response_def rotx_gst_update_callback_def gr_rotx_on_gst_updated_def
  count_lst_received_def reset_lst_received_def min_version_loop_def min_replica_version_def
  gr_gst_need_update_def gr_update_gst_def gr_send_gst_def gr_send_gst_to_children_def
  gr_send_lst_to_parent_def gr_schedule_gst_computation_start_def gr_process_lst_from_leaf_def
  gr_process_lst_from_leaf_root_locked_def gr_process_lst_from_leaf_root_unlocked_def
  gr_process_gst_from_root_def gr_process_gst_from_root_locked_def gr_process_gst_from_root_unlocked_def
  gr_process_start_gst_computation_def gr_heartbeat_size_def gr_process_heartbeat_def
  gr_process_heartbeat_locked_def send_heartbeat_message_def gr_send_heartbeat_def update_conflict_def
  update_older_def dequeue_update_def update_fuel_def gr_process_replica_update_unlocked_def
  gr_process_replica_update_def gr_process_replica_update_locked_def send_update_def gr_replicate_value_def
  gr_get_state_new_def gr_get_state_get_def gr_get_state_set_def gr_get_state_free_def gr_put_state_new_def
  gr_put_state_get_def gr_put_state_set_def gr_put_state_free_def gr_state_message_size_def
  gr_process_get_request_unlocked_def gr_process_get_request_def gr_process_forward_get_request_locked_def
  gr_process_get_request_locked_def gr_process_get_response_def gr_process_put_request_def
  gr_process_put_request_locked_def gr_process_put_request_unlocked_def gr_process_put_response_def
  sizeof_gr_snapshot_state_def gr_snapshot_state_new_def gr_snapshot_state_get_def gr_snapshot_state_set_def
  gr_snapshot_state_free_def gr_snapshot_state_simulated_size_def gr_snapshot_state_message_size_def
  gr_process_get_snapshot_request_def gr_process_get_snapshot_request_locked_def
  gr_process_get_snapshot_request_unlocked_def gr_send_snapshot_response_def is_value_visible_snapshot_def
  gr_process_slice_request_unlocked_def gr_process_slice_request_def gr_process_slice_request_locked_def
  gr_process_slice_response_unlocked_def gr_process_slice_response_def gr_process_slice_response_locked_def
  new_replica_lock_def gr_init_state_def gr_process_clock_tick_unlocked_def gr_process_clock_tick_def
  gr_process_clock_tick_locked_def as_GetRequest_def as_GetResponse_def
  as_PutRequest_def as_PutResponse_def as_ReplicaUpdate_def as_GstFromRoot_def as_Heartbeat_def
  as_LstFromLeaf_def as_SnapshotRequest_def as_SliceRequest_def as_SliceResponse_def as_RotxRequest_def
  as_GetStateMessage_def as_PutStateMessage_def as_SnapshotStateMessage_def as_SendTime_def
  gr_process_event_def gr_process_replica_update_work.simps replica_update_unlocked.simps sizeof_uint_def
  sizeof_gr_key_def sizeof_gr_heartbeat_def gr_heartbeat_new_def gr_put_request_new_def
  gr_put_response_new_def gr_replica_update_new_def gr_get_response_new_def gr_get_request_new_def
  sizeof_gr_put_response_def GR_SIMULATED_VALUE_SIZE_def sizeof_gr_value_def sizeof_gr_tsp_def

lemmas eval_run = eval_base eval_gr demo_start_def demo_blank_def client_put_def

lemma demo_run:
  "\<exists>st st'. demo_start = Some st \<and> run_script (server_handler gr_process_event) demo_script st = Some st' \<and>
     gst st = 0 \<and> gst st' = 35 \<and> chain_at (store st) 1 = [] \<and>
     chain_at (store st') 1 = [\<lparr>it_value = 7, it_update_time = 35, it_source_replica = 0\<rparr>]"
  by (simp add: eval_run demo_script_def cong: bind_weak_cong let_weak_cong)

lemma demo_wait:
  "\<exists>st st'. demo_start = Some st \<and> run_script (server_handler gr_process_event) (take 3 demo_script) st = Some st' \<and>
     cl_items (cpu_queue st') \<noteq> []"
  by (simp add: eval_run demo_script_def cong: bind_weak_cong let_weak_cong)

lemma demo_start_started: "demo_start = Some st \<Longrightarrow> gr_started (\<lambda>_ _. Some 1) demo_config demo_blank st"
  by (simp add: gr_started_def demo_start_def demo_blank_def demo_config_def)

lemma demo_started:
  "\<exists>st st'. gr_started (\<lambda>_ _. Some 1) demo_config demo_blank st \<and> gr_step\<^sup>*\<^sup>* st st' \<and>
     gst st = 0 \<and> gst st' = 35 \<and> chain_at (store st) 1 = [] \<and>
     chain_at (store st') 1 = [\<lparr>it_value = 7, it_update_time = 35, it_source_replica = 0\<rparr>]"
proof -
  from demo_run obtain st st' where s: "demo_start = Some st"
    and r: "run_script (server_handler gr_process_event) demo_script st = Some st'"
    and rest: "gst st = 0" "gst st' = 35" "chain_at (store st) 1 = []"
      "chain_at (store st') 1 = [\<lparr>it_value = 7, it_update_time = 35, it_source_replica = 0\<rparr>]" by blast
  show ?thesis using demo_start_started [OF s] run_script_steps [OF r] rest by blast
qed

lemma demo_waiting:
  "\<exists>st st'. gr_started (\<lambda>_ _. Some 1) demo_config demo_blank st \<and> gr_step\<^sup>*\<^sup>* st st' \<and> cl_items (cpu_queue st') \<noteq> []"
proof -
  from demo_wait obtain st st' where s: "demo_start = Some st"
    and r: "run_script (server_handler gr_process_event) (take 3 demo_script) st = Some st'"
    and q: "cl_items (cpu_queue st') \<noteq> []" by blast
  show ?thesis using demo_start_started [OF s] run_script_steps [OF r] q by blast
qed

end
