(* ===== verification/Gr_Read.thy ===== *)
theory Gr_Read
  imports Gr_Run
begin

text \<open>
  What a read of the multi-version store returns: the newest version that the reader may see. The
  reference is \<open>read_result\<close> of \<open>Versions\<close>, a search in the list of versions; the lemmas show that the loops of
  \<open>gr_get_value_at\<close> compute it, that on an ordered list it is the newest visible version, and that
  garbage collection does not change what can still be read.
\<close>

section \<open>The reference\<close>

definition visible_at :: "gr_tsp \<Rightarrow> gr_item \<Rightarrow> bool" where
  "visible_at t item \<longleftrightarrow> it_update_time item \<le> t"

definition visible_here :: "gr_state \<Rightarrow> gr_tsp \<Rightarrow> gr_item \<Rightarrow> bool" where
  "visible_here st t item \<longleftrightarrow> it_source_replica item = sc_replica (config st) \<or> it_update_time item \<le> t"

section \<open>The loops compute it\<close>

lemma can_time_updates [simp]:
  "can_time (st\<lparr>min_lst := t\<rparr>) = can_time st" "can_time (st\<lparr>lst_received := l\<rparr>) = can_time st"
  "can_time (st\<lparr>replica_update_queues := qs\<rparr>) = can_time st"
  by (simp_all add: can_time_def timing_ok_def)

lemma first_visible_snapshot:
  assumes "\<forall>i \<in> set vs. it_source_replica i < num_replicas (sc_cluster (config st))"
  shows "first_visible is_value_visible_snapshot t vs st = Some (find (visible_at t) vs, st)"
  using assms by (induction vs) (simp_all add: is_value_visible_snapshot_def visible_at_def)

lemma first_visible_here:
  assumes "\<forall>i \<in> set vs. it_source_replica i < num_replicas (sc_cluster (config st))" and "can_time st"
  shows "\<exists>n e. first_visible gr_is_value_visible t vs st =
     Some (find (visible_here st t) vs, st\<lparr>draws := n, elapsed_time := e\<rparr>)"
proof (rule first_visible_find [OF assms])
  fix n e and item :: gr_item
  obtain n' e' where "cpu_add_timing (st\<lparr>draws := n, elapsed_time := e\<rparr>) 1 [''gr'', ''is_value_visible_time''] =
      Some (st\<lparr>draws := n', elapsed_time := e'\<rparr>)"
    using add_timing_returns [of "st\<lparr>draws := n, elapsed_time := e\<rparr>" 1 "[''gr'', ''is_value_visible_time'']"] assms(2)
    by auto
  then show "\<exists>n' e'. gr_is_value_visible (st\<lparr>draws := n, elapsed_time := e\<rparr>) item t =
      Some (visible_here st t item, st\<lparr>draws := n', elapsed_time := e'\<rparr>)"
    by (intro exI [of _ n'] exI [of _ e']) (simp add: gr_is_value_visible_def visible_here_def)
qed

text \<open>A key of this server with well-formed versions.\<close>

definition readable :: "gr_state \<Rightarrow> gr_key \<Rightarrow> bool" where
  "readable st key \<longleftrightarrow> gr_lpid_for_key key st = Some (sc_lpid (config st)) \<and> can_time st \<and>
     (\<forall>i \<in> set (chain_at (store st) key). it_source_replica i < num_replicas (sc_cluster (config st)))"

lemma get_value_at_read:
  assumes "readable st key"
    and "\<And>vs. \<forall>i \<in> set vs. it_source_replica i < num_replicas (sc_cluster (config st)) \<Longrightarrow>
       \<exists>n e. first_visible vis t vs st = Some (find P vs, st\<lparr>draws := n, elapsed_time := e\<rparr>)"
  shows "\<exists>v u r n e. gr_get_value_at st key t vis = Some (v, u, r, st\<lparr>draws := n, elapsed_time := e\<rparr>) \<and>
     read_result P (chain_at (store st) key) = (v, u, r)"
proof -
  let ?vs = "chain_at (store st) key"
  have "\<forall>i \<in> set ?vs. it_source_replica i < num_replicas (sc_cluster (config st))"
    using assms(1) by (simp add: readable_def)
  from assms(2) [OF this] obtain n e where
    1: "first_visible vis t ?vs st = Some (find P ?vs, st\<lparr>draws := n, elapsed_time := e\<rparr>)" by blast
  have "can_time (st\<lparr>draws := n, elapsed_time := e\<rparr>)" using assms(1) by (simp add: readable_def)
  from add_timing_returns [OF this, of 1 "[''gr'', ''get_value_time'']"] obtain n' e' where
    2: "cpu_add_timing (st\<lparr>draws := n, elapsed_time := e\<rparr>) 1 [''gr'', ''get_value_time''] =
      Some (st\<lparr>draws := n', elapsed_time := e'\<rparr>)"
    by auto
  have 3: "?vs = [] \<or> it_source_replica (hd ?vs) < num_replicas (sc_cluster (config st))"
    using assms(1) by (cases ?vs) (auto simp: readable_def)
  show ?thesis
    using assms(1) 1 2 3
    by (auto simp: gr_get_value_at_def readable_def read_result_def Let_def split: option.splits)
qed

section \<open>Garbage collection\<close>

lemma find_gc:
  assumes "\<And>i. it_update_time i < g \<Longrightarrow> P i"
  shows "find P (gc_versions g vs) = find P vs"
  using assms by (induction vs) auto

lemma read_gc:
  assumes "\<And>i. it_update_time i < g \<Longrightarrow> P i" and "garbage_collect_item g vs = Some vs'"
  shows "read_result P vs' = read_result P vs"
  using assms by (auto simp: garbage_collect_item_def read_result_def find_gc split: list.splits)

lemma gc_foldM:
  assumes "distinct (map fst kvs)" and "\<forall>(k, vs) \<in> set kvs. vs \<noteq> []" and "gst st = g"
  shows "\<exists>s. foldM (\<lambda>(key, vs) st. do {
       vs \<leftarrow> garbage_collect_item (gst st) vs;
       Some (st\<lparr>store := store_put (store st) key vs\<rparr>)
     }) kvs st = Some (st\<lparr>store := s\<rparr>) \<and>
     (\<forall>k. chain_at s k = (case map_of kvs k of None \<Rightarrow> chain_at (store st) k
        | Some vs \<Rightarrow> the (garbage_collect_item g vs)))"
  using assms
proof (induction kvs arbitrary: st)
  case Nil
  show ?case by (rule exI [of _ "store st"]) simp
next
  case (Cons kv kvs)
  obtain key vs where kv: "kv = (key, vs)" by force
  with Cons.prems obtain vs' where vs': "garbage_collect_item g vs = Some vs'"
    by (auto simp: garbage_collect_item_def neq_Nil_conv)
  define st1 where "st1 = st\<lparr>store := store_put (store st) key vs'\<rparr>"
  from Cons.IH [of st1] Cons.prems obtain s where
    s: "foldM (\<lambda>(key, vs) st. do {
       vs \<leftarrow> garbage_collect_item (gst st) vs;
       Some (st\<lparr>store := store_put (store st) key vs\<rparr>)
     }) kvs st1 = Some (st1\<lparr>store := s\<rparr>)"
    and c: "\<forall>k. chain_at s k = (case map_of kvs k of None \<Rightarrow> chain_at (store st1) k
        | Some vs \<Rightarrow> the (garbage_collect_item g vs))"
    by (auto simp: st1_def)
  have "map_of kvs key = None" using Cons.prems(1) kv by (auto simp: map_of_eq_None_iff)
  then show ?case
    using s c vs' Cons.prems(3) kv
    by (intro exI [of _ s]) (auto simp: st1_def chain_at_def store_get_put split: option.splits)
qed

text \<open>The whole store: garbage collection returns, and shortens every chain as \<open>garbage_collect_item\<close> does.\<close>

lemma garbage_collect_returns:
  assumes "store_ok st"
  shows "\<exists>s. gr_garbage_collect st = Some (st\<lparr>store := s\<rparr>) \<and>
     (\<forall>k. chain_at (store st) k = [] \<and> chain_at s k = [] \<or>
        garbage_collect_item (gst st) (chain_at (store st) k) = Some (chain_at s k))"
proof -
  have wf: "store_wf (store st)" and ne: "\<And>k. store_get (store st) k \<noteq> Some []"
    using assms by (auto simp: store_ok_def)
  let ?kvs = "store_items (store st)"
  have "\<forall>(k, vs) \<in> set ?kvs. vs \<noteq> []" using ne store_items_get [OF wf] by fastforce
  from gc_foldM [OF distinct_store_items [OF wf] this refl] obtain s where
    s: "gr_garbage_collect st = Some (st\<lparr>store := s\<rparr>)"
    and c: "\<And>k. chain_at s k = (case map_of ?kvs k of None \<Rightarrow> chain_at (store st) k
        | Some vs \<Rightarrow> the (garbage_collect_item (gst st) vs))"
    by (auto simp: gr_garbage_collect_def store_foreach_items)
  have "chain_at (store st) k = [] \<and> chain_at s k = [] \<or>
      garbage_collect_item (gst st) (chain_at (store st) k) = Some (chain_at s k)" for k
    using c [of k] ne [of k] kv.items_map [OF wf]
    by (auto simp: chain_at_def garbage_collect_item_def split: option.splits list.splits)
  with s show ?thesis by blast
qed

section \<open>Correctness\<close>

text \<open>A server that holds three versions of key 1.\<close>

definition demo_loaded :: gr_state where
  "demo_loaded = demo_blank\<lparr>gst := 15, store := store_put store_new 1
     [\<lparr>it_value = 7, it_update_time = 35, it_source_replica = 1\<rparr>,
      \<lparr>it_value = 5, it_update_time = 12, it_source_replica = 1\<rparr>,
      \<lparr>it_value = 3, it_update_time = 10, it_source_replica = 0\<rparr>]\<rparr>"

lemma can_time_demo: "can_time demo_blank"
  by (auto simp: can_time_def timing_ok_def demo_blank_def)

lemma demo_loaded_ok: "readable demo_loaded 1" "store_ok demo_loaded"
proof -
  have "can_time demo_loaded"
    using can_time_demo by (simp add: demo_loaded_def can_time_def timing_ok_def)
  then show "readable demo_loaded 1"
    by (simp add: readable_def demo_loaded_def demo_blank_def demo_config_def gr_lpid_for_key_def partition_for_key_def
        cluster_get_lpid_def partition_index_def arr_get_def chain_at_def store_get_put)
  show "store_ok demo_loaded"
    by (simp add: store_ok_def demo_loaded_def store_wf_put store_wf_new chain_at_def store_get_put store_get_new
        versions_sorted_def)
qed

text \<open>C14: reading a key on the server that stores it succeeds and returns the newest version the reader may
  see: the newest one written in this replica or not newer than the stable time.\<close>

theorem get_value_newest:
  assumes "readable st key" and "store_ok st"
  shows "\<exists>v u r n e. gr_get_value st key = Some (v, u, r, st\<lparr>draws := n, elapsed_time := e\<rparr>) \<and>
     newest_visible (visible_here st (gst st)) (chain_at (store st) key) (v, u, r)"
proof -
  have "can_time st" using assms(1) by (simp add: readable_def)
  from get_value_at_read [OF assms(1) first_visible_here [OF _ this]] obtain v u r n e where
    "gr_get_value st key = Some (v, u, r, st\<lparr>draws := n, elapsed_time := e\<rparr>)"
    and "read_result (visible_here st (gst st)) (chain_at (store st) key) = (v, u, r)"
    unfolding gr_get_value_def by blast
  moreover have "versions_sorted (chain_at (store st) key)" using assms(2) by (simp add: store_ok_def)
  ultimately show ?thesis by (metis read_result_newest)
qed

theorem get_value_newest_witness:
  "\<exists>v u r n e. gr_get_value demo_loaded 1 = Some (v, u, r, demo_loaded\<lparr>draws := n, elapsed_time := e\<rparr>) \<and>
     newest_visible (visible_here demo_loaded (gst demo_loaded)) (chain_at (store demo_loaded) 1) (v, u, r)"
  by (rule get_value_newest [OF demo_loaded_ok])

text \<open>A slice of a snapshot returns the newest version that is not newer than the snapshot time,
  wherever it was written.\<close>

theorem slice_value_newest:
  assumes "readable st key" and "store_ok st"
  shows "\<exists>v u r n e. gr_get_value_at st key t is_value_visible_snapshot =
       Some (v, u, r, st\<lparr>draws := n, elapsed_time := e\<rparr>) \<and>
     newest_visible (\<lambda>i. it_update_time i \<le> t) (chain_at (store st) key) (v, u, r)"
proof -
  have "\<exists>n e. first_visible is_value_visible_snapshot t vs st =
      Some (find (\<lambda>i. it_update_time i \<le> t) vs, st\<lparr>draws := n, elapsed_time := e\<rparr>)"
    if "\<forall>i \<in> set vs. it_source_replica i < num_replicas (sc_cluster (config st))" for vs
    using first_visible_snapshot [OF that, of t]
    by (intro exI [of _ "draws st"] exI [of _ "elapsed_time st"]) (simp add: visible_at_def [abs_def])
  from get_value_at_read [OF assms(1) this] obtain v u r n e where
    "gr_get_value_at st key t is_value_visible_snapshot = Some (v, u, r, st\<lparr>draws := n, elapsed_time := e\<rparr>)"
    and "read_result (\<lambda>i. it_update_time i \<le> t) (chain_at (store st) key) = (v, u, r)" by blast
  moreover have "versions_sorted (chain_at (store st) key)" using assms(2) by (simp add: store_ok_def)
  ultimately show ?thesis by (metis read_result_newest)
qed

theorem slice_value_newest_witness:
  "\<exists>v u r n e. gr_get_value_at demo_loaded 1 20 is_value_visible_snapshot =
       Some (v, u, r, demo_loaded\<lparr>draws := n, elapsed_time := e\<rparr>) \<and>
     newest_visible (\<lambda>i. it_update_time i \<le> 20) (chain_at (store demo_loaded) 1) (v, u, r)"
  by (rule slice_value_newest [OF demo_loaded_ok])

text \<open>C15: garbage collection succeeds and changes no read that can still be asked for: every read of any
  key at the stable time or later, of a client or of a snapshot, gives the same result as before.\<close>

theorem garbage_collect_keeps_reads:
  assumes "store_ok st" and "gst st \<le> t"
  shows "\<exists>s. gr_garbage_collect st = Some (st\<lparr>store := s\<rparr>) \<and>
     (\<forall>k. read_result (visible_here st t) (chain_at s k) = read_result (visible_here st t) (chain_at (store st) k) \<and>
        read_result (visible_at t) (chain_at s k) = read_result (visible_at t) (chain_at (store st) k))"
proof -
  from garbage_collect_returns [OF assms(1)] obtain s where
    s: "gr_garbage_collect st = Some (st\<lparr>store := s\<rparr>)"
    and c: "\<And>k. chain_at (store st) k = [] \<and> chain_at s k = [] \<or>
        garbage_collect_item (gst st) (chain_at (store st) k) = Some (chain_at s k)" by blast
  have "read_result P (chain_at s k) = read_result P (chain_at (store st) k)"
    if "\<And>i. it_update_time i < gst st \<Longrightarrow> P i" for P k
    using c [of k] read_gc [OF that] by auto
  moreover have "visible_here st t i" "visible_at t i" if "it_update_time i < gst st" for i
    using that assms(2) by (simp_all add: visible_here_def visible_at_def)
  ultimately show ?thesis using s by blast
qed

theorem garbage_collect_keeps_reads_witness:
  "\<exists>s. gr_garbage_collect demo_loaded = Some (demo_loaded\<lparr>store := s\<rparr>) \<and>
     (\<forall>k. read_result (visible_here demo_loaded 20) (chain_at s k) =
            read_result (visible_here demo_loaded 20) (chain_at (store demo_loaded) k) \<and>
        read_result (visible_at 20) (chain_at s k) = read_result (visible_at 20) (chain_at (store demo_loaded) k))"
  by (rule garbage_collect_keeps_reads [OF demo_loaded_ok(2)]) (simp add: demo_loaded_def)

end
