(* ===== verification/Partition_Tree.thy ===== *)
theory Partition_Tree
  imports Server
begin

text \<open>
  The tree into which the partitions are arranged (\<open>server_parent_partition_id\<close> and its relatives in
  \<open>src/server/server.c\<close>): the functions agree with each other as long as the identifiers of the
  children of a partition fit an \<open>unsigned int\<close>.
\<close>

definition tree_ok :: "server_config \<Rightarrow> bool" where
  "tree_ok c \<longleftrightarrow> 0 < tree_fanout c \<and> sc_partition c < num_partitions (sc_cluster c) \<and>
     (unat (sc_partition c) + 1) * unat (tree_fanout c) \<le> UINT_MAX"

lemma map_unat_children_from:
  "map unat (children_from i hi n) = [unat i..<min (Suc (unat hi)) (unat n)]"
proof (induction i hi n rule: children_from.induct)
  case (1 i hi n)
  show ?case
  proof (cases "i \<le> hi \<and> i < n")
    case True
    then have inc: "unat (i + 1) = unat i + 1"
      using unat_u32_less [of n] by (intro unat_inc) (simp add: word_less_nat_alt UINT_MAX_def)
    have "unat i < min (Suc (unat hi)) (unat n)"
      using True by (auto simp: word_less_nat_alt word_le_nat_alt)
    then show ?thesis
      using 1 [OF True] True inc by (subst children_from.simps) (simp add: upt_conv_Cons)
  next
    case False
    then show ?thesis
      by (subst children_from.simps) (auto simp: word_less_nat_alt word_le_nat_alt)
  qed
qed

lemma unat_child_ids:
  assumes "tree_ok c"
  shows "unat (server_first_child_id c) = unat (sc_partition c) * unat (tree_fanout c) + 1"
    and "unat (server_last_child_id c) = unat (sc_partition c) * unat (tree_fanout c) + unat (tree_fanout c)"
proof -
  let ?p = "unat (sc_partition c)" and ?f = "unat (tree_fanout c)"
  have f: "0 < ?f" using assms by (simp add: tree_ok_def word_less_nat_alt)
  have b: "?p * ?f + ?f < 4294967296"
    using assms by (simp add: tree_ok_def UINT_MAX_def algebra_simps)
  then have m: "unat (sc_partition c * tree_fanout c) = ?p * ?f"
    using unat_word_ariths(2) [of "sc_partition c" "tree_fanout c"] by simp
  show "unat (server_first_child_id c) = ?p * ?f + 1"
    using m b f unat_word_ariths(1) [of "sc_partition c * tree_fanout c" 1]
    by (simp add: server_first_child_id_def)
  show "unat (server_last_child_id c) = ?p * ?f + ?f"
    using m b unat_word_ariths(1) [of "sc_partition c * tree_fanout c" "tree_fanout c"]
    by (simp add: server_last_child_id_def)
qed

lemma map_unat_children:
  assumes "tree_ok c"
  shows "map unat (server_children c) =
    [unat (sc_partition c) * unat (tree_fanout c) + 1
       ..<min (unat (sc_partition c) * unat (tree_fanout c) + unat (tree_fanout c) + 1)
              (unat (num_partitions (sc_cluster c)))]"
  by (simp add: server_children_def map_unat_children_from unat_child_ids [OF assms])

lemma set_server_children:
  assumes "tree_ok c"
  shows "p \<in> set (server_children c) \<longleftrightarrow>
    unat (sc_partition c) * unat (tree_fanout c) < unat p \<and>
    unat p \<le> unat (sc_partition c) * unat (tree_fanout c) + unat (tree_fanout c) \<and>
    unat p < unat (num_partitions (sc_cluster c))"
proof -
  have "p \<in> set (server_children c) \<longleftrightarrow> unat p \<in> set (map unat (server_children c))"
    by (auto dest: word_unat_eq_iff [THEN iffD2])
  then show ?thesis by (auto simp: map_unat_children [OF assms])
qed

lemma distinct_server_children: "tree_ok c \<Longrightarrow> distinct (server_children c)"
  using map_unat_children [of c] by (metis distinct_map distinct_upt)

lemma div_eq_iff_range: "0 < f \<Longrightarrow> (x::nat) div f = q \<longleftrightarrow> q * f \<le> x \<and> x < q * f + f"
  by (metis add.commute div_nat_eqI dividend_less_times_div mult.commute mult_Suc_right times_div_less_eq_dividend)

lemma children_parent:
  assumes ok: "tree_ok c" and p: "p < num_partitions (sc_cluster c)" "p \<noteq> 0"
  shows "p \<in> set (server_children c) \<longleftrightarrow>
    server_parent_partition_id (c\<lparr>sc_partition := p\<rparr>) = Some (sc_partition c)"
proof -
  let ?P = "unat (sc_partition c)" and ?f = "unat (tree_fanout c)"
  have f: "0 < ?f" using ok by (simp add: tree_ok_def word_less_nat_alt)
  have p1: "unat (p - 1) = unat p - 1" using p(2) by (rule unat_dec)
  have p0: "0 < unat p" using p(2) by (simp add: unat_gt_0)
  have "server_parent_partition_id (c\<lparr>sc_partition := p\<rparr>) = Some (sc_partition c)
      \<longleftrightarrow> (unat p - 1) div ?f = ?P"
    using p f by (auto simp: server_parent_partition_id_def word_unat_eq_iff unat_div p1)
  also have "\<dots> \<longleftrightarrow> ?P * ?f \<le> unat p - 1 \<and> unat p - 1 < ?P * ?f + ?f"
    by (rule div_eq_iff_range [OF f])
  finally show ?thesis
    using p p0 set_server_children [OF ok, of p] by (auto simp: word_less_nat_alt)
qed

lemma length_server_children:
  "tree_ok c \<Longrightarrow> length (server_children c) =
     min (unat (sc_partition c) * unat (tree_fanout c) + unat (tree_fanout c) + 1)
         (unat (num_partitions (sc_cluster c)))
       - (unat (sc_partition c) * unat (tree_fanout c) + 1)"
  using arg_cong [OF map_unat_children [of c], of length] by simp

lemma num_children_length:
  assumes ok: "tree_ok c"
  shows "unat (server_num_children_partitions c) = length (server_children c)"
proof -
  let ?P = "unat (sc_partition c)" and ?f = "unat (tree_fanout c)" and ?n = "unat (num_partitions (sc_cluster c))"
  note ids = unat_child_ids [OF ok]
  note len = length_server_children [OF ok]
  have sub: "unat (tree_fanout c - (server_last_child_id c - num_partitions (sc_cluster c) + 1))
      = ?f - (?P * ?f + ?f - ?n + 1)" if "\<not> ?P * ?f + ?f < ?n" "?P * ?f + 1 < ?n"
  proof -
    have d: "unat (server_last_child_id c - num_partitions (sc_cluster c)) = ?P * ?f + ?f - ?n"
      using that ids by (subst unat_sub) (auto simp: word_le_nat_alt)
    then have d1: "unat (server_last_child_id c - num_partitions (sc_cluster c) + 1) = ?P * ?f + ?f - ?n + 1"
      using that unat_u32_less [of "tree_fanout c"] by (subst unat_inc) (auto simp: UINT_MAX_def)
    show ?thesis using that d1 by (subst unat_sub) (auto simp: word_le_nat_alt)
  qed
  show ?thesis
    using sub ids by (auto simp: server_num_children_partitions_def Let_def len word_less_nat_alt)
qed

lemma leaf_no_children:
  assumes ok: "tree_ok c"
  shows "server_is_leaf_partition c \<longleftrightarrow> server_children c = []"
proof -
  have "0 < unat (tree_fanout c)" using ok by (simp add: tree_ok_def word_less_nat_alt)
  moreover have "server_children c = [] \<longleftrightarrow> length (server_children c) = 0" by simp
  ultimately show ?thesis
    unfolding length_server_children [OF ok] server_is_leaf_partition_def word_le_nat_alt
      unat_child_ids [OF ok] by linarith
qed

text \<open>The slot of a child in \<open>lst_received\<close> is its position among the children.\<close>

lemma child_index_nth:
  assumes ok: "tree_ok c" and k: "k < length (server_children c)"
  shows "server_child_partition_index c (server_children c ! k) = Some (of_nat k)" and "k < unat (tree_fanout c)"
proof -
  let ?P = "unat (sc_partition c)" and ?f = "unat (tree_fanout c)"
  have len: "length (server_children c) \<le> ?f"
    by (simp add: length_server_children [OF ok])
  with k show kf: "k < ?f" by simp
  have u: "unat (server_children c ! k) = ?P * ?f + 1 + k"
    using arg_cong [OF map_unat_children [OF ok], of "\<lambda>l. l ! k"] k
    by (simp add: length_server_children [OF ok] less_diff_conv add.commute)
  then have nz: "server_children c ! k \<noteq> 0" by auto
  have "unat (server_children c ! k - 1) = ?P * ?f + k" using u unat_dec [OF nz] by simp
  then have "unat ((server_children c ! k - 1) mod tree_fanout c) = k"
    using kf by (simp add: unat_mod)
  then have "(server_children c ! k - 1) mod tree_fanout c = of_nat k"
    using kf by (simp add: word_unat_eq_iff unat_of_nat_u32)
  moreover have "tree_fanout c \<noteq> 0" using ok by (auto simp: tree_ok_def)
  ultimately show "server_child_partition_index c (server_children c ! k) = Some (of_nat k)"
    using nz by (simp add: server_child_partition_index_def)
qed

section \<open>Correctness\<close>

text \<open>C25: the loop over the children of a partition visits exactly the partitions of the cluster that name it
  as their parent, each once, and no identifier that is not a partition.\<close>

theorem children_are_those_with_this_parent:
  assumes "tree_ok c"
  shows "distinct (server_children c) \<and> set (server_children c) =
     {p. p < num_partitions (sc_cluster c) \<and> server_parent_partition_id (c\<lparr>sc_partition := p\<rparr>) = Some (sc_partition c)}"
proof
  show "distinct (server_children c)" by (rule distinct_server_children [OF assms])
  have "p \<in> set (server_children c) \<longleftrightarrow> p < num_partitions (sc_cluster c) \<and>
      server_parent_partition_id (c\<lparr>sc_partition := p\<rparr>) = Some (sc_partition c)" for p
  proof (cases "p < num_partitions (sc_cluster c) \<and> p \<noteq> 0")
    case True
    then show ?thesis using children_parent [OF assms, of p] by blast
  next
    case False
    then show ?thesis
      using set_server_children [OF assms, of p] by (auto simp: server_parent_partition_id_def word_less_nat_alt)
  qed
  then show "set (server_children c) =
     {p. p < num_partitions (sc_cluster c) \<and> server_parent_partition_id (c\<lparr>sc_partition := p\<rparr>) = Some (sc_partition c)}" by blast
qed

theorem children_are_those_with_this_parent_witness:
  "let c = \<lparr>sc_cluster = \<lparr>num_replicas = 1, num_partitions = 6, server_lpids = [], key_min = 0, key_max = 0, cl_clock_skew = 0\<rparr>,
     sc_network = \<lparr>num_lps = 0, transmission_rates = [], network_delay = []\<rparr>, sc_lpid = 0, sc_partition = 2, sc_replica = 0,
     tree_fanout = 2, num_cores = 1\<rparr>
   in distinct (server_children c) \<and> set (server_children c) =
     {p. p < num_partitions (sc_cluster c) \<and> server_parent_partition_id (c\<lparr>sc_partition := p\<rparr>) = Some (sc_partition c)}"
  unfolding Let_def by (rule children_are_those_with_this_parent) (simp add: tree_ok_def UINT_MAX_def)

text \<open>C26: the number of children the server counts on is the number of partitions the loop visits, a
  leaf is a partition without children, and the flag of the \<open>k\<close>-th child is entry \<open>k\<close> of the array of
  flags, inside its bounds.\<close>

theorem children_counted:
  assumes "tree_ok c"
  shows "unat (server_num_children_partitions c) = length (server_children c) \<and>
     server_is_leaf_partition c = (server_children c = []) \<and>
     (\<forall>k < length (server_children c).
        server_child_partition_index c (server_children c ! k) = Some (of_nat k) \<and> k < unat (tree_fanout c))"
  using num_children_length [OF assms] leaf_no_children [OF assms] child_index_nth [OF assms] by blast

theorem children_counted_witness:
  "let c = \<lparr>sc_cluster = \<lparr>num_replicas = 1, num_partitions = 6, server_lpids = [], key_min = 0, key_max = 0, cl_clock_skew = 0\<rparr>,
     sc_network = \<lparr>num_lps = 0, transmission_rates = [], network_delay = []\<rparr>, sc_lpid = 0, sc_partition = 2, sc_replica = 0,
     tree_fanout = 2, num_cores = 1\<rparr>
   in unat (server_num_children_partitions c) = length (server_children c) \<and>
     server_is_leaf_partition c = (server_children c = []) \<and>
     (\<forall>k < length (server_children c).
        server_child_partition_index c (server_children c ! k) = Some (of_nat k) \<and> k < unat (tree_fanout c))"
  unfolding Let_def by (rule children_counted) (simp add: tree_ok_def UINT_MAX_def)

end
