(* ===== verification/Gr_Lst.thy ===== *)
theory Gr_Lst
  imports Gr_Read Partition_Tree
begin

text \<open>
  The computation of the stable time in the tree of partitions: what a server makes of the local stable
  times its children report (\<open>gr_process_lst_from_leaf\<close>), in whatever order they arrive.
\<close>

section \<open>The minimum of the version vector\<close>

lemma foldM_min:
  assumes "\<forall>i \<in> set is. unat i < length vv"
  shows "foldM (\<lambda>i m. do { version \<leftarrow> arr_get vv i; Some (if version < m then version else m) }) is v =
     Some (Min (insert v ((\<lambda>i. vv ! unat i) ` set is)))"
  using assms
proof (induction "is" arbitrary: v)
  case Nil
  then show ?case by simp
next
  case (Cons i "is")
  then show ?case
    by (cases "set is = {}") (auto simp: arr_get_def min_def insert_commute min.commute)
qed

lemma min_version_loop_Min:
  assumes "length vv = unat n" and "n \<noteq> 0"
  shows "min_version_loop vv n = Some (Min (set vv))"
proof -
  have n: "0 < unat n" using assms(2) by (simp add: unat_gt_0)
  then obtain "is" where "is": "idx_upto n = 0 # is"
    by (simp add: idx_upto_def upt_conv_Cons)
  have "set vv = (\<lambda>k. vv ! k) ` {0..<unat n}" using assms(1) by (auto simp: set_conv_nth)
  also have "\<dots> = (\<lambda>i. vv ! unat i) ` set (idx_upto n)"
    by (force simp: idx_upto_def unat_of_nat_u32)
  finally have v: "set vv = insert (vv ! 0) ((\<lambda>i. vv ! unat i) ` set is)" by (simp add: "is")
  have "\<forall>i \<in> set is. unat i < length vv"
    using set_upto [of n] assms(1) by (auto simp: "is" word_less_nat_alt)
  from foldM_min [OF this] n assms(1) show ?thesis
    by (simp add: min_version_loop_def arr_get_def "is" v)
qed

section \<open>Flags\<close>

lemma foldM_snoc: "foldM f (xs @ [x]) s = Option.bind (foldM f xs s) (f x)"
  by (cases "foldM f xs s"; cases "f x (the (foldM f xs s))") (simp_all add: foldM_append)

lemma count_flags:
  assumes "length (lst_received st) = unat (tree_fanout (config st))"
  shows "count_lst_received st = Some (of_nat (length (filter id (lst_received st))))"
proof -
  let ?l = "lst_received st"
  have step: "foldM (\<lambda>i count. do { b \<leftarrow> arr_get ?l i; Some (if b then count + 1 else count) })
      (map of_nat [0..<k]) (0::u32) = Some (of_nat (length (filter id (take k ?l))))" if "k \<le> length ?l" for k
    using that
  proof (induction k)
    case (Suc k)
    then have "unat (of_nat k :: u32) = k"
      using assms by (intro unat_of_nat_u32 [of _ "tree_fanout (config st)"]) simp
    with Suc show ?case by (simp add: foldM_append take_Suc_conv_app_nth arr_get_def)
  qed simp
  show ?thesis using step [of "length ?l"] assms by (simp add: count_lst_received_def idx_upto_def)
qed

lemma reset_flags:
  assumes "length (lst_received st) = unat (tree_fanout (config st))"
  shows "reset_lst_received st = Some (st\<lparr>lst_received := replicate (unat (tree_fanout (config st))) False\<rparr>)"
proof -
  let ?l = "lst_received st"
  have step: "foldM (\<lambda>i st. do { l \<leftarrow> arr_set (lst_received st) i False; Some (st\<lparr>lst_received := l\<rparr>) })
      (map of_nat [0..<k]) st = Some (st\<lparr>lst_received := replicate k False @ drop k ?l\<rparr>)" if "k \<le> length ?l" for k
    using that
  proof (induction k)
    case (Suc k)
    then have "unat (of_nat k :: u32) = k"
      using assms by (intro unat_of_nat_u32 [of _ "tree_fanout (config st)"]) simp
    moreover have "(replicate k False @ drop k ?l)[k := False] = replicate (Suc k) False @ drop (Suc k) ?l"
      using Suc.prems by (simp add: list_update_append Cons_nth_drop_Suc [symmetric] replicate_app_Cons_same)
    ultimately show ?case using Suc by (simp add: foldM_append arr_set_def)
  qed simp
  show ?thesis using step [of "length ?l"] assms by (simp add: reset_lst_received_def idx_upto_def)
qed

section \<open>Reports of the children\<close>

definition lst_msg :: "partition_t \<times> gr_tsp \<Rightarrow> gr_lst_from_leaf" where
  "lst_msg m = gr_lst_from_leaf_new\<lparr>lfl_lst := snd m, lfl_leaf_partition_id := fst m\<rparr>"

definition receive_lsts :: "(partition_t \<times> gr_tsp) list \<Rightarrow> gr_state \<Rightarrow> gr_state option" where
  "receive_lsts ms st = foldM (\<lambda>m st. gr_process_lst_from_leaf st (lst_msg m)) ms st"

text \<open>The state after the reports \<open>done\<close>, fewer than there are children, starting from \<open>st0\<close>.\<close>

definition reported :: "gr_state \<Rightarrow> (partition_t \<times> gr_tsp) list \<Rightarrow> gr_state \<Rightarrow> bool" where
  "reported st0 done st \<longleftrightarrow>
     (\<exists>n e m l. st = st0\<lparr>draws := n, elapsed_time := e, min_lst := m, lst_received := l\<rparr> \<and>
        length l = unat (tree_fanout (config st0)) \<and>
        (\<forall>k < length l. l ! k \<longleftrightarrow> k < length (server_children (config st0)) \<and> server_children (config st0) ! k \<in> fst ` set done) \<and>
        (done \<noteq> [] \<longrightarrow> m = Min (snd ` set done)))"

lemma reportedI:
  "length l = unat (tree_fanout (config st0)) \<Longrightarrow>
   (\<And>k. k < length l \<Longrightarrow> l ! k \<longleftrightarrow> k < length (server_children (config st0)) \<and> server_children (config st0) ! k \<in> fst ` set done) \<Longrightarrow>
   (done \<noteq> [] \<Longrightarrow> m = Min (snd ` set done)) \<Longrightarrow>
   reported st0 done (st0\<lparr>draws := n, elapsed_time := e, min_lst := m, lst_received := l\<rparr>)"
  unfolding reported_def by blast

definition reports_ok :: "server_config \<Rightarrow> (partition_t \<times> gr_tsp) list \<Rightarrow> bool" where
  "reports_ok c ms \<longleftrightarrow> distinct (map fst ms) \<and> fst ` set ms \<subseteq> set (server_children c)"

lemma of_nat_u32_eq: "k < 4294967296 \<Longrightarrow> j < 4294967296 \<Longrightarrow> (of_nat k :: u32) = of_nat j \<longleftrightarrow> k = j"
  by (auto simp: word_unat_eq_iff unat_of_nat)

lemma reports_bound:
  assumes ok: "tree_ok c" and ms: "reports_ok c ms"
  shows "length ms \<le> length (server_children c)" and "length (server_children c) < 4294967296"
proof -
  show "length ms \<le> length (server_children c)"
    using ms card_mono [of "set (server_children c)" "fst ` set ms"] distinct_card [of "map fst ms"]
      card_length [of "server_children c"] by (auto simp: reports_ok_def)
  show "length (server_children c) < 4294967296"
    using length_server_children [OF ok] unat_u32_less [of "num_partitions (sc_cluster c)"] by simp
qed

lemma reports_ok_butlast: "reports_ok c (ms @ [m]) \<Longrightarrow> reports_ok c ms"
  by (auto simp: reports_ok_def)

lemma reported_count:
  assumes ok: "tree_ok (config st0)" and ms: "reports_ok (config st0) done" and r: "reported st0 done st"
  shows "count_lst_received st = Some (of_nat (length done))"
proof -
  let ?cs = "server_children (config st0)"
  from r have len: "length (lst_received st) = unat (tree_fanout (config st))"
    and l: "\<forall>k < length (lst_received st). lst_received st ! k \<longleftrightarrow> k < length ?cs \<and> ?cs ! k \<in> fst ` set done"
    by (auto simp: reported_def)
  have cs: "length ?cs \<le> unat (tree_fanout (config st0))"
    by (simp add: length_server_children [OF ok])
  have fan: "length (lst_received st) = unat (tree_fanout (config st0))" using r by (auto simp: reported_def)
  have flag: "(k < length (lst_received st) \<and> lst_received st ! k) = (k < length ?cs \<and> ?cs ! k \<in> fst ` set done)" for k
    using l [rule_format, of k] cs fan by (cases "k < length ?cs") simp_all
  have "length (filter id (lst_received st)) = card {k. k < length (lst_received st) \<and> lst_received st ! k}"
    by (simp add: length_filter_conv_card)
  also have "{k. k < length (lst_received st) \<and> lst_received st ! k} = {k. k < length ?cs \<and> ?cs ! k \<in> fst ` set done}"
    by (rule Collect_cong) (rule flag)
  also have "card \<dots> = card ((!) ?cs ` {k. k < length ?cs \<and> ?cs ! k \<in> fst ` set done})"
    using distinct_server_children [OF ok] by (intro card_image [symmetric] inj_onI) (simp add: nth_eq_iff_index_eq)
  also have "(!) ?cs ` {k. k < length ?cs \<and> ?cs ! k \<in> fst ` set done} = fst ` set done"
    using ms by (force simp: reports_ok_def in_set_conv_nth)
  also have "card (fst ` set done) = length done"
    using ms distinct_card [of "map fst done"] by (simp add: reports_ok_def)
  finally have "length (filter id (lst_received st)) = length done" .
  then show ?thesis by (simp only: count_flags [OF len])
qed

text \<open>What the first half of the handler does with one more report.\<close>

lemma reported_step:
  assumes ok: "tree_ok (config st0)" and ms: "reports_ok (config st0) (done @ [(p, t)])" and r: "reported st0 done st"
    and time: "can_time st0"
  shows "\<exists>i st1 st2 l.
     server_child_partition_index (config st) p = Some i \<and> p \<noteq> 0 \<and> arr_get (lst_received st) i = Some False \<and>
     count_lst_received st = Some (of_nat (length done)) \<and>
     st1 = (if of_nat (length done) = (0::u32) \<or> t < min_lst st then st\<lparr>min_lst := t\<rparr> else st) \<and>
     cpu_add_timing st1 1 [''gr'', ''process_lst_from_leaf_per_replica_time''] = Some st2 \<and>
     arr_set (lst_received st2) i True = Some l \<and> reported st0 (done @ [(p, t)]) (st2\<lparr>lst_received := l\<rparr>)"
proof -
  let ?cs = "server_children (config st0)"
  from ms obtain k where k: "k < length ?cs" "?cs ! k = p" and new: "p \<notin> fst ` set done"
    by (auto simp: reports_ok_def in_set_conv_nth)
  note idx = child_index_nth [OF ok k(1)]
  from r obtain n e m l where st: "st = st0\<lparr>draws := n, elapsed_time := e, min_lst := m, lst_received := l\<rparr>"
    and len: "length l = unat (tree_fanout (config st0))"
    and l: "\<forall>k < length l. l ! k \<longleftrightarrow> k < length ?cs \<and> ?cs ! k \<in> fst ` set done"
    and m: "done \<noteq> [] \<longrightarrow> m = Min (snd ` set done)" unfolding reported_def by blast
  have ki: "unat (of_nat k :: u32) = k" by (rule unat_of_nat_u32 [OF idx(2)])
  have p0: "p \<noteq> 0" using set_server_children [OF ok, of p] k by (auto simp: in_set_conv_nth)
  have dn: "of_nat (length done) = (0::u32) \<longleftrightarrow> done = []"
    using reports_bound [OF ok reports_ok_butlast [OF ms]] of_nat_u32_eq [of "length done" 0] by simp
  define st1 where "st1 = (if of_nat (length done) = (0::u32) \<or> t < min_lst st then st\<lparr>min_lst := t\<rparr> else st)"
  have m1: "min_lst st1 = Min (snd ` set (done @ [(p, t)]))"
  proof (cases "done = []")
    case False
    with m have "Min (snd ` set (done @ [(p, t)])) = min t m" by simp
    with False show ?thesis by (simp add: st1_def st dn min_def)
  qed (simp add: st1_def st dn)
  have "can_time st1" using time by (simp add: st1_def st can_time_def timing_ok_def)
  from add_timing_returns [OF this, of 1 "[''gr'', ''process_lst_from_leaf_per_replica_time'']"] obtain n' e' where
    t: "cpu_add_timing st1 1 [''gr'', ''process_lst_from_leaf_per_replica_time''] =
      Some (st1\<lparr>draws := n', elapsed_time := e'\<rparr>)" by auto
  have s1: "st1\<lparr>draws := n', elapsed_time := e', lst_received := l[k := True]\<rparr> =
      st0\<lparr>draws := n', elapsed_time := e', min_lst := min_lst st1, lst_received := l[k := True]\<rparr>"
    by (simp add: st1_def st)
  have flags: "l[k := True] ! j \<longleftrightarrow> j < length ?cs \<and> ?cs ! j \<in> fst ` set (done @ [(p, t)])" if "j < length l" for j
  proof (cases "j = k")
    case False
    then have "j < length ?cs \<Longrightarrow> ?cs ! j \<noteq> p"
      using nth_eq_iff_index_eq [OF distinct_server_children [OF ok], of j k] k by auto
    with False l [rule_format, OF that] show ?thesis by auto
  qed (use that k in auto)
  have "reported st0 (done @ [(p, t)]) (st1\<lparr>draws := n', elapsed_time := e', lst_received := l[k := True]\<rparr>)"
    unfolding s1 by (rule reportedI) (use len m1 flags in simp_all)
  moreover have "arr_get (lst_received st) (of_nat k) = Some False"
    using l len idx(2) k new by (simp add: arr_get_def ki st)
  moreover have "arr_set (lst_received (st1\<lparr>draws := n', elapsed_time := e'\<rparr>)) (of_nat k) True = Some (l[k := True])"
    using len idx(2) by (simp add: arr_set_def ki st st1_def)
  moreover have "server_child_partition_index (config st) p = Some (of_nat k)" using idx(1) k by (simp add: st)
  ultimately show ?thesis
    using t p0 reported_count [OF ok reports_ok_butlast [OF ms] r] st1_def by auto
qed

lemma not_last_report:
  assumes "tree_ok c" and "reports_ok c ms" and "length ms < length (server_children c)"
  shows "of_nat (length ms) = server_num_children_partitions c - 1 \<longleftrightarrow> Suc (length ms) = length (server_children c)"
proof -
  have n: "server_num_children_partitions c = of_nat (length (server_children c))"
    using num_children_length [OF assms(1)] by (metis of_nat_unat ucast_id)
  have "server_num_children_partitions c - 1 = of_nat (length (server_children c) - 1)"
    using assms(3) by (simp add: n of_nat_diff)
  moreover have "(of_nat (length ms) :: u32) = of_nat (length (server_children c) - 1) \<longleftrightarrow>
      length ms = length (server_children c) - 1"
    using reports_bound [OF assms(1,2)] by (intro of_nat_u32_eq) simp_all
  ultimately show ?thesis using assms(3) by (simp only:) linarith
qed

text \<open>All reports but the last: the smallest one so far is remembered, and nothing else happens.\<close>

lemma receive_some:
  assumes ok: "tree_ok (config st0)" and time: "can_time st0"
    and flags: "lst_received st0 = replicate (unat (tree_fanout (config st0))) False"
    and ms: "reports_ok (config st0) ms" and few: "length ms < length (server_children (config st0))"
  shows "\<exists>st. receive_lsts ms st0 = Some st \<and> reported st0 ms st"
  using ms few
proof (induction ms rule: rev_induct)
  case Nil
  have "reported st0 [] (st0\<lparr>draws := draws st0, elapsed_time := elapsed_time st0, min_lst := min_lst st0,
      lst_received := lst_received st0\<rparr>)"
    by (rule reportedI) (simp_all add: flags)
  then show ?case by (simp add: receive_lsts_def)
next
  case (snoc m ms)
  obtain p t where m: "m = (p, t)" by force
  from snoc obtain st where st: "receive_lsts ms st0 = Some st" "reported st0 ms st"
    using reports_ok_butlast by fastforce
  have c: "config st = config st0" using st(2) by (auto simp: reported_def)
  note last = not_last_report [OF ok reports_ok_butlast [OF snoc.prems(1)]]
  from reported_step [OF ok snoc.prems(1) [unfolded m] st(2) time] obtain i st2 l where
    "server_child_partition_index (config st) p = Some i" "p \<noteq> 0" "arr_get (lst_received st) i = Some False"
    "count_lst_received st = Some (of_nat (length ms))"
    "cpu_add_timing (if of_nat (length ms) = (0::u32) \<or> t < min_lst st then st\<lparr>min_lst := t\<rparr> else st) 1
       [''gr'', ''process_lst_from_leaf_per_replica_time''] = Some st2"
    "arr_set (lst_received st2) i True = Some l" and r: "reported st0 (ms @ [(p, t)]) (st2\<lparr>lst_received := l\<rparr>)" by auto
  moreover have "config st2 = config st0" using r by (auto simp: reported_def dest: arg_cong [of _ _ config])
  ultimately have "gr_process_lst_from_leaf st (lst_msg (p, t)) = Some (st2\<lparr>lst_received := l\<rparr>)"
    using last snoc.prems(2) by (simp add: gr_process_lst_from_leaf_def lst_msg_def c Let_def cong: if_cong)
  with st r show ?case by (auto simp: receive_lsts_def foldM_append m)
qed

text \<open>The last report: the flags are cleared and the minimum with the server's own versions goes on.\<close>

lemma receive_all:
  assumes ok: "tree_ok (config st0)" and time: "can_time st0"
    and flags: "lst_received st0 = replicate (unat (tree_fanout (config st0))) False"
    and ms: "reports_ok (config st0) ms" and all: "length ms = length (server_children (config st0))" "ms \<noteq> []"
    and vv: "length (version_vector st0) = unat (num_replicas (sc_cluster (config st0)))"
      "num_replicas (sc_cluster (config st0)) \<noteq> 0"
  shows "\<exists>n e. receive_lsts ms st0 =
     (let st = st0\<lparr>draws := n, elapsed_time := e, min_lst := min (Min (snd ` set ms)) (Min (set (version_vector st0))),
                lst_received := replicate (unat (tree_fanout (config st0))) False\<rparr>
      in if sc_partition (config st) = 0
         then cpu_lock_lock st (gr_lock st) GR_LST_FROM_LEAF_ROOT_LOCKED NoData 0
         else gr_send_lst_to_parent st)"
proof -
  from all(2) obtain ms' p t where m: "ms = ms' @ [(p, t)]" by (cases ms rule: rev_cases) auto
  have ms': "reports_ok (config st0) ms'" using ms reports_ok_butlast by (simp add: m)
  have few: "length ms' < length (server_children (config st0))" using all(1) by (simp add: m)
  from receive_some [OF ok time flags ms' few] obtain st where
    st: "receive_lsts ms' st0 = Some st" "reported st0 ms' st" by blast
  have c: "config st = config st0" using st(2) by (auto simp: reported_def)
  have last: "of_nat (length ms') = server_num_children_partitions (config st0) - 1"
    using not_last_report [OF ok ms' few] all(1) by (simp add: m)
  from reported_step [OF ok ms [unfolded m] st(2) time] obtain i st2 l where
    one: "server_child_partition_index (config st) p = Some i" "p \<noteq> 0" "arr_get (lst_received st) i = Some False"
      "count_lst_received st = Some (of_nat (length ms'))"
      "cpu_add_timing (if of_nat (length ms') = (0::u32) \<or> t < min_lst st then st\<lparr>min_lst := t\<rparr> else st) 1
         [''gr'', ''process_lst_from_leaf_per_replica_time''] = Some st2"
      "arr_set (lst_received st2) i True = Some l" and r: "reported st0 ms (st2\<lparr>lst_received := l\<rparr>)"
    by (auto simp: m)
  let ?F = "replicate (unat (tree_fanout (config st0))) False"
  from r obtain n e l' where s2: "st2\<lparr>lst_received := l\<rparr> =
      st0\<lparr>draws := n, elapsed_time := e, min_lst := Min (snd ` set ms), lst_received := l'\<rparr>"
    and l': "length l' = unat (tree_fanout (config st0))" using all(2) unfolding reported_def by blast
  have c2: "config st2 = config st0" using s2 by (auto dest: arg_cong [of _ _ config])
  define s3 where "s3 = st0\<lparr>draws := n, elapsed_time := e, min_lst := Min (snd ` set ms), lst_received := ?F\<rparr>"
  have reset: "reset_lst_received (st2\<lparr>lst_received := l\<rparr>) = Some s3"
    unfolding s2 s3_def by (subst reset_flags) (simp_all add: l')
  let ?N = "num_replicas (sc_cluster (config st0))" and ?m = "Min (set (version_vector st0))"
  have "can_time s3" using time by (simp add: s3_def)
  from add_timing_returns [OF this of_nat_0_le_iff, of "unat ?N" "[''gr'', ''min_replica_version_per_replica_time'']"]
  obtain n1 e1 where t1: "cpu_add_timing s3 (of_nat (unat ?N)) [''gr'', ''min_replica_version_per_replica_time''] =
      Some (s3\<lparr>draws := n1, elapsed_time := e1\<rparr>)" by blast
  define s4 where "s4 = s3\<lparr>draws := n1, elapsed_time := e1\<rparr>"
  have minv: "min_replica_version s3 = Some (?m, s4)"
    using t1 min_version_loop_Min [OF vv] by (simp add: min_replica_version_def s4_def s3_def)
  define s5 where "s5 = (if ?m < min_lst s4 then s4\<lparr>min_lst := ?m\<rparr> else s4)"
  have "can_time s5" using time by (simp add: s5_def s4_def s3_def)
  from add_timing_returns [OF this zero_le_one, of "[''gr'', ''process_lst_from_leaf_end_per_replica_time'']"]
  obtain n2 e2 where t2: "cpu_add_timing s5 1 [''gr'', ''process_lst_from_leaf_end_per_replica_time''] =
      Some (s5\<lparr>draws := n2, elapsed_time := e2\<rparr>)" by blast
  have "gr_process_lst_from_leaf st (lst_msg (p, t)) =
     (let st = s5\<lparr>draws := n2, elapsed_time := e2\<rparr>
      in if sc_partition (config st) = 0
         then cpu_lock_lock st (gr_lock st) GR_LST_FROM_LEAF_ROOT_LOCKED NoData 0
         else gr_send_lst_to_parent st)"
    using one
    by (simp add: gr_process_lst_from_leaf_def lst_msg_def c c2 Let_def eqTrueI [OF last] reset minv t2
        split del: if_split cong: if_cong flip: s5_def)
  moreover have "s5\<lparr>draws := n2, elapsed_time := e2\<rparr> =
      st0\<lparr>draws := n2, elapsed_time := e2, min_lst := min (Min (snd ` set ms)) ?m, lst_received := ?F\<rparr>"
    by (simp add: s5_def s4_def s3_def min_def)
  moreover have "receive_lsts ms st0 = gr_process_lst_from_leaf st (lst_msg (p, t))"
    using st(1) by (simp add: receive_lsts_def foldM_snoc m)
  ultimately show ?thesis by metis
qed

section \<open>Correctness\<close>

text \<open>A server whose flags are clear and whose children have all reported, in any order.\<close>

definition all_report :: "gr_state \<Rightarrow> (partition_t \<times> gr_tsp) list \<Rightarrow> bool" where
  "all_report st ms \<longleftrightarrow> tree_ok (config st) \<and> can_time st \<and>
     lst_received st = replicate (unat (tree_fanout (config st))) False \<and>
     distinct (map fst ms) \<and> set (map fst ms) = set (server_children (config st)) \<and> ms \<noteq> [] \<and>
     length (version_vector st) = unat (num_replicas (sc_cluster (config st))) \<and>
     num_replicas (sc_cluster (config st)) \<noteq> 0"

lemma all_report_receive:
  assumes "all_report st0 ms"
  shows "\<exists>n e. receive_lsts ms st0 =
     (let st = st0\<lparr>draws := n, elapsed_time := e, min_lst := min (Min (snd ` set ms)) (Min (set (version_vector st0))),
                lst_received := replicate (unat (tree_fanout (config st0))) False\<rparr>
      in if sc_partition (config st) = 0
         then cpu_lock_lock st (gr_lock st) GR_LST_FROM_LEAF_ROOT_LOCKED NoData 0
         else gr_send_lst_to_parent st)"
proof (rule receive_all)
  have "length ms = card (set (server_children (config st0)))"
    using assms distinct_card [of "map fst ms"] by (simp add: all_report_def)
  also have "\<dots> = length (server_children (config st0))"
    using assms distinct_server_children by (simp add: all_report_def distinct_card)
  finally show "length ms = length (server_children (config st0))" .
qed (use assms in \<open>auto simp: all_report_def reports_ok_def\<close>)

text \<open>A server in a tree of four partitions.\<close>

definition demo_tree :: "partition_t \<Rightarrow> gr_state" where
  "demo_tree p = demo_blank\<lparr>config := demo_config\<lparr>sc_cluster := (sc_cluster demo_config)\<lparr>num_partitions := 4, num_replicas := 1,
       server_lpids := [0, 1, 2, 2]\<rparr>, sc_partition := p\<rparr>,
     version_vector := [9], lst_received := [False, False]\<rparr>"

lemma demo_tree_reports:
  "all_report (demo_tree 0) [(2, 7), (1, 8)]" "all_report (demo_tree 1) [(3, 5)]"
proof -
  have "can_time (demo_tree p)" for p
    using can_time_demo by (simp add: demo_tree_def can_time_def timing_ok_def)
  then show "all_report (demo_tree 0) [(2, 7), (1, 8)]" "all_report (demo_tree 1) [(3, 5)]"
    by (auto simp: all_report_def tree_ok_def demo_tree_def demo_config_def UINT_MAX_def server_children_def
        server_first_child_id_def server_last_child_id_def children_from.simps replicate_num)
qed

text \<open>C20: the reports of all children of the root, in whatever order they arrive, are processed without
  failure; the minimum of all of them and of the root's own version vector is the new local stable
  time, the flags are ready for the next round, and the root asks for its lock to publish it.\<close>

theorem lst_root_aggregates:
  assumes "all_report st ms" and "sc_partition (config st) = 0" and "\<not> continues_in_scheduled_event st"
  shows "\<exists>st' t. receive_lsts ms st = Some st' \<and>
     min_lst st' = min (Min (snd ` set ms)) (Min (set (version_vector st))) \<and>
     lst_received st' = replicate (unat (tree_fanout (config st))) False \<and>
     scheduled st' = scheduled st @ [\<lparr>ev_to = cpu_lpid st, ev_time = t, ev_type = CPU_LOCK_LOCK,
       ev_data = LockMsg (gr_lock st) GR_LST_FROM_LEAF_ROOT_LOCKED 0 NoData, ev_size = sizeof_cpu_lock_msg\<rparr>]"
proof -
  define st1 where "st1 n e = st\<lparr>draws := n, elapsed_time := e,
     min_lst := min (Min (snd ` set ms)) (Min (set (version_vector st))),
     lst_received := replicate (unat (tree_fanout (config st))) False\<rparr>" for n e
  from all_report_receive [OF assms(1)] assms(2) obtain n e where
    r: "receive_lsts ms st = cpu_lock_lock (st1 n e) (gr_lock st) GR_LST_FROM_LEAF_ROOT_LOCKED NoData 0"
    by (auto simp: st1_def Let_def)
  have "can_time (st1 n e)" using assms(1) by (simp add: all_report_def st1_def)
  from add_timing_returns [OF this zero_le_one, of "[''lock_time'']"] obtain n' e' where
    "cpu_add_timing (st1 n e) 1 [''lock_time''] = Some ((st1 n e)\<lparr>draws := n', elapsed_time := e'\<rparr>)" by blast
  with r assms(3) show ?thesis
    by (simp add: cpu_lock_lock_def cpu_schedule_lock_msg_def cpu_processing_continues_in_scheduled_event_def
        cpu_lock_msg_new_def cpu_schedule_event_def ScheduleNewEvent_def UINT_MAX_def sizeof_cpu_lock_msg_def st1_def)
qed

theorem lst_root_aggregates_witness:
  "\<exists>st' t. receive_lsts [(2, 7), (1, 8)] (demo_tree 0) = Some st' \<and>
     min_lst st' = min (Min (snd ` set [(2 :: partition_t, 7), (1, 8)])) (Min (set (version_vector (demo_tree 0)))) \<and>
     lst_received st' = replicate (unat (tree_fanout (config (demo_tree 0)))) False \<and>
     scheduled st' = scheduled (demo_tree 0) @ [\<lparr>ev_to = cpu_lpid (demo_tree 0), ev_time = t, ev_type = CPU_LOCK_LOCK,
       ev_data = LockMsg (gr_lock (demo_tree 0)) GR_LST_FROM_LEAF_ROOT_LOCKED 0 NoData, ev_size = sizeof_cpu_lock_msg\<rparr>]"
  by (rule lst_root_aggregates [OF demo_tree_reports(1)]) (simp_all add: demo_tree_def demo_config_def demo_blank_def)

text \<open>C21: an inner partition whose children have all reported sends its parent one message, with the
  minimum of the reports and of its own version vector.\<close>

theorem lst_inner_forwards_minimum:
  assumes "all_report st ms" and "sc_partition (config st) \<noteq> 0" and "receive_lsts ms st = Some st'"
  shows "\<exists>e. scheduled st' = scheduled st @ [e] \<and> ev_type e = GR_LST_FROM_LEAF \<and>
     Some (ev_to e) = do { p \<leftarrow> server_parent_partition_id (config st);
       cluster_get_lpid (sc_cluster (config st)) (sc_replica (config st)) p } \<and>
     ev_data e = Data (LstFromLeaf (lst_msg (sc_partition (config st),
       min (Min (snd ` set ms)) (Min (set (version_vector st))))))"
proof -
  define st1 where "st1 n e = st\<lparr>draws := n, elapsed_time := e,
     min_lst := min (Min (snd ` set ms)) (Min (set (version_vector st))),
     lst_received := replicate (unat (tree_fanout (config st))) False\<rparr>" for n e
  from all_report_receive [OF assms(1)] assms(2,3) obtain n e where
    r: "gr_send_lst_to_parent (st1 n e) = Some st'" by (auto simp: st1_def Let_def)
  have "can_time (st1 n e)" using assms(1) by (simp add: all_report_def st1_def)
  from add_timing_returns [OF this of_nat_0_le_iff] obtain n' e' where
    t: "build_struct_per_byte_time (st1 n e) 32 = Some ((st1 n e)\<lparr>draws := n', elapsed_time := e'\<rparr>)"
    unfolding build_struct_per_byte_time_def by blast
  define st2 where "st2 = (st1 n e)\<lparr>draws := n', elapsed_time := e'\<rparr>"
  have "reset_lst_received st2 = Some (st2\<lparr>lst_received := replicate (unat (tree_fanout (config st2))) False\<rparr>)"
    by (rule reset_flags) (simp add: st2_def st1_def)
  with r t assms(2) obtain p l where
    p: "server_parent_partition_id (config st) = Some p"
      "cluster_get_lpid (sc_cluster (config st)) (sc_replica (config st)) p = Some l"
    and s: "server_send (st2\<lparr>lst_received := replicate (unat (tree_fanout (config st2))) False\<rparr>) l GR_LST_FROM_LEAF
        (lst_msg (sc_partition (config st), min_lst (st1 n e)))
        (Data (LstFromLeaf (lst_msg (sc_partition (config st), min_lst (st1 n e))))) = Some st'"
    by (auto simp: gr_send_lst_to_parent_def bind_eq_Some_conv gr_lst_from_leaf_new_def lst_msg_def st1_def st2_def)
  from server_send_effect [OF s] p show ?thesis
    by (auto simp: send_effect_def ScheduleNewEvent_def st2_def st1_def)
qed

lemma demo_tree_inner: "\<exists>st'. receive_lsts [(3, 5)] (demo_tree 1) = Some st'"
  by (simp add: eval_run receive_lsts_def lst_msg_def gr_lst_from_leaf_new_def demo_tree_def cong: bind_weak_cong let_weak_cong)

theorem lst_inner_forwards_minimum_witness:
  "\<exists>st' e. receive_lsts [(3, 5)] (demo_tree 1) = Some st' \<and> scheduled st' = scheduled (demo_tree 1) @ [e] \<and>
     ev_type e = GR_LST_FROM_LEAF \<and>
     ev_data e = Data (LstFromLeaf (lst_msg (sc_partition (config (demo_tree 1)),
       min (Min (snd ` set [(3 :: partition_t, 5)])) (Min (set (version_vector (demo_tree 1)))))))"
proof -
  obtain st' where r: "receive_lsts [(3, 5)] (demo_tree 1) = Some st'" using demo_tree_inner by blast
  have "sc_partition (config (demo_tree 1)) \<noteq> 0" by (simp add: demo_tree_def)
  from lst_inner_forwards_minimum [OF demo_tree_reports(2) this r] r show ?thesis by blast
qed

end
