(* ===== verification/Gr_Protocol.thy ===== *)
theory Gr_Protocol
  imports Gr_Lst
begin

text \<open>
  What the handlers of a GentleRain server do: the processing of replica updates and its termination,
  and a put followed by a get.
\<close>

section \<open>Replica updates\<close>

text \<open>Update time and source of the newest version of a key, zeroes when there is none.\<close>

definition stored :: "gr_state \<Rightarrow> gr_key \<Rightarrow> gr_tsp \<times> replica_t" where
  "stored st key = (case chain_at (store st) key of
     [] \<Rightarrow> (0, 0) | item # _ \<Rightarrow> (it_update_time item, it_source_replica item))"

lemma readable_updates [simp]:
  "readable (st\<lparr>draws := n\<rparr>) key = readable st key" "readable (st\<lparr>elapsed_time := e\<rparr>) key = readable st key"
  "readable (st\<lparr>replica_update_queues := qs\<rparr>) key = readable st key"
  by (simp_all add: readable_def gr_lpid_for_key_def)

lemma stored_updates [simp]:
  "stored (st\<lparr>draws := n\<rparr>) = stored st" "stored (st\<lparr>elapsed_time := e\<rparr>) = stored st"
  "stored (st\<lparr>replica_update_queues := qs\<rparr>) = stored st"
  by (simp_all add: stored_def fun_eq_iff)

lemma get_value_stored:
  assumes "readable st key"
  shows "\<exists>v n e. gr_get_value_at st key 0 gr_always_visible =
     Some (v, fst (stored st key), snd (stored st key), st\<lparr>draws := n, elapsed_time := e\<rparr>)"
proof -
  have "can_time st" using assms by (simp add: readable_def)
  from add_timing_returns [OF this zero_le_one, of "[''gr'', ''get_value_time'']"] obtain n e where
    "cpu_add_timing st 1 [''gr'', ''get_value_time''] = Some (st\<lparr>draws := n, elapsed_time := e\<rparr>)" by blast
  with assms show ?thesis
    by (cases "chain_at (store st) key")
      (auto simp: gr_get_value_at_def gr_always_visible_def readable_def stored_def)
qed

text \<open>What \<open>gr_process_replica_update_work\<close> does, once its reads and its use of time are known to succeed.\<close>

lemma work_cases:
  assumes "readable st (ru_key u)" and "ru_source_replica u \<noteq> sc_replica (config st)"
  shows "\<exists>n e. gr_process_replica_update_work fuel st u =
     (let st = st\<lparr>draws := n, elapsed_time := e\<rparr>; (t, r) = stored st (ru_key u)
      in if update_conflict u t r
         then if update_older u t r
              then do { c_assert (ru_source_replica u \<noteq> r);
                        (case fuel of 0 \<Rightarrow> None | Suc fuel' \<Rightarrow> replica_update_unlocked fuel' st u) }
              else Some st
         else do { lock \<leftarrow> arr_get (replica_locks st) (ru_source_replica u);
                   cpu_lock_lock st lock GR_REPLICA_UPDATE_LOCKED (Data (ReplicaUpdate u)) (m_size u) })"
proof -
  have "can_time st" using assms(1) by (simp add: readable_def)
  from add_timing_returns [OF this zero_le_one, of "[''gr'', ''process_replica_update_time'']"] obtain n e where
    t: "cpu_add_timing st 1 [''gr'', ''process_replica_update_time''] = Some (st\<lparr>draws := n, elapsed_time := e\<rparr>)" by blast
  have "readable (st\<lparr>draws := n, elapsed_time := e\<rparr>) (ru_key u)" using assms(1) by simp
  from get_value_stored [OF this] obtain v n' e' where
    "gr_get_value_at (st\<lparr>draws := n, elapsed_time := e\<rparr>) (ru_key u) 0 gr_always_visible =
       Some (v, fst (stored st (ru_key u)), snd (stored st (ru_key u)), st\<lparr>draws := n', elapsed_time := e'\<rparr>)" by auto
  with t assms(2) show ?thesis
    by (intro exI [of _ n'] exI [of _ e'])
      (simp add: gr_process_replica_update_work.simps Let_def split_beta cong: if_cong)
qed

text \<open>Updates that the server can process: of another replica, for its keys, and not stale against themselves.\<close>

definition processable :: "gr_state \<Rightarrow> replica_t \<Rightarrow> gr_replica_update \<Rightarrow> bool" where
  "processable st r u \<longleftrightarrow> ru_source_replica u = r \<and> r \<noteq> sc_replica (config st) \<and> readable st (ru_key u) \<and>
     m_size u + 16 < UINT_MAX \<and> (update_older u (fst (stored st (ru_key u))) (snd (stored st (ru_key u))) \<longrightarrow>
       snd (stored st (ru_key u)) \<noteq> r)"

lemma processable_updates [simp]:
  "processable (st\<lparr>draws := n\<rparr>) r u = processable st r u" "processable (st\<lparr>elapsed_time := e\<rparr>) r u = processable st r u"
  "processable (st\<lparr>replica_update_queues := qs\<rparr>) r u = processable st r u"
  by (simp_all add: processable_def)

lemma dequeue_update_returns:
  assumes "arr_get (replica_update_queues st) (ru_source_replica u) = Some q" and "queue_repr q (u # us)"
  shows "\<exists>q' qs. dequeue_update st u = Some (q', st\<lparr>replica_update_queues := qs\<rparr>) \<and> queue_repr q' us \<and>
     arr_get qs (ru_source_replica u) = Some q'"
proof -
  from queue_dequeue_Cons [OF assms(2)] obtain q' where q': "queue_dequeue q = Some (Some u, q')" "queue_repr q' us" by blast
  have "\<exists>qs. arr_set (replica_update_queues st) (ru_source_replica u) q' = Some qs"
    using assms(1) by (simp add: arr_get_eq_Some arr_set_def)
  then obtain qs where qs: "arr_set (replica_update_queues st) (ru_source_replica u) q' = Some qs" ..
  from arr_get_set [OF qs, of "ru_source_replica u"] assms(1) q' qs show ?thesis
    by (intro exI [of _ q'] exI [of _ qs]) (simp add: dequeue_update_def)
qed

text \<open>An update is discarded when it conflicts with the stored version and is older.\<close>

definition conflicting :: "gr_state \<Rightarrow> gr_replica_update \<Rightarrow> bool" where
  "conflicting st u \<longleftrightarrow> update_conflict u (fst (stored st (ru_key u))) (snd (stored st (ru_key u)))"

definition discarded :: "gr_state \<Rightarrow> gr_replica_update \<Rightarrow> bool" where
  "discarded st u \<longleftrightarrow> conflicting st u \<and> update_older u (fst (stored st (ru_key u))) (snd (stored st (ru_key u)))"

text \<open>
  The state \<open>st'\<close> in which the handler leaves the queue of replica \<open>r\<close> when it was called in \<open>st\<close>: the store
  is as it was, the queue holds \<open>us\<close>, and the only new event, if there is one, is the request of the
  update at its head for the lock of the replica.
\<close>

definition updates_left :: "gr_state \<Rightarrow> replica_t \<Rightarrow> gr_replica_update list \<Rightarrow> gr_state \<Rightarrow> bool" where
  "updates_left st r us st' \<longleftrightarrow> store st' = store st \<and>
     (\<exists>q. arr_get (replica_update_queues st') r = Some q \<and> queue_repr q us) \<and>
     (if us \<noteq> [] \<and> \<not> conflicting st (hd us)
      then \<exists>e lock. scheduled st' = scheduled st @ [e] \<and> arr_get (replica_locks st) r = Some lock \<and> ev_type e = CPU_LOCK_LOCK \<and>
        ev_data e = LockMsg lock GR_REPLICA_UPDATE_LOCKED (m_size (hd us)) (Data (ReplicaUpdate (hd us)))
      else scheduled st' = scheduled st)"

lemma updates_left_same [simp]:
  "updates_left (st\<lparr>draws := n\<rparr>) = updates_left st" "updates_left (st\<lparr>elapsed_time := e\<rparr>) = updates_left st"
  "updates_left (st\<lparr>replica_update_queues := qs\<rparr>) = updates_left st"
  "discarded (st\<lparr>draws := n\<rparr>) = discarded st" "discarded (st\<lparr>elapsed_time := e\<rparr>) = discarded st"
  "discarded (st\<lparr>replica_update_queues := qs\<rparr>) = discarded st"
  by (simp_all add: updates_left_def discarded_def conflicting_def fun_eq_iff)

lemma lock_asked:
  assumes "processable st r v" and "\<not> continues_in_scheduled_event st" and "arr_get (replica_locks st) r = Some lock"
    and "arr_get (replica_update_queues st) r = Some q" and "queue_repr q (v # us)" and "\<not> conflicting st v"
  shows "\<exists>st'. cpu_lock_lock st lock GR_REPLICA_UPDATE_LOCKED (Data (ReplicaUpdate v)) (m_size v) = Some st' \<and>
     updates_left st r (v # us) st'"
proof -
  have "can_time st" "m_size v + 16 < UINT_MAX" using assms(1) by (auto simp: processable_def readable_def)
  from lock_lock_effect [OF this(1) assms(2) _ this(2), of GR_REPLICA_UPDATE_LOCKED lock "Data (ReplicaUpdate v)"]
  obtain st' e where st': "cpu_lock_lock st lock GR_REPLICA_UPDATE_LOCKED (Data (ReplicaUpdate v)) (m_size v) = Some st'"
    "scheduled st' = scheduled st @ [e]" "ev_type e = CPU_LOCK_LOCK"
    "ev_data e = LockMsg lock GR_REPLICA_UPDATE_LOCKED (m_size v) (Data (ReplicaUpdate v))"
    "cpu_state.more st' = cpu_state.more st" by auto
  have "replica_update_queues st' = replica_update_queues st \<and> store st' = store st"
    using st'(5) by (cases st; cases st') simp
  with st' assms(3-) show ?thesis by (auto simp: updates_left_def)
qed

lemma unlocked_returns:
  assumes "arr_get (replica_update_queues st) r = Some q" and "queue_repr q (u # us)"
    and "\<forall>v \<in> set (u # us). processable st r v" and "length us \<le> fuel"
    and "\<not> continues_in_scheduled_event st" and "arr_get (replica_locks st) r = Some lock"
  shows "\<exists>st'. replica_update_unlocked fuel st u = Some st' \<and> updates_left st r (dropWhile (discarded st) us) st'"
  using assms
proof (induction us arbitrary: st q u fuel)
  case Nil
  then have "ru_source_replica u = r" by (simp add: processable_def)
  with dequeue_update_returns [of st u q "[]"] Nil show ?case
    by (auto simp: replica_update_unlocked.simps queue_peek_repr updates_left_def cpu_allow_no_time_def)
next
  case (Cons v us)
  have r: "ru_source_replica u = r" "ru_source_replica v = r" and v: "processable st r v"
    using Cons.prems(3) by (auto simp: processable_def)
  from dequeue_update_returns [of st u q "v # us"] Cons.prems r obtain q' qs where
    d: "dequeue_update st u = Some (q', st\<lparr>replica_update_queues := qs\<rparr>)" "queue_repr q' (v # us)" "arr_get qs r = Some q'"
    by auto
  define st1 where "st1 = st\<lparr>replica_update_queues := qs\<rparr>"
  have "readable st1 (ru_key v)" "ru_source_replica v \<noteq> sc_replica (config st1)"
    using v by (auto simp: processable_def st1_def)
  from work_cases [OF this, of fuel] obtain n e where
    w: "gr_process_replica_update_work fuel st1 v =
      (let st = st1\<lparr>draws := n, elapsed_time := e\<rparr>; (t, w) = stored st (ru_key v)
       in if update_conflict v t w
         then if update_older v t w
              then do { c_assert (ru_source_replica v \<noteq> w);
                        (case fuel of 0 \<Rightarrow> None | Suc fuel' \<Rightarrow> replica_update_unlocked fuel' st v) }
              else Some st
         else do { lock \<leftarrow> arr_get (replica_locks st) (ru_source_replica v);
                   cpu_lock_lock st lock GR_REPLICA_UPDATE_LOCKED (Data (ReplicaUpdate v)) (m_size v) })" by blast
  define st2 where "st2 = st1\<lparr>draws := n, elapsed_time := e\<rparr>"
  have st2: "arr_get (replica_update_queues st2) r = Some q'" "\<not> continues_in_scheduled_event st2"
    "\<forall>x \<in> set (v # us). processable st2 r x" "arr_get (replica_locks st2) r = Some lock"
    and same: "stored st2 = stored st" "updates_left st2 = updates_left st" "discarded st2 = discarded st"
    "store st2 = store st" "scheduled st2 = scheduled st"
    using Cons.prems d by (auto simp: st2_def st1_def)
  obtain f where f: "fuel = Suc f" "length us \<le> f" using Cons.prems(4) by (cases fuel) auto
  have "\<exists>st'. replica_update_unlocked f st2 v = Some st' \<and> updates_left st r (dropWhile (discarded st) us) st'"
    using Cons.IH [OF st2(1) d(2) st2(3) f(2) st2(2,4)] by (simp add: same)
  moreover have "\<exists>st'. cpu_lock_lock st2 lock GR_REPLICA_UPDATE_LOCKED (Data (ReplicaUpdate v)) (m_size v) = Some st' \<and>
      updates_left st r (v # us) st'" if "\<not> conflicting st v"
    using lock_asked [OF _ st2(2,4) st2(1) d(2)] st2(3) that by (simp add: same conflicting_def)
  moreover have "updates_left st r (v # us) st2" if "conflicting st v"
    using st2(1) d(2) that by (auto simp: updates_left_def same)
  moreover have "r \<noteq> snd (stored st (ru_key v))" if "discarded st v" using v that by (auto simp: processable_def discarded_def)
  ultimately have "\<exists>st'. gr_process_replica_update_work fuel st1 v = Some st' \<and>
      updates_left st r (dropWhile (discarded st) (v # us)) st'"
    using st2(4) unfolding w Let_def st2_def [symmetric] same
    by (auto simp: f(1) r conflicting_def discarded_def split_beta)
  then show ?case using d by (simp add: replica_update_unlocked.simps queue_peek_repr st1_def)
qed

lemma queue_repr_length: "queue_repr q xs \<Longrightarrow> length xs \<le> q_fresh q"
proof -
  assume "queue_repr q xs"
  then obtain as where as: "queue_repr_at q as xs" by (auto simp: queue_repr_def)
  then have "set as \<subseteq> {..<q_fresh q}" "distinct as" "length xs = length as"
    using chain_allocated by (fastforce simp: queue_repr_at_def)+
  then show ?thesis by (metis card_lessThan card_mono distinct_card finite_lessThan)
qed

text \<open>Two updates of replica 1 for a key of the small server.\<close>

definition demo_update :: "gr_tsp \<Rightarrow> gr_replica_update" where
  "demo_update t = gr_replica_update_new\<lparr>ru_key := 1, ru_value := 4, ru_update_time := t, ru_source_replica := 1,
     ru_previous_update_time := t - 1\<rparr>"

lemma demo_processable:
  "processable (demo_blank\<lparr>replica_locks := [1, 2]\<rparr>) 1 (demo_update t)"
  by (auto simp: processable_def readable_def can_time_def timing_ok_def demo_update_def demo_blank_def demo_config_def
      gr_lpid_for_key_def partition_for_key_def cluster_get_lpid_def partition_index_def arr_get_def chain_at_def
      store_get_new gr_replica_update_new_def UINT_MAX_def stored_def)

text \<open>C22: when a server has finished with a replica update, it removes it and goes through those that wait
  behind it, and this ends with a state, however many there are: exactly the leading updates that conflict
  with the stored version and are older have left the queue, nothing is stored, and the update then at the
  head has asked for the lock of its replica, unless there is none or it conflicts, in which case no event
  is scheduled. The waiting updates are for keys of this server, and, as the code asserts, none is older
  than a stored version of its own replica.\<close>

theorem replica_updates_terminate:
  assumes "arr_get (replica_update_queues st) r = Some q" and "queue_repr q (u # us)"
    and "\<forall>v \<in> set (u # us). processable st r v"
    and "\<not> continues_in_scheduled_event st" and "unat r < length (replica_locks st)"
  shows "\<exists>st'. gr_process_replica_update_unlocked st u = Some st' \<and>
     updates_left st r (dropWhile (discarded st) us) st'"
  unfolding gr_process_replica_update_unlocked_def
proof (rule unlocked_returns [OF assms(1-3) _ assms(4)])
  have "ru_source_replica u = r" using assms(3) by (simp add: processable_def)
  then show "length us \<le> update_fuel st u"
    using queue_repr_length [OF assms(2)] assms(1) by (simp add: update_fuel_def)
  show "arr_get (replica_locks st) r = Some (replica_locks st ! unat r)" using assms(5) by (simp add: arr_get_def)
qed

theorem replica_updates_terminate_witness:
  "\<exists>q st'. queue_repr q [demo_update 5, demo_update 6] \<and> gr_process_replica_update_unlocked
     (demo_blank\<lparr>replica_locks := [1, 2], replica_update_queues := [queue_new, q]\<rparr>) (demo_update 5) = Some st' \<and>
     updates_left (demo_blank\<lparr>replica_locks := [1, 2], replica_update_queues := [queue_new, q]\<rparr>) 1 [demo_update 6] st'"
proof -
  obtain q where q: "queue_repr q [demo_update 5, demo_update 6]"
    using queue_enqueue_repr [OF queue_new_repr, of "demo_update 5"] queue_enqueue_repr [of _ "[demo_update 5]" "demo_update 6"]
    by fastforce
  let ?st = "demo_blank\<lparr>replica_locks := [1, 2], replica_update_queues := [queue_new, q]\<rparr>"
  have "\<not> discarded ?st (demo_update 6)"
    by (simp add: discarded_def conflicting_def update_older_def demo_update_def stored_def demo_blank_def chain_at_def store_get_new)
  then have "dropWhile (discarded ?st) [demo_update 6] = [demo_update 6]" by simp
  moreover have "\<exists>st'. gr_process_replica_update_unlocked ?st (demo_update 5) = Some st' \<and>
      updates_left ?st 1 (dropWhile (discarded ?st) [demo_update 6]) st'"
    by (rule replica_updates_terminate [OF _ q])
      (auto simp: demo_processable, auto simp: arr_get_def demo_blank_def)
  ultimately show ?thesis using q by auto
qed

text \<open>C24: an update that conflicts with the stored version and is not older than it stops the processing of
  its replica: the handler returns with the update still at the head of the queue, without having stored
  it, asked for a lock or scheduled any event, and every later update of that replica is only put behind
  it.\<close>

theorem conflicting_update_blocks_queue:
  assumes "arr_get (replica_update_queues st) r = Some q" and "queue_repr q []" and "processable st r u"
    and "update_conflict u (fst (stored st (ru_key u))) (snd (stored st (ru_key u)))"
    and "\<not> update_older u (fst (stored st (ru_key u))) (snd (stored st (ru_key u)))"
  shows "\<exists>st' q'. gr_process_replica_update st u = Some st' \<and> store st' = store st \<and> scheduled st' = scheduled st \<and>
     arr_get (replica_update_queues st') r = Some q' \<and> queue_repr q' [u] \<and>
     (\<forall>u2. ru_source_replica u2 = r \<longrightarrow> (\<exists>st'' q''. gr_process_replica_update st' u2 = Some st'' \<and>
        store st'' = store st \<and> scheduled st'' = scheduled st \<and>
        arr_get (replica_update_queues st'') r = Some q'' \<and> queue_repr q'' [u, u2]))"
proof -
  have r: "ru_source_replica u = r" and rd: "readable st (ru_key u)" and own: "ru_source_replica u \<noteq> sc_replica (config st)"
    using assms(3) by (auto simp: processable_def)
  from queue_enqueue_repr [OF assms(2)] obtain q' where q': "queue_enqueue q u = Some q'" "queue_repr q' [u]" by auto
  obtain qs where qs: "arr_set (replica_update_queues st) r q' = Some qs"
    using assms(1) by (simp add: arr_get_eq_Some arr_set_def)
  define st1 where "st1 = st\<lparr>replica_update_queues := qs\<rparr>"
  have g1: "arr_get qs r = Some q'" using arr_get_set [OF qs, of r] by simp
  have "readable st1 (ru_key u)" "ru_source_replica u \<noteq> sc_replica (config st1)" "stored st1 = stored st"
    using rd own by (simp_all add: st1_def)
  with work_cases [of st1 u "update_fuel st1 u"] assms(4,5) obtain n e where
    "gr_process_replica_update_work (update_fuel st1 u) st1 u = Some (st1\<lparr>draws := n, elapsed_time := e\<rparr>)"
    by (auto simp: split_beta)
  then have p: "gr_process_replica_update st u = Some (st1\<lparr>draws := n, elapsed_time := e\<rparr>)"
    using assms(1) q' qs queue_is_empty_repr [OF assms(2)] by (simp add: gr_process_replica_update_def r st1_def)
  have "\<exists>st'' q''. gr_process_replica_update (st1\<lparr>draws := n, elapsed_time := e\<rparr>) u2 = Some st'' \<and>
      store st'' = store st \<and> scheduled st'' = scheduled st \<and>
      arr_get (replica_update_queues st'') r = Some q'' \<and> queue_repr q'' [u, u2]" if u2: "ru_source_replica u2 = r" for u2
  proof -
    from queue_enqueue_repr [OF q'(2)] obtain q2 where q2: "queue_enqueue q' u2 = Some q2" "queue_repr q2 [u, u2]" by auto
    obtain qs2 where qs2: "arr_set qs r q2 = Some qs2" using g1 by (simp add: arr_get_eq_Some arr_set_def)
    have "gr_process_replica_update (st1\<lparr>draws := n, elapsed_time := e\<rparr>) u2 =
        Some (cpu_allow_no_time (st1\<lparr>draws := n, elapsed_time := e, replica_update_queues := qs2\<rparr>))"
      using g1 q2 qs2 u2 queue_is_empty_repr [OF q'(2)]
      by (simp add: gr_process_replica_update_def st1_def)
    with q2 arr_get_set [OF qs2, of r] show ?thesis by (auto simp: cpu_allow_no_time_def st1_def)
  qed
  with p g1 q' show ?thesis by (auto simp: st1_def)
qed

theorem conflicting_update_blocks_queue_witness:
  "let st = demo_blank\<lparr>replica_locks := [1, 2], replica_update_queues := [queue_new, queue_new]\<rparr>; u = demo_update 5
   in \<exists>st' q'. gr_process_replica_update st u = Some st' \<and> store st' = store st \<and> scheduled st' = scheduled st \<and>
     arr_get (replica_update_queues st') 1 = Some q' \<and> queue_repr q' [u] \<and>
     (\<forall>u2. ru_source_replica u2 = 1 \<longrightarrow> (\<exists>st'' q''. gr_process_replica_update st' u2 = Some st'' \<and>
        store st'' = store st \<and> scheduled st'' = scheduled st \<and>
        arr_get (replica_update_queues st'') 1 = Some q'' \<and> queue_repr q'' [u, u2]))"
  unfolding Let_def
  by (rule conflicting_update_blocks_queue [OF _ queue_new_repr])
    (simp_all add: demo_processable, simp_all add: arr_get_def stored_def demo_blank_def chain_at_def store_get_new
      demo_update_def update_conflict_def update_older_def)

section \<open>Writing and reading\<close>

lemma put_value_cases:
  fixes v t r
  defines "item \<equiv> \<lparr>it_value = v, it_update_time = t, it_source_replica = r\<rparr>"
  assumes "readable st key"
  shows "\<exists>n e. gr_put_value st key v t r =
     (if chain_at (store st) key \<noteq> [] \<and> t < it_update_time (hd (chain_at (store st) key))
      then Some (None, st\<lparr>draws := n, elapsed_time := e\<rparr>)
      else Some (Some (item # chain_at (store st) key), st\<lparr>draws := n, elapsed_time := e,
        store := store_put (store st) key (item # chain_at (store st) key)\<rparr>))"
proof -
  have "can_time st" using assms(2) by (simp add: readable_def)
  from add_timing_returns [OF this zero_le_one, of "[''gr'', ''put_value_time'']"] obtain n e where
    "cpu_add_timing st 1 [''gr'', ''put_value_time''] = Some (st\<lparr>draws := n, elapsed_time := e\<rparr>)" by blast
  with assms show ?thesis by (intro exI [of _ n] exI [of _ e]) (simp add: gr_put_value_def readable_def Let_def)
qed

lemma find_hd: "P x \<Longrightarrow> read_result P (x # xs) = (it_value x, it_update_time x, it_source_replica x)"
  by (simp add: read_result_def)

text \<open>C19: a write with a timestamp that is not older than the newest version of the key is stored, and the
  next read of the key in this replica returns it, before it is stable; a write with an older timestamp is
  reported as discarded and leaves the store unchanged.\<close>

theorem put_then_get:
  assumes "readable st key" and "sc_replica (config st) < num_replicas (sc_cluster (config st))"
  shows "\<exists>r st'. gr_put_value st key v t (sc_replica (config st)) = Some (r, st') \<and>
     (if fst (stored st key) \<le> t \<or> chain_at (store st) key = []
      then \<exists>n e. gr_get_value st' key = Some (v, t, sc_replica (config st), st'\<lparr>draws := n, elapsed_time := e\<rparr>)
      else r = None \<and> store st' = store st)"
proof -
  let ?r = "sc_replica (config st)" and ?vs = "chain_at (store st) key"
  define item where "item = \<lparr>it_value = v, it_update_time = t, it_source_replica = ?r\<rparr>"
  from put_value_cases [OF assms(1), of v t ?r] obtain n e where
    p: "gr_put_value st key v t ?r =
      (if ?vs \<noteq> [] \<and> t < it_update_time (hd ?vs) then Some (None, st\<lparr>draws := n, elapsed_time := e\<rparr>)
       else Some (Some (item # ?vs), st\<lparr>draws := n, elapsed_time := e, store := store_put (store st) key (item # ?vs)\<rparr>))"
    unfolding item_def by blast
  have old: "?vs \<noteq> [] \<and> t < it_update_time (hd ?vs) \<longleftrightarrow> \<not> (fst (stored st key) \<le> t \<or> ?vs = [])"
    by (cases ?vs) (auto simp: stored_def)
  show ?thesis
  proof (cases "fst (stored st key) \<le> t \<or> ?vs = []")
    case True
    define st' where "st' = st\<lparr>draws := n, elapsed_time := e, store := store_put (store st) key (item # ?vs)\<rparr>"
    have chain: "chain_at (store st') key = item # ?vs" by (simp add: st'_def chain_at_def store_get_put)
    have rd: "readable st' key"
      using assms chain by (simp add: readable_def st'_def gr_lpid_for_key_def item_def)
    then have ct: "can_time st'" by (simp add: readable_def)
    have "visible_here st' (gst st') item" by (simp add: visible_here_def item_def st'_def)
    with get_value_at_read [OF rd first_visible_here [OF _ ct], of "gst st'"] chain
    have "\<exists>n e. gr_get_value st' key = Some (v, t, ?r, st'\<lparr>draws := n, elapsed_time := e\<rparr>)"
      by (auto simp: gr_get_value_def find_hd item_def)
    with p old True show ?thesis by (simp add: st'_def)
  next
    case False
    with p old show ?thesis by auto
  qed
qed

theorem put_then_get_witness:
  "\<exists>r st'. gr_put_value demo_loaded 1 9 40 (sc_replica (config demo_loaded)) = Some (r, st') \<and>
     (if fst (stored demo_loaded 1) \<le> 40 \<or> chain_at (store demo_loaded) 1 = []
      then \<exists>n e. gr_get_value st' 1 = Some (9, 40, sc_replica (config demo_loaded), st'\<lparr>draws := n, elapsed_time := e\<rparr>)
      else r = None \<and> store st' = store demo_loaded)"
  by (rule put_then_get [OF demo_loaded_ok(1)]) (simp add: demo_loaded_def demo_blank_def demo_config_def)

end
