(* ===== verification/Grv_State.thy ===== *)
theory Grv_State
  imports Gr_Replication
begin

text \<open>
  The messages (\<open>src/messages/grv.h\<close>, \<open>src/messages/grv.c\<close>) and the server state
  (\<open>src/server/protocols/grv/grv.h\<close> and the structs of its siblings) of GentleRain with vectors (GRV),
  where the stable time is one number per replica.

  The conventions are those of \<open>Gr_State\<close>. A struct that has the fields of a GentleRain struct and
  more extends its record. The vector that trails a message is a list.
\<close>

section \<open>Messages\<close>

record grv_get_request = message +
  vgetq_client_lpid :: lpid_t
  vgetq_proxy_lpid :: lpid_t
  vgetq_key :: gr_key
  vgetq_gst_vector_size :: u32
  vgetq_gst_vector :: "gr_tsp list"

record grv_get_response = message +
  vgetr_client_lpid :: lpid_t
  vgetr_source_replica :: replica_t
  vgetr_gst_vector_size :: u32
  vgetr_gst :: gr_tsp
  vgetr_update_timestamp :: gr_tsp
  vgetr_value :: gr_value
  vgetr_gst_vector :: "gr_tsp list"

record grv_put_request = message +
  vputq_client_lpid :: lpid_t
  vputq_proxy_lpid :: lpid_t
  vputq_key :: gr_key
  vputq_value :: gr_value
  vputq_dependency_vector_size :: u32
  vputq_dependency_vector :: "gr_tsp list"

record grv_put_response = message +
  vputr_client_lpid :: lpid_t
  vputr_update_time :: gr_tsp
  vputr_source_replica :: replica_t

record grv_replica_update = gr_replica_update +
  vru_dependency_vector_size :: u32
  vru_dependency_vector :: "gr_tsp list"

text \<open>\<open>grv_heartbeat_t\<close> has the fields of \<open>gr_heartbeat_t\<close>.\<close>

type_synonym grv_heartbeat = gr_heartbeat

record grv_gst_from_root = message +
  vgfr_gst_vector_size :: u32
  vgfr_gst :: gr_tsp
  vgfr_gst_vector :: "gr_tsp list"

record grv_lst_from_leaf = message +
  vlfl_leaf_partition_id :: u32
  vlfl_lst_vector_size :: u32
  vlfl_lst_vector :: "gr_tsp list"

record grv_slice_request = message +
  vslq_from_lpid :: lpid_t
  vslq_snapshot_time :: gr_tsp
  vslq_rotx_id :: u32
  vslq_num_keys :: u32
  vslq_gst_vector_size :: u32
  vslq_keys :: "gr_key list"
  vslq_key_ids :: "u32 list"
  vslq_gst_vector :: "gr_tsp list"

record grv_slice_response = message +
  vslr_rotx_id :: u32
  vslr_num_values :: u32
  vslr_key_ids :: "u32 list"
  vslr_values :: "gr_value list"
  vslr_update_times :: "gr_tsp list"
  vslr_source_replicas :: "replica_t list"

record grv_rotx_request = message +
  vrxq_client_lpid :: lpid_t
  vrxq_dependency_time :: gr_tsp
  vrxq_num_keys :: u32
  vrxq_gst_vector_size :: u32
  vrxq_keys :: "gr_key list"
  vrxq_gst_vector :: "gr_tsp list"

record grv_rotx_response = message +
  vrxr_num_values :: u32
  vrxr_dependency_vector_size :: u32
  vrxr_values :: "gr_value list"
  vrxr_dependency_vector :: "gr_tsp list"

definition grv_get_request_new :: "u32 \<Rightarrow> grv_get_request" where
  "grv_get_request_new gst_vector_size =
     \<lparr>m_size = 40 + unat gst_vector_size * sizeof_gr_tsp, simulated_size = 40 + unat gst_vector_size * sizeof_gr_tsp,
      vgetq_client_lpid = 0, vgetq_proxy_lpid = 0, vgetq_key = 0, vgetq_gst_vector_size = gst_vector_size,
      vgetq_gst_vector = replicate (unat gst_vector_size) 0\<rparr>"

definition grv_get_response_new :: "u32 \<Rightarrow> grv_get_response" where
  "grv_get_response_new gst_vector_size =
     \<lparr>m_size = 56 + unat gst_vector_size * sizeof_gr_tsp,
      simulated_size = 56 + (GR_SIMULATED_VALUE_SIZE - sizeof_gr_value) + unat gst_vector_size * sizeof_gr_tsp,
      vgetr_client_lpid = 0, vgetr_source_replica = 0, vgetr_gst_vector_size = gst_vector_size, vgetr_gst = 0,
      vgetr_update_timestamp = 0, vgetr_value = 0, vgetr_gst_vector = replicate (unat gst_vector_size) 0\<rparr>"

definition grv_put_request_new :: "u32 \<Rightarrow> grv_put_request" where
  "grv_put_request_new dependency_vector_size =
     \<lparr>m_size = 40 + unat dependency_vector_size * sizeof_gr_tsp,
      simulated_size = 40 + (GR_SIMULATED_VALUE_SIZE - sizeof_gr_value) + unat dependency_vector_size * sizeof_gr_tsp,
      vputq_client_lpid = 0, vputq_proxy_lpid = 0, vputq_key = 0, vputq_value = 0,
      vputq_dependency_vector_size = dependency_vector_size,
      vputq_dependency_vector = replicate (unat dependency_vector_size) 0\<rparr>"

definition grv_put_response_new :: grv_put_response where
  "grv_put_response_new =
     \<lparr>m_size = 40, simulated_size = 40, vputr_client_lpid = 0, vputr_update_time = 0, vputr_source_replica = 0\<rparr>"

definition grv_replica_update_new :: "u32 \<Rightarrow> grv_replica_update" where
  "grv_replica_update_new dependency_vector_size =
     \<lparr>m_size = 72 + unat dependency_vector_size * sizeof_gr_tsp,
      simulated_size = 72 + (GR_SIMULATED_VALUE_SIZE - sizeof_gr_value - sizeof_gr_tsp)
        + unat dependency_vector_size * sizeof_gr_tsp,
      ru_key = 0, ru_value = 0, ru_update_time = 0, ru_update_time_no_skew = 0, ru_source_replica = 0,
      ru_previous_update_time = 0, ru_previous_source_replica = 0,
      vru_dependency_vector_size = dependency_vector_size,
      vru_dependency_vector = replicate (unat dependency_vector_size) 0\<rparr>"

definition grv_slice_request_new :: "u32 \<Rightarrow> u32 \<Rightarrow> grv_slice_request" where
  "grv_slice_request_new num_keys gst_vector_size =
     (let size = 48 + unat num_keys * sizeof_gr_key + unat num_keys * sizeof_uint + unat gst_vector_size * sizeof_gr_tsp
      in \<lparr>m_size = size, simulated_size = size, vslq_from_lpid = 0, vslq_snapshot_time = 0, vslq_rotx_id = 0,
          vslq_num_keys = num_keys, vslq_gst_vector_size = gst_vector_size,
          vslq_keys = replicate (unat num_keys) 0, vslq_key_ids = replicate (unat num_keys) 0,
          vslq_gst_vector = replicate (unat gst_vector_size) 0\<rparr>)"

definition grv_slice_response_new :: "u32 \<Rightarrow> grv_slice_response" where
  "grv_slice_response_new num_values =
     (let size = 24 + unat num_values * sizeof_uint + unat num_values * sizeof_gr_value
            + unat num_values * sizeof_gr_tsp + unat num_values * sizeof_uint
      in \<lparr>m_size = size, simulated_size = size + unat num_values * (GR_SIMULATED_VALUE_SIZE - sizeof_gr_value),
          vslr_rotx_id = 0, vslr_num_values = num_values, vslr_key_ids = replicate (unat num_values) 0,
          vslr_values = replicate (unat num_values) 0, vslr_update_times = replicate (unat num_values) 0,
          vslr_source_replicas = replicate (unat num_values) 0\<rparr>)"

definition grv_rotx_request_new :: "u32 \<Rightarrow> u32 \<Rightarrow> grv_rotx_request" where
  "grv_rotx_request_new num_keys gst_vector_size =
     \<lparr>m_size = 40 + unat num_keys * sizeof_gr_key + unat gst_vector_size * sizeof_gr_tsp,
      simulated_size = 40 + unat num_keys * sizeof_gr_key + unat gst_vector_size * sizeof_gr_tsp,
      vrxq_client_lpid = 0, vrxq_dependency_time = 0, vrxq_num_keys = num_keys,
      vrxq_gst_vector_size = gst_vector_size, vrxq_keys = replicate (unat num_keys) 0,
      vrxq_gst_vector = replicate (unat gst_vector_size) 0\<rparr>"

definition grv_rotx_response_new :: "u32 \<Rightarrow> u32 \<Rightarrow> grv_rotx_response" where
  "grv_rotx_response_new num_values dependency_vector_size =
     \<lparr>m_size = 24 + unat num_values * sizeof_gr_value + unat dependency_vector_size * sizeof_gr_tsp,
      simulated_size = 24 + unat num_values * GR_SIMULATED_VALUE_SIZE + unat dependency_vector_size * sizeof_gr_tsp,
      vrxr_num_values = num_values, vrxr_dependency_vector_size = dependency_vector_size,
      vrxr_values = replicate (unat num_values) 0,
      vrxr_dependency_vector = replicate (unat dependency_vector_size) 0\<rparr>"

definition grv_heartbeat_new :: grv_heartbeat where
  "grv_heartbeat_new = \<lparr>m_size = 32, simulated_size = 32, hb_replica = 0, hb_time = 0\<rparr>"

definition grv_lst_from_leaf_new :: "u32 \<Rightarrow> grv_lst_from_leaf" where
  "grv_lst_from_leaf_new lst_vector_size =
     \<lparr>m_size = 24 + unat lst_vector_size * sizeof_gr_tsp, simulated_size = 24 + unat lst_vector_size * sizeof_gr_tsp,
      vlfl_leaf_partition_id = 0, vlfl_lst_vector_size = lst_vector_size,
      vlfl_lst_vector = replicate (unat lst_vector_size) 0\<rparr>"

definition grv_gst_from_root_new :: "u32 \<Rightarrow> grv_gst_from_root" where
  "grv_gst_from_root_new gst_vector_size =
     \<lparr>m_size = 32 + unat gst_vector_size * sizeof_gr_tsp, simulated_size = 32 + unat gst_vector_size * sizeof_gr_tsp,
      vgfr_gst_vector_size = gst_vector_size, vgfr_gst = 0,
      vgfr_gst_vector = replicate (unat gst_vector_size) 0\<rparr>"

text \<open>Everything a GRV event can carry.\<close>

datatype grv_msg =
    VGetRequest grv_get_request
  | VGetResponse grv_get_response
  | VPutRequest grv_put_request
  | VPutResponse grv_put_response
  | VReplicaUpdate grv_replica_update
  | VGstFromRoot grv_gst_from_root
  | VHeartbeat grv_heartbeat
  | VLstFromLeaf grv_lst_from_leaf
  | VSliceRequest grv_slice_request
  | VSliceResponse grv_slice_response
  | VRotxRequest grv_rotx_request
  | VRotxResponse grv_rotx_response
  | VPutStateMessage u32
  | VSendTime bool

section \<open>State\<close>

text \<open>A version of a value, with the vector of the times it depends on.\<close>

record grv_item = gr_item +
  it_dependency_vector :: "gr_tsp list"

record grv_put_state =
  vps_key :: gr_key
  vps_value :: gr_value
  vps_destination :: lpid_t
  vps_response :: grv_put_response
  vps_dependency_vector :: "gr_tsp list"
  vps_previous_update_time :: gr_tsp
  vps_previous_source_replica :: replica_t
  vps_update_time_no_skew :: gr_tsp
  vps_discarded :: bool

record grv_rotx_state =
  vrx_client_lpid :: lpid_t
  vrx_dependency_vector :: "gr_tsp list"
  vrx_values :: "gr_value list"
  vrx_num_values :: u32
  vrx_received_values :: u32

text \<open>
  The fields \<open>num_snapshot_states\<close> and \<open>snapshot_states\<close> of \<open>grv_server_state_t\<close> are set to zero and
  never used.
\<close>

record grv_server_state = "(grv_msg, grv_item list) server_state" +
  v_version_vector :: "gr_tsp list"
  gst_vector :: "gr_tsp list"
  min_lst_vector :: "gr_tsp list"
  v_lst_received :: "bool list"
  v_forwarded_get_id :: u32
  v_forwarded_put_id :: u32
  lock_vv :: u32
  lock_gsv :: u32
  v_put_states :: "grv_put_state ptr_array"
  v_rotx_states :: "grv_rotx_state ptr_array"
  v_replica_update_queues :: "grv_replica_update queue list"

type_synonym grv_state = grv_server_state

text \<open>
  Copying the first \<open>n\<close> elements of an array with \<open>memcpy\<close>; reading past its end is outside the
  model.
\<close>

definition vec_copy :: "u32 \<Rightarrow> 'a list \<Rightarrow> 'a list option" where
  "vec_copy n xs = do {
     c_assert (unat n \<le> length xs);
     Some (take (unat n) xs)
   }"

abbreviation v_num_replicas :: "grv_state \<Rightarrow> u32" where
  "v_num_replicas st \<equiv> num_replicas (sc_cluster (config st))"

end
