(* ===== verification/Grv_Store.thy ===== *)
theory Grv_Store
  imports Grv_State
begin

text \<open>
  The multi-version store of a GRV server: \<open>src/server/protocols/grv/store.c\<close> and the statistics of
  \<open>src/server/protocols/grv/stats.c\<close>. Garbage collection is empty in this protocol.
\<close>

section \<open>Operations\<close>

definition grv_lpid_for_key :: "gr_key \<Rightarrow> grv_state \<Rightarrow> lpid_t option" where
  "grv_lpid_for_key key st = do {
     part \<leftarrow> partition_for_key (sc_cluster (config st)) key;
     cluster_get_lpid (sc_cluster (config st)) (sc_replica (config st)) part
   }"

definition grv_garbage_collect :: "grv_state \<Rightarrow> grv_state" where
  "grv_garbage_collect st = st"

text \<open>
  A loop over the replicas that pays for each comparison of the item's dependency vector with the
  given vector and leaves at the first dependency that is not covered; \<open>skip\<close> tells the replicas that
  are not compared.
\<close>

fun dependencies_covered ::
  "(replica_t \<Rightarrow> bool) \<Rightarrow> replica_t list \<Rightarrow> gr_tsp list \<Rightarrow> gr_tsp list \<Rightarrow> grv_state \<Rightarrow> (bool \<times> grv_state) option" where
  "dependencies_covered skip [] dv t st = Some (True, st)"
| "dependencies_covered skip (i # is) dv t st = do {
     st \<leftarrow> cpu_add_timing st 1 [''gr'', ''is_value_visible_time''];
     (if skip i then dependencies_covered skip is dv t st
      else do {
        d \<leftarrow> arr_get dv i;
        g \<leftarrow> arr_get t i;
        (if g < d then Some (False, st) else dependencies_covered skip is dv t st)
      })
   }"

definition grv_is_value_visible :: "grv_state \<Rightarrow> grv_item \<Rightarrow> gr_tsp list \<Rightarrow> (bool \<times> grv_state) option" where
  "grv_is_value_visible st item t = do {
     st \<leftarrow> cpu_add_timing st 1 [''gr'', ''is_value_visible_time''];
     (if it_source_replica item = sc_replica (config st) then Some (True, st)
      else dependencies_covered (\<lambda>i. i = sc_replica (config st)) (idx_upto (v_num_replicas st))
             (it_dependency_vector item) t st)
   }"

definition grv_always_visible :: "grv_state \<Rightarrow> grv_item \<Rightarrow> gr_tsp list \<Rightarrow> (bool \<times> grv_state) option" where
  "grv_always_visible st item t = Some (True, st)"

definition grv_get_value_at ::
  "grv_state \<Rightarrow> gr_key \<Rightarrow> gr_tsp list \<Rightarrow> (grv_state \<Rightarrow> grv_item \<Rightarrow> gr_tsp list \<Rightarrow> (bool \<times> grv_state) option)
   \<Rightarrow> (gr_value \<times> gr_tsp \<times> replica_t \<times> grv_state) option" where
  "grv_get_value_at st key t is_visible = do {
     l \<leftarrow> grv_lpid_for_key key st;
     c_assert (l = sc_lpid (config st));
     let versions = chain_at (store st) key;
     c_assert (versions = [] \<or> it_source_replica (hd versions) < v_num_replicas st);
     (item, st) \<leftarrow> first_visible is_visible t versions st;
     st \<leftarrow> cpu_add_timing st 1 [''gr'', ''get_value_time''];
     (case item of
        None \<Rightarrow> Some (0, 0, 0, st)
      | Some item \<Rightarrow> Some (it_value item, it_update_time item, it_source_replica item, st))
   }"

definition grv_get_value :: "grv_state \<Rightarrow> gr_key \<Rightarrow> (gr_value \<times> gr_tsp \<times> replica_t \<times> grv_state) option" where
  "grv_get_value st key = grv_get_value_at st key (gst_vector st) grv_is_value_visible"

definition grv_put_value ::
  "grv_state \<Rightarrow> gr_key \<Rightarrow> gr_value \<Rightarrow> gr_tsp \<Rightarrow> gr_tsp list \<Rightarrow> replica_t
   \<Rightarrow> (grv_item list option \<times> grv_state) option" where
  "grv_put_value st key value update_time dependency_vector source_replica = do {
     l \<leftarrow> grv_lpid_for_key key st;
     c_assert (l = sc_lpid (config st));
     st \<leftarrow> cpu_add_timing st 1 [''gr'', ''put_value_time''];
     let previous = chain_at (store st) key;
     (if previous \<noteq> [] \<and> update_time < it_update_time (hd previous)
      then Some (None, st)
      else do {
        dv \<leftarrow> vec_copy (v_num_replicas st) dependency_vector;
        st \<leftarrow> build_struct_per_byte_time st (2 * unat (v_num_replicas st) * sizeof_gr_tsp);
        let item = \<lparr>it_value = value, it_update_time = update_time, it_source_replica = source_replica,
                    it_dependency_vector = dv\<rparr>;
        Some (Some (item # previous), st\<lparr>store := store_put (store st) key (item # previous)\<rparr>)
      })
   }"

section \<open>Statistics\<close>

definition grv_stats_get_request :: "grv_state \<Rightarrow> gr_key \<Rightarrow> gr_tsp \<Rightarrow> grv_state option" where
  "grv_stats_get_request st key update_timestamp =
     (if now st < ignore_initial_seconds st then Some st
      else do {
        st \<leftarrow> server_stats_counter_inc st GET_REQUESTS;
        let versions = chain_at (store st) key;
        let latest_update = (if versions = [] then 0 else it_update_time (hd versions));
        server_stats_array_push st VALUE_STALENESS (latest_update - update_timestamp)
      })"

text \<open>The nested function \<open>process_item\<close> of \<open>grv_stats_gst_update\<close>, on the versions of one key.\<close>

fun gst_vector_update_item :: "gr_tsp list \<Rightarrow> gr_tsp list \<Rightarrow> grv_item list \<Rightarrow> grv_state \<Rightarrow> grv_state option" where
  "gst_vector_update_item old_gst_vector new_gst_vector [] st = Some st"
| "gst_vector_update_item old_gst_vector new_gst_vector (item # older) st = do {
     (visible, st) \<leftarrow> grv_is_value_visible st item old_gst_vector;
     (if visible then Some st
      else do {
        (visible_now, st) \<leftarrow> grv_is_value_visible st item new_gst_vector;
        st \<leftarrow> (if visible_now
               then server_stats_array_push st VISIBILITY_LATENCY (now st - it_update_time item)
               else Some st);
        gst_vector_update_item old_gst_vector new_gst_vector older st
      })
   }"

definition grv_stats_gst_update :: "grv_state \<Rightarrow> gr_tsp list \<Rightarrow> gr_tsp list \<Rightarrow> grv_state option" where
  "grv_stats_gst_update st old_gst_vector new_gst_vector =
     (if now st < ignore_initial_seconds st then Some st
      else do {
        let saved_time = cpu_elapsed_time st;
        st \<leftarrow> store_foreach_item (store st)
                (\<lambda>key versions. gst_vector_update_item old_gst_vector new_gst_vector versions) st;
        Some (cpu_set_elapsed_time st saved_time)
      })"

end
