(* ===== verification/Grv_Gst.thy ===== *)
theory Grv_Gst
  imports Grv_Store
begin

text \<open>
  The vector of stable times, heartbeats and read-only transactions of GRV: \<open>gst.c\<close>, \<open>heartbeat.c\<close>,
  \<open>rotx.c\<close> and \<open>slice.c\<close> of \<open>src/server/protocols/grv/\<close>.
\<close>

section \<open>Vectors\<close>

definition grv_copy_gst_vector :: "grv_state \<Rightarrow> gr_tsp list option" where
  "grv_copy_gst_vector st = vec_copy (v_num_replicas st) (gst_vector st)"

definition grv_copy_version_vector :: "grv_state \<Rightarrow> gr_tsp list option" where
  "grv_copy_version_vector st = vec_copy (v_num_replicas st) (v_version_vector st)"

text \<open>The loop that lowers each of the first \<open>n\<close> entries of a vector to that of another.\<close>

definition vec_set_min :: "u32 \<Rightarrow> gr_tsp list \<Rightarrow> gr_tsp list \<Rightarrow> gr_tsp list option" where
  "vec_set_min n other vec =
     foldM (\<lambda>i vec. do {
         m \<leftarrow> arr_get vec i;
         x \<leftarrow> arr_get other i;
         arr_set vec i (set_min m x)
       }) (idx_upto n) vec"

text \<open>The loop of \<open>grv_gst_vector_need_update\<close> over the remaining replicas.\<close>

fun need_update_loop :: "replica_t list \<Rightarrow> gr_tsp list \<Rightarrow> grv_state \<Rightarrow> (bool \<times> grv_state) option" where
  "need_update_loop [] v st = Some (False, st)"
| "need_update_loop (i # is) v st = do {
     st \<leftarrow> cpu_add_timing st 1 [''grv'', ''check_gst_vector_per_replica_time''];
     x \<leftarrow> arr_get v i;
     g \<leftarrow> arr_get (gst_vector st) i;
     (if g < x then Some (True, st) else need_update_loop is v st)
   }"

definition grv_gst_vector_need_update :: "grv_state \<Rightarrow> gr_tsp list \<Rightarrow> (bool \<times> grv_state) option" where
  "grv_gst_vector_need_update st v = need_update_loop (idx_upto (v_num_replicas st)) v st"

text \<open>One round of the loop of \<open>grv_update_gst_vector\<close>; the flag is \<open>increased\<close>.\<close>

definition raise_gst_entry :: "gr_tsp list \<Rightarrow> replica_t \<Rightarrow> bool \<times> grv_state \<Rightarrow> (bool \<times> grv_state) option" where
  "raise_gst_entry v i r = do {
     let (increased, st) = r;
     x \<leftarrow> arr_get v i;
     g \<leftarrow> arr_get (gst_vector st) i;
     (if g < x
      then do {
        gv \<leftarrow> arr_set (gst_vector st) i x;
        st \<leftarrow> cpu_add_timing (st\<lparr>gst_vector := gv\<rparr>) 1 [''grv'', ''update_gst_vector_per_update_time''];
        Some (True, st)
      }
      else Some (increased, st))
   }"

definition grv_update_gst_vector :: "grv_state \<Rightarrow> gr_tsp list \<Rightarrow> grv_state option" where
  "grv_update_gst_vector st v = do {
     old_gst_vector \<leftarrow> grv_copy_gst_vector st;
     (increased, st) \<leftarrow> foldM (raise_gst_entry v) (idx_upto (v_num_replicas st)) (False, st);
     st \<leftarrow> cpu_add_timing st (of_nat (unat (v_num_replicas st))) [''grv'', ''update_gst_vector_per_replica_time''];
     (if increased then grv_stats_gst_update st old_gst_vector (gst_vector st) else Some st)
   }"

section \<open>Global stable time\<close>

definition grv_count_lst_received :: "grv_state \<Rightarrow> u32 option" where
  "grv_count_lst_received st =
     foldM (\<lambda>i count. do {
         b \<leftarrow> arr_get (v_lst_received st) i;
         Some (if b then count + 1 else count)
       }) (idx_upto (tree_fanout (config st))) 0"

definition grv_reset_lst_received :: "grv_state \<Rightarrow> grv_state option" where
  "grv_reset_lst_received st =
     foldM (\<lambda>i st. do {
         l \<leftarrow> arr_set (v_lst_received st) i False;
         Some (st\<lparr>v_lst_received := l\<rparr>)
       }) (idx_upto (tree_fanout (config st))) st"

definition grv_send_gst :: "grv_gst_from_root \<Rightarrow> partition_t \<Rightarrow> grv_state \<Rightarrow> grv_state option" where
  "grv_send_gst root_gst part st = do {
     child_lpid \<leftarrow> cluster_get_lpid (sc_cluster (config st)) (sc_replica (config st)) part;
     server_send st child_lpid GRV_GST_FROM_ROOT root_gst (Data (VGstFromRoot root_gst))
   }"

definition grv_send_gst_to_children :: "grv_state \<Rightarrow> grv_state option" where
  "grv_send_gst_to_children st = do {
     gv \<leftarrow> grv_copy_gst_vector st;
     let root_gst = (grv_gst_from_root_new (v_num_replicas st))\<lparr>vgfr_gst_vector := gv\<rparr>;
     st \<leftarrow> build_struct_per_byte_time st (m_size root_gst);
     server_foreach_children_partition (config st) (grv_send_gst root_gst) st
   }"

definition grv_send_lst_to_parent :: "grv_state \<Rightarrow> grv_state option" where
  "grv_send_lst_to_parent st = do {
     c_assert (sc_partition (config st) \<noteq> 0);
     lv \<leftarrow> vec_copy (v_num_replicas st) (min_lst_vector st);
     let leaf_lst = (grv_lst_from_leaf_new (v_num_replicas st))\<lparr>vlfl_lst_vector := lv,
                      vlfl_leaf_partition_id := sc_partition (config st)\<rparr>;
     st \<leftarrow> grv_reset_lst_received st;
     parent_partition \<leftarrow> server_parent_partition_id (config st);
     parent_lpid \<leftarrow> cluster_get_lpid (sc_cluster (config st)) (sc_replica (config st)) parent_partition;
     st \<leftarrow> build_struct_per_byte_time st (simulated_size leaf_lst);
     server_send st parent_lpid GRV_LST_FROM_LEAF leaf_lst (Data (VLstFromLeaf leaf_lst))
   }"

definition grv_schedule_gst_computation_start :: "grv_state \<Rightarrow> grv_state option" where
  "grv_schedule_gst_computation_start st = do {
     interval \<leftarrow> parameter_func st [''gr'', ''gst_interval''];
     server_schedule_self st interval GRV_START_GST_COMPUTATION NoData 0
   }"

definition grv_process_lst_from_leaf :: "grv_state \<Rightarrow> grv_lst_from_leaf \<Rightarrow> grv_state option" where
  "grv_process_lst_from_leaf st leaf_lst = do {
     c_assert (vlfl_leaf_partition_id leaf_lst \<noteq> 0);
     i \<leftarrow> server_child_partition_index (config st) (vlfl_leaf_partition_id leaf_lst);
     b \<leftarrow> arr_get (v_lst_received st) i;
     c_assert (\<not> b);
     received \<leftarrow> grv_count_lst_received st;
     let n = v_num_replicas st;
     lv \<leftarrow> (if received = 0 then vec_copy n (vlfl_lst_vector leaf_lst)
            else vec_set_min n (vlfl_lst_vector leaf_lst) (min_lst_vector st));
     let st = st\<lparr>min_lst_vector := lv\<rparr>;
     st \<leftarrow> cpu_add_timing st (of_nat (unat n)) [''gr'', ''process_lst_from_leaf_per_replica_time''];
     l \<leftarrow> arr_set (v_lst_received st) i True;
     let st = st\<lparr>v_lst_received := l\<rparr>;
     (if received = server_num_children_partitions (config st) - 1
      then do {
        st \<leftarrow> grv_reset_lst_received st;
        lv \<leftarrow> vec_set_min n (v_version_vector st) (min_lst_vector st);
        let st = st\<lparr>min_lst_vector := lv\<rparr>;
        st \<leftarrow> cpu_add_timing st (of_nat (unat n)) [''gr'', ''process_lst_from_leaf_end_per_replica_time''];
        (if sc_partition (config st) = 0
         then cpu_lock_lock st (lock_gsv st) GRV_LST_FROM_LEAF_ROOT_LOCKED NoData 0
         else grv_send_lst_to_parent st)
      }
      else Some st)
   }"

definition grv_process_lst_from_leaf_root_locked :: "grv_state \<Rightarrow> grv_state option" where
  "grv_process_lst_from_leaf_root_locked st = do {
     st \<leftarrow> grv_update_gst_vector st (min_lst_vector st);
     cpu_lock_unlock st (lock_gsv st) GRV_LST_FROM_LEAF_ROOT_UNLOCKED NoData 0
   }"

definition grv_process_lst_from_leaf_root_unlocked :: "grv_state \<Rightarrow> grv_state option" where
  "grv_process_lst_from_leaf_root_unlocked st = grv_send_gst_to_children st"

definition grv_process_gst_from_root :: "grv_state \<Rightarrow> grv_gst_from_root \<Rightarrow> grv_state option" where
  "grv_process_gst_from_root st root_gst = do {
     st \<leftarrow> server_foreach_children_partition (config st) (grv_send_gst root_gst) st;
     cpu_lock_lock st (lock_gsv st) GRV_GST_FROM_ROOT_LOCKED (Data (VGstFromRoot root_gst)) (m_size root_gst)
   }"

definition grv_process_gst_from_root_locked :: "grv_state \<Rightarrow> grv_gst_from_root \<Rightarrow> grv_state option" where
  "grv_process_gst_from_root_locked st root_gst = do {
     st \<leftarrow> grv_update_gst_vector st (vgfr_gst_vector root_gst);
     cpu_lock_unlock st (lock_gsv st) GRV_GST_FROM_ROOT_UNLOCKED (Data (VGstFromRoot root_gst)) (m_size root_gst)
   }"

definition grv_process_gst_from_root_unlocked :: "grv_state \<Rightarrow> grv_state option" where
  "grv_process_gst_from_root_unlocked st =
     (let st = cpu_allow_no_time st
      in if server_is_leaf_partition (config st) then grv_schedule_gst_computation_start st else Some st)"

definition grv_process_start_gst_computation :: "grv_state \<Rightarrow> grv_state option" where
  "grv_process_start_gst_computation st = do {
     c_assert (server_is_leaf_partition (config st));
     (if sc_partition (config st) = 0
      then do {
        st \<leftarrow> grv_update_gst_vector st (v_version_vector st);
        grv_schedule_gst_computation_start st
      }
      else do {
        vv \<leftarrow> grv_copy_version_vector st;
        let leaf_lst = (grv_lst_from_leaf_new (v_num_replicas st))\<lparr>vlfl_lst_vector := vv,
                         vlfl_leaf_partition_id := sc_partition (config st)\<rparr>;
        parent_partition \<leftarrow> server_parent_partition_id (config st);
        parent_lpid \<leftarrow> cluster_get_lpid (sc_cluster (config st)) (sc_replica (config st)) parent_partition;
        st \<leftarrow> build_struct_per_byte_time st (simulated_size leaf_lst);
        server_send st parent_lpid GRV_LST_FROM_LEAF leaf_lst (Data (VLstFromLeaf leaf_lst))
      })
   }"

section \<open>Heartbeats\<close>

definition grv_process_heartbeat :: "grv_state \<Rightarrow> grv_heartbeat \<Rightarrow> grv_state option" where
  "grv_process_heartbeat st heartbeat =
     cpu_lock_lock st (lock_vv st) GRV_HEARTBEAT_LOCKED (Data (VHeartbeat heartbeat)) (m_size heartbeat)"

definition grv_process_heartbeat_locked :: "grv_state \<Rightarrow> grv_heartbeat \<Rightarrow> grv_state option" where
  "grv_process_heartbeat_locked st heartbeat = do {
     v \<leftarrow> arr_get (v_version_vector st) (hb_replica heartbeat);
     vv \<leftarrow> arr_set (v_version_vector st) (hb_replica heartbeat) (set_max v (hb_time heartbeat));
     st \<leftarrow> cpu_add_timing (st\<lparr>v_version_vector := vv\<rparr>) 1 [''gr'', ''process_heartbeat_time''];
     cpu_lock_unlock st (lock_vv st) CPU_NO_EVENT NoData 0
   }"

definition grv_send_heartbeat_message :: "grv_heartbeat \<Rightarrow> lpid_t \<Rightarrow> replica_t \<Rightarrow> grv_state \<Rightarrow> grv_state option" where
  "grv_send_heartbeat_message heartbeat replica_lpid replica st =
     (if replica = sc_replica (config st) then Some st
      else server_send st replica_lpid GRV_HEARTBEAT heartbeat (Data (VHeartbeat heartbeat)))"

definition grv_send_heartbeat :: "grv_state \<Rightarrow> bool \<Rightarrow> grv_state option" where
  "grv_send_heartbeat st send_time = do {
     let heartbeat = grv_heartbeat_new\<lparr>hb_replica := sc_replica (config st),
                       hb_time := (if send_time then clock st else 0)\<rparr>;
     st \<leftarrow> build_struct_per_byte_time st (m_size heartbeat);
     foreach_replica (sc_cluster (config st)) (sc_partition (config st)) (grv_send_heartbeat_message heartbeat) st
   }"

end
