(* ===== verification/Grv_Rotx.thy ===== *)
theory Grv_Rotx
  imports Grv_Gst
begin

text \<open>
  Read-only transactions of GRV: the coordinator (\<open>src/server/protocols/grv/rotx.c\<close>) sends to each
  partition of its replica one request with all the keys stored there, and the partitions answer
  (\<open>src/server/protocols/grv/slice.c\<close>).
\<close>

section \<open>Transaction states\<close>

definition sizeof_grv_rotx_state :: nat where
  "sizeof_grv_rotx_state = 32"

definition grv_rotx_state_new :: "grv_state \<Rightarrow> u32 \<Rightarrow> (u32 \<times> grv_state) option" where
  "grv_rotx_state_new st num_keys = do {
     let rotx = \<lparr>vrx_client_lpid = 0, vrx_dependency_vector = replicate (unat (v_num_replicas st)) 0,
                 vrx_values = replicate (unat num_keys) 0, vrx_num_values = num_keys, vrx_received_values = 0\<rparr>;
     (i, a) \<leftarrow> ptr_array_put (v_rotx_states st) rotx;
     Some (i, st\<lparr>v_rotx_states := a\<rparr>)
   }"

definition grv_rotx_state_get :: "grv_state \<Rightarrow> u32 \<Rightarrow> grv_rotx_state option" where
  "grv_rotx_state_get st i = do { p \<leftarrow> ptr_array_get (v_rotx_states st) i; p }"

definition grv_rotx_state_set :: "grv_state \<Rightarrow> u32 \<Rightarrow> grv_rotx_state \<Rightarrow> grv_state option" where
  "grv_rotx_state_set st i rotx = do {
     a \<leftarrow> ptr_array_set (v_rotx_states st) i (Some rotx);
     Some (st\<lparr>v_rotx_states := a\<rparr>)
   }"

definition grv_rotx_state_free :: "grv_state \<Rightarrow> u32 \<Rightarrow> grv_state option" where
  "grv_rotx_state_free st i = do {
     rotx \<leftarrow> grv_rotx_state_get st i;
     a \<leftarrow> ptr_array_set (v_rotx_states st) i None;
     Some (st\<lparr>v_rotx_states := a\<rparr>)
   }"

section \<open>The coordinator\<close>

text \<open>The positions of the keys of a request that the server \<open>l\<close> stores, in order.\<close>

definition slice_key_ids :: "grv_state \<Rightarrow> lpid_t \<Rightarrow> gr_key list \<Rightarrow> u32 \<Rightarrow> u32 list option" where
  "slice_key_ids st l keys n =
     foldM (\<lambda>k ids. do {
         key \<leftarrow> arr_get keys k;
         l' \<leftarrow> grv_lpid_for_key key st;
         Some (if l' = l then ids @ [k] else ids)
       }) (idx_upto n) []"

definition send_slice ::
  "grv_rotx_request \<Rightarrow> u32 \<Rightarrow> gr_tsp \<Rightarrow> lpid_t \<Rightarrow> partition_t \<Rightarrow> grv_state \<Rightarrow> grv_state option" where
  "send_slice request rotx_id snapshot_time partition_lpid part st = do {
     ids \<leftarrow> slice_key_ids st partition_lpid (vrxq_keys request) (vrxq_num_keys request);
     let num_keys = of_nat (length ids);
     st \<leftarrow> cpu_add_timing st 1 [''grv'', ''process_rotx_request_per_partition_time''];
     (if num_keys = 0 then Some st
      else do {
        gv \<leftarrow> grv_copy_gst_vector st;
        let slice_request = (grv_slice_request_new num_keys (v_num_replicas st))
              \<lparr>vslq_rotx_id := rotx_id, vslq_from_lpid := sc_lpid (config st), vslq_snapshot_time := snapshot_time,
               vslq_gst_vector := gv, vslq_key_ids := ids,
               vslq_keys := map (\<lambda>k. vrxq_keys request ! unat k) ids\<rparr>;
        st \<leftarrow> build_struct_per_byte_time st (m_size slice_request);
        server_send st partition_lpid GRV_SLICE_REQUEST slice_request (Data (VSliceRequest slice_request))
      })
   }"

definition grv_process_rotx_request_unlocked :: "grv_state \<Rightarrow> grv_rotx_request \<Rightarrow> grv_state option" where
  "grv_process_rotx_request_unlocked st request = do {
     st \<leftarrow> build_struct_per_byte_time st (sizeof_grv_rotx_state + sizeof_gr_key * unat (vrxq_num_keys request));
     c_assert (vrxq_gst_vector_size request = v_num_replicas st);
     (rotx_id, st) \<leftarrow> grv_rotx_state_new st (vrxq_num_keys request);
     rotx \<leftarrow> grv_rotx_state_get st rotx_id;
     st \<leftarrow> grv_rotx_state_set st rotx_id (rotx\<lparr>vrx_client_lpid := vrxq_client_lpid request\<rparr>);
     let snapshot_time = (if vrxq_dependency_time request < clock st then clock st else vrxq_dependency_time request);
     foreach_partition (sc_cluster (config st)) (sc_replica (config st)) (send_slice request rotx_id snapshot_time) st
   }"

definition grv_process_rotx_request :: "grv_state \<Rightarrow> grv_rotx_request \<Rightarrow> grv_state option" where
  "grv_process_rotx_request st request = do {
     (need_update, st) \<leftarrow> grv_gst_vector_need_update st (vrxq_gst_vector request);
     (if need_update
      then cpu_lock_lock st (lock_gsv st) GRV_ROTX_REQUEST_LOCKED (Data (VRotxRequest request)) (m_size request)
      else grv_process_rotx_request_unlocked st request)
   }"

definition grv_process_rotx_request_locked :: "grv_state \<Rightarrow> grv_rotx_request \<Rightarrow> grv_state option" where
  "grv_process_rotx_request_locked st request = do {
     st \<leftarrow> grv_update_gst_vector st (vrxq_gst_vector request);
     cpu_lock_unlock st (lock_gsv st) GRV_ROTX_REQUEST_UNLOCKED (Data (VRotxRequest request)) (m_size request)
   }"

definition grv_send_rotx_response :: "grv_state \<Rightarrow> u32 \<Rightarrow> grv_state option" where
  "grv_send_rotx_response st rotx_id = do {
     rotx \<leftarrow> grv_rotx_state_get st rotx_id;
     vs \<leftarrow> vec_copy (vrx_num_values rotx) (vrx_values rotx);
     dv \<leftarrow> vec_copy (v_num_replicas st) (vrx_dependency_vector rotx);
     let response = (grv_rotx_response_new (vrx_num_values rotx) (v_num_replicas st))
           \<lparr>vrxr_values := vs, vrxr_dependency_vector := dv\<rparr>;
     st \<leftarrow> build_struct_per_byte_time st (simulated_size response);
     st \<leftarrow> server_send st (vrx_client_lpid rotx) GRV_ROTX_RESPONSE response (Data (VRotxResponse response));
     st \<leftarrow> server_stats_counter_inc st ROTX_REQUESTS;
     grv_rotx_state_free st rotx_id
   }"

section \<open>The partitions\<close>

definition grv_is_value_visible_snapshot :: "grv_state \<Rightarrow> grv_item \<Rightarrow> gr_tsp list \<Rightarrow> (bool \<times> grv_state) option" where
  "grv_is_value_visible_snapshot st item time_vector =
     dependencies_covered (\<lambda>_. False) (idx_upto (v_num_replicas st)) (it_dependency_vector item) time_vector st"

text \<open>
  The loop that reads the keys of a slice. The arrays of the response are filled from the start; here
  they grow with the loop.
\<close>

definition slice_read ::
  "gr_key list \<Rightarrow> gr_tsp list \<Rightarrow> u32 \<Rightarrow> grv_state
   \<Rightarrow> (gr_value list \<times> gr_tsp list \<times> replica_t list \<times> grv_state) option" where
  "slice_read keys snapshot_vector n st =
     foldM (\<lambda>i (vs, ts, rs, st). do {
         key \<leftarrow> arr_get keys i;
         (v, t, r, st) \<leftarrow> grv_get_value_at st key snapshot_vector grv_is_value_visible_snapshot;
         Some (vs @ [v], ts @ [t], rs @ [r], st)
       }) (idx_upto n) ([], [], [], st)"

definition grv_process_slice_request_unlocked :: "grv_state \<Rightarrow> grv_slice_request \<Rightarrow> grv_state option" where
  "grv_process_slice_request_unlocked st request = do {
     gv \<leftarrow> grv_copy_gst_vector st;
     snapshot_vector \<leftarrow> arr_set gv (sc_replica (config st)) (clock st);
     (vs, ts, rs, st) \<leftarrow> slice_read (vslq_keys request) snapshot_vector (vslq_num_keys request) st;
     ids \<leftarrow> vec_copy (vslq_num_keys request) (vslq_key_ids request);
     let response = (grv_slice_response_new (vslq_num_keys request))
           \<lparr>vslr_rotx_id := vslq_rotx_id request, vslr_values := vs, vslr_update_times := ts,
            vslr_source_replicas := rs, vslr_key_ids := ids\<rparr>;
     st \<leftarrow> build_struct_per_byte_time st (simulated_size response);
     server_send st (vslq_from_lpid request) GRV_SLICE_RESPONSE response (Data (VSliceResponse response))
   }"

definition grv_process_slice_request :: "grv_state \<Rightarrow> grv_slice_request \<Rightarrow> grv_state option" where
  "grv_process_slice_request st request = do {
     let st = cpu_allow_no_time st;
     (if clock st < vslq_snapshot_time request
      then server_schedule_self st (vslq_snapshot_time request - clock st) GRV_SLICE_REQUEST
             (Data (VSliceRequest request)) (m_size request)
      else do {
        (need_update, st) \<leftarrow> grv_gst_vector_need_update st (vslq_gst_vector request);
        (if need_update
         then cpu_lock_lock st (lock_gsv st) GRV_SLICE_REQUEST_LOCKED (Data (VSliceRequest request)) (m_size request)
         else grv_process_slice_request_unlocked st request)
      })
   }"

definition grv_process_slice_request_locked :: "grv_state \<Rightarrow> grv_slice_request \<Rightarrow> grv_state option" where
  "grv_process_slice_request_locked st request = do {
     st \<leftarrow> grv_update_gst_vector st (vslq_gst_vector request);
     cpu_lock_unlock st (lock_gsv st) GRV_SLICE_REQUEST_UNLOCKED (Data (VSliceRequest request)) (m_size request)
   }"

text \<open>One round of the loop of \<open>grv_process_slice_response\<close>.\<close>

definition slice_store :: "grv_slice_response \<Rightarrow> u32 \<Rightarrow> grv_rotx_state \<Rightarrow> grv_rotx_state option" where
  "slice_store response i rotx = do {
     replica \<leftarrow> arr_get (vslr_source_replicas response) i;
     t \<leftarrow> arr_get (vslr_update_times response) i;
     d \<leftarrow> arr_get (vrx_dependency_vector rotx) replica;
     dv \<leftarrow> arr_set (vrx_dependency_vector rotx) replica (set_max d t);
     key_id \<leftarrow> arr_get (vslr_key_ids response) i;
     value \<leftarrow> arr_get (vslr_values response) i;
     vs \<leftarrow> arr_set (vrx_values rotx) key_id value;
     Some (rotx\<lparr>vrx_dependency_vector := dv, vrx_values := vs\<rparr>)
   }"

definition grv_process_slice_response :: "grv_state \<Rightarrow> grv_slice_response \<Rightarrow> grv_state option" where
  "grv_process_slice_response st response = do {
     rotx \<leftarrow> grv_rotx_state_get st (vslr_rotx_id response);
     rotx \<leftarrow> foldM (slice_store response) (idx_upto (vslr_num_values response)) rotx;
     let rotx = rotx\<lparr>vrx_received_values := vrx_received_values rotx + vslr_num_values response\<rparr>;
     st \<leftarrow> grv_rotx_state_set st (vslr_rotx_id response) rotx;
     st \<leftarrow> cpu_add_timing st (of_nat (unat (vslr_num_values response))) [''gr'', ''process_slice_response_per_value_time''];
     (if vrx_received_values rotx = vrx_num_values rotx then grv_send_rotx_response st (vslr_rotx_id response)
      else Some st)
   }"

end
