(* ===== verification/Grv_Replication.thy ===== *)
theory Grv_Replication
  imports Grv_Rotx
begin

text \<open>
  Replication of updates in GRV: \<open>src/server/protocols/grv/replication.c\<close>. As in \<open>Gr_Replication\<close>, the
  two functions that call each other once per discarded update take a bound on the number of calls,
  and the number of updates ever enqueued is enough.
\<close>

definition grv_dequeue_update ::
  "grv_state \<Rightarrow> grv_replica_update \<Rightarrow> (grv_replica_update queue \<times> grv_state) option" where
  "grv_dequeue_update st update = do {
     q \<leftarrow> arr_get (v_replica_update_queues st) (ru_source_replica update);
     (enqueued_update, q) \<leftarrow> queue_dequeue q;
     enqueued_update \<leftarrow> enqueued_update;
     c_assert (ru_key enqueued_update = ru_key update);
     c_assert (ru_value enqueued_update = ru_value update);
     c_assert (ru_update_time enqueued_update = ru_update_time update);
     c_assert (ru_source_replica enqueued_update = ru_source_replica update);
     qs \<leftarrow> arr_set (v_replica_update_queues st) (ru_source_replica update) q;
     Some (q, st\<lparr>v_replica_update_queues := qs\<rparr>)
   }"

fun grv_process_replica_update_work :: "nat \<Rightarrow> grv_state \<Rightarrow> grv_replica_update \<Rightarrow> grv_state option"
  and replica_update_vv_unlocked :: "nat \<Rightarrow> grv_state \<Rightarrow> grv_replica_update \<Rightarrow> grv_state option"
where
  "grv_process_replica_update_work fuel st update = do {
     c_assert (ru_source_replica update \<noteq> sc_replica (config st));
     st \<leftarrow> cpu_add_timing st 1 [''gr'', ''process_replica_update_time''];
     (value, update_time, source_replica, st) \<leftarrow> grv_get_value_at st (ru_key update) [] grv_always_visible;
     (if update_conflict update update_time source_replica \<and> update_older update update_time source_replica
      then do {
        c_assert (ru_source_replica update \<noteq> source_replica);
        (case fuel of 0 \<Rightarrow> None | Suc fuel' \<Rightarrow> replica_update_vv_unlocked fuel' st update)
      }
      else cpu_lock_lock st (lock_vv st) GRV_REPLICA_UPDATE_VV_LOCKED (Data (VReplicaUpdate update)) (m_size update))
   }"
| "replica_update_vv_unlocked fuel st update = do {
     (q, st) \<leftarrow> grv_dequeue_update st update;
     enqueued_update \<leftarrow> queue_peek q;
     (case enqueued_update of
        Some enqueued_update \<Rightarrow> grv_process_replica_update_work fuel st enqueued_update
      | None \<Rightarrow> Some (cpu_allow_no_time st))
   }"

declare grv_process_replica_update_work.simps [simp del] replica_update_vv_unlocked.simps [simp del]

definition grv_update_fuel :: "grv_state \<Rightarrow> grv_replica_update \<Rightarrow> nat" where
  "grv_update_fuel st update =
     (case arr_get (v_replica_update_queues st) (ru_source_replica update) of
        None \<Rightarrow> 0 | Some q \<Rightarrow> q_fresh q + 1)"

definition grv_process_replica_update_vv_unlocked :: "grv_state \<Rightarrow> grv_replica_update \<Rightarrow> grv_state option" where
  "grv_process_replica_update_vv_unlocked st update =
     replica_update_vv_unlocked (grv_update_fuel st update) st update"

definition grv_process_replica_update :: "grv_state \<Rightarrow> grv_replica_update \<Rightarrow> grv_state option" where
  "grv_process_replica_update st update = do {
     q \<leftarrow> arr_get (v_replica_update_queues st) (ru_source_replica update);
     let process_immediately = queue_is_empty q;
     q \<leftarrow> queue_enqueue q update;
     qs \<leftarrow> arr_set (v_replica_update_queues st) (ru_source_replica update) q;
     let st = st\<lparr>v_replica_update_queues := qs\<rparr>;
     (if process_immediately then grv_process_replica_update_work (grv_update_fuel st update) st update
      else Some (cpu_allow_no_time st))
   }"

definition grv_process_replica_update_vv_locked :: "grv_state \<Rightarrow> grv_replica_update \<Rightarrow> grv_state option" where
  "grv_process_replica_update_vv_locked st update = do {
     (item, st) \<leftarrow> grv_put_value st (ru_key update) (ru_value update) (ru_update_time update)
       (vru_dependency_vector update) (ru_source_replica update);
     vv \<leftarrow> arr_set (v_version_vector st) (ru_source_replica update) (ru_update_time update);
     let st = st\<lparr>v_version_vector := vv\<rparr>;
     st \<leftarrow> server_stats_counter_inc st REPLICA_UPDATES;
     let replication_time = now st - ru_update_time_no_skew update;
     c_assert (0 < replication_time);
     st \<leftarrow> server_stats_array_push st REPLICATION_TIME replication_time;
     cpu_lock_unlock st (lock_vv st) GRV_REPLICA_UPDATE_VV_UNLOCKED (Data (VReplicaUpdate update)) (m_size update)
   }"

definition grv_send_update :: "grv_replica_update \<Rightarrow> lpid_t \<Rightarrow> replica_t \<Rightarrow> grv_state \<Rightarrow> grv_state option" where
  "grv_send_update update replica_lpid replica st =
     (if replica = sc_replica (config st) then Some st
      else server_send st replica_lpid GRV_REPLICA_UPDATE update (Data (VReplicaUpdate update)))"

definition grv_replicate_value ::
  "grv_state \<Rightarrow> gr_key \<Rightarrow> gr_value \<Rightarrow> gr_tsp \<Rightarrow> gr_tsp list \<Rightarrow> replica_t \<Rightarrow> gr_tsp \<Rightarrow> replica_t \<Rightarrow> gr_tsp
   \<Rightarrow> grv_state option" where
  "grv_replicate_value st key value update_time dependency_vector source_replica previous_update_time
     previous_source_replica update_time_no_skew =
     do {
       dv \<leftarrow> vec_copy (v_num_replicas st) dependency_vector;
       let update = (grv_replica_update_new (v_num_replicas st))\<lparr>vru_dependency_vector := dv, ru_key := key,
             ru_value := value, ru_update_time := update_time, ru_update_time_no_skew := update_time_no_skew,
             ru_source_replica := source_replica, ru_previous_update_time := previous_update_time,
             ru_previous_source_replica := previous_source_replica\<rparr>;
       st \<leftarrow> build_struct_per_byte_time st (simulated_size update);
       foreach_replica (sc_cluster (config st)) (sc_partition (config st)) (grv_send_update update) st
     }"

end
