(* ===== verification/Grv_Getput.thy ===== *)
theory Grv_Getput
  imports Grv_Replication
begin

text \<open>
  Get and put requests of GRV: \<open>src/server/protocols/grv/getput.c\<close>. A put keeps its state in a slot of
  \<open>v_put_states\<close> between its events; a get carries the request itself through them.
\<close>

section \<open>Put states\<close>

definition grv_put_state_new :: "grv_state \<Rightarrow> (u32 \<times> grv_state) option" where
  "grv_put_state_new st = do {
     let put_state = \<lparr>vps_key = 0, vps_value = 0, vps_destination = 0, vps_response = grv_put_response_new,
           vps_dependency_vector = replicate (unat (v_num_replicas st)) 0, vps_previous_update_time = 0,
           vps_previous_source_replica = 0, vps_update_time_no_skew = 0, vps_discarded = False\<rparr>;
     (i, a) \<leftarrow> ptr_array_put (v_put_states st) put_state;
     Some (i, st\<lparr>v_put_states := a\<rparr>)
   }"

definition grv_put_state_get :: "grv_state \<Rightarrow> u32 \<Rightarrow> grv_put_state option" where
  "grv_put_state_get st i = do { p \<leftarrow> ptr_array_get (v_put_states st) i; p }"

definition grv_put_state_set :: "grv_state \<Rightarrow> u32 \<Rightarrow> grv_put_state \<Rightarrow> grv_state option" where
  "grv_put_state_set st i put_state = do {
     a \<leftarrow> ptr_array_set (v_put_states st) i (Some put_state);
     Some (st\<lparr>v_put_states := a\<rparr>)
   }"

definition grv_put_state_free :: "grv_state \<Rightarrow> u32 \<Rightarrow> grv_state option" where
  "grv_put_state_free st i = do {
     put_state \<leftarrow> grv_put_state_get st i;
     a \<leftarrow> ptr_array_set (v_put_states st) i None;
     Some (st\<lparr>v_put_states := a\<rparr>)
   }"

definition grv_put_state_message_size :: nat where
  "grv_put_state_message_size = sizeof_uint"

section \<open>Get requests\<close>

definition grv_process_get_request_unlocked :: "grv_state \<Rightarrow> grv_get_request \<Rightarrow> grv_state option" where
  "grv_process_get_request_unlocked st request = do {
     let response = grv_get_response_new (v_num_replicas st);
     (value, update_timestamp, source_replica, st) \<leftarrow> grv_get_value st (vgetq_key request);
     gv \<leftarrow> grv_copy_gst_vector st;
     let response = response\<lparr>vgetr_value := value, vgetr_update_timestamp := update_timestamp,
           vgetr_source_replica := source_replica, vgetr_gst_vector := gv,
           vgetr_client_lpid := vgetq_client_lpid request\<rparr>;
     c_assert (vgetr_source_replica response < v_num_replicas st);
     let destination = (if vgetq_proxy_lpid request = NO_PROXY_LPID then vgetq_client_lpid request
                        else vgetq_proxy_lpid request);
     st \<leftarrow> grv_stats_get_request st (vgetq_key request) (vgetr_update_timestamp response);
     st \<leftarrow> build_struct_per_byte_time st (simulated_size response);
     server_send st destination GRV_GET_RESPONSE response (Data (VGetResponse response))
   }"

definition grv_process_get_request :: "grv_state \<Rightarrow> grv_get_request \<Rightarrow> grv_state option" where
  "grv_process_get_request st request = do {
     key_location \<leftarrow> grv_lpid_for_key (vgetq_key request) st;
     st \<leftarrow> cpu_add_timing st 1 [''gr'', ''process_get_request_pre_time''];
     (if key_location \<noteq> sc_lpid (config st)
      then do {
        c_assert (vgetq_proxy_lpid request = NO_PROXY_LPID);
        let request = request\<lparr>vgetq_proxy_lpid := sc_lpid (config st)\<rparr>;
        st \<leftarrow> server_send st key_location GRV_GET_REQUEST request (Data (VGetRequest request));
        (need_update, st) \<leftarrow> grv_gst_vector_need_update st (vgetq_gst_vector request);
        st \<leftarrow> (if need_update
               then cpu_lock_lock st (lock_gsv st) GRV_FORWARDED_GET_REQUEST_LOCKED (Data (VGetRequest request))
                      (m_size request)
               else Some st);
        st \<leftarrow> grv_update_gst_vector st (vgetq_gst_vector request);
        server_stats_counter_inc st (v_forwarded_get_id st)
      }
      else do {
        (need_update, st) \<leftarrow> grv_gst_vector_need_update st (vgetq_gst_vector request);
        (if need_update
         then cpu_lock_lock st (lock_gsv st) GRV_GET_REQUEST_LOCKED (Data (VGetRequest request)) (m_size request)
         else grv_process_get_request_unlocked st request)
      })
   }"

definition grv_process_forwarded_get_request_locked :: "grv_state \<Rightarrow> grv_get_request \<Rightarrow> grv_state option" where
  "grv_process_forwarded_get_request_locked st request = do {
     st \<leftarrow> grv_update_gst_vector st (vgetq_gst_vector request);
     cpu_lock_unlock st (lock_gsv st) CPU_NO_EVENT NoData 0
   }"

definition grv_process_get_request_locked :: "grv_state \<Rightarrow> grv_get_request \<Rightarrow> grv_state option" where
  "grv_process_get_request_locked st request = do {
     st \<leftarrow> grv_update_gst_vector st (vgetq_gst_vector request);
     cpu_lock_unlock st (lock_gsv st) GRV_GET_REQUEST_UNLOCKED (Data (VGetRequest request)) (m_size request)
   }"

definition grv_process_get_response :: "grv_state \<Rightarrow> grv_get_response \<Rightarrow> grv_state option" where
  "grv_process_get_response st response = do {
     c_assert (vgetr_client_lpid response \<noteq> sc_lpid (config st));
     server_send st (vgetr_client_lpid response) GRV_GET_RESPONSE response (Data (VGetResponse response))
   }"

section \<open>Put requests\<close>

text \<open>
  \<open>max_array\<close> leaves \<open>dependency_time\<close> uninitialised when the vector is empty; that case is outside the
  model.
\<close>

definition grv_process_put_request :: "grv_state \<Rightarrow> grv_put_request \<Rightarrow> grv_state option" where
  "grv_process_put_request st request = do {
     key_location \<leftarrow> grv_lpid_for_key (vputq_key request) st;
     st \<leftarrow> cpu_add_timing st 1 [''gr'', ''process_put_request_pre_time''];
     (if key_location \<noteq> sc_lpid (config st)
      then do {
        c_assert (vputq_proxy_lpid request = NO_PROXY_LPID);
        let request = request\<lparr>vputq_proxy_lpid := sc_lpid (config st)\<rparr>;
        st \<leftarrow> server_send st key_location GRV_PUT_REQUEST request (Data (VPutRequest request));
        server_stats_counter_inc st (v_forwarded_put_id st)
      }
      else do {
        c_assert (0 < vputq_dependency_vector_size request);
        dv \<leftarrow> vec_copy (vputq_dependency_vector_size request) (vputq_dependency_vector request);
        let dependency_time = max_array 0 dv;
        (if clock st < dependency_time
         then server_schedule_self st (dependency_time - clock st) GRV_PUT_REQUEST (Data (VPutRequest request))
                (m_size request)
         else do {
           (i, st) \<leftarrow> grv_put_state_new st;
           put_state \<leftarrow> grv_put_state_get st i;
           dv \<leftarrow> vec_copy (v_num_replicas st) (vputq_dependency_vector request);
           let put_state = put_state\<lparr>vps_key := vputq_key request, vps_value := vputq_value request,
                 vps_destination := (if vputq_proxy_lpid request = NO_PROXY_LPID
                                     then vputq_client_lpid request else vputq_proxy_lpid request),
                 vps_response := (vps_response put_state)\<lparr>vputr_client_lpid := vputq_client_lpid request,
                                    vputr_source_replica := sc_replica (config st)\<rparr>,
                 vps_dependency_vector := dv\<rparr>;
           st \<leftarrow> grv_put_state_set st i put_state;
           cpu_lock_lock st (lock_vv st) GRV_PUT_REQUEST_LOCKED (Data (VPutStateMessage i)) grv_put_state_message_size
         })
      })
   }"

definition grv_process_put_request_locked :: "grv_state \<Rightarrow> u32 \<Rightarrow> grv_state option" where
  "grv_process_put_request_locked st i = do {
     put_state \<leftarrow> grv_put_state_get st i;
     let update_time = clock st;
     (item, st) \<leftarrow> grv_put_value st (vps_key put_state) (vps_value put_state) update_time
       (vps_dependency_vector put_state) (sc_replica (config st));
     vv \<leftarrow> arr_set (v_version_vector st) (sc_replica (config st)) update_time;
     let st = st\<lparr>v_version_vector := vv\<rparr>;
     let put_state = put_state\<lparr>vps_response := (vps_response put_state)\<lparr>vputr_update_time := update_time\<rparr>,
           vps_update_time_no_skew := now st\<rparr>;
     let put_state = (case item of
           None \<Rightarrow> put_state\<lparr>vps_discarded := True\<rparr>
         | Some versions \<Rightarrow> put_state\<lparr>vps_discarded := False,
             vps_previous_update_time := (case tl versions of [] \<Rightarrow> 0 | p # _ \<Rightarrow> it_update_time p),
             vps_previous_source_replica := (case tl versions of [] \<Rightarrow> 0 | p # _ \<Rightarrow> it_source_replica p)\<rparr>);
     st \<leftarrow> grv_put_state_set st i put_state;
     cpu_lock_unlock st (lock_vv st) GRV_PUT_REQUEST_UNLOCKED (Data (VPutStateMessage i)) grv_put_state_message_size
   }"

definition grv_process_put_request_unlocked :: "grv_state \<Rightarrow> u32 \<Rightarrow> grv_state option" where
  "grv_process_put_request_unlocked st i = do {
     put_state \<leftarrow> grv_put_state_get st i;
     st \<leftarrow> build_struct_per_byte_time st (simulated_size (vps_response put_state));
     st \<leftarrow> server_stats_counter_inc st PUT_REQUESTS;
     st \<leftarrow> server_send st (vps_destination put_state) GRV_PUT_RESPONSE (vps_response put_state)
       (Data (VPutResponse (vps_response put_state)));
     st \<leftarrow> (if \<not> vps_discarded put_state
            then grv_replicate_value st (vps_key put_state) (vps_value put_state)
                   (vputr_update_time (vps_response put_state)) (vps_dependency_vector put_state)
                   (sc_replica (config st)) (vps_previous_update_time put_state)
                   (vps_previous_source_replica put_state) (vps_update_time_no_skew put_state)
            else Some st);
     grv_put_state_free st i
   }"

definition grv_process_put_response :: "grv_state \<Rightarrow> grv_put_response \<Rightarrow> grv_state option" where
  "grv_process_put_response st response = do {
     c_assert (vputr_source_replica response < v_num_replicas st);
     c_assert (vputr_client_lpid response \<noteq> sc_lpid (config st));
     server_send st (vputr_client_lpid response) GRV_PUT_RESPONSE response (Data (VPutResponse response))
   }"

end
