(* ===== verification/Grv_Server.thy ===== *)
theory Grv_Server
  imports Grv_Getput
begin

text \<open>
  The GRV server: initialisation, the clock tick and the dispatch of events,
  \<open>src/server/protocols/grv/grv.c\<close>.
\<close>

section \<open>Initialisation\<close>

definition grv_init_state :: "grv_state \<Rightarrow> grv_state option" where
  "grv_init_state st = do {
     let n = v_num_replicas st;
     let st = st\<lparr>v_version_vector := replicate (unat n) 0, gst_vector := replicate (unat n) 0,
                 min_lst_vector := replicate (unat n) 0,
                 v_lst_received := replicate (unat (tree_fanout (config st))) False\<rparr>;
     let (i, st) = server_stats_counter_new st ''forwarded get requests'';
     let st = st\<lparr>v_forwarded_get_id := i\<rparr>;
     let (i, st) = server_stats_counter_new st ''forwarded put requests'';
     let st = st\<lparr>v_forwarded_put_id := i\<rparr>;
     let (l, st) = cpu_lock_new st;
     let st = st\<lparr>lock_gsv := l\<rparr>;
     let (l, st) = cpu_lock_new st;
     let st = st\<lparr>lock_vv := l, v_put_states := ptr_array_init, v_rotx_states := ptr_array_init,
                 v_replica_update_queues := replicate (unat n) queue_new\<rparr>;
     st \<leftarrow> (if server_is_leaf_partition (config st) then grv_schedule_gst_computation_start st else Some st);
     interval \<leftarrow> parameter_func st [''gr'', ''clock_interval''];
     server_schedule_self st interval GRV_CLOCK_TICK NoData 0
   }"

section \<open>Clock tick\<close>

definition grv_process_clock_tick_unlocked :: "grv_state \<Rightarrow> bool \<Rightarrow> grv_state option" where
  "grv_process_clock_tick_unlocked st send_time = do {
     st \<leftarrow> grv_send_heartbeat st send_time;
     interval \<leftarrow> parameter_func st [''gr'', ''clock_interval''];
     server_schedule_self st interval GRV_CLOCK_TICK NoData 0
   }"

definition grv_process_clock_tick :: "grv_state \<Rightarrow> grv_state option" where
  "grv_process_clock_tick st = do {
     st \<leftarrow> cpu_add_timing st 1 [''gr'', ''process_clock_tick_time''];
     v \<leftarrow> arr_get (v_version_vector st) (sc_replica (config st));
     interval \<leftarrow> parameter_func st [''gr'', ''clock_interval''];
     (if v + interval \<le> clock st
      then cpu_lock_lock st (lock_vv st) GRV_CLOCK_TICK_LOCKED NoData 0
      else grv_process_clock_tick_unlocked st False)
   }"

definition grv_process_clock_tick_locked :: "grv_state \<Rightarrow> grv_state option" where
  "grv_process_clock_tick_locked st = do {
     vv \<leftarrow> arr_set (v_version_vector st) (sc_replica (config st)) (clock st);
     let st = st\<lparr>v_version_vector := vv\<rparr>;
     cpu_lock_unlock st (lock_vv st) GRV_CLOCK_TICK_UNLOCKED (Data (VSendTime True)) sizeof_uint
   }"

section \<open>Dispatch\<close>

definition as_VGetRequest :: "grv_msg \<Rightarrow> grv_get_request option" where
  "as_VGetRequest m = (case m of VGetRequest r \<Rightarrow> Some r | _ \<Rightarrow> None)"
definition as_VGetResponse :: "grv_msg \<Rightarrow> grv_get_response option" where
  "as_VGetResponse m = (case m of VGetResponse r \<Rightarrow> Some r | _ \<Rightarrow> None)"
definition as_VPutRequest :: "grv_msg \<Rightarrow> grv_put_request option" where
  "as_VPutRequest m = (case m of VPutRequest r \<Rightarrow> Some r | _ \<Rightarrow> None)"
definition as_VPutResponse :: "grv_msg \<Rightarrow> grv_put_response option" where
  "as_VPutResponse m = (case m of VPutResponse r \<Rightarrow> Some r | _ \<Rightarrow> None)"
definition as_VReplicaUpdate :: "grv_msg \<Rightarrow> grv_replica_update option" where
  "as_VReplicaUpdate m = (case m of VReplicaUpdate r \<Rightarrow> Some r | _ \<Rightarrow> None)"
definition as_VGstFromRoot :: "grv_msg \<Rightarrow> grv_gst_from_root option" where
  "as_VGstFromRoot m = (case m of VGstFromRoot r \<Rightarrow> Some r | _ \<Rightarrow> None)"
definition as_VHeartbeat :: "grv_msg \<Rightarrow> grv_heartbeat option" where
  "as_VHeartbeat m = (case m of VHeartbeat r \<Rightarrow> Some r | _ \<Rightarrow> None)"
definition as_VLstFromLeaf :: "grv_msg \<Rightarrow> grv_lst_from_leaf option" where
  "as_VLstFromLeaf m = (case m of VLstFromLeaf r \<Rightarrow> Some r | _ \<Rightarrow> None)"
definition as_VSliceRequest :: "grv_msg \<Rightarrow> grv_slice_request option" where
  "as_VSliceRequest m = (case m of VSliceRequest r \<Rightarrow> Some r | _ \<Rightarrow> None)"
definition as_VSliceResponse :: "grv_msg \<Rightarrow> grv_slice_response option" where
  "as_VSliceResponse m = (case m of VSliceResponse r \<Rightarrow> Some r | _ \<Rightarrow> None)"
definition as_VRotxRequest :: "grv_msg \<Rightarrow> grv_rotx_request option" where
  "as_VRotxRequest m = (case m of VRotxRequest r \<Rightarrow> Some r | _ \<Rightarrow> None)"
definition as_VPutStateMessage :: "grv_msg \<Rightarrow> u32 option" where
  "as_VPutStateMessage m = (case m of VPutStateMessage r \<Rightarrow> Some r | _ \<Rightarrow> None)"
definition as_VSendTime :: "grv_msg \<Rightarrow> bool option" where
  "as_VSendTime m = (case m of VSendTime r \<Rightarrow> Some r | _ \<Rightarrow> None)"

definition grv_process_event ::
  "event_type \<Rightarrow> grv_msg event_data \<Rightarrow> nat \<Rightarrow> grv_state \<Rightarrow> grv_state option option" where
  "grv_process_event event_type data data_size st =
     (if event_type = GRV_GET_REQUEST then on_msg as_VGetRequest grv_process_get_request st data
      else if event_type = GRV_FORWARDED_GET_REQUEST_LOCKED
      then on_msg as_VGetRequest grv_process_forwarded_get_request_locked st data
      else if event_type = GRV_GET_REQUEST_LOCKED
      then on_msg as_VGetRequest grv_process_get_request_locked st data
      else if event_type = GRV_GET_REQUEST_UNLOCKED
      then on_msg as_VGetRequest grv_process_get_request_unlocked st data
      else if event_type = GRV_GET_RESPONSE then on_msg as_VGetResponse grv_process_get_response st data
      else if event_type = GRV_PUT_REQUEST then on_msg as_VPutRequest grv_process_put_request st data
      else if event_type = GRV_PUT_REQUEST_LOCKED
      then on_msg as_VPutStateMessage grv_process_put_request_locked st data
      else if event_type = GRV_PUT_REQUEST_UNLOCKED
      then on_msg as_VPutStateMessage grv_process_put_request_unlocked st data
      else if event_type = GRV_PUT_RESPONSE then on_msg as_VPutResponse grv_process_put_response st data
      else if event_type = GRV_REPLICA_UPDATE then on_msg as_VReplicaUpdate grv_process_replica_update st data
      else if event_type = GRV_REPLICA_UPDATE_VV_LOCKED
      then on_msg as_VReplicaUpdate grv_process_replica_update_vv_locked st data
      else if event_type = GRV_REPLICA_UPDATE_VV_UNLOCKED
      then on_msg as_VReplicaUpdate grv_process_replica_update_vv_unlocked st data
      else if event_type = GRV_LST_FROM_LEAF then on_msg as_VLstFromLeaf grv_process_lst_from_leaf st data
      else if event_type = GRV_LST_FROM_LEAF_ROOT_LOCKED then no_msg grv_process_lst_from_leaf_root_locked st
      else if event_type = GRV_LST_FROM_LEAF_ROOT_UNLOCKED
      then no_msg grv_process_lst_from_leaf_root_unlocked st
      else if event_type = GRV_GST_FROM_ROOT then on_msg as_VGstFromRoot grv_process_gst_from_root st data
      else if event_type = GRV_GST_FROM_ROOT_LOCKED
      then on_msg as_VGstFromRoot grv_process_gst_from_root_locked st data
      else if event_type = GRV_GST_FROM_ROOT_UNLOCKED then no_msg grv_process_gst_from_root_unlocked st
      else if event_type = GRV_START_GST_COMPUTATION then no_msg grv_process_start_gst_computation st
      else if event_type = GRV_CLOCK_TICK then no_msg grv_process_clock_tick st
      else if event_type = GRV_CLOCK_TICK_LOCKED then no_msg grv_process_clock_tick_locked st
      else if event_type = GRV_CLOCK_TICK_UNLOCKED
      then on_msg as_VSendTime grv_process_clock_tick_unlocked st data
      else if event_type = GRV_HEARTBEAT then on_msg as_VHeartbeat grv_process_heartbeat st data
      else if event_type = GRV_HEARTBEAT_LOCKED then on_msg as_VHeartbeat grv_process_heartbeat_locked st data
      else if event_type = GRV_SLICE_REQUEST then on_msg as_VSliceRequest grv_process_slice_request st data
      else if event_type = GRV_SLICE_REQUEST_LOCKED
      then on_msg as_VSliceRequest grv_process_slice_request_locked st data
      else if event_type = GRV_SLICE_REQUEST_UNLOCKED
      then on_msg as_VSliceRequest grv_process_slice_request_unlocked st data
      else if event_type = GRV_SLICE_RESPONSE then on_msg as_VSliceResponse grv_process_slice_response st data
      else if event_type = GRV_ROTX_REQUEST then on_msg as_VRotxRequest grv_process_rotx_request st data
      else if event_type = GRV_ROTX_REQUEST_LOCKED
      then on_msg as_VRotxRequest grv_process_rotx_request_locked st data
      else if event_type = GRV_ROTX_REQUEST_UNLOCKED
      then on_msg as_VRotxRequest grv_process_rotx_request_unlocked st data
      else Some None)"

end
