(* ===== verification/Grv_Keep.thy ===== *)
theory Grv_Keep
  imports Grv_Server Versions
begin

text \<open>
  What every handler of a GRV server keeps, the relation \<open>grv_rel\<close>: no entry of the vector of stable
  times goes back, no version of a value is lost, the versions of a key stay ordered and carry
  complete dependency vectors, the update queues stay well formed, and messages to one destination
  stay in order. One lemma per function of \<open>src/server/protocols/grv/\<close>, over the rules of
  \<open>Server_Frame\<close>.
\<close>

section \<open>The relation\<close>

definition vec_le :: "gr_tsp list \<Rightarrow> gr_tsp list \<Rightarrow> bool" where
  "vec_le = list_all2 (\<le>)"

definition deps_ok :: "grv_state \<Rightarrow> bool" where
  "deps_ok st \<longleftrightarrow> (\<forall>k. \<forall>item \<in> set (chain_at (store st) k). length (it_dependency_vector item) = unat (v_num_replicas st))"

definition v_queues_ok :: "grv_state \<Rightarrow> bool" where
  "v_queues_ok st \<longleftrightarrow> (\<forall>i < length (v_replica_update_queues st). queue_of i (v_replica_update_queues st ! i))"

definition grv_rel :: "grv_state \<Rightarrow> grv_state \<Rightarrow> bool" where
  "grv_rel st st' \<longleftrightarrow>
     cpu_frame st st' \<and> config st' = config st \<and> now st' = now st \<and> clock st' = clock st \<and>
     clock_offset st' = clock_offset st \<and>
     vec_le (gst_vector st) (gst_vector st') \<and> keeps_versions st st' \<and>
     (store_ok st \<longrightarrow> store_ok st') \<and> (deps_ok st \<longrightarrow> deps_ok st') \<and> (v_queues_ok st \<longrightarrow> v_queues_ok st') \<and>
     (net_ok st \<longrightarrow> net_ok st')"

lemma vec_le_refl [simp]: "vec_le v v"
  by (simp add: vec_le_def list.rel_refl)

lemma vec_le_trans: "vec_le a b \<Longrightarrow> vec_le b c \<Longrightarrow> vec_le a c"
  unfolding vec_le_def by (rule list_all2_trans [of "(\<le>)" "(\<le>)" "(\<le>)"]) (auto intro: order_trans)

lemma vec_le_set: "v ! unat i \<le> x \<Longrightarrow> arr_set v i x = Some v' \<Longrightarrow> vec_le v v'"
  by (auto simp: vec_le_def arr_set_eq_Some list_all2_conv_all_nth nth_list_update)

lemmas grv_rel_defs = grv_rel_def keeps_versions_def store_ok_def deps_ok_def v_queues_ok_def net_ok_def

lemma grv_rel_refl [simp]: "grv_rel st st"
  by (simp add: grv_rel_def)

lemma grv_rel_trans: "grv_rel a b \<Longrightarrow> grv_rel b c \<Longrightarrow> grv_rel a c"
  by (auto simp: grv_rel_def intro: cpu_frame_trans keeps_versions_trans vec_le_trans)

text \<open>Fields the relation does not look at.\<close>

lemma grv_rel_updates [simp]:
  "grv_rel s0 (st\<lparr>draws := n\<rparr>) = grv_rel s0 st"
  "grv_rel s0 (st\<lparr>elapsed_time := t\<rparr>) = grv_rel s0 st"
  "grv_rel s0 (st\<lparr>allow_no_time := b\<rparr>) = grv_rel s0 st"
  "grv_rel s0 (st\<lparr>stats := s\<rparr>) = grv_rel s0 st"
  "grv_rel s0 (st\<lparr>v_version_vector := vv\<rparr>) = grv_rel s0 st"
  "grv_rel s0 (st\<lparr>min_lst_vector := vv\<rparr>) = grv_rel s0 st"
  "grv_rel s0 (st\<lparr>v_lst_received := l\<rparr>) = grv_rel s0 st"
  "grv_rel s0 (st\<lparr>v_put_states := ps\<rparr>) = grv_rel s0 st"
  "grv_rel s0 (st\<lparr>v_rotx_states := rs\<rparr>) = grv_rel s0 st"
  "grv_rel s0 (cpu_allow_no_time st) = grv_rel s0 st"
  "grv_rel s0 (cpu_set_elapsed_time st t) = grv_rel s0 st"
  by (simp_all add: grv_rel_defs cpu_frame_def cpu_allow_no_time_def cpu_set_elapsed_time_def)

lemma grv_rel_gst:
  "grv_rel s0 st \<Longrightarrow> vec_le (gst_vector st) v \<Longrightarrow> grv_rel s0 (st\<lparr>gst_vector := v\<rparr>)"
  by (auto simp: grv_rel_defs cpu_frame_def intro: vec_le_trans)

interpretation vf: server_rel grv_rel
proof
  fix a b c :: grv_state
  show "grv_rel a b \<Longrightarrow> grv_rel b c \<Longrightarrow> grv_rel a c" by (rule grv_rel_trans)
next
  fix st st' :: grv_state
  assume "cpu_frame st st'" "cpu_state.more st' = cpu_state.more st"
  then show "grv_rel st st'" by (cases st; cases st') (simp add: grv_rel_defs)
next
  fix st :: grv_state and to departure bytes ns arrival
  assume "sent (sc_network (config st)) (sc_lpid (config st)) to departure bytes (network st) ns arrival"
  from net_ok_sent [OF this] show "grv_rel st (st\<lparr>network := ns\<rparr>)"
    by (simp add: grv_rel_def keeps_versions_def store_ok_def deps_ok_def v_queues_ok_def)
qed simp

section \<open>Reading, writing and counting\<close>

lemma grv_covered: "grv_rel s0 st \<Longrightarrow> post (dependencies_covered skip is dv t st) (\<lambda>r. grv_rel s0 (snd r))"
proof (induction "is" arbitrary: st)
  case (Cons i "is")
  show ?case unfolding dependencies_covered.simps
    by (rule vf.r_binds bind_value post_ifI post_SomeI Cons | assumption | simp)+
qed simp

lemma grv_visible: "grv_rel s0 st \<Longrightarrow> post (grv_is_value_visible st item t) (\<lambda>r. grv_rel s0 (snd r))"
  unfolding grv_is_value_visible_def
  by (rule vf.r_binds grv_covered post_SomeI post_ifI | assumption | simp)+

lemma grv_visible_always: "grv_rel s0 st \<Longrightarrow> post (grv_always_visible st item t) (\<lambda>r. grv_rel s0 (snd r))"
  by (simp add: grv_always_visible_def)

lemma grv_visible_snapshot:
  "grv_rel s0 st \<Longrightarrow> post (grv_is_value_visible_snapshot st item t) (\<lambda>r. grv_rel s0 (snd r))"
  unfolding grv_is_value_visible_snapshot_def by (rule grv_covered)

lemma grv_first_visible:
  assumes "\<And>st item t. grv_rel s0 st \<Longrightarrow> post (vis st item t) (\<lambda>r. grv_rel s0 (snd r))"
  shows "grv_rel s0 st \<Longrightarrow> post (first_visible vis t versions st) (\<lambda>r. grv_rel s0 (snd r))"
proof (induction versions arbitrary: st)
  case (Cons item older)
  show ?case unfolding first_visible.simps
    by (rule vf.r_bind_pair [OF assms] Cons.prems bind_value post_ifI Cons.IH
        | assumption | simp only: prod.case | simp)+
qed simp

lemma grv_get_value_at_rel:
  assumes "\<And>st item t. grv_rel s0 st \<Longrightarrow> post (vis st item t) (\<lambda>r. grv_rel s0 (snd r))" and "grv_rel s0 st"
  shows "post (grv_get_value_at st key t vis) (\<lambda>r. grv_rel s0 (snd (snd (snd r))))"
  unfolding grv_get_value_at_def Let_def
  by (rule vf.r_binds vf.r_bind_pair [OF grv_first_visible] assms bind_value
      | assumption | simp only: prod.case | simp split: option.split)+

lemma grv_get_value_rel: "grv_rel s0 st \<Longrightarrow> post (grv_get_value st key) (\<lambda>r. grv_rel s0 (snd (snd (snd r))))"
  unfolding grv_get_value_def by (rule grv_get_value_at_rel [OF grv_visible])

lemma grv_rel_put:
  assumes "grv_rel s0 st"
    and "chain_at (store st) key = [] \<or> it_update_time (hd (chain_at (store st) key)) \<le> it_update_time item"
    and "length (it_dependency_vector item) = unat (v_num_replicas st)"
  shows "grv_rel s0 (st\<lparr>store := store_put (store st) key (item # chain_at (store st) key)\<rparr>)"
proof -
  let ?st = "st\<lparr>store := store_put (store st) key (item # chain_at (store st) key)\<rparr>"
  have "keeps_versions st ?st" by (simp add: keeps_versions_def chain_at_put suffix_ConsI)
  moreover have "store_ok st \<Longrightarrow> store_ok ?st"
    using assms(2) by (simp add: store_ok_def chain_at_put store_wf_put store_get_put versions_sorted_Cons)
  moreover have "deps_ok st \<Longrightarrow> deps_ok ?st"
    using assms(3) by (simp add: deps_ok_def chain_at_put)
  ultimately have "grv_rel st ?st" by (simp add: grv_rel_def v_queues_ok_def net_ok_def)
  with assms(1) show ?thesis by (rule grv_rel_trans)
qed

lemma vec_copy_eq_Some: "vec_copy n xs = Some ys \<longleftrightarrow> unat n \<le> length xs \<and> ys = take (unat n) xs"
  by (auto simp: vec_copy_def bind_eq_Some_conv)

lemma store_add_timing: "cpu_add_timing st k p = Some st' \<Longrightarrow> store st' = store st \<and> config st' = config st"
  by (auto simp: cpu_add_timing_def cpu_add_time_def bind_eq_Some_conv dest!: timing_func_draws)

lemma grv_put_value_rel: "grv_rel s0 st \<Longrightarrow> post (grv_put_value st key v t dv r) (\<lambda>x. grv_rel s0 (snd x))"
proof (rule postI)
  fix x assume rel: "grv_rel s0 st" and x: "grv_put_value st key v t dv r = Some x"
  from x obtain st1 where st1: "cpu_add_timing st 1 [''gr'', ''put_value_time''] = Some st1"
    and x1: "snd x = st1 \<or> (\<exists>st2. build_struct_per_byte_time st1 (2 * unat (v_num_replicas st1) * sizeof_gr_tsp) = Some st2 \<and>
       unat (v_num_replicas st1) \<le> length dv \<and>
       (chain_at (store st1) key = [] \<or> it_update_time (hd (chain_at (store st1) key)) \<le> t) \<and>
       snd x = st2\<lparr>store := store_put (store st2) key
         (\<lparr>it_value = v, it_update_time = t, it_source_replica = r,
           it_dependency_vector = take (unat (v_num_replicas st1)) dv\<rparr> # chain_at (store st1) key)\<rparr>)"
    by (auto simp: grv_put_value_def bind_eq_Some_conv Let_def vec_copy_eq_Some split: if_splits)
  have rel1: "grv_rel s0 st1" using vf.r_add_timing [OF rel] st1 by (auto simp: post_def)
  let ?item = "\<lparr>it_value = v, it_update_time = t, it_source_replica = r,
    it_dependency_vector = take (unat (v_num_replicas st1)) dv\<rparr>"
  from x1 consider "snd x = st1" | st2 where
      "build_struct_per_byte_time st1 (2 * unat (v_num_replicas st1) * sizeof_gr_tsp) = Some st2"
      "unat (v_num_replicas st1) \<le> length dv"
      "chain_at (store st1) key = [] \<or> it_update_time (hd (chain_at (store st1) key)) \<le> t"
      "snd x = st2\<lparr>store := store_put (store st2) key (?item # chain_at (store st1) key)\<rparr>" by blast
  then show "grv_rel s0 (snd x)"
  proof cases
    case 2
    then have rel2: "grv_rel s0 st2" using vf.r_build_struct [OF rel1] by (auto simp: post_def)
    have "store st2 = store st1 \<and> config st2 = config st1"
      using 2(1) by (auto simp: build_struct_per_byte_time_def dest: store_add_timing)
    with 2 show ?thesis using grv_rel_put [OF rel2, of key ?item] by simp
  qed (use rel1 in simp)
qed

lemma grv_stats_get_request_rel: "grv_rel s0 st \<Longrightarrow> post (grv_stats_get_request st key t) (grv_rel s0)"
  unfolding grv_stats_get_request_def Let_def
  by (rule vf.r_binds vf.r_posts post_ifI | assumption | simp)+

lemma v_light_covered: "light s0 st \<Longrightarrow> post (dependencies_covered skip is dv t st) (\<lambda>r. light s0 (snd r))"
proof (induction "is" arbitrary: st)
  case (Cons i "is")
  show ?case unfolding dependencies_covered.simps
    by (rule bind_light [OF light_add_timing] bind_value post_ifI post_SomeI Cons | assumption | simp)+
qed simp

lemma v_light_visible: "light s0 st \<Longrightarrow> post (grv_is_value_visible st item t) (\<lambda>r. light s0 (snd r))"
  unfolding grv_is_value_visible_def
  by (rule bind_light [OF light_add_timing] v_light_covered post_SomeI post_ifI | assumption | simp)+

lemma light_gst_vector_update_item: "light s0 st \<Longrightarrow> post (gst_vector_update_item old new versions st) (light s0)"
proof (induction versions arbitrary: st)
  case (Cons item older)
  show ?case unfolding gst_vector_update_item.simps
    by (rule bind_light_pair [OF v_light_visible] bind_light light_array_push Cons bind_value post_ifI post_SomeI
        | assumption | simp only: prod.case | simp)+
qed simp

lemma light_stats_gst_vector_update: "light s0 st \<Longrightarrow> post (grv_stats_gst_update st old new) (light s0)"
  unfolding grv_stats_gst_update_def Let_def store_foreach_items
  by (rule bind_light [OF post_foldM] post_ifI post_SomeI
      | assumption | simp add: light_gst_vector_update_item split: prod.split)+

lemma grv_stats_gst_update_rel: "grv_rel s0 st \<Longrightarrow> post (grv_stats_gst_update st old new) (grv_rel s0)"
  by (rule post_mono [OF light_stats_gst_vector_update [OF light_refl]]) (rule vf.r_light)

section \<open>Stable times\<close>

lemma raise_gst_entry_rel:
  "grv_rel s0 (snd r) \<Longrightarrow> post (raise_gst_entry v i r) (\<lambda>r. grv_rel s0 (snd r))"
  unfolding raise_gst_entry_def Let_def
  by (cases r, simp only: prod.case snd_conv)
    (rule vf.r_binds bind_value post_ifI post_SomeI grv_rel_gst vec_le_set
      | assumption | auto simp: arr_get_eq_Some)+

lemma grv_update_gst_vector_rel: "grv_rel s0 st \<Longrightarrow> post (grv_update_gst_vector st v) (grv_rel s0)"
  unfolding grv_update_gst_vector_def
  by (rule bind_value vf.r_bind_pair [OF post_foldM] vf.r_binds grv_stats_gst_update_rel post_ifI post_SomeI
      raise_gst_entry_rel | assumption | simp only: prod.case | simp)+

lemma need_update_loop_rel: "grv_rel s0 st \<Longrightarrow> post (need_update_loop is v st) (\<lambda>r. grv_rel s0 (snd r))"
proof (induction "is" arbitrary: st)
  case (Cons i "is")
  show ?case unfolding need_update_loop.simps
    by (rule vf.r_binds bind_value post_ifI post_SomeI Cons | assumption | simp)+
qed simp

lemma grv_gst_vector_need_update_rel:
  "grv_rel s0 st \<Longrightarrow> post (grv_gst_vector_need_update st v) (\<lambda>r. grv_rel s0 (snd r))"
  unfolding grv_gst_vector_need_update_def by (rule need_update_loop_rel)

lemma grv_reset_lst_received_rel: "grv_rel s0 st \<Longrightarrow> post (grv_reset_lst_received st) (grv_rel s0)"
  unfolding grv_reset_lst_received_def by (rule vf.r_foldM bind_value post_SomeI | assumption | simp)+

lemmas v_gst_hbinds = vf.r_hbind [OF grv_update_gst_vector_rel] vf.r_hbind [OF grv_reset_lst_received_rel]
  vf.r_hbind_pair [OF grv_gst_vector_need_update_rel]

lemma grv_send_gst_rel: "grv_rel s0 st \<Longrightarrow> post (grv_send_gst m p st) (grv_rel s0)"
  unfolding grv_send_gst_def by (rule vf.r_posts bind_value | assumption | simp)+

lemma grv_send_gst_to_children_rel: "grv_rel s0 st \<Longrightarrow> post (grv_send_gst_to_children st) (grv_rel s0)"
  unfolding grv_send_gst_to_children_def Let_def server_foreach_children_partition_def
  by (rule bind_value vf.r_foldM grv_send_gst_rel vf.r_hbinds | assumption)+

lemma grv_send_lst_to_parent_rel: "grv_rel s0 st \<Longrightarrow> post (grv_send_lst_to_parent st) (grv_rel s0)"
  unfolding grv_send_lst_to_parent_def Let_def
  by (rule vf.r_hbinds vf.r_posts v_gst_hbinds bind_value | assumption | simp)+

lemma grv_schedule_gst_computation_start_rel:
  "grv_rel s0 st \<Longrightarrow> post (grv_schedule_gst_computation_start st) (grv_rel s0)"
  unfolding grv_schedule_gst_computation_start_def by (rule vf.r_posts bind_value | assumption | simp)+

lemma grv_process_lst_from_leaf_rel: "grv_rel s0 st \<Longrightarrow> post (grv_process_lst_from_leaf st m) (grv_rel s0)"
  unfolding grv_process_lst_from_leaf_def Let_def
  by (rule vf.r_hbinds vf.r_posts v_gst_hbinds grv_send_lst_to_parent_rel bind_value post_ifI post_SomeI
      | assumption | simp only: prod.case | simp)+

lemma grv_process_lst_from_leaf_root_locked_rel:
  "grv_rel s0 st \<Longrightarrow> post (grv_process_lst_from_leaf_root_locked st) (grv_rel s0)"
  unfolding grv_process_lst_from_leaf_root_locked_def by (rule v_gst_hbinds vf.r_posts | assumption)+

lemma grv_process_gst_from_root_rel: "grv_rel s0 st \<Longrightarrow> post (grv_process_gst_from_root st m) (grv_rel s0)"
  unfolding grv_process_gst_from_root_def server_foreach_children_partition_def
  by (rule vf.r_hbind [OF vf.r_foldM] grv_send_gst_rel vf.r_posts | assumption)+

lemma grv_process_gst_from_root_locked_rel:
  "grv_rel s0 st \<Longrightarrow> post (grv_process_gst_from_root_locked st m) (grv_rel s0)"
  unfolding grv_process_gst_from_root_locked_def by (rule v_gst_hbinds vf.r_posts | assumption)+

lemma grv_process_gst_from_root_unlocked_rel:
  "grv_rel s0 st \<Longrightarrow> post (grv_process_gst_from_root_unlocked st) (grv_rel s0)"
  unfolding grv_process_gst_from_root_unlocked_def Let_def
  by (rule post_ifI post_SomeI grv_schedule_gst_computation_start_rel | assumption | simp)+

lemma grv_process_start_gst_computation_rel:
  "grv_rel s0 st \<Longrightarrow> post (grv_process_start_gst_computation st) (grv_rel s0)"
  unfolding grv_process_start_gst_computation_def Let_def
  by (rule v_gst_hbinds vf.r_hbinds vf.r_posts grv_schedule_gst_computation_start_rel bind_value post_ifI
      | assumption | simp)+

lemma grv_process_heartbeat_rel: "grv_rel s0 st \<Longrightarrow> post (grv_process_heartbeat st m) (grv_rel s0)"
  unfolding grv_process_heartbeat_def by (rule vf.r_posts)

lemma grv_process_heartbeat_locked_rel: "grv_rel s0 st \<Longrightarrow> post (grv_process_heartbeat_locked st m) (grv_rel s0)"
  unfolding grv_process_heartbeat_locked_def
  by (rule vf.r_hbinds vf.r_posts bind_value | assumption | simp)+

lemma grv_send_heartbeat_rel: "grv_rel s0 st \<Longrightarrow> post (grv_send_heartbeat st b) (grv_rel s0)"
  unfolding grv_send_heartbeat_def Let_def foreach_replica_def grv_send_heartbeat_message_def
  by (rule vf.r_hbinds vf.r_posts vf.r_foldM bind_value post_ifI post_SomeI | assumption | simp)+

section \<open>Read-only transactions\<close>

lemma grv_rotx_state_rel:
  "grv_rel s0 st \<Longrightarrow> post (grv_rotx_state_new st n) (\<lambda>r. grv_rel s0 (snd r))"
  "grv_rel s0 st \<Longrightarrow> post (grv_rotx_state_set st i g) (grv_rel s0)"
  "grv_rel s0 st \<Longrightarrow> post (grv_rotx_state_free st i) (grv_rel s0)"
  by (auto simp: grv_rotx_state_new_def grv_rotx_state_set_def grv_rotx_state_free_def post_def
      bind_eq_Some_conv Let_def)

lemmas v_rotx_hbinds = vf.r_hbind_pair [OF grv_rotx_state_rel(1)] vf.r_hbind [OF grv_rotx_state_rel(2)]

lemma send_slice_rel: "grv_rel s0 st \<Longrightarrow> post (send_slice m i t l p st) (grv_rel s0)"
  unfolding send_slice_def Let_def
  by (rule vf.r_hbinds vf.r_posts bind_value post_ifI post_SomeI | assumption | simp)+

lemma grv_process_rotx_request_unlocked_rel:
  "grv_rel s0 st \<Longrightarrow> post (grv_process_rotx_request_unlocked st m) (grv_rel s0)"
  unfolding grv_process_rotx_request_unlocked_def Let_def foreach_partition_def
  by (rule vf.r_hbinds v_rotx_hbinds vf.r_foldM send_slice_rel bind_value | assumption | simp only: prod.case)+

lemma grv_process_rotx_request_rel: "grv_rel s0 st \<Longrightarrow> post (grv_process_rotx_request st m) (grv_rel s0)"
  unfolding grv_process_rotx_request_def
  by (rule v_gst_hbinds vf.r_posts grv_process_rotx_request_unlocked_rel post_ifI | assumption | simp only: prod.case)+

lemma grv_process_rotx_request_locked_rel: "grv_rel s0 st \<Longrightarrow> post (grv_process_rotx_request_locked st m) (grv_rel s0)"
  unfolding grv_process_rotx_request_locked_def by (rule v_gst_hbinds vf.r_posts | assumption)+

lemma grv_send_rotx_response_rel: "grv_rel s0 st \<Longrightarrow> post (grv_send_rotx_response st i) (grv_rel s0)"
  unfolding grv_send_rotx_response_def Let_def
  by (rule vf.r_hbinds grv_rotx_state_rel bind_value | assumption | simp)+

lemma slice_read_rel:
  "grv_rel s0 st \<Longrightarrow> post (slice_read keys t n st) (\<lambda>r. grv_rel s0 (snd (snd (snd r))))"
  unfolding slice_read_def
  by (rule post_foldM, simp)
    (clarsimp split: prod.splits, rule bind_value,
      rule vf.r_bind_quad [OF grv_get_value_at_rel [OF grv_visible_snapshot]], assumption+, simp)

lemma grv_process_slice_request_unlocked_rel:
  "grv_rel s0 st \<Longrightarrow> post (grv_process_slice_request_unlocked st m) (grv_rel s0)"
  unfolding grv_process_slice_request_unlocked_def Let_def
  by (rule vf.r_hbinds vf.r_posts vf.r_hbind_quad [OF slice_read_rel] bind_value
      | assumption | simp only: prod.case | simp)+

lemma grv_process_slice_request_rel: "grv_rel s0 st \<Longrightarrow> post (grv_process_slice_request st m) (grv_rel s0)"
  unfolding grv_process_slice_request_def Let_def
  by (rule v_gst_hbinds vf.r_posts grv_process_slice_request_unlocked_rel post_ifI
      | assumption | simp only: prod.case | simp)+

lemma grv_process_slice_request_locked_rel:
  "grv_rel s0 st \<Longrightarrow> post (grv_process_slice_request_locked st m) (grv_rel s0)"
  unfolding grv_process_slice_request_locked_def by (rule v_gst_hbinds vf.r_posts | assumption)+

lemma grv_process_slice_response_rel: "grv_rel s0 st \<Longrightarrow> post (grv_process_slice_response st m) (grv_rel s0)"
  unfolding grv_process_slice_response_def Let_def
  by (rule vf.r_hbinds v_rotx_hbinds grv_send_rotx_response_rel bind_value post_ifI post_SomeI | assumption)+

section \<open>Replication\<close>

lemma grv_rel_queues:
  "grv_rel s0 st \<Longrightarrow> (v_queues_ok st \<Longrightarrow> \<forall>i < length qs. queue_of i (qs ! i)) \<Longrightarrow>
   grv_rel s0 (st\<lparr>v_replica_update_queues := qs\<rparr>)"
  by (auto simp: grv_rel_defs cpu_frame_def)

lemma v_queues_ok_set:
  "v_queues_ok st \<Longrightarrow> arr_get (v_replica_update_queues st) i = Some q \<Longrightarrow> arr_set (v_replica_update_queues st) i q' = Some qs \<Longrightarrow>
   (queue_of (unat i) q \<Longrightarrow> queue_of (unat i) q') \<Longrightarrow> \<forall>j < length qs. queue_of j (qs ! j)"
  by (auto simp: v_queues_ok_def arr_get_eq_Some arr_set_eq_Some nth_list_update)

lemma grv_dequeue_update_rel: "grv_rel s0 st \<Longrightarrow> post (grv_dequeue_update st u) (\<lambda>r. grv_rel s0 (snd r))"
proof (rule postI)
  fix r assume rel: "grv_rel s0 st" and r: "grv_dequeue_update st u = Some r"
  from r obtain q e q' qs where
    q: "arr_get (v_replica_update_queues st) (ru_source_replica u) = Some q"
    and e: "queue_dequeue q = Some (e, q')"
    and qs: "arr_set (v_replica_update_queues st) (ru_source_replica u) q' = Some qs"
    and r': "snd r = st\<lparr>v_replica_update_queues := qs\<rparr>"
    by (auto simp: grv_dequeue_update_def bind_eq_Some_conv)
  show "grv_rel s0 (snd r)"
    unfolding r' by (rule grv_rel_queues [OF rel]) (rule v_queues_ok_set [OF _ q qs queue_of_dequeue [OF _ e]])
qed

lemmas v_value_hbinds = vf.r_hbind_quad [OF grv_get_value_at_rel [OF grv_visible_always]]
  vf.r_hbind_quad [OF grv_get_value_rel] vf.r_hbind_pair [OF grv_put_value_rel]

lemma replica_update_vv_unlocked_rel:
  assumes "\<And>st u. grv_rel s0 st \<Longrightarrow> post (grv_process_replica_update_work fuel st u) (grv_rel s0)"
  shows "grv_rel s0 st \<Longrightarrow> post (replica_update_vv_unlocked fuel st u) (grv_rel s0)"
  unfolding replica_update_vv_unlocked.simps
  by (rule vf.r_hbind_pair [OF grv_dequeue_update_rel] bind_value assms | assumption | simp only: prod.case
      | simp add: assms split: option.split)+

lemma grv_process_replica_update_work_rel:
  "grv_rel s0 st \<Longrightarrow> post (grv_process_replica_update_work fuel st u) (grv_rel s0)"
proof (induction fuel arbitrary: st u)
  case 0
  show ?case unfolding grv_process_replica_update_work.simps
    by (rule vf.r_hbinds vf.r_posts v_value_hbinds bind_value post_ifI 0 | assumption | simp only: prod.case | simp)+
next
  case (Suc fuel)
  show ?case unfolding grv_process_replica_update_work.simps nat.case
    by (rule vf.r_hbinds vf.r_posts v_value_hbinds bind_value post_ifI Suc replica_update_vv_unlocked_rel
        | assumption | simp only: prod.case)+
qed

lemma grv_process_replica_update_vv_unlocked_rel:
  "grv_rel s0 st \<Longrightarrow> post (grv_process_replica_update_vv_unlocked st u) (grv_rel s0)"
  unfolding grv_process_replica_update_vv_unlocked_def
  by (rule replica_update_vv_unlocked_rel [OF grv_process_replica_update_work_rel])

lemma grv_process_replica_update_rel: "grv_rel s0 st \<Longrightarrow> post (grv_process_replica_update st u) (grv_rel s0)"
proof -
  assume rel: "grv_rel s0 st"
  have "grv_rel s0 (st\<lparr>v_replica_update_queues := qs\<rparr>)"
    if q: "arr_get (v_replica_update_queues st) (ru_source_replica u) = Some q" and e: "queue_enqueue q u = Some q'"
      and qs: "arr_set (v_replica_update_queues st) (ru_source_replica u) q' = Some qs" for q q' qs
    by (rule grv_rel_queues [OF rel]) (rule v_queues_ok_set [OF _ q qs queue_of_enqueue [OF _ e]])
  then show ?thesis
    unfolding grv_process_replica_update_def Let_def
    by (intro bind_value post_ifI post_SomeI grv_process_replica_update_work_rel) simp_all
qed

lemma grv_process_replica_update_vv_locked_rel:
  "grv_rel s0 st \<Longrightarrow> post (grv_process_replica_update_vv_locked st u) (grv_rel s0)"
  unfolding grv_process_replica_update_vv_locked_def Let_def
  by (rule vf.r_hbinds vf.r_posts v_value_hbinds bind_value | assumption | simp only: prod.case | simp)+

lemma grv_replicate_value_rel: "grv_rel s0 st \<Longrightarrow> post (grv_replicate_value st k v t dv r pt pr tn) (grv_rel s0)"
  unfolding grv_replicate_value_def Let_def foreach_replica_def grv_send_update_def
  by (rule vf.r_hbinds vf.r_posts vf.r_foldM bind_value post_ifI post_SomeI | assumption | simp)+

section \<open>Get and put\<close>

lemma grv_put_state_rel:
  "grv_rel s0 st \<Longrightarrow> post (grv_put_state_new st) (\<lambda>r. grv_rel s0 (snd r))"
  "grv_rel s0 st \<Longrightarrow> post (grv_put_state_set st i p) (grv_rel s0)"
  "grv_rel s0 st \<Longrightarrow> post (grv_put_state_free st i) (grv_rel s0)"
  by (auto simp: grv_put_state_new_def grv_put_state_set_def grv_put_state_free_def post_def bind_eq_Some_conv Let_def)

lemmas v_getput_hbinds = vf.r_hbind_pair [OF grv_put_state_rel(1)] vf.r_hbind [OF grv_put_state_rel(2)]
  vf.r_hbind [OF grv_stats_get_request_rel] vf.r_hbind [OF grv_replicate_value_rel]

lemma grv_process_get_request_unlocked_rel:
  "grv_rel s0 st \<Longrightarrow> post (grv_process_get_request_unlocked st m) (grv_rel s0)"
  unfolding grv_process_get_request_unlocked_def Let_def
  by (rule vf.r_hbinds vf.r_posts v_getput_hbinds v_value_hbinds bind_value | assumption | simp only: prod.case | simp)+

lemma grv_process_get_request_rel: "grv_rel s0 st \<Longrightarrow> post (grv_process_get_request st m) (grv_rel s0)"
  unfolding grv_process_get_request_def Let_def
  by (rule vf.r_hbinds vf.r_posts v_gst_hbinds v_getput_hbinds vf.r_hbind grv_process_get_request_unlocked_rel
      bind_value post_ifI post_SomeI | assumption | simp only: prod.case | simp)+

lemma grv_process_forwarded_get_request_locked_rel:
  "grv_rel s0 st \<Longrightarrow> post (grv_process_forwarded_get_request_locked st m) (grv_rel s0)"
  unfolding grv_process_forwarded_get_request_locked_def by (rule v_gst_hbinds vf.r_posts | assumption)+

lemma grv_process_get_request_locked_rel: "grv_rel s0 st \<Longrightarrow> post (grv_process_get_request_locked st m) (grv_rel s0)"
  unfolding grv_process_get_request_locked_def by (rule v_gst_hbinds vf.r_posts | assumption)+

lemma grv_process_get_response_rel: "grv_rel s0 st \<Longrightarrow> post (grv_process_get_response st m) (grv_rel s0)"
  unfolding grv_process_get_response_def by (rule vf.r_posts bind_value | assumption | simp)+

lemma grv_process_put_request_rel: "grv_rel s0 st \<Longrightarrow> post (grv_process_put_request st m) (grv_rel s0)"
  unfolding grv_process_put_request_def Let_def
  by (rule vf.r_hbinds vf.r_posts v_getput_hbinds bind_value post_ifI post_SomeI
      | assumption | simp only: prod.case | simp)+

lemma grv_process_put_request_locked_rel: "grv_rel s0 st \<Longrightarrow> post (grv_process_put_request_locked st i) (grv_rel s0)"
  unfolding grv_process_put_request_locked_def Let_def
  by (rule vf.r_hbinds vf.r_posts v_getput_hbinds v_value_hbinds bind_value
      | assumption | simp only: prod.case | simp)+

lemma grv_process_put_request_unlocked_rel:
  "grv_rel s0 st \<Longrightarrow> post (grv_process_put_request_unlocked st i) (grv_rel s0)"
  unfolding grv_process_put_request_unlocked_def Let_def
  by (rule vf.r_hbinds vf.r_posts v_getput_hbinds vf.r_hbind grv_replicate_value_rel grv_put_state_rel bind_value
      post_ifI post_SomeI | assumption | simp only: prod.case | simp)+

lemma grv_process_put_response_rel: "grv_rel s0 st \<Longrightarrow> post (grv_process_put_response st m) (grv_rel s0)"
  unfolding grv_process_put_response_def by (rule vf.r_posts bind_value | assumption | simp)+

section \<open>The clock and the whole server\<close>

lemma grv_process_clock_tick_unlocked_rel:
  "grv_rel s0 st \<Longrightarrow> post (grv_process_clock_tick_unlocked st b) (grv_rel s0)"
  unfolding grv_process_clock_tick_unlocked_def
  by (rule vf.r_hbind [OF grv_send_heartbeat_rel] vf.r_posts bind_value | assumption | simp)+

lemma grv_process_clock_tick_rel: "grv_rel s0 st \<Longrightarrow> post (grv_process_clock_tick st) (grv_rel s0)"
  unfolding grv_process_clock_tick_def
  by (rule vf.r_hbinds vf.r_posts grv_process_clock_tick_unlocked_rel bind_value post_ifI | assumption)+

lemma grv_process_clock_tick_locked_rel: "grv_rel s0 st \<Longrightarrow> post (grv_process_clock_tick_locked st) (grv_rel s0)"
  unfolding grv_process_clock_tick_locked_def Let_def
  by (rule vf.r_posts bind_value | assumption | simp)+

lemmas grv_handler_rels =
  grv_process_get_request_rel grv_process_forwarded_get_request_locked_rel grv_process_get_request_locked_rel
  grv_process_get_request_unlocked_rel grv_process_get_response_rel grv_process_put_request_rel
  grv_process_put_request_locked_rel grv_process_put_request_unlocked_rel grv_process_put_response_rel
  grv_process_replica_update_rel grv_process_replica_update_vv_locked_rel grv_process_replica_update_vv_unlocked_rel
  grv_process_lst_from_leaf_rel grv_process_lst_from_leaf_root_locked_rel grv_send_gst_to_children_rel
  grv_process_gst_from_root_rel grv_process_gst_from_root_locked_rel grv_process_gst_from_root_unlocked_rel
  grv_process_start_gst_computation_rel grv_process_clock_tick_rel grv_process_clock_tick_locked_rel
  grv_process_clock_tick_unlocked_rel grv_process_heartbeat_rel grv_process_heartbeat_locked_rel
  grv_process_slice_request_rel grv_process_slice_request_locked_rel grv_process_slice_request_unlocked_rel
  grv_process_slice_response_rel grv_process_rotx_request_rel grv_process_rotx_request_locked_rel
  grv_process_rotx_request_unlocked_rel

lemma grv_process_event_rel: "post (grv_process_event t d n st) (vf.handled st)"
  unfolding grv_process_event_def grv_process_lst_from_leaf_root_unlocked_def
  by (intro post_ifI vf.r_on_msg vf.r_no_msg grv_handler_rels grv_rel_refl) simp

end
