(* ===== verification/Grv_Invariant.thy ===== *)
theory Grv_Invariant
  imports Grv_Keep
begin

text \<open>
  The GRV server along its runs: the interpretation of \<open>server_protocol\<close> with \<open>grv_process_event\<close>, and
  the state that \<open>server_init\<close> sets up.
\<close>

section \<open>The interpretation\<close>

definition grv_keep :: "grv_state \<Rightarrow> grv_state \<Rightarrow> bool" where
  "grv_keep st st' \<longleftrightarrow>
     config st' = config st \<and> clock_offset st' = clock_offset st \<and> vec_le (gst_vector st) (gst_vector st') \<and>
     keeps_versions st st' \<and> (store_ok st \<longrightarrow> store_ok st') \<and> (deps_ok st \<longrightarrow> deps_ok st') \<and>
     (v_queues_ok st \<longrightarrow> v_queues_ok st') \<and> (net_ok st \<longrightarrow> net_ok st')"

lemma grv_keep_more:
  "cpu_state.more st1 = cpu_state.more st \<Longrightarrow> cpu_state.more st1' = cpu_state.more st' \<Longrightarrow> grv_keep st1 st1' = grv_keep st st'"
  by (cases st; cases st1; cases st'; cases st1')
    (simp add: grv_keep_def keeps_versions_def store_ok_def deps_ok_def v_queues_ok_def net_ok_def)

lemma grv_keep_trans: "grv_keep a b \<Longrightarrow> grv_keep b c \<Longrightarrow> grv_keep a c"
  by (auto simp: grv_keep_def intro: keeps_versions_trans vec_le_trans)

interpretation grv: server_protocol grv_process_event grv_keep
proof
  fix st :: grv_state and t' c'
  show "grv_keep st (st\<lparr>now := t', clock := c'\<rparr>)"
    by (simp add: grv_keep_def keeps_versions_def store_ok_def deps_ok_def v_queues_ok_def net_ok_def)
next
  fix t d n and st st' :: grv_state
  assume "grv_process_event t d n st = Some (Some st')"
  with grv_process_event_rel [of t d n st] show "cpu_frame st st' \<and> grv_keep st st'"
    by (simp add: post_def vf.handled_def grv_rel_def grv_keep_def)
qed (simp add: grv_keep_def, rule grv_keep_trans, assumption+, rule grv_keep_more)

abbreviation grv_step :: "grv_state \<Rightarrow> grv_state \<Rightarrow> bool" where
  "grv_step \<equiv> lp_step (server_handler grv_process_event)"

section \<open>The initial state\<close>

definition grv_fresh :: "grv_state \<Rightarrow> bool" where
  "grv_fresh st \<longleftrightarrow> fresh_server st \<and> v_queues_ok st \<and>
     gst_vector st = replicate (unat (v_num_replicas st)) 0"

lemma grv_fresh_schedule_self:
  "grv_fresh st \<Longrightarrow> \<not> core_event t \<Longrightarrow> post (server_schedule_self st delay t d n) grv_fresh"
  by (simp add: server_schedule_self_def post_simps Let_def grv_fresh_def fresh_server_def ScheduleNewEvent_def
      v_queues_ok_def)

lemma grv_fresh_gst_start: "grv_fresh st \<Longrightarrow> post (grv_schedule_gst_computation_start st) grv_fresh"
  unfolding grv_schedule_gst_computation_start_def by (rule bind_value grv_fresh_schedule_self | assumption | simp)+

lemma grv_init_state_fresh:
  assumes "fresh_server st"
  shows "post (grv_init_state st) grv_fresh"
  unfolding grv_init_state_def Let_def server_stats_counter_new_def stats_counter_new_def cpu_lock_new_def prod.case
  by (rule bind_post [where P = grv_fresh] bind_value post_ifI post_SomeI grv_fresh_gst_start grv_fresh_schedule_self
      | assumption
      | use assms in \<open>auto simp: grv_fresh_def fresh_server_def v_queues_ok_def queue_of_def
          intro!: exI [of _ "[]"] queue_new_repr\<close>)+

lemma grv_fresh_inv:
  "grv_fresh st \<Longrightarrow> cpu_inv st \<and> store_ok st \<and> deps_ok st \<and> v_queues_ok st \<and> net_ok st \<and>
     length (gst_vector st) = unat (v_num_replicas st)"
  by (simp add: grv_fresh_def fresh_server_def cpu_inv_def store_ok_def deps_ok_def net_ok_def network_inv_init
      store_wf_new chain_at_def store_get_new versions_sorted_def)

text \<open>A server that \<open>server_init\<close> has set up, before its first event.\<close>

definition grv_started :: "(replica_t \<Rightarrow> replica_t \<Rightarrow> rat option) \<Rightarrow> server_config \<Rightarrow> grv_state \<Rightarrow> grv_state \<Rightarrow> bool" where
  "grv_started m c blank st \<longleftrightarrow>
     scheduled blank = [] \<and> 0 < num_cores c \<and> server_init m grv_init_state c (sc_lpid c) 0 blank = Some st"

lemma grv_started_inv:
  assumes "grv_started m c blank st"
  shows "cpu_inv st \<and> store_ok st \<and> deps_ok st \<and> v_queues_ok st \<and> net_ok st \<and>
     length (gst_vector st) = unat (v_num_replicas st)"
  using server_init_fresh [of blank c grv_init_state grv_fresh m "sc_lpid c" 0] grv_init_state_fresh assms
  by (intro grv_fresh_inv) (auto simp: grv_started_def post_def)

lemma grv_run_inv:
  assumes "grv_started m c blank st" and "grv_step\<^sup>*\<^sup>* st st'"
  shows "cpu_inv st'" "store_ok st'" "deps_ok st'" "v_queues_ok st'" "net_ok st'"
    "length (gst_vector st') = unat (v_num_replicas st')"
  using grv_started_inv [OF assms(1)] grv.run_keeps [OF assms(2)]
  by (auto simp: grv_keep_def vec_le_def dest: list_all2_lengthD)

end
