(* ===== verification/Grv_Run.thy ===== *)
theory Grv_Run
  imports Grv_Invariant Run
begin

text \<open>
  A small GRV server, set up by \<open>server_init\<close>, and a script that the properties are tried on.
\<close>

section \<open>A small server\<close>

definition v_demo_blank :: grv_state where
  "v_demo_blank =
     \<lparr>cfg = (\<lambda>_. Some 1), timing_dist = Constant, ignore_initial_seconds = 1000, normal_source = (\<lambda>_. 0),
      expent_source = (\<lambda>_ m. m), draws = 0, scheduled = [],
      cpu_lpid = 0, cpu_queue = cpu_list_init, cores = 0, busy_cores = 0, elapsed_time = 0, cpu_now = 0,
      cpu_st_stats = cpu_stats_new, free_core_after_event_processing = False, allow_no_time = False,
      lock_called = False, locks = [], rwlocks = [], continues_in_scheduled_event = False,
      clock = 0, now = 0, start_time = 0, finished = False, config = demo_config, store = store_new,
      stats = \<lparr>st_arrays = [], st_counters = []\<rparr>, network = network_init, clock_offset = 0,
      v_version_vector = [], gst_vector = [], min_lst_vector = [], v_lst_received = [],
      v_forwarded_get_id = 0, v_forwarded_put_id = 0, lock_vv = 0, lock_gsv = 0,
      v_put_states = ptr_array_init, v_rotx_states = ptr_array_init, v_replica_update_queues = []\<rparr>"

definition v_demo_start :: "grv_state option" where
  "v_demo_start = server_init (\<lambda>_ _. Some 1) grv_init_state demo_config 0 0 v_demo_blank"

definition v_client_put :: "gr_key \<Rightarrow> gr_value \<Rightarrow> grv_msg sim_event" where
  "v_client_put key value = \<lparr>ev_to = 0, ev_time = 1, ev_type = GRV_PUT_REQUEST,
     ev_data = Data (VPutRequest ((grv_put_request_new 2)\<lparr>vputq_client_lpid := 2, vputq_proxy_lpid := NO_PROXY_LPID,
       vputq_key := key, vputq_value := value\<rparr>)), ev_size = 56\<rparr>"

text \<open>
  A client writes a value; while the put waits for the lock, the start of the computation of the stable
  times arrives and is queued, and is processed when the core is free again.
\<close>

definition v_demo_script :: "grv_msg command list" where
  "v_demo_script = [Receive (v_client_put 1 7), Deliver 3, Deliver 1, Deliver 2, Deliver 2, Deliver 4]"

section \<open>Evaluation\<close>

lemmas eval_grv =
  grv_get_request_new_def grv_get_response_new_def grv_put_request_new_def grv_put_response_new_def
  grv_replica_update_new_def grv_slice_request_new_def grv_slice_response_new_def grv_rotx_request_new_def
  grv_rotx_response_new_def grv_heartbeat_new_def grv_lst_from_leaf_new_def grv_gst_from_root_new_def
  vec_copy_def grv_lpid_for_key_def grv_garbage_collect_def grv_is_value_visible_def grv_always_visible_def
  grv_get_value_at_def grv_get_value_def grv_put_value_def grv_stats_get_request_def grv_stats_gst_update_def
  grv_copy_gst_vector_def grv_copy_version_vector_def vec_set_min_def grv_gst_vector_need_update_def
  raise_gst_entry_def grv_update_gst_vector_def grv_count_lst_received_def grv_reset_lst_received_def
  grv_send_gst_def grv_send_gst_to_children_def grv_send_lst_to_parent_def
  grv_schedule_gst_computation_start_def grv_process_lst_from_leaf_def
  grv_process_lst_from_leaf_root_locked_def grv_process_lst_from_leaf_root_unlocked_def
  grv_process_gst_from_root_def grv_process_gst_from_root_locked_def grv_process_gst_from_root_unlocked_def
  grv_process_start_gst_computation_def grv_process_heartbeat_def grv_process_heartbeat_locked_def
  grv_send_heartbeat_message_def grv_send_heartbeat_def sizeof_grv_rotx_state_def grv_rotx_state_new_def
  grv_rotx_state_get_def grv_rotx_state_set_def grv_rotx_state_free_def slice_key_ids_def send_slice_def
  grv_process_rotx_request_unlocked_def grv_process_rotx_request_def grv_process_rotx_request_locked_def
  grv_send_rotx_response_def grv_is_value_visible_snapshot_def slice_read_def
  grv_process_slice_request_unlocked_def grv_process_slice_request_def grv_process_slice_request_locked_def
  slice_store_def grv_process_slice_response_def grv_dequeue_update_def grv_update_fuel_def
  grv_process_replica_update_vv_unlocked_def grv_process_replica_update_def
  grv_process_replica_update_vv_locked_def grv_send_update_def grv_replicate_value_def grv_put_state_new_def
  grv_put_state_get_def grv_put_state_set_def grv_put_state_free_def grv_put_state_message_size_def
  grv_process_get_request_unlocked_def grv_process_get_request_def
  grv_process_forwarded_get_request_locked_def grv_process_get_request_locked_def grv_process_get_response_def
  grv_process_put_request_def grv_process_put_request_locked_def grv_process_put_request_unlocked_def
  grv_process_put_response_def grv_init_state_def grv_process_clock_tick_unlocked_def
  grv_process_clock_tick_def grv_process_clock_tick_locked_def as_VGetRequest_def as_VGetResponse_def
  as_VPutRequest_def as_VPutResponse_def as_VReplicaUpdate_def as_VGstFromRoot_def as_VHeartbeat_def
  as_VLstFromLeaf_def as_VSliceRequest_def as_VSliceResponse_def as_VRotxRequest_def as_VPutStateMessage_def
  as_VSendTime_def grv_process_event_def grv_process_replica_update_work.simps
  replica_update_vv_unlocked.simps update_conflict_def update_older_def chain_at_def sizeof_uint_def
  sizeof_gr_key_def sizeof_gr_value_def sizeof_gr_tsp_def GR_SIMULATED_VALUE_SIZE_def max_array_def
  set_max_def set_min_def

lemmas v_eval_run = eval_base eval_grv v_demo_start_def v_demo_blank_def v_client_put_def

lemma v_demo_run:
  "\<exists>st st'. v_demo_start = Some st \<and> run_script (server_handler grv_process_event) v_demo_script st = Some st' \<and>
     gst_vector st = [0, 0] \<and> gst_vector st' = [3, 0] \<and> chain_at (store st) 1 = [] \<and>
     chain_at (store st') 1 = [\<lparr>it_value = 7, it_update_time = 3, it_source_replica = 0, it_dependency_vector = [0, 0]\<rparr>]"
  by (simp add: v_eval_run v_demo_script_def cong: bind_weak_cong let_weak_cong)

lemma v_demo_start_started: "v_demo_start = Some st \<Longrightarrow> grv_started (\<lambda>_ _. Some 1) demo_config v_demo_blank st"
  by (simp add: grv_started_def v_demo_start_def v_demo_blank_def demo_config_def)

lemma v_demo_started:
  "\<exists>st st'. grv_started (\<lambda>_ _. Some 1) demo_config v_demo_blank st \<and> grv_step\<^sup>*\<^sup>* st st' \<and>
     gst_vector st = [0, 0] \<and> gst_vector st' = [3, 0] \<and> chain_at (store st) 1 = [] \<and>
     chain_at (store st') 1 = [\<lparr>it_value = 7, it_update_time = 3, it_source_replica = 0, it_dependency_vector = [0, 0]\<rparr>]"
  using v_demo_run v_demo_start_started by (metis run_script_steps)

end
