(* ===== verification/Grv_Read.thy ===== *)
theory Grv_Read
  imports Grv_Run
begin

text \<open>
  What a read of a GRV server returns, and how the vector of stable times grows.
\<close>

section \<open>Visibility\<close>

text \<open>A version written here, or one whose dependencies on the other replicas are all stable.\<close>

definition v_visible_here :: "grv_state \<Rightarrow> gr_tsp list \<Rightarrow> grv_item \<Rightarrow> bool" where
  "v_visible_here st t item \<longleftrightarrow>
     it_source_replica item = sc_replica (config st) \<or>
     (\<forall>i < unat (v_num_replicas st). i \<noteq> unat (sc_replica (config st)) \<longrightarrow> it_dependency_vector item ! i \<le> t ! i)"

definition v_item_ok :: "grv_state \<Rightarrow> grv_item \<Rightarrow> bool" where
  "v_item_ok st item \<longleftrightarrow> it_source_replica item < v_num_replicas st \<and>
     length (it_dependency_vector item) = unat (v_num_replicas st)"

lemma covered_returns:
  assumes "can_time st" and "\<forall>i \<in> set is. unat i < length dv \<and> unat i < length t"
  shows "\<exists>n e. dependencies_covered skip is dv t st =
     Some (\<forall>i \<in> set is. skip i \<or> dv ! unat i \<le> t ! unat i, st\<lparr>draws := n, elapsed_time := e\<rparr>)"
  using assms
proof (induction "is" arbitrary: st)
  case Nil
  show ?case by (simp add: exI [of _ "draws st"] exI [of _ "elapsed_time st"])
next
  case (Cons i "is")
  obtain n e where ne: "cpu_add_timing st 1 [''gr'', ''is_value_visible_time''] = Some (st\<lparr>draws := n, elapsed_time := e\<rparr>)"
    using add_timing_returns [OF Cons.prems(1), of 1 "[''gr'', ''is_value_visible_time'']"] by auto
  obtain n' e' where rest: "dependencies_covered skip is dv t (st\<lparr>draws := n, elapsed_time := e\<rparr>) =
      Some (\<forall>i \<in> set is. skip i \<or> dv ! unat i \<le> t ! unat i, st\<lparr>draws := n', elapsed_time := e'\<rparr>)"
    using Cons.IH [of "st\<lparr>draws := n, elapsed_time := e\<rparr>"] Cons.prems by auto
  show ?case
  proof (cases "skip i \<or> dv ! unat i \<le> t ! unat i")
    case True
    then show ?thesis using ne rest Cons.prems(2) by (auto simp: arr_get_def not_less)
  next
    case False
    then show ?thesis using ne Cons.prems(2) by (auto simp: arr_get_def)
  qed
qed

lemma all_replicas: "(\<forall>i \<in> set (idx_upto n). P (unat i)) \<longleftrightarrow> (\<forall>i < unat n. P i)"
  by (auto simp: set_upto word_less_nat_alt) (metis unat_of_nat_u32 order_less_trans unat_u32_less)

lemma visible_returns:
  assumes "can_time st" and "length (it_dependency_vector item) = unat (v_num_replicas st)"
    and "unat (v_num_replicas st) \<le> length t"
  shows "\<exists>n e. grv_is_value_visible st item t = Some (v_visible_here st t item, st\<lparr>draws := n, elapsed_time := e\<rparr>)"
proof -
  obtain n e where ne: "cpu_add_timing st 1 [''gr'', ''is_value_visible_time''] = Some (st\<lparr>draws := n, elapsed_time := e\<rparr>)"
    using add_timing_returns [OF assms(1), of 1 "[''gr'', ''is_value_visible_time'']"] by auto
  let ?skip = "\<lambda>i. i = sc_replica (config st)"
  have "\<forall>i \<in> set (idx_upto (v_num_replicas st)). unat i < length (it_dependency_vector item) \<and> unat i < length t"
    using assms(2,3) by (auto simp: set_upto word_less_nat_alt)
  from covered_returns [OF _ this, of "st\<lparr>draws := n, elapsed_time := e\<rparr>" ?skip] assms(1) obtain n' e' where
    c: "dependencies_covered ?skip (idx_upto (v_num_replicas st)) (it_dependency_vector item) t
        (st\<lparr>draws := n, elapsed_time := e\<rparr>) =
      Some (\<forall>i \<in> set (idx_upto (v_num_replicas st)). ?skip i \<or> it_dependency_vector item ! unat i \<le> t ! unat i,
        st\<lparr>draws := n', elapsed_time := e'\<rparr>)" by auto
  have "(\<forall>i \<in> set (idx_upto (v_num_replicas st)). ?skip i \<or> it_dependency_vector item ! unat i \<le> t ! unat i) \<longleftrightarrow>
      (\<forall>i < unat (v_num_replicas st). i \<noteq> unat (sc_replica (config st)) \<longrightarrow> it_dependency_vector item ! i \<le> t ! i)"
    using all_replicas [of "v_num_replicas st"
        "\<lambda>i. i = unat (sc_replica (config st)) \<or> it_dependency_vector item ! i \<le> t ! i"]
    by (simp add: word_unat_eq_iff) blast
  with ne c show ?thesis by (auto simp: grv_is_value_visible_def v_visible_here_def)
qed

section \<open>Reads\<close>

text \<open>A key of this server with well-formed versions.\<close>

definition v_readable :: "grv_state \<Rightarrow> gr_key \<Rightarrow> bool" where
  "v_readable st key \<longleftrightarrow> grv_lpid_for_key key st = Some (sc_lpid (config st)) \<and> can_time st \<and>
     length (gst_vector st) = unat (v_num_replicas st) \<and> (\<forall>i \<in> set (chain_at (store st) key). v_item_ok st i)"

lemma v_get_value_read:
  assumes "v_readable st key"
  shows "\<exists>v u r n e. grv_get_value st key = Some (v, u, r, st\<lparr>draws := n, elapsed_time := e\<rparr>) \<and>
     read_result (v_visible_here st (gst_vector st)) (chain_at (store st) key) = (v, u, r)"
proof -
  let ?vs = "chain_at (store st) key"
  have t: "can_time st" using assms by (simp add: v_readable_def)
  have "\<exists>n e. first_visible grv_is_value_visible (gst_vector st) ?vs st =
      Some (find (v_visible_here st (gst_vector st)) ?vs, st\<lparr>draws := n, elapsed_time := e\<rparr>)"
  proof (rule first_visible_find [OF _ t])
    fix n e item assume "item \<in> set ?vs"
    then have "\<exists>n' e'. grv_is_value_visible (st\<lparr>draws := n, elapsed_time := e\<rparr>) item (gst_vector st) =
        Some (v_visible_here (st\<lparr>draws := n, elapsed_time := e\<rparr>) (gst_vector st) item,
          (st\<lparr>draws := n, elapsed_time := e\<rparr>)\<lparr>draws := n', elapsed_time := e'\<rparr>)"
      using assms by (intro visible_returns) (simp_all add: v_readable_def v_item_ok_def)
    then show "\<exists>n' e'. grv_is_value_visible (st\<lparr>draws := n, elapsed_time := e\<rparr>) item (gst_vector st) =
        Some (v_visible_here st (gst_vector st) item, st\<lparr>draws := n', elapsed_time := e'\<rparr>)"
      by (simp add: v_visible_here_def)
  qed (use assms in \<open>simp add: v_readable_def v_item_ok_def\<close>)
  then obtain n e where
    1: "first_visible grv_is_value_visible (gst_vector st) ?vs st =
      Some (find (v_visible_here st (gst_vector st)) ?vs, st\<lparr>draws := n, elapsed_time := e\<rparr>)" by blast
  obtain n' e' where
    2: "cpu_add_timing (st\<lparr>draws := n, elapsed_time := e\<rparr>) 1 [''gr'', ''get_value_time''] =
      Some (st\<lparr>draws := n', elapsed_time := e'\<rparr>)"
    using add_timing_returns [of "st\<lparr>draws := n, elapsed_time := e\<rparr>" 1 "[''gr'', ''get_value_time'']"] t by auto
  have 3: "?vs = [] \<or> it_source_replica (hd ?vs) < v_num_replicas st"
    using assms by (cases ?vs) (auto simp: v_readable_def v_item_ok_def)
  show ?thesis
    using assms 1 2 3
    by (auto simp: grv_get_value_def grv_get_value_at_def v_readable_def read_result_def Let_def split: option.splits)
qed

text \<open>A server that holds three versions of key 1.\<close>

definition v_demo_loaded :: grv_state where
  "v_demo_loaded = v_demo_blank\<lparr>gst_vector := [40, 15], store := store_put store_new 1
     [\<lparr>it_value = 7, it_update_time = 35, it_source_replica = 1, it_dependency_vector = [10, 20]\<rparr>,
      \<lparr>it_value = 5, it_update_time = 12, it_source_replica = 1, it_dependency_vector = [10, 12]\<rparr>,
      \<lparr>it_value = 3, it_update_time = 10, it_source_replica = 0, it_dependency_vector = [0, 0]\<rparr>]\<rparr>"

lemma v_demo_loaded_ok: "v_readable v_demo_loaded 1" "store_ok v_demo_loaded"
proof -
  have "can_time v_demo_loaded"
    by (auto simp: v_demo_loaded_def v_demo_blank_def can_time_def timing_ok_def)
  then show "v_readable v_demo_loaded 1"
    by (simp add: v_readable_def v_demo_loaded_def v_demo_blank_def demo_config_def grv_lpid_for_key_def
        partition_for_key_def cluster_get_lpid_def partition_index_def arr_get_def chain_at_def store_get_put v_item_ok_def)
  show "store_ok v_demo_loaded"
    by (simp add: store_ok_def v_demo_loaded_def store_wf_put store_wf_new chain_at_def store_get_put store_get_new
        versions_sorted_def)
qed

text \<open>C16: reading a key on the GRV server that stores it succeeds and returns the newest version the reader
  may see: the newest one written in this replica, or whose dependencies on every other replica are
  covered by the vector of stable times.\<close>

theorem v_get_value_newest:
  assumes "v_readable st key" and "store_ok st"
  shows "\<exists>v u r n e. grv_get_value st key = Some (v, u, r, st\<lparr>draws := n, elapsed_time := e\<rparr>) \<and>
     newest_visible (v_visible_here st (gst_vector st)) (chain_at (store st) key) (v, u, r)"
proof -
  have "versions_sorted (chain_at (store st) key)" using assms(2) by (simp add: store_ok_def)
  with v_get_value_read [OF assms(1)] show ?thesis by (metis read_result_newest)
qed

theorem v_get_value_newest_witness:
  "\<exists>v u r n e. grv_get_value v_demo_loaded 1 = Some (v, u, r, v_demo_loaded\<lparr>draws := n, elapsed_time := e\<rparr>) \<and>
     newest_visible (v_visible_here v_demo_loaded (gst_vector v_demo_loaded)) (chain_at (store v_demo_loaded) 1) (v, u, r)"
  by (rule v_get_value_newest [OF v_demo_loaded_ok])

end
