(* ===== verification/Monotonic.thy ===== *)
theory Monotonic
  imports Gr_Read Grv_Read
begin

text \<open>
  Monotonic reads: along a run of a server, reads of a key never go back to an older version. The
  store keeps every version, the versions stay ordered and what is visible only grows with the stable
  time, so the newest visible version only gets newer.
\<close>

section \<open>What a returned read tells\<close>

lemma gr_get_value_returned:
  assumes "gr_get_value st key = Some (v, u, r, st')"
  shows "read_result (visible_here st (gst st)) (chain_at (store st) key) = (v, u, r)"
proof -
  from assms obtain x s where
    f: "first_visible gr_is_value_visible (gst st) (chain_at (store st) key) st = Some (x, s)"
    and r: "(v, u, r) = (case x of None \<Rightarrow> (0, 0, 0) | Some i \<Rightarrow> (it_value i, it_update_time i, it_source_replica i))"
    by (auto simp: gr_get_value_def gr_get_value_at_def bind_eq_Some_conv Let_def split: option.splits)
  have "x = find (visible_here st (gst st)) (chain_at (store st) key)"
  proof (rule first_visible_partial [OF _ light_refl f])
    fix s item b s' assume s: "light st s" and b: "gr_is_value_visible s item (gst st) = Some (b, s')"
    from postD [OF light_visible [OF s] b] have "light st s'" by simp
    moreover have "b = visible_here st (gst st) item"
      using b lightD(1) [OF \<open>light st s'\<close>] by (auto simp: gr_is_value_visible_def bind_eq_Some_conv visible_here_def)
    ultimately show "b = visible_here st (gst st) item \<and> light st s'" by simp
  qed
  with r show ?thesis by (simp add: read_result_def split: option.splits)
qed

lemma covered_answer:
  assumes "dependencies_covered skip is dv t s = Some (b, s')"
  shows "b = (\<forall>i \<in> set is. skip i \<or> dv ! unat i \<le> t ! unat i)"
  using assms
  by (induction "is" arbitrary: s) (auto simp: bind_eq_Some_conv arr_get_eq_Some not_less split: if_splits)

lemma grv_visible_answer:
  assumes "grv_is_value_visible s item t = Some (b, s')"
  shows "b = v_visible_here s t item"
proof -
  from assms obtain s1 where s1: "cpu_add_timing s 1 [''gr'', ''is_value_visible_time''] = Some s1"
    and b: "(if it_source_replica item = sc_replica (config s1) then Some (True, s1)
      else dependencies_covered (\<lambda>i. i = sc_replica (config s1)) (idx_upto (v_num_replicas s1))
             (it_dependency_vector item) t s1) = Some (b, s')"
    by (auto simp: grv_is_value_visible_def bind_eq_Some_conv)
  have c: "config s1 = config s" using store_add_timing [OF s1] by simp
  have "(\<forall>i \<in> set (idx_upto (v_num_replicas s)). i = sc_replica (config s) \<or> it_dependency_vector item ! unat i \<le> t ! unat i) \<longleftrightarrow>
      (\<forall>i < unat (v_num_replicas s). i \<noteq> unat (sc_replica (config s)) \<longrightarrow> it_dependency_vector item ! i \<le> t ! i)"
    using all_replicas [of "v_num_replicas s"
        "\<lambda>i. i = unat (sc_replica (config s)) \<or> it_dependency_vector item ! i \<le> t ! i"]
    by (simp add: word_unat_eq_iff) blast
  with b c show ?thesis by (auto simp: v_visible_here_def split: if_splits dest: covered_answer)
qed

lemma grv_get_value_returned:
  assumes "grv_get_value st key = Some (v, u, r, st')"
  shows "read_result (v_visible_here st (gst_vector st)) (chain_at (store st) key) = (v, u, r)"
proof -
  from assms obtain x s where
    f: "first_visible grv_is_value_visible (gst_vector st) (chain_at (store st) key) st = Some (x, s)"
    and r: "(v, u, r) = (case x of None \<Rightarrow> (0, 0, 0) | Some i \<Rightarrow> (it_value i, it_update_time i, it_source_replica i))"
    by (auto simp: grv_get_value_def grv_get_value_at_def bind_eq_Some_conv Let_def split: option.splits)
  have "x = find (v_visible_here st (gst_vector st)) (chain_at (store st) key)"
  proof (rule first_visible_partial [OF _ light_refl f])
    fix s item b s' assume s: "light st s" and b: "grv_is_value_visible s item (gst_vector st) = Some (b, s')"
    from postD [OF v_light_visible [OF s] b] have "light st s'" by simp
    moreover have "b = v_visible_here st (gst_vector st) item"
      using grv_visible_answer [OF b] lightD(1) [OF s] by (simp add: v_visible_here_def)
    ultimately show "b = v_visible_here st (gst_vector st) item \<and> light st s'" by simp
  qed
  with r show ?thesis by (simp add: read_result_def split: option.splits)
qed

text \<open>The comparison of the two reads, for versions that are only added and a visibility that only grows.\<close>

lemma reads_compare:
  assumes "versions_sorted vs" and "versions_sorted vs'" and "suffix vs vs'"
    and "\<And>i. i \<in> set vs \<Longrightarrow> P i \<Longrightarrow> P' i"
    and "read_result P vs = (v1, u1, r1)" and "read_result P' vs' = (v2, u2, r2)" and "\<exists>i \<in> set vs. P i"
  shows "u1 \<le> u2"
proof -
  from assms(7) obtain i where i: "find P vs = Some i" by (cases "find P vs") (auto simp: find_None_iff)
  with find_newest [OF assms(1) i] have "i \<in> set vs" "P i" by auto
  from newest_mono [where P = P and P' = P', OF assms(2-4) this] obtain j where
    "find P' vs' = Some j" "it_update_time i \<le> it_update_time j" by auto
  with i assms(5,6) show ?thesis by (simp add: read_result_def)
qed

section \<open>GentleRain\<close>

text \<open>C7: two reads of a key by a GentleRain server at two moments of a run: once a version is visible, the
  later read does not return an older version than the earlier one.\<close>

theorem gr_monotonic_reads:
  assumes "gr_started m c blank st" and "gr_step\<^sup>*\<^sup>* st st1" and "gr_step\<^sup>*\<^sup>* st1 st2"
    and "gr_get_value st1 key = Some (v1, u1, r1, s1)" and "gr_get_value st2 key = Some (v2, u2, r2, s2)"
    and "\<exists>i \<in> set (chain_at (store st1) key). visible_here st1 (gst st1) i"
  shows "u1 \<le> u2"
proof -
  have inv1: "cpu_inv st1 \<and> store_ok st1" using gr_run_inv [OF assms(1,2)] by simp
  have k: "gr_keep st1 st2" using gr_run_keeps(2) [OF assms(3)] inv1 by simp
  show ?thesis
  proof (rule reads_compare)
    show "versions_sorted (chain_at (store st1) key)" "versions_sorted (chain_at (store st2) key)"
      using inv1 k by (simp_all add: store_ok_def gr_keep_def)
    show "suffix (chain_at (store st1) key) (chain_at (store st2) key)"
      using k by (simp add: gr_keep_def keeps_versions_def)
    show "visible_here st2 (gst st2) i" if "visible_here st1 (gst st1) i" for i
      using that k by (auto simp: visible_here_def gr_keep_def)
  qed (use gr_get_value_returned [OF assms(4)] gr_get_value_returned [OF assms(5)] assms(6) in auto)
qed

definition demo_second_put :: "gr_msg command list" where
  "demo_second_put = [Deliver 5, Receive ((client_put 1 9)\<lparr>ev_time := 400\<rparr>), Deliver 5, Deliver 5]"

lemma demo_two_reads:
  "\<exists>st st1 st2 s1 s2. demo_start = Some st \<and> run_script (server_handler gr_process_event) demo_script st = Some st1 \<and>
     run_script (server_handler gr_process_event) demo_second_put st1 = Some st2 \<and>
     (\<exists>i \<in> set (chain_at (store st1) 1). it_source_replica i = sc_replica (config st1)) \<and>
     gr_get_value st1 1 = Some (7, 35, 0, s1) \<and> gr_get_value st2 1 = Some (9, 434, 0, s2)"
  by (simp add: eval_run demo_script_def demo_second_put_def cong: bind_weak_cong let_weak_cong)

theorem gr_monotonic_reads_witness:
  "\<exists>st st1 st2 s1 s2 u1 u2. gr_started (\<lambda>_ _. Some 1) demo_config demo_blank st \<and> gr_step\<^sup>*\<^sup>* st st1 \<and> gr_step\<^sup>*\<^sup>* st1 st2 \<and>
     gr_get_value st1 1 = Some (7, u1, 0, s1) \<and> gr_get_value st2 1 = Some (9, u2, 0, s2) \<and> u1 \<le> u2"
proof -
  from demo_two_reads obtain st st1 st2 s1 s2 where s: "demo_start = Some st"
    and r1: "run_script (server_handler gr_process_event) demo_script st = Some st1"
    and r2: "run_script (server_handler gr_process_event) demo_second_put st1 = Some st2"
    and i: "\<exists>i \<in> set (chain_at (store st1) 1). it_source_replica i = sc_replica (config st1)"
    and g: "gr_get_value st1 1 = Some (7, 35, 0, s1)" "gr_get_value st2 1 = Some (9, 434, 0, s2)" by blast
  note run = demo_start_started [OF s] run_script_steps [OF r1] run_script_steps [OF r2]
  have "\<exists>i \<in> set (chain_at (store st1) 1). visible_here st1 (gst st1) i" using i by (auto simp: visible_here_def)
  from gr_monotonic_reads [OF run g this] run g show ?thesis by blast
qed

section \<open>GRV\<close>

text \<open>C8: the same for a GRV server, whose vector of stable times and dependency vectors decide what is
  visible.\<close>

theorem grv_monotonic_reads:
  assumes "grv_started m c blank st" and "grv_step\<^sup>*\<^sup>* st st1" and "grv_step\<^sup>*\<^sup>* st1 st2"
    and "grv_get_value st1 key = Some (v1, u1, r1, s1)" and "grv_get_value st2 key = Some (v2, u2, r2, s2)"
    and "\<exists>i \<in> set (chain_at (store st1) key). v_visible_here st1 (gst_vector st1) i"
  shows "u1 \<le> u2"
proof -
  note inv1 = grv_run_inv [OF assms(1,2)]
  have k: "grv_keep st1 st2" by (rule grv.run_keeps(2) [OF assms(3) inv1(1)])
  show ?thesis
  proof (rule reads_compare)
    show "versions_sorted (chain_at (store st1) key)" "versions_sorted (chain_at (store st2) key)"
      using inv1 k by (simp_all add: store_ok_def grv_keep_def)
    show "suffix (chain_at (store st1) key) (chain_at (store st2) key)"
      using k by (simp add: grv_keep_def keeps_versions_def)
    have "gst_vector st1 ! i \<le> gst_vector st2 ! i" if "i < unat (v_num_replicas st1)" for i
      using that k inv1(6) by (simp add: grv_keep_def vec_le_def list_all2_conv_all_nth)
    then show "v_visible_here st2 (gst_vector st2) i" if "v_visible_here st1 (gst_vector st1) i" for i
      using that k by (fastforce simp: v_visible_here_def grv_keep_def intro: order_trans)
  qed (use grv_get_value_returned [OF assms(4)] grv_get_value_returned [OF assms(5)] assms(6) in auto)
qed

definition v_demo_second_put :: "grv_msg command list" where
  "v_demo_second_put = [Deliver 5, Receive ((v_client_put 1 9)\<lparr>ev_time := 1000\<rparr>), Deliver 5, Deliver 5]"

lemma v_demo_two_reads:
  "\<exists>st st1 st2 s1 s2. v_demo_start = Some st \<and> run_script (server_handler grv_process_event) v_demo_script st = Some st1 \<and>
     run_script (server_handler grv_process_event) v_demo_second_put st1 = Some st2 \<and>
     (\<exists>i \<in> set (chain_at (store st1) 1). it_source_replica i = sc_replica (config st1)) \<and>
     grv_get_value st1 1 = Some (7, 3, 0, s1) \<and> grv_get_value st2 1 = Some (9, 1002, 0, s2)"
  by (simp add: v_eval_run v_demo_script_def v_demo_second_put_def cong: bind_weak_cong let_weak_cong)

theorem grv_monotonic_reads_witness:
  "\<exists>st st1 st2 s1 s2 u1 u2. grv_started (\<lambda>_ _. Some 1) demo_config v_demo_blank st \<and> grv_step\<^sup>*\<^sup>* st st1 \<and>
     grv_step\<^sup>*\<^sup>* st1 st2 \<and> grv_get_value st1 1 = Some (7, u1, 0, s1) \<and> grv_get_value st2 1 = Some (9, u2, 0, s2) \<and> u1 \<le> u2"
proof -
  from v_demo_two_reads obtain st st1 st2 s1 s2 where s: "v_demo_start = Some st"
    and r1: "run_script (server_handler grv_process_event) v_demo_script st = Some st1"
    and r2: "run_script (server_handler grv_process_event) v_demo_second_put st1 = Some st2"
    and i: "\<exists>i \<in> set (chain_at (store st1) 1). it_source_replica i = sc_replica (config st1)"
    and g: "grv_get_value st1 1 = Some (7, 3, 0, s1)" "grv_get_value st2 1 = Some (9, 1002, 0, s2)" by blast
  note run = v_demo_start_started [OF s] run_script_steps [OF r1] run_script_steps [OF r2]
  have "\<exists>i \<in> set (chain_at (store st1) 1). v_visible_here st1 (gst_vector st1) i" using i by (auto simp: v_visible_here_def)
  from grv_monotonic_reads [OF run g this] run g show ?thesis by blast
qed

end
