(* ===== verification/Grv_Stable.thy ===== *)
theory Grv_Stable
  imports Grv_Read
begin

text \<open>
  The vector of stable times of a GRV server. Its update is the pointwise maximum; the test that
  decides whether the lock is taken is exact; what a round of reports over the partition tree computes
  is the pointwise minimum.
\<close>

section \<open>The update\<close>

definition vec_max :: "gr_tsp list \<Rightarrow> gr_tsp list \<Rightarrow> gr_tsp list" where
  "vec_max = map2 max"

definition raise_at :: "gr_tsp list \<Rightarrow> u32 \<Rightarrow> gr_tsp list \<Rightarrow> gr_tsp list" where
  "raise_at v i g = g[unat i := max (g ! unat i) (v ! unat i)]"

lemma length_raise_at [simp]: "length (raise_at v i g) = length g"
  by (simp add: raise_at_def)

lemma fold_update_nth:
  "length (fold (\<lambda>i g. g[i := f (g ! i) i]) [0..<n] g) = length g \<and>
   (\<forall>j < length g. fold (\<lambda>i g. g[i := f (g ! i) i]) [0..<n] g ! j = (if j < n then f (g ! j) j else g ! j))"
proof (induction n)
  case (Suc n)
  then show ?case by (auto simp: nth_list_update less_Suc_eq)
qed simp

lemma fold_raise:
  assumes "length g = unat n" and "unat n \<le> length v"
  shows "fold (raise_at v) (idx_upto n) g = vec_max g (take (unat n) v)"
proof -
  have "fold (raise_at v) (idx_upto n) g = fold (\<lambda>i g. g[i := max (g ! i) (v ! i)]) [0..<unat n] g"
    unfolding idx_upto_def fold_map comp_def
    by (rule fold_cong [OF refl refl]) (auto simp: raise_at_def fun_eq_iff unat_of_nat_u32)
  then show ?thesis
    using fold_update_nth [of "\<lambda>x i. max x (v ! i)" "unat n" g] assms
    by (intro nth_equalityI) (auto simp: vec_max_def)
qed

lemma light_gst_vector: "light (a :: grv_state) b \<Longrightarrow> light (a\<lparr>gst_vector := g\<rparr>) (b\<lparr>gst_vector := g\<rparr>)"
proof -
  have "heavy (a\<lparr>gst_vector := g\<rparr>) = (heavy a)\<lparr>gst_vector := g\<rparr>" for a :: grv_state by (simp add: heavy_def)
  then show "light a b \<Longrightarrow> light (a\<lparr>gst_vector := g\<rparr>) (b\<lparr>gst_vector := g\<rparr>)" by (simp add: light_def)
qed

lemma v_lightD: "light (st :: grv_state) st' \<Longrightarrow> gst_vector st' = gst_vector st \<and> v_version_vector st' = v_version_vector st"
  using lightD(6) [of st st'] by (cases st; cases st'; simp)

lemma light_can_time: "light (st :: grv_state) st' \<Longrightarrow> can_time st' = can_time st"
proof -
  have "can_time (heavy st) = can_time st" for st :: grv_state by (simp add: heavy_def)
  then show "light st st' \<Longrightarrow> can_time st' = can_time st" unfolding light_def by metis
qed

lemma timing_light:
  assumes "can_time st" and "0 \<le> k"
  shows "\<exists>st'. cpu_add_timing st k p = Some st' \<and> light st st' \<and> stats st' = stats st"
  using add_timing_returns [OF assms, of p] by auto

lemma raise_loop_returns:
  assumes "can_time st" and "\<forall>i \<in> set is. unat i < length v \<and> unat i < length (gst_vector st)"
  shows "\<exists>inc st'. foldM (raise_gst_entry v) is (b, st) = Some (inc, st') \<and>
     light (st\<lparr>gst_vector := fold (raise_at v) is (gst_vector st)\<rparr>) st' \<and> stats st' = stats st"
  using assms
proof (induction "is" arbitrary: b st)
  case Nil
  show ?case by simp
next
  case (Cons i "is")
  let ?g = "gst_vector st"
  have "\<exists>b' st1. raise_gst_entry v i (b, st) = Some (b', st1) \<and> light (st\<lparr>gst_vector := raise_at v i ?g\<rparr>) st1 \<and>
      stats st1 = stats st"
  proof (cases "?g ! unat i < v ! unat i")
    case True
    then have g: "raise_at v i ?g = ?g[unat i := v ! unat i]" by (simp add: raise_at_def max_def)
    have "can_time (st\<lparr>gst_vector := raise_at v i ?g\<rparr>)"
      using Cons.prems(1) by (simp add: can_time_def timing_ok_def)
    from timing_light [OF this, of 1 "[''grv'', ''update_gst_vector_per_update_time'']"] show ?thesis
      using True Cons.prems(2) by (auto simp: raise_gst_entry_def arr_get_def arr_set_def g)
  next
    case False
    then have "raise_at v i ?g = ?g" by (simp add: raise_at_def max_def not_less list_update_id)
    with False show ?thesis using Cons.prems(2) by (auto simp: raise_gst_entry_def arr_get_def)
  qed
  then obtain b' st1 where 1: "raise_gst_entry v i (b, st) = Some (b', st1)"
    and l1: "light (st\<lparr>gst_vector := raise_at v i ?g\<rparr>) st1" and s1: "stats st1 = stats st" by blast
  have g1: "gst_vector st1 = raise_at v i ?g" using v_lightD [OF l1] by simp
  have "can_time st1" using light_can_time [OF l1] Cons.prems(1) by (simp add: can_time_def timing_ok_def)
  with Cons.IH [of st1 b'] Cons.prems(2) g1 s1 obtain inc st2 where
    2: "foldM (raise_gst_entry v) is (b', st1) = Some (inc, st2)"
    and l2: "light (st1\<lparr>gst_vector := fold (raise_at v) is (raise_at v i ?g)\<rparr>) st2" and s2: "stats st2 = stats st" by auto
  from light_gst_vector [OF l1, of "fold (raise_at v) is (raise_at v i ?g)"] l2
  have "light (st\<lparr>gst_vector := fold (raise_at v) is (raise_at v i ?g)\<rparr>) st2" by (auto intro: light_trans)
  with 1 2 s2 show ?case by auto
qed

text \<open>The statistics of an update walk over all versions in the store.\<close>

definition v_ready :: "grv_state \<Rightarrow> bool" where
  "v_ready st \<longleftrightarrow> can_time st \<and> unat VISIBILITY_LATENCY < length (st_arrays (stats st))"

definition v_counted :: "grv_state \<Rightarrow> grv_state \<Rightarrow> bool" where
  "v_counted st st' \<longleftrightarrow> v_ready st' \<and> light st st'"

lemma v_counted_refl: "v_ready st \<Longrightarrow> v_counted st st"
  by (simp add: v_counted_def)

lemma v_counted_trans: "v_counted a b \<Longrightarrow> v_counted b c \<Longrightarrow> v_counted a c"
  by (auto simp: v_counted_def intro: light_trans)

lemma v_counted_visible:
  assumes "v_ready st" and "length (it_dependency_vector item) = unat (v_num_replicas st)"
    and "unat (v_num_replicas st) \<le> length t"
  shows "\<exists>b st'. grv_is_value_visible st item t = Some (b, st') \<and> v_counted st st'"
proof -
  from visible_returns [OF _ assms(2,3)] assms(1) obtain n e where
    "grv_is_value_visible st item t = Some (v_visible_here st t item, st\<lparr>draws := n, elapsed_time := e\<rparr>)"
    by (auto simp: v_ready_def)
  moreover have "v_counted st (st\<lparr>draws := n, elapsed_time := e\<rparr>)"
    using assms(1) by (simp add: v_counted_def v_ready_def)
  ultimately show ?thesis by blast
qed

lemma v_counted_push:
  assumes "v_ready st"
  shows "\<exists>st'. server_stats_array_push st VISIBILITY_LATENCY x = Some st' \<and> v_counted st st'"
proof (cases "now st < ignore_initial_seconds st")
  case True
  with assms show ?thesis by (simp add: server_stats_array_push_def v_ready_def v_counted_refl)
next
  case False
  let ?a = "st_arrays (stats st) ! unat VISIBILITY_LATENCY"
  let ?s = "(stats st)\<lparr>st_arrays := (st_arrays (stats st))
    [unat VISIBILITY_LATENCY := ?a\<lparr>sa_values := parray_push (sa_values ?a) x\<rparr>]\<rparr>"
  have "v_counted st (st\<lparr>stats := ?s\<rparr>)"
    using assms by (simp add: v_counted_def v_ready_def)
  with False assms show ?thesis by (auto simp: server_stats_array_push_def v_ready_def arr_get_def arr_set_def)
qed

lemma update_item_returns:
  assumes "v_ready st" and "\<forall>item \<in> set versions. length (it_dependency_vector item) = unat (v_num_replicas st)"
    and "unat (v_num_replicas st) \<le> length old" and "unat (v_num_replicas st) \<le> length new"
  shows "\<exists>st'. gst_vector_update_item old new versions st = Some st' \<and> v_counted st st'"
  using assms
proof (induction versions arbitrary: st)
  case Nil
  then show ?case by (simp add: v_counted_refl)
next
  case (Cons item older)
  from v_counted_visible [OF Cons.prems(1), of item old] Cons.prems obtain b st1 where
    1: "grv_is_value_visible st item old = Some (b, st1)" and c1: "v_counted st st1" by auto
  show ?case
  proof (cases b)
    case True
    with 1 c1 show ?thesis by simp
  next
    case False
    have cfg1: "config st1 = config st" and r1: "v_ready st1" using c1 by (auto simp: v_counted_def lightD)
    from v_counted_visible [OF r1, of item new] Cons.prems cfg1 obtain b2 st2 where
      2: "grv_is_value_visible st1 item new = Some (b2, st2)" and c2: "v_counted st1 st2" by auto
    have r2: "v_ready st2" using c2 by (simp add: v_counted_def)
    obtain st3 where 3: "(if b2 then server_stats_array_push st2 VISIBILITY_LATENCY (now st2 - it_update_time item)
        else Some st2) = Some st3" and c3: "v_counted st2 st3"
      using v_counted_push [OF r2] v_counted_refl [OF r2] by (cases b2) auto
    have c: "v_counted st st3" by (rule v_counted_trans [OF c1 v_counted_trans [OF c2 c3]])
    then have "config st3 = config st" and "v_ready st3" by (auto simp: v_counted_def lightD)
    with Cons.IH [of st3] Cons.prems obtain st' where
      "gst_vector_update_item old new older st3 = Some st'" "v_counted st3 st'" by auto
    with 1 2 3 False v_counted_trans [OF c] show ?thesis by auto
  qed
qed

lemma stats_gst_update_returns:
  assumes "v_ready st" and "store_ok st" and "deps_ok st"
    and "unat (v_num_replicas st) \<le> length old" and "unat (v_num_replicas st) \<le> length new"
  shows "\<exists>st'. grv_stats_gst_update st old new = Some st' \<and> v_counted st st'"
proof (cases "now st < ignore_initial_seconds st")
  case True
  with assms(1) show ?thesis by (simp add: grv_stats_gst_update_def v_counted_refl)
next
  case False
  let ?f = "\<lambda>(key, versions). gst_vector_update_item old new versions"
  have wf: "store_wf (store st)" using assms(2) by (simp add: store_ok_def)
  have "returns (foldM ?f (store_items (store st)) st) (v_counted st)"
  proof (rule returns_foldM)
    fix x st1 assume "x \<in> set (store_items (store st))" and c: "v_counted st st1"
    moreover obtain k vs where kv: "x = (k, vs)" by force
    ultimately have x: "x = (k, vs)" "store_get (store st) k = Some vs"
      using store_items_get [OF wf] by simp_all
    then have "\<forall>item \<in> set vs. length (it_dependency_vector item) = unat (v_num_replicas st)"
      using assms(3) by (auto simp: deps_ok_def chain_at_def dest: spec [of _ k])
    moreover have "config st1 = config st" "v_ready st1" using c by (auto simp: v_counted_def lightD)
    ultimately obtain st2 where "gst_vector_update_item old new vs st1 = Some st2" "v_counted st1 st2"
      using update_item_returns [of st1 vs old new] assms(4,5) by auto
    with x v_counted_trans [OF c] show "returns (?f x st1) (v_counted st)" by (auto simp: returns_def)
  qed (rule v_counted_refl [OF assms(1)])
  then obtain st1 where 1: "foldM ?f (store_items (store st)) st = Some st1" "v_counted st st1"
    by (auto simp: returns_def)
  have "v_counted st1 (cpu_set_elapsed_time st1 t)" for t
    using 1(2) by (simp add: v_counted_def v_ready_def cpu_set_elapsed_time_def)
  with 1 False v_counted_trans show ?thesis
    by (auto simp: grv_stats_gst_update_def store_foreach_items Let_def)
qed

lemma update_gst_vector_returns:
  assumes "v_ready st" and "store_ok st" and "deps_ok st"
    and "length (gst_vector st) = unat (v_num_replicas st)" and "unat (v_num_replicas st) \<le> length v"
  shows "\<exists>st'. grv_update_gst_vector st v = Some st' \<and>
     v_counted (st\<lparr>gst_vector := vec_max (gst_vector st) (take (unat (v_num_replicas st)) v)\<rparr>) st'"
proof -
  let ?n = "v_num_replicas st"
  let ?g = "vec_max (gst_vector st) (take (unat ?n) v)"
  have len: "length ?g = unat ?n" using assms(4,5) by (simp add: vec_max_def)
  have "can_time st" using assms(1) by (simp add: v_ready_def)
  moreover have "\<forall>i \<in> set (idx_upto ?n). unat i < length v \<and> unat i < length (gst_vector st)"
    using assms(4,5) by (auto simp: set_upto word_less_nat_alt)
  ultimately obtain inc st1 where
    1: "foldM (raise_gst_entry v) (idx_upto ?n) (False, st) = Some (inc, st1)"
    and l1: "light (st\<lparr>gst_vector := ?g\<rparr>) st1" and s1: "stats st1 = stats st"
    using raise_loop_returns [of st "idx_upto ?n" v False] fold_raise [OF assms(4,5)] by auto
  have cfg1: "config st1 = config st" using lightD(1) [OF l1] by simp
  have "can_time st1" using light_can_time [OF l1] assms(1) by (simp add: v_ready_def can_time_def timing_ok_def)
  from timing_light [OF this of_nat_0_le_iff [of "unat ?n"], of "[''grv'', ''update_gst_vector_per_replica_time'']"] obtain st2 where
    2: "cpu_add_timing st1 (of_nat (unat ?n)) [''grv'', ''update_gst_vector_per_replica_time''] = Some st2"
    and l2: "light st1 st2" and s2: "stats st2 = stats st" by (auto simp: s1)
  have l: "light (st\<lparr>gst_vector := ?g\<rparr>) st2" by (rule light_trans [OF l1 l2])
  have r2: "v_ready st2" using light_can_time [OF l] assms(1) s2 by (simp add: v_ready_def can_time_def timing_ok_def)
  have st2: "config st2 = config st" "store st2 = store st" "gst_vector st2 = ?g"
    using lightD [OF l] v_lightD [OF l] by simp_all
  have "store_ok st2" "deps_ok st2" using assms(2,3) st2 by (simp_all add: store_ok_def deps_ok_def)
  then obtain st' where
    3: "(if inc then grv_stats_gst_update st2 (gst_vector st) (gst_vector st2) else Some st2) = Some st'"
    and c: "v_counted st2 st'"
    using stats_gst_update_returns [OF r2, of "gst_vector st" "gst_vector st2"] v_counted_refl [OF r2] st2 len assms(4)
    by (cases inc) auto
  have "v_counted (st\<lparr>gst_vector := ?g\<rparr>) st'" using l r2 c by (auto simp: v_counted_def intro: light_trans)
  with 1 2 3 assms(4) cfg1 show ?thesis
    by (auto simp: grv_update_gst_vector_def grv_copy_gst_vector_def vec_copy_def)
qed

section \<open>The test\<close>

lemma need_update_loop_returns:
  assumes "can_time st" and "\<forall>i \<in> set is. unat i < length v \<and> unat i < length (gst_vector st)"
  shows "\<exists>n e. need_update_loop is v st =
     Some (\<exists>i \<in> set is. gst_vector st ! unat i < v ! unat i, st\<lparr>draws := n, elapsed_time := e\<rparr>)"
  using assms
proof (induction "is" arbitrary: st)
  case Nil
  show ?case by (simp add: exI [of _ "draws st"] exI [of _ "elapsed_time st"])
next
  case (Cons i "is")
  obtain n e where ne: "cpu_add_timing st 1 [''grv'', ''check_gst_vector_per_replica_time''] =
      Some (st\<lparr>draws := n, elapsed_time := e\<rparr>)"
    using add_timing_returns [OF Cons.prems(1), of 1 "[''grv'', ''check_gst_vector_per_replica_time'']"] by auto
  obtain n' e' where "need_update_loop is v (st\<lparr>draws := n, elapsed_time := e\<rparr>) =
      Some (\<exists>i \<in> set is. gst_vector st ! unat i < v ! unat i, st\<lparr>draws := n', elapsed_time := e'\<rparr>)"
    using Cons.IH [of "st\<lparr>draws := n, elapsed_time := e\<rparr>"] Cons.prems by auto
  with ne show ?case using Cons.prems(2) by (auto simp: arr_get_def)
qed

lemma vec_max_same:
  assumes "length g = length v"
  shows "vec_max g v \<noteq> g \<longleftrightarrow> (\<exists>i < length g. g ! i < v ! i)"
proof -
  have "vec_max g v = g \<longleftrightarrow> (\<forall>i < length g. max (g ! i) (v ! i) = g ! i)"
    using assms by (auto simp: vec_max_def list_eq_iff_nth_eq)
  then show ?thesis by (auto simp: max_def not_le not_less split: if_splits)
qed

section \<open>Correctness\<close>

lemma v_demo_ready: "v_ready (v_demo_loaded\<lparr>stats := the server_stats_new\<rparr>)" "deps_ok v_demo_loaded"
  by (auto simp: v_ready_def v_demo_loaded_def v_demo_blank_def can_time_def timing_ok_def deps_ok_def chain_at_def
      store_get_put store_get_new demo_config_def server_stats_new_def stats_array_new_def stats_counter_new_def
      VISIBILITY_LATENCY_def REPLICATION_TIME_def VALUE_STALENESS_def GET_REQUESTS_def PUT_REQUESTS_def
      ROTX_REQUESTS_def REPLICA_UPDATES_def array_push_def Let_def)

text \<open>C17: updating the vector of stable times succeeds and gives the pointwise maximum of the old vector
  and the one received; apart from CPU time, random numbers and statistics nothing else changes.\<close>

theorem update_gst_vector_is_max:
  assumes "v_ready st" and "store_ok st" and "deps_ok st"
    and "length (gst_vector st) = unat (v_num_replicas st)" and "unat (v_num_replicas st) \<le> length v"
  shows "\<exists>st'. grv_update_gst_vector st v = Some st' \<and>
     light (st\<lparr>gst_vector := map2 max (gst_vector st) (take (unat (v_num_replicas st)) v)\<rparr>) st'"
  using update_gst_vector_returns [OF assms] by (auto simp: v_counted_def vec_max_def)

theorem update_gst_vector_is_max_witness:
  "let st = v_demo_loaded\<lparr>stats := the server_stats_new\<rparr> in
   \<exists>st'. grv_update_gst_vector st [30, 50] = Some st' \<and>
     light (st\<lparr>gst_vector := map2 max (gst_vector st) (take (unat (v_num_replicas st)) [30, 50])\<rparr>) st'"
  unfolding Let_def
proof (rule update_gst_vector_is_max)
  show "store_ok (v_demo_loaded\<lparr>stats := the server_stats_new\<rparr>)" using v_demo_loaded_ok(2) by (simp add: store_ok_def)
  show "deps_ok (v_demo_loaded\<lparr>stats := the server_stats_new\<rparr>)" using v_demo_ready(2) by (simp add: deps_ok_def)
qed (use v_demo_ready(1) in \<open>simp_all add: v_demo_loaded_def v_demo_blank_def demo_config_def\<close>)

text \<open>C18: the test that decides whether a request has to take the lock on the vector of stable times is
  exact: it answers yes if and only if taking the pointwise maximum would change the vector.\<close>

theorem need_update_exact:
  assumes "can_time st" and "length (gst_vector st) = unat (v_num_replicas st)" and "length v = unat (v_num_replicas st)"
  shows "\<exists>n e. grv_gst_vector_need_update st v =
     Some (map2 max (gst_vector st) v \<noteq> gst_vector st, st\<lparr>draws := n, elapsed_time := e\<rparr>)"
proof -
  have "\<forall>i \<in> set (idx_upto (v_num_replicas st)). unat i < length v \<and> unat i < length (gst_vector st)"
    using assms(2,3) by (auto simp: set_upto word_less_nat_alt)
  moreover have "(\<exists>i \<in> set (idx_upto (v_num_replicas st)). gst_vector st ! unat i < v ! unat i) \<longleftrightarrow>
      map2 max (gst_vector st) v \<noteq> gst_vector st"
    using vec_max_same [of "gst_vector st" v] all_replicas [of "v_num_replicas st" "\<lambda>i. \<not> gst_vector st ! i < v ! i"] assms(2,3)
    by (simp add: vec_max_def) blast
  ultimately show ?thesis
    using need_update_loop_returns [OF assms(1), of "idx_upto (v_num_replicas st)" v]
    by (simp add: grv_gst_vector_need_update_def)
qed

theorem need_update_exact_witness:
  "\<exists>n e. grv_gst_vector_need_update v_demo_loaded [30, 50] =
     Some (map2 max (gst_vector v_demo_loaded) [30, 50] \<noteq> gst_vector v_demo_loaded,
       v_demo_loaded\<lparr>draws := n, elapsed_time := e\<rparr>)"
  by (rule need_update_exact)
    (use v_demo_loaded_ok(1) in \<open>simp_all add: v_readable_def\<close>, simp add: v_demo_loaded_def v_demo_blank_def demo_config_def)

end
