(* ===== verification/Grv_Protocol.thy ===== *)
theory Grv_Protocol
  imports Gr_Protocol Monotonic Grv_Stable
begin

text \<open>
  Replication in GRV: processing the updates of a replica ends, and never leaves an update waiting at
  the head of its queue without a pending event that continues with it.
\<close>

section \<open>Replica updates\<close>

definition v_stored :: "grv_state \<Rightarrow> gr_key \<Rightarrow> gr_tsp \<times> replica_t" where
  "v_stored st key = (case chain_at (store st) key of
     [] \<Rightarrow> (0, 0) | item # _ \<Rightarrow> (it_update_time item, it_source_replica item))"

definition v_writable :: "grv_state \<Rightarrow> gr_key \<Rightarrow> bool" where
  "v_writable st key \<longleftrightarrow> grv_lpid_for_key key st = Some (sc_lpid (config st)) \<and> can_time st \<and>
     (\<forall>i \<in> set (chain_at (store st) key). it_source_replica i < v_num_replicas st)"

lemma v_updates [simp]:
  "v_writable (st\<lparr>draws := n\<rparr>) = v_writable st" "v_writable (st\<lparr>elapsed_time := e\<rparr>) = v_writable st"
  "v_writable (st\<lparr>v_replica_update_queues := qs\<rparr>) = v_writable st"
  "v_stored (st\<lparr>draws := n\<rparr>) = v_stored st" "v_stored (st\<lparr>elapsed_time := e\<rparr>) = v_stored st"
  "v_stored (st\<lparr>v_replica_update_queues := qs\<rparr>) = v_stored st"
  by (simp_all add: v_writable_def v_stored_def grv_lpid_for_key_def can_time_def timing_ok_def fun_eq_iff)

lemma v_get_value_stored:
  assumes "v_writable st key"
  shows "\<exists>v n e. grv_get_value_at st key t grv_always_visible =
     Some (v, fst (v_stored st key), snd (v_stored st key), st\<lparr>draws := n, elapsed_time := e\<rparr>)"
proof -
  have "can_time st" using assms by (simp add: v_writable_def)
  from add_timing_returns [OF this zero_le_one, of "[''gr'', ''get_value_time'']"] obtain n e where
    "cpu_add_timing st 1 [''gr'', ''get_value_time''] = Some (st\<lparr>draws := n, elapsed_time := e\<rparr>)" by blast
  with assms show ?thesis
    by (cases "chain_at (store st) key")
      (auto simp: grv_get_value_at_def grv_always_visible_def v_writable_def v_stored_def)
qed

lemma v_work_cases:
  assumes "v_writable st (ru_key u)" and "ru_source_replica u \<noteq> sc_replica (config st)"
  shows "\<exists>n e. grv_process_replica_update_work fuel st u =
     (let st = st\<lparr>draws := n, elapsed_time := e\<rparr>; (t, r) = v_stored st (ru_key u)
      in if update_conflict u t r \<and> update_older u t r
         then do { c_assert (ru_source_replica u \<noteq> r);
                   (case fuel of 0 \<Rightarrow> None | Suc fuel' \<Rightarrow> replica_update_vv_unlocked fuel' st u) }
         else cpu_lock_lock st (lock_vv st) GRV_REPLICA_UPDATE_VV_LOCKED (Data (VReplicaUpdate u)) (m_size u))"
proof -
  have "can_time st" using assms(1) by (simp add: v_writable_def)
  from add_timing_returns [OF this zero_le_one, of "[''gr'', ''process_replica_update_time'']"] obtain n e where
    t: "cpu_add_timing st 1 [''gr'', ''process_replica_update_time''] = Some (st\<lparr>draws := n, elapsed_time := e\<rparr>)" by blast
  have "v_writable (st\<lparr>draws := n, elapsed_time := e\<rparr>) (ru_key u)" using assms(1) by simp
  from v_get_value_stored [OF this, of "[]"] obtain v n' e' where
    "grv_get_value_at (st\<lparr>draws := n, elapsed_time := e\<rparr>) (ru_key u) [] grv_always_visible =
       Some (v, fst (v_stored st (ru_key u)), snd (v_stored st (ru_key u)), st\<lparr>draws := n', elapsed_time := e'\<rparr>)" by auto
  with t assms(2) show ?thesis
    by (intro exI [of _ n'] exI [of _ e'])
      (simp add: grv_process_replica_update_work.simps Let_def split_beta cong: if_cong)
qed

text \<open>Updates that the server can process: of another replica, for its keys, and not stale against themselves.\<close>

definition v_processable :: "grv_state \<Rightarrow> replica_t \<Rightarrow> grv_replica_update \<Rightarrow> bool" where
  "v_processable st r u \<longleftrightarrow> ru_source_replica u = r \<and> r \<noteq> sc_replica (config st) \<and> v_writable st (ru_key u) \<and>
     m_size u + 16 < UINT_MAX \<and> (update_older u (fst (v_stored st (ru_key u))) (snd (v_stored st (ru_key u))) \<longrightarrow>
       snd (v_stored st (ru_key u)) \<noteq> r)"

lemma v_processable_updates [simp]:
  "v_processable (st\<lparr>draws := n\<rparr>) r u = v_processable st r u"
  "v_processable (st\<lparr>elapsed_time := e\<rparr>) r u = v_processable st r u"
  "v_processable (st\<lparr>v_replica_update_queues := qs\<rparr>) r u = v_processable st r u"
  by (simp_all add: v_processable_def)

lemma v_dequeue_update_returns:
  assumes "arr_get (v_replica_update_queues st) (ru_source_replica u) = Some q" and "queue_repr q (u # us)"
  shows "\<exists>q' qs. grv_dequeue_update st u = Some (q', st\<lparr>v_replica_update_queues := qs\<rparr>) \<and> queue_repr q' us \<and>
     arr_get qs (ru_source_replica u) = Some q'"
proof -
  from queue_dequeue_Cons [OF assms(2)] obtain q' where q': "queue_dequeue q = Some (Some u, q')" "queue_repr q' us" by blast
  obtain qs where qs: "arr_set (v_replica_update_queues st) (ru_source_replica u) q' = Some qs"
    using assms(1) by (simp add: arr_get_eq_Some arr_set_def)
  from arr_get_set [OF qs, of "ru_source_replica u"] assms(1) q' qs show ?thesis
    by (intro exI [of _ q'] exI [of _ qs]) (simp add: grv_dequeue_update_def)
qed

text \<open>
  The queue of replica \<open>r\<close> is being worked on: it is empty, or the update at its head waits for the lock
  of the version vector.
\<close>

definition lock_requested :: "grv_state \<Rightarrow> grv_replica_update \<Rightarrow> bool" where
  "lock_requested st u \<longleftrightarrow> (\<exists>e \<in> set (scheduled st). ev_type e = CPU_LOCK_LOCK \<and>
     ev_data e = LockMsg (lock_vv st) GRV_REPLICA_UPDATE_VV_LOCKED (m_size u) (Data (VReplicaUpdate u)))"

definition queue_in_progress :: "grv_state \<Rightarrow> replica_t \<Rightarrow> bool" where
  "queue_in_progress st r \<longleftrightarrow> (\<exists>q us. arr_get (v_replica_update_queues st) r = Some q \<and> queue_repr q us \<and>
     (us = [] \<or> lock_requested st (hd us)))"

lemma v_lock_requested:
  assumes "v_processable st r u" and "\<not> continues_in_scheduled_event st"
    and "arr_get (v_replica_update_queues st) r = Some q" and "queue_repr q (u # us)"
  shows "\<exists>st'. cpu_lock_lock st (lock_vv st) GRV_REPLICA_UPDATE_VV_LOCKED (Data (VReplicaUpdate u)) (m_size u) = Some st' \<and>
     queue_in_progress st' r"
proof -
  have "can_time st" "m_size u + 16 < UINT_MAX" using assms(1) by (auto simp: v_processable_def v_writable_def)
  from lock_lock_effect [OF this(1) assms(2) _ this(2), of GRV_REPLICA_UPDATE_VV_LOCKED "lock_vv st" "Data (VReplicaUpdate u)"]
  obtain st' e where st': "cpu_lock_lock st (lock_vv st) GRV_REPLICA_UPDATE_VV_LOCKED (Data (VReplicaUpdate u)) (m_size u) = Some st'"
    "scheduled st' = scheduled st @ [e]" "ev_type e = CPU_LOCK_LOCK"
    "ev_data e = LockMsg (lock_vv st) GRV_REPLICA_UPDATE_VV_LOCKED (m_size u) (Data (VReplicaUpdate u))"
    "cpu_state.more st' = cpu_state.more st" by auto
  have "v_replica_update_queues st' = v_replica_update_queues st \<and> lock_vv st' = lock_vv st"
    using st'(5) by (cases st; cases st') simp
  with st' assms(3,4) have "queue_in_progress st' r"
    by (auto simp: queue_in_progress_def lock_requested_def)
  with st'(1) show ?thesis by blast
qed

lemma v_unlocked_returns:
  assumes "arr_get (v_replica_update_queues st) r = Some q" and "queue_repr q (u # us)"
    and "\<forall>v \<in> set (u # us). v_processable st r v" and "length us \<le> fuel"
    and "\<not> continues_in_scheduled_event st"
  shows "\<exists>st'. replica_update_vv_unlocked fuel st u = Some st' \<and> queue_in_progress st' r"
  using assms
proof (induction us arbitrary: st q u fuel)
  case Nil
  then have "ru_source_replica u = r" by (simp add: v_processable_def)
  with v_dequeue_update_returns [of st u q "[]"] Nil show ?case
    by (auto simp: replica_update_vv_unlocked.simps queue_peek_repr queue_in_progress_def cpu_allow_no_time_def)
next
  case (Cons v us)
  have r: "ru_source_replica u = r" "ru_source_replica v = r" and v: "v_processable st r v"
    using Cons.prems(3) by (auto simp: v_processable_def)
  from v_dequeue_update_returns [of st u q "v # us"] Cons.prems r obtain q' qs where
    d: "grv_dequeue_update st u = Some (q', st\<lparr>v_replica_update_queues := qs\<rparr>)" "queue_repr q' (v # us)" "arr_get qs r = Some q'"
    by auto
  define st1 where "st1 = st\<lparr>v_replica_update_queues := qs\<rparr>"
  obtain t w where tw: "v_stored st (ru_key v) = (t, w)" by force
  have "v_writable st1 (ru_key v)" "ru_source_replica v \<noteq> sc_replica (config st1)"
    using v by (auto simp: v_processable_def st1_def)
  from v_work_cases [OF this, of fuel] obtain n e where
    w: "grv_process_replica_update_work fuel st1 v =
      (let st = st1\<lparr>draws := n, elapsed_time := e\<rparr>; (t, w) = v_stored st (ru_key v)
       in if update_conflict v t w \<and> update_older v t w
         then do { c_assert (ru_source_replica v \<noteq> w);
                   (case fuel of 0 \<Rightarrow> None | Suc fuel' \<Rightarrow> replica_update_vv_unlocked fuel' st v) }
         else cpu_lock_lock st (lock_vv st) GRV_REPLICA_UPDATE_VV_LOCKED (Data (VReplicaUpdate v)) (m_size v))" by blast
  define st2 where "st2 = st1\<lparr>draws := n, elapsed_time := e\<rparr>"
  have st2: "v_stored st2 = v_stored st" "arr_get (v_replica_update_queues st2) r = Some q'"
    "\<not> continues_in_scheduled_event st2" "\<forall>x \<in> set (v # us). v_processable st2 r x"
    using Cons.prems d by (auto simp: st2_def st1_def)
  obtain f where f: "fuel = Suc f" "length us \<le> f" using Cons.prems(4) by (cases fuel) auto
  have "\<exists>st'. replica_update_vv_unlocked f st2 v = Some st' \<and> queue_in_progress st' r"
    by (rule Cons.IH [OF st2(2) d(2) st2(4) f(2) st2(3)])
  moreover have "\<exists>st'. cpu_lock_lock st2 (lock_vv st2) GRV_REPLICA_UPDATE_VV_LOCKED (Data (VReplicaUpdate v)) (m_size v) = Some st' \<and>
      queue_in_progress st' r"
    using st2(4) by (intro v_lock_requested [OF _ st2(3) st2(2) d(2)]) simp
  moreover have "update_older v t w \<longrightarrow> r \<noteq> w" using v tw by (auto simp: v_processable_def)
  ultimately have "\<exists>st'. grv_process_replica_update_work fuel st1 v = Some st' \<and> queue_in_progress st' r"
    using st2(1) tw unfolding w Let_def by (auto simp: f(1) r st2_def [symmetric])
  then show ?case using d by (simp add: replica_update_vv_unlocked.simps queue_peek_repr st1_def)
qed

definition v_demo_update :: "gr_tsp \<Rightarrow> grv_replica_update" where
  "v_demo_update t = (grv_replica_update_new 2)\<lparr>ru_key := 1, ru_value := 4, ru_update_time := t, ru_source_replica := 1,
     ru_previous_update_time := t - 1\<rparr>"

lemma v_demo_processable: "v_processable v_demo_blank 1 (v_demo_update t)"
  by (auto simp: v_processable_def v_writable_def can_time_def timing_ok_def v_demo_update_def v_demo_blank_def demo_config_def
      grv_lpid_for_key_def partition_for_key_def cluster_get_lpid_def partition_index_def arr_get_def chain_at_def
      store_get_new grv_replica_update_new_def UINT_MAX_def v_stored_def sizeof_gr_tsp_def)

text \<open>C23: when a GRV server has finished with a replica update it goes on with those that wait behind it, and
  this ends with a state in which the queue is empty or the update at its head has asked for the lock of
  the version vector, whatever conflicts the waiting updates are in.\<close>

theorem grv_updates_progress:
  assumes "arr_get (v_replica_update_queues st) r = Some q" and "queue_repr q (u # us)"
    and "\<forall>v \<in> set (u # us). v_processable st r v" and "\<not> continues_in_scheduled_event st"
  shows "\<exists>st'. grv_process_replica_update_vv_unlocked st u = Some st' \<and> queue_in_progress st' r"
  unfolding grv_process_replica_update_vv_unlocked_def
proof (rule v_unlocked_returns [OF assms(1-3) _ assms(4)])
  have "ru_source_replica u = r" using assms(3) by (simp add: v_processable_def)
  then show "length us \<le> grv_update_fuel st u"
    using queue_repr_length [OF assms(2)] assms(1) by (simp add: grv_update_fuel_def)
qed

theorem grv_updates_progress_witness:
  "\<exists>q st'. queue_repr q [v_demo_update 5, v_demo_update 6] \<and> grv_process_replica_update_vv_unlocked
     (v_demo_blank\<lparr>v_replica_update_queues := [queue_new, q]\<rparr>) (v_demo_update 5) = Some st' \<and> queue_in_progress st' 1"
proof -
  obtain q where q: "queue_repr q [v_demo_update 5, v_demo_update 6]"
    using queue_enqueue_repr [OF queue_new_repr, of "v_demo_update 5"] queue_enqueue_repr [of _ "[v_demo_update 5]" "v_demo_update 6"]
    by fastforce
  have "\<exists>st'. grv_process_replica_update_vv_unlocked
     (v_demo_blank\<lparr>v_replica_update_queues := [queue_new, q]\<rparr>) (v_demo_update 5) = Some st' \<and> queue_in_progress st' 1"
    by (rule grv_updates_progress [OF _ q])
      (auto simp: v_demo_processable, auto simp: arr_get_def v_demo_blank_def)
  with q show ?thesis by blast
qed

end
