(* ===== verification/Client.thy ===== *)
theory Client
  imports Server
begin

text \<open>
  The client common to all protocols and workloads: \<open>src/client/client.c\<close> up to the initialisation,
  \<open>src/client/key_distribution.c\<close>, \<open>src/client/protocols/gr_common.c\<close> and the random helpers of
  \<open>src/common.c\<close>.

  The state of a client extends the record of a logical process. ROOT-Sim's \<open>Random\<close>, \<open>RandomRange\<close>
  and \<open>Zipf\<close> are sources indexed by the number of the draw, like the sources of \<open>Lp\<close>. \<open>allocated\<close>
  says that the kernel holds a state for the process (the pointer handed to the callbacks is not
  NULL). The type variables are the messages \<open>'p\<close>, the data \<open>'w\<close> of the workload (\<open>state_data\<close>) and
  the state \<open>'q\<close> of the protocol. A pointer to a table of functions is the name of the table.
\<close>

section \<open>State\<close>

datatype workload = Get_put_rr | Probabilistic | Rotx_put_rr

datatype key_distribution = Uniform | Zipfian

record client_config =
  cc_lpid :: lpid_t
  cc_replica :: replica_t
  cc_partition :: partition_t
  tied_to_partition :: bool
  cc_cluster :: cluster_config
  cc_network :: network_config
  cc_funcs :: workload
  cc_key_distribution :: key_distribution
  zipf_skew :: rat

record request_stats =
  rs_count :: int
  latency_sum :: simtime

text \<open>\<open>num_request_types\<close> is the length of the two arrays.\<close>

record ('p, 'w, 'q) client_state = "'p lp" +
  random_source :: "nat \<Rightarrow> rat"
  range_source :: "nat \<Rightarrow> int \<Rightarrow> int \<Rightarrow> int"
  zipf_source :: "nat \<Rightarrow> rat \<Rightarrow> int \<Rightarrow> int"
  allocated :: bool
  state_data :: 'w
  protocol_state :: 'q
  last_used_partition :: u32
  cs_config :: client_config
  cs_network :: network_state
  cs_start_time :: simtime
  cs_now :: simtime
  request_time :: simtime
  last_request_duration :: simtime
  cs_finished :: bool
  request_type_names :: "string list"
  request_stats :: "request_stats list"

text \<open>
  The tables of functions that a protocol and a workload provide; \<open>None\<close> is a pointer that the
  workload leaves NULL. The functions that start a request on behalf of a workload are reached
  through the global \<open>client_funcs\<close>, which is the argument of \<open>on_init\<close> and \<open>on_tick\<close>.
\<close>

record ('p, 's, 'q) client_functions =
  cf_init :: "'s \<Rightarrow> client_config \<Rightarrow> ('q \<times> 's) option"
  cf_get_request :: "'s \<Rightarrow> gr_key \<Rightarrow> 's option"
  cf_put_request :: "'s \<Rightarrow> gr_key \<Rightarrow> gr_value \<Rightarrow> 's option"
  cf_rotx_request :: "'s \<Rightarrow> gr_key list \<Rightarrow> u32 \<Rightarrow> 's option"
  cf_process_event :: "'s \<Rightarrow> simtime \<Rightarrow> event_type \<Rightarrow> 'p event_data \<Rightarrow> nat \<Rightarrow> 's option option"

record ('p, 's, 'q) workload_functions =
  on_init :: "('p, 's, 'q) client_functions \<Rightarrow> 's \<Rightarrow> cluster_config \<Rightarrow> 's option"
  on_tick :: "('p, 's, 'q) client_functions \<Rightarrow> 's \<Rightarrow> 's option"
  on_get_response :: "('s \<Rightarrow> gr_value \<Rightarrow> 's option) option"
  on_put_response :: "('s \<Rightarrow> 's option) option"
  on_rotx_response :: "('s \<Rightarrow> gr_value list \<Rightarrow> u32 \<Rightarrow> 's option) option"

section \<open>Random numbers\<close>

definition random_range ::
  "('p, 'w, 'q) client_state \<Rightarrow> int \<Rightarrow> int \<Rightarrow> int \<times> ('p, 'w, 'q) client_state" where
  "random_range st lo hi = (range_source st (draws st) lo hi, st\<lparr>draws := draws st + 1\<rparr>)"

definition random_real :: "('p, 'w, 'q) client_state \<Rightarrow> rat \<times> ('p, 'w, 'q) client_state" where
  "random_real st = (random_source st (draws st), st\<lparr>draws := draws st + 1\<rparr>)"

definition randomize_value :: "('p, 'w, 'q) client_state \<Rightarrow> gr_value \<times> ('p, 'w, 'q) client_state" where
  "randomize_value st = (let (r, st) = random_range st 0 255 in (of_int r, st))"

definition random_uint ::
  "('p, 'w, 'q) client_state \<Rightarrow> u32 \<Rightarrow> u32 \<Rightarrow> (u32 \<times> ('p, 'w, 'q) client_state) option" where
  "random_uint st lo hi = do {
     c_assert (lo < hi);
     c_assert (unat hi \<le> INT_MAX);
     let (r, st) = random_range st (uint lo) (uint hi);
     Some (of_int r, st)
   }"

section \<open>Key distributions\<close>

definition random_key_zipf ::
  "('p, 'w, 'q) client_state \<Rightarrow> (gr_key \<times> ('p, 'w, 'q) client_state) option" where
  "random_key_zipf st = do {
     key \<leftarrow> cluster_random_key_zipf (zipf_source st (draws st)) (cc_cluster (cs_config st)) (zipf_skew (cs_config st));
     Some (key, st\<lparr>draws := draws st + 1\<rparr>)
   }"

definition random_key_zipf_on_partition ::
  "('p, 'w, 'q) client_state \<Rightarrow> partition_t \<Rightarrow> (gr_key \<times> ('p, 'w, 'q) client_state) option" where
  "random_key_zipf_on_partition st part = do {
     key \<leftarrow> cluster_random_key_zipf_on_partition (zipf_source st (draws st)) (cc_cluster (cs_config st)) part
       (zipf_skew (cs_config st));
     Some (key, st\<lparr>draws := draws st + 1\<rparr>)
   }"

definition random_key_uniform ::
  "('p, 'w, 'q) client_state \<Rightarrow> (gr_key \<times> ('p, 'w, 'q) client_state) option" where
  "random_key_uniform st = do {
     key \<leftarrow> cluster_random_key (range_source st (draws st)) (cc_cluster (cs_config st));
     Some (key, st\<lparr>draws := draws st + 1\<rparr>)
   }"

definition random_key_uniform_on_partition ::
  "('p, 'w, 'q) client_state \<Rightarrow> partition_t \<Rightarrow> (gr_key \<times> ('p, 'w, 'q) client_state) option" where
  "random_key_uniform_on_partition st part = do {
     key \<leftarrow> cluster_random_key_on_partition (range_source st (draws st)) (cc_cluster (cs_config st)) part;
     Some (key, st\<lparr>draws := draws st + 1\<rparr>)
   }"

definition client_key_distributions :: "(string \<times> key_distribution) list" where
  "client_key_distributions = [(''uniform'', Uniform), (''zipfian'', Zipfian)]"

definition client_random_key ::
  "('p, 'w, 'q) client_state \<Rightarrow> (gr_key \<times> ('p, 'w, 'q) client_state) option" where
  "client_random_key st = (case cc_key_distribution (cs_config st) of
     Uniform \<Rightarrow> random_key_uniform st
   | Zipfian \<Rightarrow> random_key_zipf st)"

fun client_random_keys ::
  "('p, 'w, 'q) client_state \<Rightarrow> nat \<Rightarrow> (gr_key list \<times> ('p, 'w, 'q) client_state) option" where
  "client_random_keys st 0 = Some ([], st)"
| "client_random_keys st (Suc num_keys) = do {
     (key, st) \<leftarrow> client_random_key st;
     (keys, st) \<leftarrow> client_random_keys st num_keys;
     Some (key # keys, st)
   }"

definition client_random_key_on_partition ::
  "('p, 'w, 'q) client_state \<Rightarrow> partition_t \<Rightarrow> (gr_key \<times> ('p, 'w, 'q) client_state) option" where
  "client_random_key_on_partition st part = (case cc_key_distribution (cs_config st) of
     Uniform \<Rightarrow> random_key_uniform_on_partition st part
   | Zipfian \<Rightarrow> random_key_zipf_on_partition st part)"

section \<open>Requests\<close>

definition client_register_request_type ::
  "('p, 'w, 'q) client_state \<Rightarrow> string \<Rightarrow> (u32 \<times> ('p, 'w, 'q) client_state) option" where
  "client_register_request_type st name = do {
     c_assert (length (request_type_names st) \<le> INT_MAX);
     let id = of_nat (length (request_type_names st));
     Some (id, st\<lparr>request_type_names := array_push (request_type_names st) name,
                  request_stats := array_push (request_stats st) \<lparr>rs_count = 0, latency_sum = 0\<rparr>\<rparr>)
   }"

definition client_begin_request :: "('p, 'w, 'q) client_state \<Rightarrow> ('p, 'w, 'q) client_state option" where
  "client_begin_request st = do {
     c_assert (request_time st = - 1);
     Some (st\<lparr>request_time := cs_now st\<rparr>)
   }"

definition client_finish_request ::
  "('p, 'w, 'q) client_state \<Rightarrow> u32 \<Rightarrow> (simtime \<times> ('p, 'w, 'q) client_state) option" where
  "client_finish_request st request_type = do {
     c_assert (request_time st \<noteq> - 1);
     c_assert (unat request_type < length (request_type_names st));
     let st = st\<lparr>last_request_duration := cs_now st - request_time st\<rparr>;
     let st = st\<lparr>request_time := - 1\<rparr>;
     (if ignore_initial_seconds st \<le> cs_now st
      then do {
        s \<leftarrow> arr_get (request_stats st) request_type;
        rs \<leftarrow> arr_set (request_stats st) request_type
          (s\<lparr>rs_count := rs_count s + 1, latency_sum := latency_sum s + last_request_duration st\<rparr>);
        Some (last_request_duration st, st\<lparr>request_stats := rs\<rparr>)
      }
      else Some (last_request_duration st, st))
   }"

text \<open>
  The partition a client sends a transaction to. A client that is not tied to one partition moves on
  to the next, with the bounds that the source gives to \<open>inc_range\<close>.
\<close>

definition lpid_of_any_partition ::
  "('p, 'w, 'q) client_state \<Rightarrow> (lpid_t \<times> ('p, 'w, 'q) client_state) option" where
  "lpid_of_any_partition st = do {
     let c = cs_config st;
     let (part, st) =
       (if tied_to_partition c then (cc_partition c, st)
        else let p = inc_range (last_used_partition st) 0 (num_partitions (cc_cluster c))
             in (p, st\<lparr>last_used_partition := p\<rparr>));
     l \<leftarrow> cluster_get_lpid (cc_cluster c) (cc_replica c) part;
     Some (l, st)
   }"

definition client_lpid_for_key :: "client_config \<Rightarrow> gr_key \<Rightarrow> lpid_t option" where
  "client_lpid_for_key c key = do {
     part \<leftarrow> (if tied_to_partition c then Some (cc_partition c) else partition_for_key (cc_cluster c) key);
     cluster_get_lpid (cc_cluster c) (cc_replica c) part
   }"

definition client_schedule_tick ::
  "('p, 'w, 'q) client_state \<Rightarrow> simtime \<Rightarrow> ('p, 'w, 'q) client_state" where
  "client_schedule_tick st delay =
     ScheduleNewEvent st (cc_lpid (cs_config st)) (cs_now st + delay) CLIENT_TICK NoData 0"

definition client_send ::
  "('p, 'w, 'q) client_state \<Rightarrow> lpid_t \<Rightarrow> event_type \<Rightarrow> 'm message_scheme \<Rightarrow> 'p event_data
   \<Rightarrow> ('p, 'w, 'q) client_state option" where
  "client_send st to_lpid event_type message data = do {
     (ns, st) \<leftarrow> network_send (cc_network (cs_config st)) (cs_network st) st (cc_lpid (cs_config st)) to_lpid
       (cs_now st) event_type data (m_size message) (simulated_size message);
     Some (st\<lparr>cs_network := ns\<rparr>)
   }"

definition client_thinking_time ::
  "('p, 'w, 'q) client_state \<Rightarrow> (simtime \<times> ('p, 'w, 'q) client_state) option" where
  "client_thinking_time st = timing_func st [''client_thinking_time'']"

end
