(* ===== verification/Client_Workloads.thy ===== *)
theory Client_Workloads
  imports Client
begin

text \<open>
  The workloads of \<open>src/client/workloads/\<close> and their table \<open>src/client/workloads.c\<close>.

  \<open>state_data\<close> is the structure of the workload behind the untyped pointer; reading it as the
  structure of another workload is outside the model. The static variables with the parameters of a
  workload are fields of its structure: they hold what the first client reads from the document, and
  the document does not change.
\<close>

section \<open>State\<close>

record get_put_rr_state =
  gp_cluster :: cluster_config
  last_get_partition :: partition_t
  last_put_partition :: partition_t
  num_get_since_put :: u32
  target_request_time :: simtime

datatype probabilistic_state_enum = Prob_SLEEPING | Prob_WAITING_RESPONSE | Prob_RESPONSE_RECEIVED

record probabilistic_state =
  pr_state :: probabilistic_state_enum
  get_threshold :: rat
  put_threshold :: rat
  rotx_threshold :: rat
  pr_keys_per_rotx :: u32

datatype rotx_put_rr_state_enum = Rotx_SLEEPING | Rotx_WAITING_PUT_RESPONSE | Rotx_WAITING_ROTX_RESPONSE

record rotx_put_rr_state =
  rp_cluster :: cluster_config
  rp_state :: rotx_put_rr_state_enum
  rotx_partition :: partition_t
  put_partition :: partition_t
  rotx_count :: u32
  put_count :: u32
  rp_keys_per_rotx :: u32
  num_rotx :: u32
  num_put :: u32

datatype workload_data =
    No_data
  | Get_put_rr_data get_put_rr_state
  | Probabilistic_data probabilistic_state
  | Rotx_put_rr_data rotx_put_rr_state

type_synonym ('p, 'q) wclient = "('p, workload_data, 'q) client_state"
type_synonym ('p, 'q) client_funcs = "('p, ('p, 'q) wclient, 'q) client_functions"

definition get_put_rr_get_state :: "('p, 'q) wclient \<Rightarrow> get_put_rr_state option" where
  "get_put_rr_get_state st = (case state_data st of Get_put_rr_data s \<Rightarrow> Some s | _ \<Rightarrow> None)"

definition probabilistic_get_state :: "('p, 'q) wclient \<Rightarrow> probabilistic_state option" where
  "probabilistic_get_state st = (case state_data st of Probabilistic_data s \<Rightarrow> Some s | _ \<Rightarrow> None)"

definition rotx_put_rr_get_state :: "('p, 'q) wclient \<Rightarrow> rotx_put_rr_state option" where
  "rotx_put_rr_get_state st = (case state_data st of Rotx_put_rr_data s \<Rightarrow> Some s | _ \<Rightarrow> None)"

text \<open>Integer parameters of a workload.\<close>

definition param_int :: "('p, 'z) lp_scheme \<Rightarrow> string list \<Rightarrow> int option" where
  "param_int st path = do {
     v \<leftarrow> cfg st path;
     c_assert (v = of_int \<lfloor>v\<rfloor>);
     Some \<lfloor>v\<rfloor>
   }"

definition param_uint :: "('p, 'z) lp_scheme \<Rightarrow> string list \<Rightarrow> u32 option" where
  "param_uint st path = do {
     v \<leftarrow> param_int st path;
     c_assert (0 \<le> v);
     Some (of_int v)
   }"

section \<open>Gets on every partition, then a put\<close>

definition get_put_rr_tick :: "('p, 'q) client_funcs \<Rightarrow> ('p, 'q) wclient \<Rightarrow> ('p, 'q) wclient option" where
  "get_put_rr_tick cf st = do {
     s \<leftarrow> get_put_rr_get_state st;
     let np = num_partitions (gp_cluster s);
     (if num_get_since_put s = np
      then do {
        let s = s\<lparr>num_get_since_put := 0\<rparr>;
        let part = inc_range (last_put_partition s) 0 (np - 1);
        let (value, st) = randomize_value st;
        (key, st) \<leftarrow> client_random_key_on_partition st part;
        st \<leftarrow> cf_put_request cf st key value;
        Some (st\<lparr>state_data := Get_put_rr_data (s\<lparr>last_put_partition := part\<rparr>)\<rparr>)
      }
      else do {
        let part = inc_range (last_get_partition s) 0 (np - 1);
        (key, st) \<leftarrow> client_random_key_on_partition st part;
        st \<leftarrow> cf_get_request cf st key;
        Some (st\<lparr>state_data := Get_put_rr_data
          (s\<lparr>last_get_partition := part, num_get_since_put := num_get_since_put s + 1\<rparr>)\<rparr>)
      })
   }"

definition get_put_rr_on_init ::
  "('p, 'q) client_funcs \<Rightarrow> ('p, 'q) wclient \<Rightarrow> cluster_config \<Rightarrow> ('p, 'q) wclient option" where
  "get_put_rr_on_init cf st cluster = do {
     (g, st) \<leftarrow> random_uint st 0 (num_partitions cluster);
     (p, st) \<leftarrow> random_uint st 0 (num_partitions cluster);
     let s = \<lparr>gp_cluster = cluster, last_get_partition = g, last_put_partition = p, num_get_since_put = 0,
              target_request_time = 0\<rparr>;
     get_put_rr_tick cf (st\<lparr>state_data := Get_put_rr_data s\<rparr>)
   }"

definition get_put_rr_thinking_time :: "('p, 'q) wclient \<Rightarrow> (simtime \<times> ('p, 'q) wclient) option" where
  "get_put_rr_thinking_time st = do {
     s \<leftarrow> get_put_rr_get_state st;
     (t, st) \<leftarrow> client_thinking_time st;
     (if 0 < target_request_time s
      then if last_request_duration st < target_request_time s
        then Some (target_request_time s - last_request_duration st, st)
        else Some (0, st)
      else Some (t, st))
   }"

definition get_put_rr_on_get_response :: "('p, 'q) wclient \<Rightarrow> gr_value \<Rightarrow> ('p, 'q) wclient option" where
  "get_put_rr_on_get_response st value = do {
     (think_time, st) \<leftarrow> get_put_rr_thinking_time st;
     Some (client_schedule_tick st think_time)
   }"

definition get_put_rr_on_put_response :: "('p, 'q) wclient \<Rightarrow> ('p, 'q) wclient option" where
  "get_put_rr_on_put_response st = do {
     (think_time, st) \<leftarrow> get_put_rr_thinking_time st;
     Some (client_schedule_tick st think_time)
   }"

definition get_put_rr_on_tick :: "('p, 'q) client_funcs \<Rightarrow> ('p, 'q) wclient \<Rightarrow> ('p, 'q) wclient option" where
  "get_put_rr_on_tick cf st = get_put_rr_tick cf st"

definition workload_get_put_rr_funcs :: "('p, ('p, 'q) wclient, 'q) workload_functions" where
  "workload_get_put_rr_funcs =
     \<lparr>on_init = get_put_rr_on_init, on_tick = get_put_rr_on_tick,
      on_get_response = Some get_put_rr_on_get_response, on_put_response = Some get_put_rr_on_put_response,
      on_rotx_response = None\<rparr>"

section \<open>Requests of a random kind\<close>

definition probabilistic_on_tick :: "('p, 'q) client_funcs \<Rightarrow> ('p, 'q) wclient \<Rightarrow> ('p, 'q) wclient option" where
  "probabilistic_on_tick cf st = do {
     s \<leftarrow> probabilistic_get_state st;
     (case pr_state s of
        Prob_SLEEPING \<Rightarrow> do {
          let st = st\<lparr>state_data := Probabilistic_data (s\<lparr>pr_state := Prob_WAITING_RESPONSE\<rparr>)\<rparr>;
          (key, st) \<leftarrow> client_random_key st;
          let (r, st) = random_real st;
          (if r < get_threshold s then cf_get_request cf st key
           else if r < put_threshold s then do {
             let (value, st) = randomize_value st;
             cf_put_request cf st key value
           }
           else do {
             (keys, st) \<leftarrow> client_random_keys st (unat (pr_keys_per_rotx s));
             cf_rotx_request cf st keys (pr_keys_per_rotx s)
           })
        }
      | Prob_RESPONSE_RECEIVED \<Rightarrow> do {
          let st = st\<lparr>state_data := Probabilistic_data (s\<lparr>pr_state := Prob_SLEEPING\<rparr>)\<rparr>;
          (t, st) \<leftarrow> client_thinking_time st;
          Some (client_schedule_tick st t)
        }
      | Prob_WAITING_RESPONSE \<Rightarrow> None)
   }"

definition probabilistic_on_init ::
  "('p, 'q) client_funcs \<Rightarrow> ('p, 'q) wclient \<Rightarrow> cluster_config \<Rightarrow> ('p, 'q) wclient option" where
  "probabilistic_on_init cf st cluster = do {
     g \<leftarrow> cfg st [''workload'', ''probabilistic'', ''get probability''];
     p \<leftarrow> cfg st [''workload'', ''probabilistic'', ''put probability''];
     r \<leftarrow> cfg st [''workload'', ''probabilistic'', ''rotx probability''];
     let put_t = p + g;
     let rotx_t = r + put_t;
     c_assert (\<not> 1 / 1000000 < \<bar>rotx_t - 1\<bar>);
     n \<leftarrow> param_int st [''workload'', ''probabilistic'', ''keys per rotx''];
     c_assert (0 < n);
     let s = \<lparr>pr_state = Prob_SLEEPING, get_threshold = g, put_threshold = put_t, rotx_threshold = rotx_t,
              pr_keys_per_rotx = of_int n\<rparr>;
     probabilistic_on_tick cf (st\<lparr>state_data := Probabilistic_data s\<rparr>)
   }"

text \<open>The three response handlers have the same body.\<close>

definition probabilistic_response :: "('p, 'q) wclient \<Rightarrow> ('p, 'q) wclient option" where
  "probabilistic_response st = do {
     s \<leftarrow> probabilistic_get_state st;
     let st = st\<lparr>state_data := Probabilistic_data (s\<lparr>pr_state := Prob_SLEEPING\<rparr>)\<rparr>;
     (t, st) \<leftarrow> client_thinking_time st;
     Some (client_schedule_tick st t)
   }"

definition probabilistic_on_get_response :: "('p, 'q) wclient \<Rightarrow> gr_value \<Rightarrow> ('p, 'q) wclient option" where
  "probabilistic_on_get_response st value = probabilistic_response st"

definition probabilistic_on_put_response :: "('p, 'q) wclient \<Rightarrow> ('p, 'q) wclient option" where
  "probabilistic_on_put_response st = probabilistic_response st"

definition probabilistic_on_rotx_response ::
  "('p, 'q) wclient \<Rightarrow> gr_value list \<Rightarrow> u32 \<Rightarrow> ('p, 'q) wclient option" where
  "probabilistic_on_rotx_response st values num_values = probabilistic_response st"

definition workload_probabilistic_funcs :: "('p, ('p, 'q) wclient, 'q) workload_functions" where
  "workload_probabilistic_funcs =
     \<lparr>on_init = probabilistic_on_init, on_tick = probabilistic_on_tick,
      on_get_response = Some probabilistic_on_get_response, on_put_response = Some probabilistic_on_put_response,
      on_rotx_response = Some probabilistic_on_rotx_response\<rparr>"

section \<open>Transactions over the partitions, then puts\<close>

text \<open>The loop of \<open>do_rotx\<close>: one key for each of the next \<open>n\<close> partitions.\<close>

fun rotx_keys ::
  "nat \<Rightarrow> rotx_put_rr_state \<Rightarrow> ('p, 'q) wclient \<Rightarrow> (gr_key list \<times> rotx_put_rr_state \<times> ('p, 'q) wclient) option" where
  "rotx_keys 0 s st = Some ([], s, st)"
| "rotx_keys (Suc n) s st = do {
     (key, st) \<leftarrow> client_random_key_on_partition st (rotx_partition s);
     let s = s\<lparr>rotx_partition := inc_range (rotx_partition s) 0 (num_partitions (rp_cluster s) - 1)\<rparr>;
     (keys, s, st) \<leftarrow> rotx_keys n s st;
     Some (key # keys, s, st)
   }"

definition do_rotx ::
  "('p, 'q) client_funcs \<Rightarrow> rotx_put_rr_state \<Rightarrow> ('p, 'q) wclient \<Rightarrow> (rotx_put_rr_state \<times> ('p, 'q) wclient) option" where
  "do_rotx cf s st = do {
     (keys, s, st) \<leftarrow> rotx_keys (unat (rp_keys_per_rotx s)) s st;
     st \<leftarrow> cf_rotx_request cf st keys (rp_keys_per_rotx s);
     Some (s, st)
   }"

definition do_put ::
  "('p, 'q) client_funcs \<Rightarrow> rotx_put_rr_state \<Rightarrow> ('p, 'q) wclient \<Rightarrow> (rotx_put_rr_state \<times> ('p, 'q) wclient) option" where
  "do_put cf s st = do {
     (key, st) \<leftarrow> client_random_key_on_partition st (put_partition s);
     let (value, st) = randomize_value st;
     st \<leftarrow> cf_put_request cf st key value;
     Some (s\<lparr>put_partition := (if put_partition s = 0 then num_partitions (rp_cluster s) - 1 else put_partition s - 1)\<rparr>, st)
   }"

definition rotx_put_rr_on_tick :: "('p, 'q) client_funcs \<Rightarrow> ('p, 'q) wclient \<Rightarrow> ('p, 'q) wclient option" where
  "rotx_put_rr_on_tick cf st = do {
     s \<leftarrow> rotx_put_rr_get_state st;
     c_assert (rp_state s = Rotx_SLEEPING);
     c_assert (rotx_partition s < num_partitions (rp_cluster s));
     (s, st) \<leftarrow>
       (if rotx_count s < num_rotx s
        then do {
          (s, st) \<leftarrow> do_rotx cf s st;
          Some (s\<lparr>rotx_count := rotx_count s + 1, rp_state := Rotx_WAITING_ROTX_RESPONSE\<rparr>, st)
        }
        else do {
          (s, st) \<leftarrow> do_put cf s st;
          let s = s\<lparr>put_count := put_count s + 1, rp_state := Rotx_WAITING_PUT_RESPONSE\<rparr>;
          Some (if put_count s < num_put s then s\<lparr>put_count := 0, rotx_count := 0\<rparr> else s, st)
        });
     c_assert (rotx_partition s < num_partitions (rp_cluster s));
     Some (st\<lparr>state_data := Rotx_put_rr_data s\<rparr>)
   }"

definition rotx_put_rr_on_init ::
  "('p, 'q) client_funcs \<Rightarrow> ('p, 'q) wclient \<Rightarrow> cluster_config \<Rightarrow> ('p, 'q) wclient option" where
  "rotx_put_rr_on_init cf st cluster = do {
     (part, st) \<leftarrow> random_uint st 0 (num_partitions cluster - 1);
     k \<leftarrow> param_uint st [''workload'', ''rotx_put_rr'', ''values per rotx''];
     nr \<leftarrow> param_uint st [''workload'', ''rotx_put_rr'', ''number of rotx''];
     np \<leftarrow> param_uint st [''workload'', ''rotx_put_rr'', ''number of put''];
     let s = \<lparr>rp_cluster = cluster, rp_state = Rotx_SLEEPING, rotx_partition = part, put_partition = 0,
              rotx_count = 0, put_count = 0, rp_keys_per_rotx = k, num_rotx = nr, num_put = np\<rparr>;
     c_assert (0 < rp_keys_per_rotx s);
     rotx_put_rr_on_tick cf (st\<lparr>state_data := Rotx_put_rr_data s\<rparr>)
   }"

definition rotx_put_rr_on_put_response :: "('p, 'q) wclient \<Rightarrow> ('p, 'q) wclient option" where
  "rotx_put_rr_on_put_response st = do {
     s \<leftarrow> rotx_put_rr_get_state st;
     c_assert (rp_state s = Rotx_WAITING_PUT_RESPONSE);
     let st = st\<lparr>state_data := Rotx_put_rr_data (s\<lparr>rp_state := Rotx_SLEEPING\<rparr>)\<rparr>;
     (t, st) \<leftarrow> client_thinking_time st;
     Some (client_schedule_tick st t)
   }"

definition rotx_put_rr_on_rotx_response ::
  "('p, 'q) wclient \<Rightarrow> gr_value list \<Rightarrow> u32 \<Rightarrow> ('p, 'q) wclient option" where
  "rotx_put_rr_on_rotx_response st values num_values = do {
     s \<leftarrow> rotx_put_rr_get_state st;
     c_assert (rp_state s = Rotx_WAITING_ROTX_RESPONSE);
     let st = st\<lparr>state_data := Rotx_put_rr_data (s\<lparr>rp_state := Rotx_SLEEPING\<rparr>)\<rparr>;
     (t, st) \<leftarrow> client_thinking_time st;
     Some (client_schedule_tick st t)
   }"

definition workload_rotx_put_rr_funcs :: "('p, ('p, 'q) wclient, 'q) workload_functions" where
  "workload_rotx_put_rr_funcs =
     \<lparr>on_init = rotx_put_rr_on_init, on_tick = rotx_put_rr_on_tick, on_get_response = None,
      on_put_response = Some rotx_put_rr_on_put_response, on_rotx_response = Some rotx_put_rr_on_rotx_response\<rparr>"

section \<open>The table of workloads\<close>

definition workload_definitions :: "(string \<times> workload) list" where
  "workload_definitions =
     [(''get_put_rr'', Get_put_rr), (''probabilistic'', Probabilistic), (''rotx_put_rr'', Rotx_put_rr)]"

definition funcs_of_workload :: "workload \<Rightarrow> ('p, ('p, 'q) wclient, 'q) workload_functions" where
  "funcs_of_workload w = (case w of
     Get_put_rr \<Rightarrow> workload_get_put_rr_funcs
   | Probabilistic \<Rightarrow> workload_probabilistic_funcs
   | Rotx_put_rr \<Rightarrow> workload_rotx_put_rr_funcs)"

end
