(* ===== verification/Client_Process.thy ===== *)
theory Client_Process
  imports Client_Workloads
begin

text \<open>
  The rest of \<open>src/client/client.c\<close>: set-up, initialisation, and the dispatch of events. The global
  \<open>client_funcs\<close> is the argument \<open>cf\<close> and the entry of \<open>lp_config\<close> for the process is \<open>c\<close>.
\<close>

section \<open>Set-up\<close>

definition client_setup ::
  "lpid_t \<Rightarrow> cluster_config \<Rightarrow> replica_t \<Rightarrow> partition_t \<Rightarrow> network_config \<Rightarrow> string \<Rightarrow> string \<Rightarrow> rat
   \<Rightarrow> client_config option" where
  "client_setup lpid cluster replica part network_conf workload_name distribution skew = do {
     w \<leftarrow> map_of workload_definitions workload_name;
     d \<leftarrow> map_of client_key_distributions distribution;
     Some \<lparr>cc_lpid = lpid, cc_replica = replica, cc_partition = part, tied_to_partition = True, cc_cluster = cluster,
           cc_network = network_conf, cc_funcs = w, cc_key_distribution = d, zipf_skew = skew\<rparr>
   }"

text \<open>The nested function \<open>set_network_delay\<close>: the delays between the client and a server, both ways.\<close>

definition client_set_network_delay ::
  "lpid_t \<Rightarrow> rat \<Rightarrow> lpid_t \<Rightarrow> network_config \<Rightarrow> network_config option" where
  "client_set_network_delay lpid delay server_lpid conf = do {
     conf \<leftarrow> network_set_delay conf lpid server_lpid delay;
     network_set_delay conf server_lpid lpid delay
   }"

text \<open>
  In C the table of delays is shared by all processes; here each has its own copy, with the entries it
  writes itself.
\<close>

definition client_init ::
  "('p, 'q) client_funcs \<Rightarrow> client_config \<Rightarrow> lpid_t \<Rightarrow> simtime \<Rightarrow> ('p, 'q) wclient \<Rightarrow> ('p, 'q) wclient option" where
  "client_init cf c lpid t st = do {
     let st = st\<lparr>cs_config := c\<rparr>;
     c_assert (unat (num_partitions (cc_cluster c)) < INT_MAX);
     (part, st) \<leftarrow> random_uint st 0 (num_partitions (cc_cluster c));
     let st = st\<lparr>last_used_partition := part, cs_network := network_init, cs_start_time := t, cs_now := t,
                 request_time := - 1, last_request_duration := 0, cs_finished := False,
                 request_type_names := [], request_stats := []\<rparr>;
     intra \<leftarrow> cfg st [''network'', ''intra_datacenter_delay''];
     conf \<leftarrow>
       (if tied_to_partition c
        then do {
          server_lpid \<leftarrow> cluster_get_lpid (cc_cluster c) (cc_replica c) (cc_partition c);
          client_set_network_delay lpid intra server_lpid (cc_network c)
        }
        else foreach_partition (cc_cluster c) (cc_replica c)
               (\<lambda>server_lpid _. client_set_network_delay lpid intra server_lpid) (cc_network c));
     rate \<leftarrow> cfg st [''network'', ''transmission_rate''];
     conf \<leftarrow> network_set_transmission_rate conf lpid rate;
     let c = c\<lparr>cc_network := conf\<rparr>;
     let st = st\<lparr>cs_config := c\<rparr>;
     (ps, st) \<leftarrow> cf_init cf st c;
     let st = st\<lparr>protocol_state := ps\<rparr>;
     on_init (funcs_of_workload (cc_funcs c)) cf st (cc_cluster c)
   }"

section \<open>Events\<close>

definition client_tick :: "('p, 'q) client_funcs \<Rightarrow> ('p, 'q) wclient \<Rightarrow> ('p, 'q) wclient option" where
  "client_tick cf st = on_tick (funcs_of_workload (cc_funcs (cs_config st))) cf st"

definition client_process_event ::
  "('p, 'q) client_funcs \<Rightarrow> client_config \<Rightarrow> lpid_t \<Rightarrow> simtime \<Rightarrow> event_type \<Rightarrow> 'p event_data \<Rightarrow> nat
   \<Rightarrow> ('p, 'q) wclient \<Rightarrow> ('p, 'q) wclient option" where
  "client_process_event cf c lpid t event_type data data_size st = do {
     st \<leftarrow> (if allocated st
            then do {
              c_assert (lpid = cc_lpid (cs_config st));
              c_assert (cs_now st \<le> t);
              Some (st\<lparr>cs_now := t\<rparr>)
            }
            else Some st);
     (if event_type = ROOTSIM_INIT
      then if t = 0
        then do {
          c_assert (data_size < UINT_MAX);
          let (r, st) = random_real st;
          Some (ScheduleNewEvent st lpid (r * (2 / 1000) + t) event_type data data_size)
        }
        else do {
          st \<leftarrow> client_init cf c lpid t st;
          Some (st\<lparr>allocated := True\<rparr>)
        }
      else do {
        c_assert (allocated st);
        (if event_type = CLIENT_TICK then client_tick cf st
         else do {
           r \<leftarrow> cf_process_event cf st t event_type data data_size;
           r
         })
      })
   }"

text \<open>\<open>client_on_gvt\<close> without the report it writes; \<open>real_time\<close> is \<open>time(NULL)\<close>.\<close>

definition client_on_gvt ::
  "simtime \<Rightarrow> int \<Rightarrow> int \<Rightarrow> ('p, 'q) wclient \<Rightarrow> bool \<times> ('p, 'q) wclient" where
  "client_on_gvt stop_after_simulated_seconds stop_after_real_time real_time st =
     (if stop_after_simulated_seconds < cs_now st
         \<or> (stop_after_real_time \<noteq> 0 \<and> stop_after_real_time < real_time)
      then (True, if \<not> cs_finished st then st\<lparr>cs_finished := True\<rparr> else st)
      else (False, st))"

end
