(* ===== verification/Client_Gr.thy ===== *)
theory Client_Gr
  imports Client_Process Gr_Server
begin

text \<open>
  The client side of the GentleRain protocol, \<open>src/client/protocols/gr.c\<close>. The ids of the request
  types are global variables there; every client registers the same three types first, so they are
  kept with the state of the protocol.
\<close>

record client_state_gr =
  cg_config :: client_config
  cg_dependency_time :: gr_tsp
  cg_gst :: gr_tsp
  cg_get_request_type :: u32
  cg_put_request_type :: u32
  cg_rotx_request_type :: u32

type_synonym gr_client = "(gr_msg, client_state_gr) wclient"

definition gr_client_protocol_init ::
  "gr_client \<Rightarrow> client_config \<Rightarrow> (client_state_gr \<times> gr_client) option" where
  "gr_client_protocol_init client conf = do {
     (g, client) \<leftarrow> client_register_request_type client ''get'';
     (p, client) \<leftarrow> client_register_request_type client ''put'';
     (r, client) \<leftarrow> client_register_request_type client ''rotx'';
     Some (\<lparr>cg_config = conf, cg_dependency_time = 0, cg_gst = 0, cg_get_request_type = g, cg_put_request_type = p,
            cg_rotx_request_type = r\<rparr>, client)
   }"

definition gr_update_times :: "gr_tsp \<Rightarrow> gr_tsp \<Rightarrow> gr_client \<Rightarrow> gr_client" where
  "gr_update_times gst_time dependency_time client =
     (let ps = protocol_state client;
          ps = ps\<lparr>cg_dependency_time := set_max (cg_dependency_time ps) dependency_time\<rparr>;
          ps = ps\<lparr>cg_gst := set_max (cg_gst ps) gst_time\<rparr>
      in client\<lparr>protocol_state := ps\<rparr>)"

definition gr_client_get_request :: "gr_client \<Rightarrow> gr_key \<Rightarrow> gr_client option" where
  "gr_client_get_request client key = do {
     let state = protocol_state client;
     server_lpid \<leftarrow> client_lpid_for_key (cg_config state) key;
     let request = gr_get_request_new\<lparr>getq_client_lpid := cc_lpid (cg_config state), getq_proxy_lpid := NO_PROXY_LPID,
       getq_key := key, getq_gst := cg_gst state\<rparr>;
     client \<leftarrow> client_begin_request client;
     client_send client server_lpid GR_GET_REQUEST request (Data (GetRequest request))
   }"

definition gr_client_put_request :: "gr_client \<Rightarrow> gr_key \<Rightarrow> gr_value \<Rightarrow> gr_client option" where
  "gr_client_put_request client key value = do {
     let state = protocol_state client;
     server_lpid \<leftarrow> client_lpid_for_key (cg_config state) key;
     let request = gr_put_request_new\<lparr>putq_client_lpid := cc_lpid (cg_config state), putq_proxy_lpid := NO_PROXY_LPID,
       putq_key := key, putq_value := value, putq_dependency_time := cg_dependency_time state\<rparr>;
     client \<leftarrow> client_begin_request client;
     client_send client server_lpid GR_PUT_REQUEST request (Data (PutRequest request))
   }"

text \<open>\<open>memcpy\<close> reads \<open>num_keys\<close> keys; reading past the end of the array is outside the model.\<close>

definition gr_client_rotx_request :: "gr_client \<Rightarrow> gr_key list \<Rightarrow> u32 \<Rightarrow> gr_client option" where
  "gr_client_rotx_request client keys num_keys = do {
     let state = protocol_state client;
     c_assert (unat num_keys \<le> length keys);
     let request = (gr_get_rotx_request_new num_keys)\<lparr>rxq_client_lpid := cc_lpid (cg_config state),
       rxq_keys := take (unat num_keys) keys, rxq_gst := cg_gst state, rxq_dependency_time := cg_dependency_time state\<rparr>;
     (server_lpid, client) \<leftarrow> lpid_of_any_partition client;
     client \<leftarrow> client_begin_request client;
     client_send client server_lpid GR_ROTX_REQUEST request (Data (RotxRequest request))
   }"

definition gr_client_get_response :: "gr_client \<Rightarrow> gr_get_response \<Rightarrow> gr_client option" where
  "gr_client_get_response client response = do {
     let state = protocol_state client;
     (_, client) \<leftarrow> client_finish_request client (cg_get_request_type state);
     let client = gr_update_times (getr_gst response) (getr_update_timestamp response) client;
     f \<leftarrow> on_get_response (funcs_of_workload (cc_funcs (cg_config state)));
     f client (getr_value response)
   }"

definition gr_client_put_response :: "gr_client \<Rightarrow> gr_put_response \<Rightarrow> gr_client option" where
  "gr_client_put_response client response = do {
     let state = protocol_state client;
     (_, client) \<leftarrow> client_finish_request client (cg_put_request_type state);
     let client = gr_update_times 0 (putr_update_timestamp response) client;
     f \<leftarrow> on_put_response (funcs_of_workload (cc_funcs (cg_config state)));
     f client
   }"

definition gr_client_rotx_response :: "gr_client \<Rightarrow> gr_get_rotx_response \<Rightarrow> gr_client option" where
  "gr_client_rotx_response client response = do {
     let state = protocol_state client;
     (_, client) \<leftarrow> client_finish_request client (cg_rotx_request_type state);
     let client = gr_update_times (rxr_gst response) (rxr_update_timestamp response) client;
     f \<leftarrow> on_rotx_response (funcs_of_workload (cc_funcs (cg_config state)));
     f client (rxr_values response) (rxr_num_values response)
   }"

definition as_RotxResponse :: "gr_msg \<Rightarrow> gr_get_rotx_response option" where
  "as_RotxResponse m = (case m of RotxResponse r \<Rightarrow> Some r | _ \<Rightarrow> None)"

definition gr_client_protocol_process_event ::
  "gr_client \<Rightarrow> simtime \<Rightarrow> event_type \<Rightarrow> gr_msg event_data \<Rightarrow> nat \<Rightarrow> gr_client option option" where
  "gr_client_protocol_process_event client t event_type data data_size =
     (if event_type = GR_GET_RESPONSE then on_msg as_GetResponse gr_client_get_response client data
      else if event_type = GR_PUT_RESPONSE then on_msg as_PutResponse gr_client_put_response client data
      else if event_type = GR_ROTX_RESPONSE then on_msg as_RotxResponse gr_client_rotx_response client data
      else Some None)"

definition gr_client_funcs :: "(gr_msg, client_state_gr) client_funcs" where
  "gr_client_funcs =
     \<lparr>cf_init = gr_client_protocol_init, cf_get_request = gr_client_get_request, cf_put_request = gr_client_put_request,
      cf_rotx_request = gr_client_rotx_request, cf_process_event = gr_client_protocol_process_event\<rparr>"

end
