(* ===== verification/Client_Run.thy ===== *)
theory Client_Run
  imports Client_Process Run
begin

text \<open>
  A client along its runs, for any protocol that keeps the contract \<open>client_protocol\<close>: a request
  begins when none is pending and sends one message, a response ends the pending request and is
  handed to the workload. A client is a closed loop: it either waits for a response or has one tick
  pending.
\<close>

section \<open>Drawing random numbers\<close>

text \<open>An operation that only draws random numbers.\<close>

definition only_draws :: "('p, 'w, 'q) client_state \<Rightarrow> ('a \<times> ('p, 'w, 'q) client_state) option \<Rightarrow> bool" where
  "only_draws st e \<longleftrightarrow> (\<forall>x st'. e = Some (x, st') \<longrightarrow> (\<exists>n. st' = st\<lparr>draws := n\<rparr>))"

lemma only_drawsD: "only_draws st e \<Longrightarrow> e = Some (x, st') \<Longrightarrow> \<exists>n. st' = st\<lparr>draws := n\<rparr>"
  by (simp add: only_draws_def)

lemma randomize_value_draws: "randomize_value st = (of_int (range_source st (draws st) 0 255), st\<lparr>draws := draws st + 1\<rparr>)"
  by (simp add: randomize_value_def random_range_def)

lemma random_uint_draws: "only_draws st (random_uint st lo hi)"
  by (auto simp: only_draws_def random_uint_def random_range_def bind_eq_Some_conv)

lemma client_random_key_draws: "only_draws st (client_random_key st)"
  by (auto simp: only_draws_def client_random_key_def random_key_uniform_def random_key_zipf_def bind_eq_Some_conv
      split: key_distribution.splits)

lemma client_random_key_on_partition_draws: "only_draws st (client_random_key_on_partition st part)"
  by (auto simp: only_draws_def client_random_key_on_partition_def random_key_uniform_on_partition_def
      random_key_zipf_on_partition_def bind_eq_Some_conv split: key_distribution.splits)

lemma client_random_keys_draws: "client_random_keys st k = Some (keys, st') \<Longrightarrow> length keys = k \<and> (\<exists>n. st' = st\<lparr>draws := n\<rparr>)"
proof (induction k arbitrary: st keys st')
  case 0
  then show ?case by (auto intro: exI [of _ "draws st"])
next
  case (Suc k)
  then obtain key st1 ks where 1: "client_random_key st = Some (key, st1)"
    and 2: "client_random_keys st1 k = Some (ks, st')" "keys = key # ks" by (auto simp: bind_eq_Some_conv)
  from only_drawsD [OF client_random_key_draws 1] Suc.IH [OF 2(1)] 2(2) show ?case by auto
qed

lemma client_thinking_time_draws: "only_draws st (client_thinking_time st)"
  by (auto simp: only_draws_def client_thinking_time_def dest: timing_func_draws)

section \<open>The data of a workload\<close>

text \<open>The structure of the workload \<open>w\<close>, while a response is awaited or not.\<close>

fun data_ok :: "workload \<Rightarrow> bool \<Rightarrow> workload_data \<Rightarrow> bool" where
  "data_ok Get_put_rr waiting (Get_put_rr_data s) \<longleftrightarrow>
     last_get_partition s < num_partitions (gp_cluster s) \<and> num_get_since_put s \<le> num_partitions (gp_cluster s)"
| "data_ok Probabilistic waiting (Probabilistic_data s) \<longleftrightarrow>
     pr_state s = (if waiting then Prob_WAITING_RESPONSE else Prob_SLEEPING)"
| "data_ok Rotx_put_rr waiting (Rotx_put_rr_data s) \<longleftrightarrow>
     rotx_partition s < num_partitions (rp_cluster s) \<and> (waiting \<longleftrightarrow> rp_state s \<noteq> Rotx_SLEEPING)"
| "data_ok _ _ _ \<longleftrightarrow> False"

lemma above_is_pos: "a < b \<Longrightarrow> 0 < b" for a b :: u32
  by (metis word_gt_0 word_not_simps(1))

lemma inc_range_less:
  assumes "0 < n"
  shows "inc_range p 0 (n - 1) < n"
proof (cases "n - 1 < p + 1")
  case True
  then show ?thesis using assms by (simp add: inc_range_def)
next
  case False
  then have "p + 1 \<le> n - 1" by simp
  moreover have "n - 1 < n" using unat_minus_one [of n] assms by (auto simp: word_less_nat_alt unat_gt_0)
  ultimately show ?thesis using False by (simp add: inc_range_def)
qed

section \<open>What the steps of a client do\<close>

definition own_events :: "lpid_t \<Rightarrow> event_type \<Rightarrow> 'p sim_event list \<Rightarrow> nat" where
  "own_events l t es = length (filter (\<lambda>e. ev_to e = l \<and> ev_type e = t) es)"

definition internal_event :: "event_type \<Rightarrow> bool" where
  "internal_event t \<longleftrightarrow> t = ROOTSIM_INIT \<or> t = CLIENT_TICK"

definition same_client :: "('p, 'q) wclient \<Rightarrow> ('p, 'q) wclient \<Rightarrow> bool" where
  "same_client st st' \<longleftrightarrow> cs_config st' = cs_config st \<and> cs_now st' = cs_now st \<and> allocated st' = allocated st \<and>
     random_source st' = random_source st"

definition asked :: "('p, 'q) wclient \<Rightarrow> ('p, 'q) wclient \<Rightarrow> bool" where
  "asked st st' \<longleftrightarrow> same_client st st' \<and> protocol_state st' = protocol_state st \<and> request_time st = - 1 \<and>
     request_time st' = cs_now st \<and> (\<exists>e. scheduled st' = scheduled st @ [e] \<and> \<not> internal_event (ev_type e))"

definition answered :: "('p, 'q) wclient \<Rightarrow> ('p, 'q) wclient \<Rightarrow> bool" where
  "answered st st' \<longleftrightarrow> same_client st st' \<and> scheduled st' = scheduled st \<and> state_data st' = state_data st \<and>
     request_time st \<noteq> - 1 \<and> request_time st' = - 1"

definition rested :: "('p, 'q) wclient \<Rightarrow> ('p, 'q) wclient \<Rightarrow> bool" where
  "rested st st' \<longleftrightarrow> same_client st st' \<and> protocol_state st' = protocol_state st \<and> request_time st' = request_time st \<and>
     (\<exists>t. scheduled st' = scheduled st @
        [\<lparr>ev_to = cc_lpid (cs_config st), ev_time = t, ev_type = CLIENT_TICK, ev_data = NoData, ev_size = 0\<rparr>])"

definition callback :: "workload \<Rightarrow> ('p, 'q) wclient \<Rightarrow> ('p, 'q) wclient \<Rightarrow> bool" where
  "callback w st st' \<longleftrightarrow>
     (\<exists>f v. on_get_response (funcs_of_workload w) = Some f \<and> f st v = Some st') \<or>
     (\<exists>f. on_put_response (funcs_of_workload w) = Some f \<and> f st = Some st') \<or>
     (\<exists>f vs n. on_rotx_response (funcs_of_workload w) = Some f \<and> f st vs n = Some st')"

text \<open>A request leaves the data of the workload alone.\<close>

definition requested :: "('p, 'q) wclient \<Rightarrow> ('p, 'q) wclient \<Rightarrow> bool" where
  "requested st st' \<longleftrightarrow> asked st st' \<and> state_data st' = state_data st"

lemmas client_step_defs = requested_def asked_def answered_def rested_def same_client_def

lemma asked_update [simp]:
  "asked (st\<lparr>draws := n\<rparr>) st' = asked st st'" "asked (st\<lparr>state_data := d\<rparr>) st' = asked st st'"
  "asked st (st'\<lparr>state_data := d\<rparr>) = asked st st'"
  by (simp_all add: client_step_defs)

lemmas workload_defs = funcs_of_workload_def workload_get_put_rr_funcs_def workload_probabilistic_funcs_def
  workload_rotx_put_rr_funcs_def

text \<open>A response makes the workload schedule its next tick and leaves it ready for it.\<close>

lemma callback_rests:
  assumes "callback w st st'" and "data_ok w True (state_data st)"
  shows "rested st st' \<and> data_ok w False (state_data st')"
proof (cases w)
  case Get_put_rr
  then obtain s where s: "state_data st = Get_put_rr_data s" using assms(2) by (cases "state_data st") auto
  then obtain t st1 where "get_put_rr_thinking_time st = Some (t, st1)" and st': "st' = client_schedule_tick st1 t"
    using assms(1) Get_put_rr
    by (auto simp: callback_def workload_defs get_put_rr_on_get_response_def get_put_rr_on_put_response_def bind_eq_Some_conv)
  then obtain n where "st1 = st\<lparr>draws := n\<rparr>"
    using s by (auto simp: get_put_rr_thinking_time_def get_put_rr_get_state_def bind_eq_Some_conv split: if_splits
        dest!: only_drawsD [OF client_thinking_time_draws])
  then show ?thesis using assms(2) st' Get_put_rr s
    by (auto simp: client_schedule_tick_def ScheduleNewEvent_def client_step_defs)
next
  case Probabilistic
  then obtain s where s: "state_data st = Probabilistic_data s" using assms(2) by (cases "state_data st") auto
  with Probabilistic assms(1) show ?thesis
    by (auto simp: callback_def workload_defs probabilistic_on_get_response_def probabilistic_on_put_response_def
        probabilistic_on_rotx_response_def probabilistic_response_def probabilistic_get_state_def bind_eq_Some_conv client_step_defs
        client_schedule_tick_def ScheduleNewEvent_def dest!: only_drawsD [OF client_thinking_time_draws])
next
  case Rotx_put_rr
  then obtain s where s: "state_data st = Rotx_put_rr_data s" using assms(2) by (cases "state_data st") auto
  with Rotx_put_rr assms show ?thesis
    by (auto simp: callback_def workload_defs rotx_put_rr_on_put_response_def rotx_put_rr_on_rotx_response_def
        rotx_put_rr_get_state_def bind_eq_Some_conv client_step_defs client_schedule_tick_def ScheduleNewEvent_def
        dest!: only_drawsD [OF client_thinking_time_draws])
qed

section \<open>Sending and finishing a request\<close>

lemma client_send_effect:
  "client_send st to t m d = Some st' \<Longrightarrow> \<exists>w ns. st' = (ScheduleNewEvent st to w t d (m_size m))\<lparr>cs_network := ns\<rparr>"
  by (auto simp: client_send_def bind_eq_Some_conv dest!: network_send_sent)

lemma client_finish_answers:
  "client_finish_request st ty = Some (d, st') \<Longrightarrow> answered st st' \<and> protocol_state st' = protocol_state st"
  by (auto simp: client_finish_request_def bind_eq_Some_conv Let_def client_step_defs split: if_splits)

lemma begin_and_send_asks:
  assumes "client_begin_request st = Some st1" and "client_send st1 to t m d = Some st'" and "\<not> internal_event t"
  shows "requested st st' \<and> (\<exists>w. scheduled st' = scheduled st @ [\<lparr>ev_to = to, ev_time = w, ev_type = t, ev_data = d, ev_size = m_size m\<rparr>])"
  using client_send_effect [OF assms(2)] assms(1,3)
  by (auto simp: client_begin_request_def bind_eq_Some_conv client_step_defs ScheduleNewEvent_def)

lemma lpid_of_any_partition_keeps:
  "lpid_of_any_partition st = Some (l, st') \<Longrightarrow> \<exists>p. st' = st\<lparr>last_used_partition := p\<rparr>"
  by (cases st) (auto simp: lpid_of_any_partition_def bind_eq_Some_conv Let_def split: if_splits)

lemma requested_update [simp]:
  "requested (st\<lparr>last_used_partition := p\<rparr>) st' = requested st st'"
  by (simp add: client_step_defs)

section \<open>The contract of a protocol\<close>

text \<open>
  \<open>belongs ps c\<close>: the state \<open>ps\<close> of the protocol belongs to a client with configuration \<open>c\<close>;
  \<open>le ps ps'\<close>: \<open>ps'\<close> knows at least what \<open>ps\<close> knows.
\<close>

locale client_protocol =
  fixes cf :: "('p, 'q) client_funcs" and belongs :: "'q \<Rightarrow> client_config \<Rightarrow> bool"
    and le :: "'q \<Rightarrow> 'q \<Rightarrow> bool"
  assumes le_refl: "le ps ps" and le_trans: "le ps ps' \<Longrightarrow> le ps' ps'' \<Longrightarrow> le ps ps''"
    and init_law: "cf_init cf st c = Some (ps, st') \<Longrightarrow>
      belongs ps c \<and> same_client st st' \<and> scheduled st' = scheduled st \<and> request_time st' = request_time st"
    and get_law: "post (cf_get_request cf st key) (requested st)"
    and put_law: "post (cf_put_request cf st key v) (requested st)"
    and rotx_law: "post (cf_rotx_request cf st keys n) (requested st)"
    and event_law: "cf_process_event cf st t ty d sz = Some (Some st') \<Longrightarrow> belongs (protocol_state st) (cs_config st) \<Longrightarrow>
      \<exists>st1. answered st st1 \<and> belongs (protocol_state st1) (cs_config st1) \<and> le (protocol_state st) (protocol_state st1) \<and>
        callback (cc_funcs (cs_config st)) st1 st'"
begin

lemmas request_laws = get_law [THEN postD, unfolded requested_def] put_law [THEN postD, unfolded requested_def]
  rotx_law [THEN postD, unfolded requested_def]

lemma get_put_rr_tick_asks:
  assumes "get_put_rr_tick cf st = Some st'" and "state_data st = Get_put_rr_data s"
    and "0 < num_partitions (gp_cluster s)" and "num_get_since_put s \<le> num_partitions (gp_cluster s)"
    and "num_get_since_put s = num_partitions (gp_cluster s) \<longrightarrow> last_get_partition s < num_partitions (gp_cluster s)"
  shows "asked st st' \<and> data_ok Get_put_rr True (state_data st')"
proof -
  let ?n = "num_partitions (gp_cluster s)"
  have "num_get_since_put s \<noteq> ?n \<Longrightarrow> num_get_since_put s + 1 \<le> ?n"
    using assms(4) by (simp add: inc_le order.strict_iff_order)
  with assms show ?thesis
    by (auto simp: get_put_rr_tick_def get_put_rr_get_state_def bind_eq_Some_conv Let_def randomize_value_draws inc_range_less
        split: if_splits dest!: only_drawsD [OF client_random_key_on_partition_draws] request_laws)
qed

lemma probabilistic_tick_asks:
  assumes "probabilistic_on_tick cf st = Some st'" and "state_data st = Probabilistic_data s" and "pr_state s = Prob_SLEEPING"
  shows "asked st st' \<and> data_ok Probabilistic True (state_data st')"
  using assms
  by (auto simp: probabilistic_on_tick_def probabilistic_get_state_def bind_eq_Some_conv Let_def randomize_value_draws
      random_real_def split: if_splits
      dest!: only_drawsD [OF client_random_key_draws] request_laws client_random_keys_draws)

lemma rotx_keys_partition:
  assumes "rotx_keys n s st = Some (keys, s', st')" and "rotx_partition s < num_partitions (rp_cluster s)"
  shows "length keys = n \<and> (\<exists>k. st' = st\<lparr>draws := k\<rparr>) \<and> (\<exists>p < num_partitions (rp_cluster s). s' = s\<lparr>rotx_partition := p\<rparr>)"
  using assms
proof (induction n arbitrary: s st keys)
  case 0
  then show ?case by (auto intro: exI [of _ "draws st"] exI [of _ "rotx_partition s"])
next
  case (Suc n)
  let ?s = "s\<lparr>rotx_partition := inc_range (rotx_partition s) 0 (num_partitions (rp_cluster s) - 1)\<rparr>"
  from Suc.prems(1) obtain key st1 ks where 1: "client_random_key_on_partition st (rotx_partition s) = Some (key, st1)"
    and 2: "rotx_keys n ?s st1 = Some (ks, s', st')" "keys = key # ks" by (auto simp: bind_eq_Some_conv Let_def)
  have "rotx_partition ?s < num_partitions (rp_cluster ?s)" using above_is_pos [OF Suc.prems(2)] by (simp add: inc_range_less)
  from only_drawsD [OF client_random_key_on_partition_draws 1] Suc.IH [OF 2(1) this] 2(2) show ?case by auto
qed

lemma rotx_put_rr_tick_asks:
  assumes "rotx_put_rr_on_tick cf st = Some st'" and s: "state_data st = Rotx_put_rr_data s" and "rp_state s = Rotx_SLEEPING"
  shows "asked st st' \<and> data_ok Rotx_put_rr True (state_data st')"
proof (cases "rotx_count s < num_rotx s")
  case True
  with assms show ?thesis
    by (auto simp: rotx_put_rr_on_tick_def rotx_put_rr_get_state_def do_rotx_def bind_eq_Some_conv
        dest!: rotx_keys_partition request_laws)
next
  case False
  with assms show ?thesis
    by (auto simp: rotx_put_rr_on_tick_def rotx_put_rr_get_state_def do_put_def bind_eq_Some_conv Let_def randomize_value_draws
        dest!: only_drawsD [OF client_random_key_on_partition_draws] request_laws)
qed

lemma tick_asks:
  assumes "on_tick (funcs_of_workload w) cf st = Some st'" and "data_ok w False (state_data st)"
  shows "asked st st' \<and> data_ok w True (state_data st')"
proof (cases w)
  case Get_put_rr
  then obtain s where "state_data st = Get_put_rr_data s" using assms(2) by (cases "state_data st") auto
  with Get_put_rr assms get_put_rr_tick_asks above_is_pos show ?thesis by (auto simp: workload_defs get_put_rr_on_tick_def)
next
  case Probabilistic
  then obtain s where "state_data st = Probabilistic_data s" using assms(2) by (cases "state_data st") auto
  with Probabilistic assms probabilistic_tick_asks show ?thesis by (auto simp: workload_defs)
next
  case Rotx_put_rr
  then obtain s where "state_data st = Rotx_put_rr_data s" using assms(2) by (cases "state_data st") auto
  with Rotx_put_rr assms rotx_put_rr_tick_asks show ?thesis by (auto simp: workload_defs)
qed

lemma init_asks:
  assumes "on_init (funcs_of_workload w) cf st cl = Some st'"
  shows "asked st st' \<and> data_ok w True (state_data st')"
proof (cases w)
  case Get_put_rr
  with assms obtain g p n where t: "get_put_rr_tick cf (st\<lparr>draws := n, state_data := Get_put_rr_data
      \<lparr>gp_cluster = cl, last_get_partition = g, last_put_partition = p, num_get_since_put = 0, target_request_time = 0\<rparr>\<rparr>) = Some st'"
    and "0 < num_partitions cl"
    by (auto simp: workload_defs get_put_rr_on_init_def bind_eq_Some_conv random_uint_def random_range_def Let_def)
  then show ?thesis using Get_put_rr get_put_rr_tick_asks [OF t] by (simp add: word_gt_0)
next
  case Probabilistic
  with assms show ?thesis
    by (auto simp: workload_defs probabilistic_on_init_def bind_eq_Some_conv Let_def dest!: probabilistic_tick_asks)
next
  case Rotx_put_rr
  with assms show ?thesis
    by (auto simp: workload_defs rotx_put_rr_on_init_def bind_eq_Some_conv Let_def
        dest!: only_drawsD [OF random_uint_draws] rotx_put_rr_tick_asks)
qed

text \<open>
  The state after \<open>client_init\<close>: one request is on its way.
\<close>

definition client_ready :: "client_config \<Rightarrow> ('p, 'q) wclient \<Rightarrow> bool" where
  "client_ready c st \<longleftrightarrow> cc_lpid (cs_config st) = cc_lpid c \<and> cc_funcs (cs_config st) = cc_funcs c \<and>
     cc_cluster (cs_config st) = cc_cluster c \<and> belongs (protocol_state st) (cs_config st) \<and> data_ok (cc_funcs c) (request_time st \<noteq> - 1) (state_data st)"

lemma client_init_ready:
  assumes "client_init cf c lpid t st = Some st'" and "t \<noteq> - 1"
  shows "client_ready c st' \<and> cs_now st' = t \<and> request_time st' = t \<and> random_source st' = random_source st \<and>
     (\<exists>e. scheduled st' = scheduled st @ [e] \<and> \<not> internal_event (ev_type e))"
proof -
  from assms(1) obtain part st0 conf ps st2 where 0: "random_uint (st\<lparr>cs_config := c\<rparr>) 0 (num_partitions (cc_cluster c)) = Some (part, st0)"
    and 2: "cf_init cf (st0\<lparr>last_used_partition := part, cs_network := network_init, cs_start_time := t, cs_now := t,
      request_time := - 1, last_request_duration := 0, cs_finished := False, request_type_names := [], request_stats := [],
      cs_config := c\<lparr>cc_network := conf\<rparr>\<rparr>) (c\<lparr>cc_network := conf\<rparr>) = Some (ps, st2)"
    and 3: "on_init (funcs_of_workload (cc_funcs c)) cf (st2\<lparr>protocol_state := ps\<rparr>) (cc_cluster c) = Some st'"
    by (auto simp: client_init_def bind_eq_Some_conv Let_def split: if_splits)
  from only_drawsD [OF random_uint_draws 0] init_law [OF 2] init_asks [OF 3] assms(2) show ?thesis
    by (auto simp: client_ready_def client_step_defs)
qed

end

section \<open>Runs\<close>

text \<open>
  The kernel delivers the events a client has scheduled for itself and those that other processes
  send to it, in any order; the events that start a client or make it tick are its own.
\<close>

definition deliver_to_client ::
  "('p, 'q) client_funcs \<Rightarrow> client_config \<Rightarrow> 'p sim_event \<Rightarrow> ('p, 'q) wclient \<Rightarrow> ('p, 'q) wclient option" where
  "deliver_to_client cf c e st = client_process_event cf c (cc_lpid c) (ev_time e) (ev_type e) (ev_data e) (ev_size e)
     (st\<lparr>scheduled := remove1 e (scheduled st)\<rparr>)"

inductive client_step :: "('p, 'q) client_funcs \<Rightarrow> client_config \<Rightarrow> ('p, 'q) wclient \<Rightarrow> ('p, 'q) wclient \<Rightarrow> bool"
  for cf c where
  client_deliver: "e \<in> set (scheduled st) \<Longrightarrow> ev_to e = cc_lpid c \<Longrightarrow> deliver_to_client cf c e st = Some st'
    \<Longrightarrow> client_step cf c st st'"
| client_receive: "\<not> internal_event (ev_type e) \<Longrightarrow> client_step cf c st (st\<lparr>scheduled := scheduled st @ [e]\<rparr>)"

text \<open>Before the first event: the kernel has scheduled \<open>INIT\<close> for time 0.\<close>

definition client_started :: "client_config \<Rightarrow> ('p, 'q) wclient \<Rightarrow> bool" where
  "client_started c st \<longleftrightarrow> \<not> allocated st \<and> (\<forall>n. 0 \<le> random_source st n) \<and>
     scheduled st = [\<lparr>ev_to = cc_lpid c, ev_time = 0, ev_type = ROOTSIM_INIT, ev_data = NoData, ev_size = 0\<rparr>]"

lemma own_events_simps [simp]:
  "own_events l t [] = 0"
  "own_events l t (es @ fs) = own_events l t es + own_events l t fs"
  "own_events l t (e # es) = of_bool (ev_to e = l \<and> ev_type e = t) + own_events l t es"
  by (simp_all add: own_events_def)

lemma own_events_remove1:
  "e \<in> set es \<Longrightarrow> own_events l t (remove1 e es) + of_bool (ev_to e = l \<and> ev_type e = t) = own_events l t es"
  by (induction es) (auto simp: own_events_def)

context client_protocol
begin

definition client_inv :: "client_config \<Rightarrow> ('p, 'q) wclient \<Rightarrow> bool" where
  "client_inv c st \<longleftrightarrow> (\<forall>n. 0 \<le> random_source st n) \<and>
     (\<forall>e \<in> set (scheduled st). ev_type e = ROOTSIM_INIT \<longrightarrow> 0 \<le> ev_time e) \<and>
     own_events (cc_lpid c) ROOTSIM_INIT (scheduled st) = of_bool (\<not> allocated st) \<and>
     own_events (cc_lpid c) CLIENT_TICK (scheduled st) = of_bool (allocated st \<and> request_time st = - 1) \<and>
     (allocated st \<longrightarrow> client_ready c st \<and> 0 \<le> cs_now st)"

lemma started_inv: "client_started c st \<Longrightarrow> client_inv c st"
  by (simp add: client_started_def client_inv_def)

lemma own_event_counted:
  assumes "e \<in> set (scheduled st)" and "ev_to e = cc_lpid c"
  shows "own_events (cc_lpid c) t (scheduled st) = own_events (cc_lpid c) t (remove1 e (scheduled st)) + of_bool (ev_type e = t)"
  using own_events_remove1 [OF assms(1), of "cc_lpid c" t] assms(2) by simp

lemma own_event_bounds:
  assumes "client_inv c st" and "e \<in> set (scheduled st)" and "ev_to e = cc_lpid c"
  shows "ev_type e = ROOTSIM_INIT \<Longrightarrow> \<not> allocated st" "ev_type e = CLIENT_TICK \<Longrightarrow> allocated st \<and> request_time st = - 1"
  using assms own_event_counted [OF assms(2,3), of ROOTSIM_INIT] own_event_counted [OF assms(2,3), of CLIENT_TICK]
  by (auto simp: client_inv_def of_bool_def split: if_splits)

lemmas remaining = set_remove1_subset [THEN subsetD]

lemma inv_tick:
  assumes inv: "client_inv c st" and e: "e \<in> set (scheduled st)" "ev_to e = cc_lpid c" and t: "ev_type e = CLIENT_TICK"
    and d: "deliver_to_client cf c e st = Some st'"
  shows "client_inv c st'"
proof -
  let ?st = "st\<lparr>scheduled := remove1 e (scheduled st), cs_now := ev_time e\<rparr>"
  have a: "allocated st" "request_time st = - 1" using own_event_bounds [OF inv e] t by auto
  with d t have "on_tick (funcs_of_workload (cc_funcs (cs_config st))) cf ?st = Some st'" and now: "cs_now st \<le> ev_time e"
    by (auto simp: deliver_to_client_def client_process_event_def client_tick_def bind_eq_Some_conv)
  with tick_asks [of _ ?st st'] inv a have "asked ?st st'" "data_ok (cc_funcs c) True (state_data st')"
    by (auto simp: client_inv_def client_ready_def)
  with inv a now own_event_counted [OF e] t show ?thesis
    by (auto simp: client_inv_def client_ready_def client_step_defs internal_event_def dest!: remaining)
qed

lemma inv_response:
  assumes inv: "client_inv c st" and e: "e \<in> set (scheduled st)" "ev_to e = cc_lpid c" and t: "\<not> internal_event (ev_type e)"
    and d: "deliver_to_client cf c e st = Some st'"
  shows "client_inv c st'"
proof -
  let ?st = "st\<lparr>scheduled := remove1 e (scheduled st), cs_now := ev_time e\<rparr>"
  from d t have a: "allocated st" and now: "cs_now st \<le> ev_time e"
    and "cf_process_event cf ?st (ev_time e) (ev_type e) (ev_data e) (ev_size e) = Some (Some st')"
    by (auto simp: deliver_to_client_def client_process_event_def bind_eq_Some_conv internal_event_def split: if_splits)
  with event_law inv obtain st1 where st1: "answered ?st st1" "belongs (protocol_state st1) (cs_config st1)"
    "callback (cc_funcs c) st1 st'" by (fastforce simp: client_inv_def client_ready_def)
  have "data_ok (cc_funcs c) True (state_data st1)" using inv a st1(1) by (auto simp: client_inv_def client_ready_def client_step_defs)
  from callback_rests [OF st1(3) this] st1 inv a now own_event_counted [OF e] t show ?thesis
    by (auto simp: client_inv_def client_ready_def client_step_defs internal_event_def dest!: remaining)
qed

lemma inv_start:
  assumes inv: "client_inv c st" and e: "e \<in> set (scheduled st)" "ev_to e = cc_lpid c" and t: "ev_type e = ROOTSIM_INIT"
    and d: "deliver_to_client cf c e st = Some st'"
  shows "client_inv c st'"
proof -
  have a: "\<not> allocated st" and pos: "0 \<le> ev_time e" using own_event_bounds [OF inv e] t inv e by (auto simp: client_inv_def)
  show ?thesis
  proof (cases "ev_time e = 0")
    case True
    with d t a inv own_event_counted [OF e] show ?thesis
      by (auto simp: deliver_to_client_def client_process_event_def bind_eq_Some_conv random_real_def ScheduleNewEvent_def client_inv_def
          dest!: remaining)
  next
    case False
    with d t a obtain st1 where "client_init cf c (cc_lpid c) (ev_time e) (st\<lparr>scheduled := remove1 e (scheduled st)\<rparr>) = Some st1"
      and "st' = st1\<lparr>allocated := True\<rparr>" by (auto simp: deliver_to_client_def client_process_event_def bind_eq_Some_conv)
    with client_init_ready [OF this(1)] pos inv a own_event_counted [OF e] t show ?thesis
      by (auto simp: client_inv_def client_ready_def internal_event_def dest!: remaining)
  qed
qed

lemma client_step_inv: "client_step cf c st st' \<Longrightarrow> client_inv c st \<Longrightarrow> client_inv c st'"
proof (induction rule: client_step.induct)
  case (client_deliver e st st')
  note rules = inv_tick [OF _ _ _ _ client_deliver(3)] inv_response [OF _ _ _ _ client_deliver(3)]
    inv_start [OF _ _ _ _ client_deliver(3)]
  show ?case
    by (cases "internal_event (ev_type e)"; use client_deliver rules in \<open>auto simp: internal_event_def\<close>)
next
  case (client_receive e st)
  then show ?case by (auto simp: client_inv_def client_ready_def internal_event_def)
qed

lemma client_run_keeps_inv:
  assumes "(client_step cf c)\<^sup>*\<^sup>* st st'" and "client_inv c st"
  shows "client_inv c st'"
  using assms client_step_inv by (induction rule: rtranclp_induct) blast+

lemmas client_run_inv = client_run_keeps_inv [OF _ started_inv]

text \<open>What a client knows only grows.\<close>

lemma client_step_le:
  assumes "client_step cf c st st'" and inv: "client_inv c st" and "allocated st"
  shows "allocated st' \<and> le (protocol_state st) (protocol_state st')"
  using assms(1)
proof cases
  case (client_deliver e)
  let ?st = "st\<lparr>scheduled := remove1 e (scheduled st), cs_now := ev_time e\<rparr>"
  have "ev_type e \<noteq> ROOTSIM_INIT" using own_event_bounds(1) [OF inv client_deliver(1,2)] assms(3) by blast
  with client_deliver(3) assms(3) consider "on_tick (funcs_of_workload (cc_funcs (cs_config st))) cf ?st = Some st'" "ev_type e = CLIENT_TICK"
    | "cf_process_event cf ?st (ev_time e) (ev_type e) (ev_data e) (ev_size e) = Some (Some st')"
    by (auto simp: deliver_to_client_def client_process_event_def client_tick_def bind_eq_Some_conv split: if_splits)
  then show ?thesis
  proof cases
    case 1
    with own_event_bounds(2) [OF inv client_deliver(1,2)] tick_asks [OF 1(1)] inv assms(3) show ?thesis
      by (auto simp: client_inv_def client_ready_def client_step_defs le_refl)
  next
    case 2
    with event_law inv assms(3) obtain st1 where st1: "answered ?st st1" "le (protocol_state st) (protocol_state st1)"
      "callback (cc_funcs c) st1 st'" by (fastforce simp: client_inv_def client_ready_def)
    have "data_ok (cc_funcs c) True (state_data st1)"
      using inv assms(3) st1(1) by (auto simp: client_inv_def client_ready_def client_step_defs)
    from callback_rests [OF st1(3) this] st1 assms(3) show ?thesis by (simp add: client_step_defs)
  qed
next
  case (client_receive e)
  then show ?thesis using assms(3) by (simp add: le_refl)
qed

lemma client_run_le:
  assumes "(client_step cf c)\<^sup>*\<^sup>* st st'" and "client_inv c st" and "allocated st"
  shows "allocated st' \<and> le (protocol_state st) (protocol_state st')"
  using assms
proof (induction rule: rtranclp_induct)
  case (step y z)
  then show ?case using client_step_le client_run_keeps_inv by (meson le_trans)
qed (simp add: le_refl)

text \<open>What the invariant says without the states of the protocol.\<close>

lemma closed_loop:
  assumes "client_started c st" and "(client_step cf c)\<^sup>*\<^sup>* st st'" and "allocated st'"
  shows "own_events (cc_lpid c) CLIENT_TICK (scheduled st') = (if request_time st' = - 1 then 1 else 0)"
    and "data_ok (cc_funcs c) (request_time st' \<noteq> - 1) (state_data st')"
  using client_run_inv [OF assms(2,1)] assms(3) by (auto simp: client_inv_def client_ready_def)

end

section \<open>Scripts\<close>

definition run_client_command ::
  "('p, 'q) client_funcs \<Rightarrow> client_config \<Rightarrow> 'p command \<Rightarrow> ('p, 'q) wclient \<Rightarrow> ('p, 'q) wclient option" where
  "run_client_command cf c cmd st = (case cmd of
     Deliver i \<Rightarrow> (if i < length (scheduled st) \<and> ev_to (scheduled st ! i) = cc_lpid c
       then deliver_to_client cf c (scheduled st ! i) st else None)
   | Receive e \<Rightarrow> (if internal_event (ev_type e) then None else Some (st\<lparr>scheduled := scheduled st @ [e]\<rparr>)))"

definition run_client :: "('p, 'q) client_funcs \<Rightarrow> client_config \<Rightarrow> 'p command list \<Rightarrow> ('p, 'q) wclient \<Rightarrow> ('p, 'q) wclient option" where
  "run_client cf c cmds st = foldM (run_client_command cf c) cmds st"

lemma run_client_steps: "run_client cf c cmds st = Some st' \<Longrightarrow> (client_step cf c)\<^sup>*\<^sup>* st st'"
  unfolding run_client_def
proof (induction cmds arbitrary: st)
  case (Cons cmd cmds)
  then obtain st1 where c: "run_client_command cf c cmd st = Some st1" and cs: "foldM (run_client_command cf c) cmds st1 = Some st'"
    by (auto simp: bind_eq_Some_conv)
  from c have "client_step cf c st st1"
    by (auto simp: run_client_command_def split: command.splits if_splits intro: client_receive client_deliver [OF nth_mem])
  then show ?case using Cons.IH [OF cs] by (rule converse_rtranclp_into_rtranclp)
qed simp

text \<open>A client of a replica with two servers.\<close>

definition demo_client_config :: "workload \<Rightarrow> client_config" where
  "demo_client_config w =
     \<lparr>cc_lpid = 4, cc_replica = 0, cc_partition = 0, tied_to_partition = True,
      cc_cluster = \<lparr>num_replicas = 2, num_partitions = 2, server_lpids = [0, 1, 2, 3], key_min = 0, key_max = 9, cl_clock_skew = 0\<rparr>,
      cc_network = network_setup 5, cc_funcs = w, cc_key_distribution = Uniform, zipf_skew = 0\<rparr>"

lemmas eval_client = random_range_def random_real_def randomize_value_def random_uint_def random_key_uniform_def
  random_key_uniform_on_partition_def client_random_key_def client_random_key_on_partition_def client_random_keys.simps
  client_register_request_type_def client_begin_request_def client_finish_request_def lpid_of_any_partition_def
  client_lpid_for_key_def client_schedule_tick_def client_send_def client_thinking_time_def
  get_put_rr_get_state_def probabilistic_get_state_def rotx_put_rr_get_state_def param_int_def param_uint_def
  get_put_rr_tick_def get_put_rr_on_init_def get_put_rr_thinking_time_def get_put_rr_on_get_response_def
  get_put_rr_on_put_response_def get_put_rr_on_tick_def probabilistic_on_tick_def probabilistic_on_init_def
  probabilistic_response_def probabilistic_on_get_response_def probabilistic_on_put_response_def
  probabilistic_on_rotx_response_def rotx_keys.simps do_rotx_def do_put_def rotx_put_rr_on_tick_def rotx_put_rr_on_init_def
  rotx_put_rr_on_put_response_def rotx_put_rr_on_rotx_response_def workload_defs client_set_network_delay_def
  client_init_def client_tick_def client_process_event_def deliver_to_client_def run_client_command_def run_client_def
  internal_event_def demo_client_config_def inc_range_def

end
