(* ===== verification/Client_Gr_Run.thy ===== *)
theory Client_Gr_Run
  imports Client_Gr Client_Run
begin

text \<open>
  The GentleRain client keeps the contract of \<open>client_protocol\<close>; its runs, and what its requests
  carry.
\<close>

section \<open>The interpretation\<close>

definition gr_knows :: "client_state_gr \<Rightarrow> client_state_gr \<Rightarrow> bool" where
  "gr_knows ps ps' \<longleftrightarrow> cg_dependency_time ps \<le> cg_dependency_time ps' \<and> cg_gst ps \<le> cg_gst ps'"

lemma gr_update_times_effect:
  "cg_config (protocol_state (gr_update_times g d st)) = cg_config (protocol_state st) \<and>
   gr_knows (protocol_state st) (protocol_state (gr_update_times g d st)) \<and>
   d \<le> cg_dependency_time (protocol_state (gr_update_times g d st)) \<and> g \<le> cg_gst (protocol_state (gr_update_times g d st)) \<and>
   (answered st0 (gr_update_times g d st) \<longleftrightarrow> answered st0 st)"
  by (auto simp: gr_update_times_def gr_knows_def set_max_def Let_def client_step_defs)

lemma gr_client_request_effect:
  "gr_client_get_request st key = Some st' \<Longrightarrow> requested st st'"
  "gr_client_put_request st key v = Some st' \<Longrightarrow> requested st st'"
  "gr_client_rotx_request st keys n = Some st' \<Longrightarrow> requested st st'"
  by (auto simp: gr_client_get_request_def gr_client_put_request_def gr_client_rotx_request_def bind_eq_Some_conv Let_def
      internal_event_def dest!: begin_and_send_asks lpid_of_any_partition_keeps)

text \<open>The time a response tells its client.\<close>

fun response_time :: "gr_msg \<Rightarrow> gr_tsp option" where
  "response_time (GetResponse r) = Some (getr_update_timestamp r)"
| "response_time (PutResponse r) = Some (putr_update_timestamp r)"
| "response_time (RotxResponse r) = Some (rxr_update_timestamp r)"
| "response_time _ = None"

lemma gr_client_response_effect:
  assumes "cg_config (protocol_state st) = cs_config st"
  shows "gr_client_get_response st gr = Some st' \<Longrightarrow> \<exists>d stf ty g. client_finish_request st ty = Some (d, stf) \<and>
      callback (cc_funcs (cs_config st)) (gr_update_times g (getr_update_timestamp gr) stf) st'"
    and "gr_client_put_response st pr = Some st' \<Longrightarrow> \<exists>d stf ty g. client_finish_request st ty = Some (d, stf) \<and>
      callback (cc_funcs (cs_config st)) (gr_update_times g (putr_update_timestamp pr) stf) st'"
    and "gr_client_rotx_response st rr = Some st' \<Longrightarrow> \<exists>d stf ty g. client_finish_request st ty = Some (d, stf) \<and>
      callback (cc_funcs (cs_config st)) (gr_update_times g (rxr_update_timestamp rr) stf) st'"
  using assms
  by (auto simp: gr_client_get_response_def gr_client_put_response_def gr_client_rotx_response_def bind_eq_Some_conv Let_def
      callback_def) blast+

lemma gr_client_event_effect:
  assumes "gr_client_protocol_process_event st t ty (Data m) sz = Some (Some st')" and "cg_config (protocol_state st) = cs_config st"
  shows "\<exists>st1 u. answered st st1 \<and> cg_config (protocol_state st1) = cs_config st1 \<and> gr_knows (protocol_state st) (protocol_state st1) \<and>
     callback (cc_funcs (cs_config st)) st1 st' \<and> response_time m = Some u \<and> u \<le> cg_dependency_time (protocol_state st1)"
proof -
  have "\<exists>d stf ty' g u. client_finish_request st ty' = Some (d, stf) \<and> response_time m = Some u \<and>
      callback (cc_funcs (cs_config st)) (gr_update_times g u stf) st'"
    using assms
    by (auto simp: gr_client_protocol_process_event_def on_msg_def as_GetResponse_def as_PutResponse_def as_RotxResponse_def
        bind_eq_Some_conv split: if_splits gr_msg.splits dest!: gr_client_response_effect [rotated])
  then obtain d stf ty' g u where f: "client_finish_request st ty' = Some (d, stf)"
    and u: "response_time m = Some u" and c: "callback (cc_funcs (cs_config st)) (gr_update_times g u stf) st'" by blast
  from client_finish_answers [OF f] c u assms(2) gr_update_times_effect [of g u stf st] show ?thesis
    by (intro exI [of _ "gr_update_times g u stf"] exI [of _ u]) (auto simp: client_step_defs)
qed

lemma gr_client_event_data:
  "gr_client_protocol_process_event st t ty d sz = Some (Some st') \<Longrightarrow> \<exists>m. d = Data m"
  by (auto simp: gr_client_protocol_process_event_def on_msg_def split: if_splits event_data.splits)

interpretation cgr: client_protocol gr_client_funcs "\<lambda>ps c. cg_config ps = c" gr_knows
proof
  fix st c ps st'
  assume "cf_init gr_client_funcs st c = Some (ps, st')"
  then show "cg_config ps = c \<and> same_client st st' \<and> scheduled st' = scheduled st \<and> request_time st' = request_time st"
    by (auto simp: gr_client_funcs_def gr_client_protocol_init_def client_register_request_type_def bind_eq_Some_conv Let_def
        same_client_def)
next
  fix st t ty d sz st'
  assume "cf_process_event gr_client_funcs st t ty d sz = Some (Some st')" and c: "cg_config (protocol_state st) = cs_config st"
  then have e: "gr_client_protocol_process_event st t ty d sz = Some (Some st')" by (simp add: gr_client_funcs_def)
  then obtain m where "d = Data m" using gr_client_event_data by blast
  with gr_client_event_effect [of st t ty m sz st'] e c
  show "\<exists>st1. answered st st1 \<and> cg_config (protocol_state st1) = cs_config st1 \<and> gr_knows (protocol_state st) (protocol_state st1) \<and>
      callback (cc_funcs (cs_config st)) st1 st'" by blast
qed (auto simp: gr_knows_def gr_client_funcs_def post_def gr_client_request_effect)

lemma gr_response_learned:
  assumes inv: "cgr.client_inv c st" and t: "\<not> internal_event (ev_type e)" and m: "ev_data e = Data m" "response_time m = Some u"
    and d: "deliver_to_client gr_client_funcs c e st = Some st'"
  shows "allocated st' \<and> u \<le> cg_dependency_time (protocol_state st')"
proof -
  let ?st = "st\<lparr>scheduled := remove1 e (scheduled st), cs_now := ev_time e\<rparr>"
  from d t m have a: "allocated st"
    and p: "gr_client_protocol_process_event ?st (ev_time e) (ev_type e) (Data m) (ev_size e) = Some (Some st')"
    by (auto simp: deliver_to_client_def client_process_event_def bind_eq_Some_conv internal_event_def gr_client_funcs_def split: if_splits)
  from gr_client_event_effect [OF p] inv a m obtain st1 where st1: "answered ?st st1" "callback (cc_funcs c) st1 st'"
    "u \<le> cg_dependency_time (protocol_state st1)" by (auto simp: cgr.client_inv_def cgr.client_ready_def)
  have "data_ok (cc_funcs c) True (state_data st1)"
    using inv a st1(1) by (auto simp: cgr.client_inv_def cgr.client_ready_def client_step_defs)
  from callback_rests [OF st1(2) this] st1 a show ?thesis by (simp add: client_step_defs)
qed

section \<open>A small run\<close>

definition gr_demo_client :: gr_client where
  "gr_demo_client =
     \<lparr>cfg = (\<lambda>_. Some 1), timing_dist = Constant, ignore_initial_seconds = 0, normal_source = (\<lambda>_. 0), expent_source = (\<lambda>_ m. m),
      draws = 0, scheduled = [\<lparr>ev_to = 4, ev_time = 0, ev_type = ROOTSIM_INIT, ev_data = NoData, ev_size = 0\<rparr>],
      random_source = (\<lambda>_. 1), range_source = (\<lambda>_ lo hi. lo), zipf_source = (\<lambda>_ _ n. 0), allocated = False, state_data = No_data,
      protocol_state = \<lparr>cg_config = demo_client_config Get_put_rr, cg_dependency_time = 0, cg_gst = 0, cg_get_request_type = 0,
        cg_put_request_type = 0, cg_rotx_request_type = 0\<rparr>,
      last_used_partition = 0, cs_config = demo_client_config Get_put_rr, cs_network = network_init, cs_start_time = 0, cs_now = 0,
      request_time = 0, last_request_duration = 0, cs_finished = False, request_type_names = [], request_stats = []\<rparr>"

definition gr_demo_response :: "gr_msg sim_event" where
  "gr_demo_response = \<lparr>ev_to = 4, ev_time = 10, ev_type = GR_GET_RESPONSE,
     ev_data = Data (GetResponse (gr_get_response_new\<lparr>getr_update_timestamp := 7, getr_gst := 3\<rparr>)), ev_size = 48\<rparr>"

lemmas eval_client_gr = eval_client gr_demo_client_def gr_demo_response_def gr_client_funcs_def gr_client_protocol_init_def
  gr_update_times_def gr_client_get_request_def gr_client_put_request_def gr_client_get_response_def gr_client_protocol_process_event_def
  as_GetResponse_def set_max_def gr_get_request_new_def gr_get_response_new_def gr_put_request_new_def
  GR_SIMULATED_VALUE_SIZE_def sizeof_gr_value_def

lemma gr_demo_client_run:
  "\<exists>st1 st2 st4. run_client gr_client_funcs (demo_client_config Get_put_rr) [Deliver 0, Deliver 0, Receive gr_demo_response] gr_demo_client = Some st1 \<and>
     deliver_to_client gr_client_funcs (demo_client_config Get_put_rr) gr_demo_response st1 = Some st2 \<and>
     gr_demo_response \<in> set (scheduled st1) \<and> allocated st1 \<and> request_time st1 \<noteq> - 1 \<and> request_time st2 = - 1 \<and>
     gr_client_put_request st2 1 9 = Some st4"
  by (simp add: eval_base eval_client_gr cong: bind_weak_cong let_weak_cong)

lemma gr_demo_client_started: "client_started (demo_client_config w) gr_demo_client"
  by (simp add: client_started_def gr_demo_client_def demo_client_config_def)

section \<open>Runs\<close>

text \<open>C9: a GentleRain client is a closed loop, whatever its workload and whatever events reach it: once it
  is initialised, it either waits for the response to its only request or has exactly one tick pending,
  and the data of its workload agree with that.\<close>

theorem gr_client_closed_loop:
  assumes "client_started c st" and "(client_step gr_client_funcs c)\<^sup>*\<^sup>* st st'" and "allocated st'"
  shows "own_events (cc_lpid c) CLIENT_TICK (scheduled st') = (if request_time st' = - 1 then 1 else 0) \<and>
     data_ok (cc_funcs c) (request_time st' \<noteq> - 1) (state_data st')"
  using cgr.closed_loop [OF assms] by blast

theorem gr_client_closed_loop_witness:
  "\<exists>st'. client_started (demo_client_config Get_put_rr) gr_demo_client \<and>
     (client_step gr_client_funcs (demo_client_config Get_put_rr))\<^sup>*\<^sup>* gr_demo_client st' \<and> allocated st' \<and>
     own_events (cc_lpid (demo_client_config Get_put_rr)) CLIENT_TICK (scheduled st') = (if request_time st' = - 1 then 1 else 0) \<and>
     data_ok (cc_funcs (demo_client_config Get_put_rr)) (request_time st' \<noteq> - 1) (state_data st')"
  using gr_demo_client_run gr_client_closed_loop [OF gr_demo_client_started run_client_steps] gr_demo_client_started run_client_steps by blast

text \<open>What a response has told the client stays with it, and goes into its next put request.\<close>

lemma gr_client_remembers:
  assumes "client_started c st" and "(client_step gr_client_funcs c)\<^sup>*\<^sup>* st st1"
    and "e \<in> set (scheduled st1)" and "ev_to e = cc_lpid c" and "\<not> internal_event (ev_type e)"
    and "ev_data e = Data m" and "response_time m = Some u"
    and "deliver_to_client gr_client_funcs c e st1 = Some st2" and "(client_step gr_client_funcs c)\<^sup>*\<^sup>* st2 st3"
  shows "u \<le> cg_dependency_time (protocol_state st3)"
proof -
  note inv = cgr.client_run_inv [OF assms(2,1)]
  have 2: "allocated st2" "u \<le> cg_dependency_time (protocol_state st2)" using gr_response_learned [OF inv assms(5-8)] by auto
  have "cgr.client_inv c st2" using cgr.client_step_inv [OF client_deliver [OF assms(3,4,8)] inv] .
  with cgr.client_run_le [OF assms(9)] 2 show ?thesis by (auto simp: gr_knows_def)
qed

lemma gr_put_request_carries:
  assumes "gr_client_put_request st key v = Some st'"
  shows "\<exists>e p. scheduled st' = scheduled st @ [e] \<and> ev_type e = GR_PUT_REQUEST \<and> ev_data e = Data (PutRequest p) \<and>
     putq_key p = key \<and> putq_value p = v \<and> putq_dependency_time p = cg_dependency_time (protocol_state st)"
  using assms by (auto simp: gr_client_put_request_def bind_eq_Some_conv Let_def internal_event_def dest!: begin_and_send_asks)

text \<open>C10: a client depends on what it has seen: after it has processed a response that carries the update
  time \<open>u\<close>, every later put request of the client carries a dependency time of at least \<open>u\<close>.\<close>

theorem gr_put_depends_on_past:
  assumes "client_started c st" and "(client_step gr_client_funcs c)\<^sup>*\<^sup>* st st1"
    and "e \<in> set (scheduled st1)" and "ev_to e = cc_lpid c" and "\<not> internal_event (ev_type e)"
    and "ev_data e = Data m" and "response_time m = Some u"
    and "deliver_to_client gr_client_funcs c e st1 = Some st2" and "(client_step gr_client_funcs c)\<^sup>*\<^sup>* st2 st3"
    and "gr_client_put_request st3 key v = Some st4"
  shows "\<exists>e' p. scheduled st4 = scheduled st3 @ [e'] \<and> ev_type e' = GR_PUT_REQUEST \<and> ev_data e' = Data (PutRequest p) \<and>
     putq_key p = key \<and> putq_value p = v \<and> u \<le> putq_dependency_time p"
  using gr_put_request_carries [OF assms(10)] gr_client_remembers [OF assms(1-9)] by fastforce

theorem gr_put_depends_on_past_witness:
  "\<exists>st3 st4 e' p. gr_client_put_request st3 1 9 = Some st4 \<and> scheduled st4 = scheduled st3 @ [e'] \<and>
     ev_type e' = GR_PUT_REQUEST \<and> ev_data e' = Data (PutRequest p) \<and> putq_key p = 1 \<and> putq_value p = 9 \<and> 7 \<le> putq_dependency_time p"
proof -
  from gr_demo_client_run obtain st1 st2 st4 where
    1: "run_client gr_client_funcs (demo_client_config Get_put_rr) [Deliver 0, Deliver 0, Receive gr_demo_response] gr_demo_client = Some st1"
    and e: "gr_demo_response \<in> set (scheduled st1)"
    and 2: "deliver_to_client gr_client_funcs (demo_client_config Get_put_rr) gr_demo_response st1 = Some st2"
    and 4: "gr_client_put_request st2 1 9 = Some st4" by blast
  have "\<exists>e' p. scheduled st4 = scheduled st2 @ [e'] \<and> ev_type e' = GR_PUT_REQUEST \<and> ev_data e' = Data (PutRequest p) \<and>
     putq_key p = 1 \<and> putq_value p = 9 \<and> 7 \<le> putq_dependency_time p"
    by (rule gr_put_depends_on_past [where m = "GetResponse (gr_get_response_new\<lparr>getr_update_timestamp := 7, getr_gst := 3\<rparr>)",
          OF gr_demo_client_started run_client_steps [OF 1] e _ _ _ _ 2 _ 4])
      (simp_all add: gr_demo_response_def demo_client_config_def internal_event_def gr_get_response_new_def)
  with 4 show ?thesis by blast
qed

end
