(* ===== verification/Vectors.thy ===== *)
theory Vectors
  imports Prelude
begin

text \<open>
  Loops that write the entries of a vector one after the other. If the step at index \<open>i\<close> replaces
  entry \<open>i\<close> by \<open>F i\<close> of its old value, the loop does so at every index it visits.
\<close>

lemma foldM_entries:
  assumes "foldM step is v = Some v'" and "distinct (map unat is)"
    and "\<And>i w w'. i \<in> set is \<Longrightarrow> step i w = Some w' \<Longrightarrow> unat i < length w \<and> w' = w[unat i := F i (w ! unat i)]"
  shows "length v' = length v \<and> (\<forall>i \<in> set is. unat i < length v \<and> v' ! unat i = F i (v ! unat i)) \<and>
    (\<forall>j. j \<notin> unat ` set is \<longrightarrow> v' ! j = v ! j)"
  using assms
proof (induction "is" arbitrary: v)
  case (Cons i "is")
  then obtain w where w: "step i v = Some w" "foldM step is w = Some v'" by (auto simp: bind_eq_Some_conv)
  have s: "unat i < length v" "w = v[unat i := F i (v ! unat i)]" using Cons.prems(3) [OF _ w(1)] by auto
  from Cons.IH [OF w(2)] Cons.prems(2,3)
  have "length v' = length w \<and> (\<forall>i \<in> set is. unat i < length w \<and> v' ! unat i = F i (w ! unat i)) \<and>
    (\<forall>j. j \<notin> unat ` set is \<longrightarrow> v' ! j = w ! j)" by auto
  with s Cons.prems(2) show ?case by (auto simp: nth_list_update image_iff)
qed simp

lemma unat_idx_upto: "map unat (idx_upto n) = [0..<unat n]"
  by (rule nth_equalityI) (simp_all add: idx_upto_def unat_of_nat_u32)

lemma set_idx_upto: "set (idx_upto n) = {i. i < n}"
proof -
  have "inj (unat :: u32 \<Rightarrow> nat)" by (rule injI) (simp add: word_unat_eq_iff)
  then have "i \<in> set (idx_upto n) \<longleftrightarrow> unat i \<in> set (map unat (idx_upto n))" for i by (simp add: inj_image_mem_iff)
  then show ?thesis unfolding unat_idx_upto by (auto simp: word_less_nat_alt)
qed

lemma foldM_vector:
  assumes "foldM step (idx_upto n) v = Some v'"
    and "\<And>i w w'. step i w = Some w' \<Longrightarrow> unat i < length w \<and> w' = w[unat i := F i (w ! unat i)]"
  shows "length v' = length v" and "\<And>i. i < n \<Longrightarrow> unat i < length v \<and> v' ! unat i = F i (v ! unat i)"
    and "\<And>j. unat n \<le> j \<Longrightarrow> v' ! j = v ! j"
proof -
  have all: "length v' = length v \<and> (\<forall>i \<in> set (idx_upto n). unat i < length v \<and> v' ! unat i = F i (v ! unat i)) \<and>
    (\<forall>j. j \<notin> unat ` set (idx_upto n) \<longrightarrow> v' ! j = v ! j)"
    using foldM_entries [OF assms(1), of F] assms(2) by (simp add: unat_idx_upto)
  then show "length v' = length v" "\<And>i. i < n \<Longrightarrow> unat i < length v \<and> v' ! unat i = F i (v ! unat i)"
    by (auto simp: set_idx_upto)
  show "v' ! j = v ! j" if "unat n \<le> j" for j
    using all that by (force simp: set_idx_upto word_less_nat_alt)
qed

end
