(* ===== verification/Client_Rr.thy ===== *)
theory Client_Rr
  imports Client_Gr_Run Vectors
begin

text \<open>
  The order in which the round-robin workloads visit the partitions, and the phases of
  \<open>rotx_put_rr\<close>.
\<close>

section \<open>Round robin\<close>

lemma inc_range_mod:
  assumes "p < n"
  shows "unat (inc_range p 0 (n - 1)) = (unat p + 1) mod unat n"
proof -
  have n: "0 < unat n" "unat p < unat n" using assms by (auto simp: word_less_nat_alt)
  then have m: "unat (n - 1) = unat n - 1" by (intro unat_minus_one) auto
  have "unat p + 1 < 2 ^ LENGTH(32)" using n unat_u32_less [of n] by simp
  then have s: "unat (p + 1) = unat p + 1" using unat_word_ariths(1) [of p 1] by simp
  show ?thesis using n m s by (cases "Suc (unat p) = unat n") (auto simp: inc_range_def word_less_nat_alt)
qed

lemma shift_mod_bij: "bij_betw (\<lambda>i. (k + i) mod n) {..<n} {..<n}" for k n :: nat
proof (cases "n = 0")
  case False
  have "inj_on (\<lambda>i. (k + i) mod n) {..<n}"
  proof (rule inj_onI)
    have le: "i = j" if "i \<le> j" "j < n" "(k + j) mod n = (k + i) mod n" for i j
    proof -
      have "n dvd (k + j) - (k + i)" using that mod_eq_dvd_iff_nat [of "k + i" "k + j" n] by simp
      with that show ?thesis using dvd_imp_le [of n "j - i"] by (cases "i = j") auto
    qed
    fix i j assume "i \<in> {..<n}" "j \<in> {..<n}" "(k + i) mod n = (k + j) mod n"
    then show "i = j" using le [of i j] le [of j i] by (cases "i \<le> j") auto
  qed
  moreover have "(\<lambda>i. (k + i) mod n) ` {..<n} \<subseteq> {..<n}" using False by auto
  ultimately show ?thesis by (simp add: bij_betw_def endo_inj_surj)
qed (simp add: bij_betw_def)

text \<open>The key that the last message of a client asks for.\<close>

definition get_sent :: "gr_client \<Rightarrow> gr_key option" where
  "get_sent st = (case ev_data (last (scheduled st)) of Data (GetRequest q) \<Rightarrow> Some (getq_key q) | _ \<Rightarrow> None)"

definition put_sent :: "gr_client \<Rightarrow> gr_key option" where
  "put_sent st = (case ev_data (last (scheduled st)) of Data (PutRequest q) \<Rightarrow> Some (putq_key q) | _ \<Rightarrow> None)"

lemma gr_client_requests_sent:
  "gr_client_get_request st key = Some st' \<Longrightarrow> get_sent st' = Some key"
  "gr_client_put_request st key v = Some st' \<Longrightarrow> put_sent st' = Some key"
  by (auto simp: gr_client_get_request_def gr_client_put_request_def bind_eq_Some_conv Let_def internal_event_def get_sent_def
      put_sent_def dest!: begin_and_send_asks)

lemma key_on_partition:
  assumes "client_random_key_on_partition st p = Some (key, st')" and "cc_key_distribution (cs_config st) = Uniform"
  shows "partition_for_key (cc_cluster (cs_config st)) key = Some p"
  using assms
  by (auto simp: client_random_key_on_partition_def random_key_uniform_on_partition_def cluster_random_key_on_partition_def
      bind_eq_Some_conv Let_def split: if_splits)

lemma get_put_rr_get_tick:
  assumes "get_put_rr_tick gr_client_funcs st = Some st'" and "state_data st = Get_put_rr_data s"
    and "num_get_since_put s \<noteq> num_partitions (gp_cluster s)"
    and "cc_cluster (cs_config st) = gp_cluster s" and "cc_key_distribution (cs_config st) = Uniform"
  shows "\<exists>key p. p = inc_range (last_get_partition s) 0 (num_partitions (gp_cluster s) - 1) \<and> get_sent st' = Some key \<and>
     partition_for_key (gp_cluster s) key = Some p \<and>
     state_data st' = Get_put_rr_data (s\<lparr>last_get_partition := p, num_get_since_put := num_get_since_put s + 1\<rparr>)"
  using assms
  by (auto simp: get_put_rr_tick_def get_put_rr_get_state_def bind_eq_Some_conv Let_def gr_client_funcs_def get_sent_def
      dest!: gr_client_requests_sent key_on_partition)

lemma get_put_rr_put_tick:
  assumes "get_put_rr_tick gr_client_funcs st = Some st'" and "state_data st = Get_put_rr_data s"
    and "num_get_since_put s = num_partitions (gp_cluster s)"
  shows "\<exists>key. put_sent st' = Some key"
  using assms
  by (auto simp: get_put_rr_tick_def get_put_rr_get_state_def bind_eq_Some_conv Let_def gr_client_funcs_def put_sent_def
      randomize_value_draws dest!: gr_client_requests_sent)

text \<open>The data of the workload at the ticks of a round; between two ticks other events may be processed.\<close>

definition rr_at :: "get_put_rr_state \<Rightarrow> nat \<Rightarrow> get_put_rr_state \<Rightarrow> bool" where
  "rr_at s0 i s \<longleftrightarrow> gp_cluster s = gp_cluster s0 \<and> num_get_since_put s = of_nat i \<and>
     unat (last_get_partition s) = (unat (last_get_partition s0) + i) mod unat (num_partitions (gp_cluster s0))"

definition rr_round :: "get_put_rr_state \<Rightarrow> nat \<Rightarrow> (nat \<Rightarrow> gr_client) \<Rightarrow> (nat \<Rightarrow> gr_client) \<Rightarrow> bool" where
  "rr_round s n before after \<longleftrightarrow> state_data (before 0) = Get_put_rr_data s \<and>
     (\<forall>i \<le> n. get_put_rr_tick gr_client_funcs (before i) = Some (after i) \<and> cc_cluster (cs_config (before i)) = gp_cluster s) \<and>
     (\<forall>i < n. state_data (before (Suc i)) = state_data (after i))"

text \<open>The clients of the round draw their keys from the uniform distribution.\<close>

definition rr_uniform :: "nat \<Rightarrow> (nat \<Rightarrow> gr_client) \<Rightarrow> bool" where
  "rr_uniform n before \<longleftrightarrow> (\<forall>i \<le> n. cc_key_distribution (cs_config (before i)) = Uniform)"

lemma rr_tick:
  assumes "rr_round s0 n before after" and n: "n = unat (num_partitions (gp_cluster s0))" and "i < n"
    and u: "rr_uniform n before"
    and "state_data (before i) = Get_put_rr_data s" and s: "rr_at s0 i s"
  shows "\<exists>key p s'. get_sent (after i) = Some key \<and> partition_for_key (gp_cluster s0) key = Some p \<and>
     unat p = (unat (last_get_partition s0) + 1 + i) mod n \<and> state_data (before (Suc i)) = Get_put_rr_data s' \<and> rr_at s0 (Suc i) s'"
proof -
  let ?np = "num_partitions (gp_cluster s0)"
  have i: "unat (of_nat i :: u32) = i" using assms(2,3) unat_of_nat_u32 by blast
  then have ne: "num_get_since_put s \<noteq> num_partitions (gp_cluster s)" using s n \<open>i < n\<close> by (auto simp: rr_at_def)
  have "unat (last_get_partition s) < n" using s n \<open>i < n\<close> by (auto simp: rr_at_def)
  then have "last_get_partition s < ?np" using n by (simp add: word_less_nat_alt)
  from inc_range_mod [OF this] s n have p: "unat (inc_range (last_get_partition s) 0 (?np - 1)) = (unat (last_get_partition s0) + 1 + i) mod n"
    by (simp add: rr_at_def mod_simps add_ac)
  from get_put_rr_get_tick [OF _ assms(5) ne] assms(1) u \<open>i < n\<close> s
  obtain key where "get_sent (after i) = Some key"
    "partition_for_key (gp_cluster s0) key = Some (inc_range (last_get_partition s) 0 (?np - 1))"
    "state_data (after i) = Get_put_rr_data (s\<lparr>last_get_partition := inc_range (last_get_partition s) 0 (?np - 1),
       num_get_since_put := num_get_since_put s + 1\<rparr>)"
    by (auto simp: rr_round_def rr_at_def rr_uniform_def)
  with p s n \<open>i < n\<close> assms(1) show ?thesis by (auto simp: rr_at_def rr_round_def add_ac)
qed

lemma rr_reaches:
  assumes "rr_round s0 n before after" and "n = unat (num_partitions (gp_cluster s0))"
    and "num_get_since_put s0 = 0" and "last_get_partition s0 < num_partitions (gp_cluster s0)" and "rr_uniform n before"
  shows "i \<le> n \<Longrightarrow> \<exists>s. state_data (before i) = Get_put_rr_data s \<and> rr_at s0 i s"
proof (induction i)
  case 0
  then show ?case using assms by (auto simp: rr_round_def rr_at_def word_less_nat_alt)
next
  case (Suc i)
  then show ?case using rr_tick [OF assms(1,2) _ assms(5)] by (metis Suc_leD Suc_le_lessD)
qed

text \<open>C30: with the uniform key distribution the workload \<open>get_put_rr\<close> does what its comment says: in the round
  that starts after a put it sends one get for a key of each partition, every partition exactly once, and
  then a put. (With the Zipfian distribution it does not: the key drawn for a partition can be stored on
  another one.)\<close>

theorem get_put_rr_visits_all:
  assumes "rr_round s n before after" and "n = unat (num_partitions (gp_cluster s))"
    and "num_get_since_put s = 0" and "last_get_partition s < num_partitions (gp_cluster s)" and "rr_uniform n before"
  shows "(\<forall>p < num_partitions (gp_cluster s). \<exists>!i. i < n \<and>
       (\<exists>key. get_sent (after i) = Some key \<and> partition_for_key (gp_cluster s) key = Some p)) \<and>
     (\<exists>key. put_sent (after n) = Some key)"
proof
  let ?k = "unat (last_get_partition s) + 1"
  have get: "\<exists>key q. get_sent (after i) = Some key \<and> partition_for_key (gp_cluster s) key = Some q \<and> unat q = (?k + i) mod n" if "i < n" for i
    using rr_reaches [OF assms, of i] rr_tick [OF assms(1,2) that assms(5)] that by fastforce
  show "\<forall>p < num_partitions (gp_cluster s). \<exists>!i. i < n \<and>
       (\<exists>key. get_sent (after i) = Some key \<and> partition_for_key (gp_cluster s) key = Some p)"
  proof (intro allI impI)
    fix p assume "p < num_partitions (gp_cluster s)"
    then have "unat p \<in> {..<n}" using assms(2) by (simp add: word_less_nat_alt)
    then obtain i where i: "i < n" "(?k + i) mod n = unat p" and u: "\<And>j. j < n \<Longrightarrow> (?k + j) mod n = unat p \<Longrightarrow> j = i"
      using shift_mod_bij [of ?k n] unfolding bij_betw_def inj_on_def by (metis (no_types, lifting) imageE lessThan_iff)
    show "\<exists>!i. i < n \<and> (\<exists>key. get_sent (after i) = Some key \<and> partition_for_key (gp_cluster s) key = Some p)"
    proof (rule ex1I [of _ i])
      show "i < n \<and> (\<exists>key. get_sent (after i) = Some key \<and> partition_for_key (gp_cluster s) key = Some p)"
        using get [OF i(1)] i by (auto simp: word_unat_eq_iff)
      show "j = i" if "j < n \<and> (\<exists>key. get_sent (after j) = Some key \<and> partition_for_key (gp_cluster s) key = Some p)" for j
        using u [of j] get [of j] that by auto
    qed
  qed
  obtain s' where s': "state_data (before n) = Get_put_rr_data s'" "rr_at s n s'" using rr_reaches [OF assms, of n] by blast
  then have "num_get_since_put s' = num_partitions (gp_cluster s')" using assms(2) by (simp add: rr_at_def)
  with get_put_rr_put_tick [OF _ s'(1)] assms(1) show "\<exists>key. put_sent (after n) = Some key" by (auto simp: rr_round_def)
qed

definition rr_demo :: "nat \<Rightarrow> gr_client" where
  "rr_demo i = gr_demo_client\<lparr>request_time := - 1, cs_config := (demo_client_config Get_put_rr)\<lparr>cc_network := \<lparr>num_lps = 5,
       transmission_rates = replicate 5 1, network_delay = replicate 5 (replicate 5 1)\<rparr>\<rparr>,
     state_data := Get_put_rr_data \<lparr>gp_cluster = cc_cluster (demo_client_config Get_put_rr), last_get_partition = (if i = 1 then 0 else 1),
       last_put_partition = 0, num_get_since_put = of_nat i, target_request_time = 0\<rparr>\<rparr>"

lemma rr_demo_ticks:
  "\<exists>st. get_put_rr_tick gr_client_funcs (rr_demo 0) = Some st \<and> state_data st = state_data (rr_demo 1)"
  "\<exists>st. get_put_rr_tick gr_client_funcs (rr_demo 1) = Some st \<and> state_data st = state_data (rr_demo 2)"
  "\<exists>st. get_put_rr_tick gr_client_funcs (rr_demo 2) = Some st"
  by (simp_all add: rr_demo_def eval_base eval_client_gr cong: bind_weak_cong let_weak_cong)

lemma rr_demo_round:
  "rr_round \<lparr>gp_cluster = cc_cluster (demo_client_config Get_put_rr), last_get_partition = 1, last_put_partition = 0,
     num_get_since_put = 0, target_request_time = 0\<rparr> 2 rr_demo (\<lambda>i. the (get_put_rr_tick gr_client_funcs (rr_demo i)))"
proof -
  have "cc_cluster (cs_config (rr_demo i)) = cc_cluster (demo_client_config Get_put_rr)" for i
    by (simp add: rr_demo_def demo_client_config_def)
  moreover have "get_put_rr_tick gr_client_funcs (rr_demo i) = Some (the (get_put_rr_tick gr_client_funcs (rr_demo i)))" if "i \<le> 2" for i
  proof -
    have "i = 0 \<or> i = 1 \<or> i = 2" using that by arith
    then show ?thesis using rr_demo_ticks by auto
  qed
  moreover have "state_data (rr_demo (Suc i)) = state_data (the (get_put_rr_tick gr_client_funcs (rr_demo i)))" if "i < 2" for i
  proof -
    have "i = 0 \<or> i = 1" using that by arith
    then show ?thesis using rr_demo_ticks by (auto simp: numeral_2_eq_2)
  qed
  moreover have "state_data (rr_demo 0) = Get_put_rr_data \<lparr>gp_cluster = cc_cluster (demo_client_config Get_put_rr),
      last_get_partition = 1, last_put_partition = 0, num_get_since_put = 0, target_request_time = 0\<rparr>" by (simp add: rr_demo_def)
  ultimately show ?thesis unfolding rr_round_def by simp
qed

lemma rr_demo_uniform: "rr_uniform 2 rr_demo"
  by (simp add: rr_uniform_def rr_demo_def demo_client_config_def)

theorem get_put_rr_visits_all_witness:
  "num_partitions (cc_cluster (demo_client_config Get_put_rr)) = 2 \<and>
   (\<exists>!i. i < 2 \<and> (\<exists>key. get_sent (the (get_put_rr_tick gr_client_funcs (rr_demo i))) = Some key \<and>
       partition_for_key (cc_cluster (demo_client_config Get_put_rr)) key = Some 1)) \<and>
   (\<exists>key. put_sent (the (get_put_rr_tick gr_client_funcs (rr_demo 2))) = Some key)"
proof
  show n: "num_partitions (cc_cluster (demo_client_config Get_put_rr)) = 2" by (simp add: demo_client_config_def)
  have "(1::u32) < 2" by simp
  with get_put_rr_visits_all [OF rr_demo_round, unfolded get_put_rr_state.simps, unfolded n]
  show "(\<exists>!i. i < 2 \<and> (\<exists>key. get_sent (the (get_put_rr_tick gr_client_funcs (rr_demo i))) = Some key \<and>
       partition_for_key (cc_cluster (demo_client_config Get_put_rr)) key = Some 1)) \<and>
   (\<exists>key. put_sent (the (get_put_rr_tick gr_client_funcs (rr_demo 2))) = Some key)" by (simp add: rr_demo_uniform)
qed

section \<open>The phases of \<open>rotx_put_rr\<close>\<close>

text \<open>C39: \<open>rotx_put_rr\<close> should send \<open>num_put\<close> puts and then start over with transactions. The test that ends
  the phase of the puts is inverted: with more than one put to send the phase ends after its first put,
  and with at most one put it does not end.\<close>

theorem rotx_put_rr_after_put:
  assumes "rotx_put_rr_on_tick cf st = Some st'" and "state_data st = Rotx_put_rr_data s" and "num_rotx s \<le> rotx_count s"
  shows "\<exists>s'. state_data st' = Rotx_put_rr_data s' \<and>
     (put_count s = 0 \<and> 1 < num_put s \<longrightarrow> rotx_count s' = 0 \<and> put_count s' = 0) \<and>
     (num_put s \<le> put_count s + 1 \<longrightarrow> rotx_count s' = rotx_count s \<and> put_count s' = put_count s + 1)"
proof -
  have "\<not> rotx_count s < num_rotx s" using assms(3) by simp
  with assms(1,2) show ?thesis
    by (auto simp: rotx_put_rr_on_tick_def rotx_put_rr_get_state_def do_put_def bind_eq_Some_conv Let_def randomize_value_draws)
qed

definition rotx_demo_state :: rotx_put_rr_state where
  "rotx_demo_state = \<lparr>rp_cluster = cc_cluster (demo_client_config Rotx_put_rr), rp_state = Rotx_SLEEPING, rotx_partition = 0, put_partition = 0,
     rotx_count = 1, put_count = 0, rp_keys_per_rotx = 1, num_rotx = 1, num_put = 3\<rparr>"

lemma rotx_demo_tick:
  "\<exists>st'. rotx_put_rr_on_tick gr_client_funcs ((rr_demo 0)\<lparr>state_data := Rotx_put_rr_data rotx_demo_state\<rparr>) = Some st'"
  by (simp add: rotx_demo_state_def rr_demo_def eval_base eval_client_gr cong: bind_weak_cong let_weak_cong)

theorem rotx_put_rr_after_put_witness:
  "\<exists>st' s'. rotx_put_rr_on_tick gr_client_funcs ((rr_demo 0)\<lparr>state_data := Rotx_put_rr_data rotx_demo_state\<rparr>) = Some st' \<and>
     state_data st' = Rotx_put_rr_data s' \<and> num_put rotx_demo_state = 3 \<and> put_count rotx_demo_state = 0 \<and> rotx_count s' = 0"
proof -
  from rotx_demo_tick obtain st' where
    t: "rotx_put_rr_on_tick gr_client_funcs ((rr_demo 0)\<lparr>state_data := Rotx_put_rr_data rotx_demo_state\<rparr>) = Some st'" by blast
  from rotx_put_rr_after_put [OF t, of rotx_demo_state] t show ?thesis by (auto simp: rotx_demo_state_def)
qed

end
