(* ===== verification/Client_Grv.thy ===== *)
theory Client_Grv
  imports Client_Process Grv_Server
begin

text \<open>
  The client side of GentleRain with vectors, \<open>src/client/protocols/grv.c\<close>. The ids of the request
  types are kept as in \<open>Client_Gr\<close>.
\<close>

record client_state_grv =
  cv_config :: client_config
  cv_dependency_vector :: "gr_tsp list"
  cv_gst_vector :: "gr_tsp list"
  cv_get_request_type :: u32
  cv_put_request_type :: u32
  cv_rotx_request_type :: u32

type_synonym grv_client = "(grv_msg, client_state_grv) wclient"

definition grv_client_init ::
  "grv_client \<Rightarrow> client_config \<Rightarrow> (client_state_grv \<times> grv_client) option" where
  "grv_client_init client conf = do {
     (g, client) \<leftarrow> client_register_request_type client ''get'';
     (p, client) \<leftarrow> client_register_request_type client ''put'';
     (r, client) \<leftarrow> client_register_request_type client ''rotx'';
     Some (\<lparr>cv_config = conf, cv_dependency_vector = replicate (unat (num_replicas (cc_cluster conf))) 0,
            cv_gst_vector = replicate (unat (num_replicas (cc_cluster conf))) 0,
            cv_get_request_type = g, cv_put_request_type = p, cv_rotx_request_type = r\<rparr>, client)
   }"

abbreviation cv_num_replicas :: "client_state_grv \<Rightarrow> u32" where
  "cv_num_replicas state \<equiv> num_replicas (cc_cluster (cv_config state))"

text \<open>The loop that raises the entries of one vector to those of another.\<close>

definition vec_set_max :: "u32 \<Rightarrow> gr_tsp list \<Rightarrow> gr_tsp list \<Rightarrow> gr_tsp list option" where
  "vec_set_max n dst src = foldM (\<lambda>i v. do {
       d \<leftarrow> arr_get v i;
       x \<leftarrow> arr_get src i;
       arr_set v i (set_max d x)
     }) (idx_upto n) dst"

definition update_dependency_vector :: "client_state_grv \<Rightarrow> gr_tsp list \<Rightarrow> client_state_grv option" where
  "update_dependency_vector state dependency_vector = do {
     v \<leftarrow> vec_set_max (cv_num_replicas state) (cv_dependency_vector state) dependency_vector;
     Some (state\<lparr>cv_dependency_vector := v\<rparr>)
   }"

text \<open>\<open>None\<close> is the pointer NULL.\<close>

definition grv_update_times ::
  "client_state_grv \<Rightarrow> gr_tsp list option \<Rightarrow> gr_tsp \<Rightarrow> replica_t \<Rightarrow> client_state_grv option" where
  "grv_update_times state gv dependency_time replica = do {
     state \<leftarrow> (case gv of
         None \<Rightarrow> Some state
       | Some gv \<Rightarrow> do {
           v \<leftarrow> vec_set_max (cv_num_replicas state) (cv_gst_vector state) gv;
           Some (state\<lparr>cv_gst_vector := v\<rparr>)
         });
     d \<leftarrow> arr_get (cv_dependency_vector state) replica;
     v \<leftarrow> arr_set (cv_dependency_vector state) replica (set_max d dependency_time);
     Some (state\<lparr>cv_dependency_vector := v\<rparr>)
   }"

definition max_gst_and_dependency_vector :: "gr_tsp list \<Rightarrow> client_state_grv \<Rightarrow> gr_tsp list option" where
  "max_gst_and_dependency_vector max_vector state =
     foldM (\<lambda>i v. do {
       g \<leftarrow> arr_get (cv_gst_vector state) i;
       d \<leftarrow> arr_get (cv_dependency_vector state) i;
       arr_set v i (if d < g then g else d)
     }) (idx_upto (cv_num_replicas state)) max_vector"

definition grv_client_get_request :: "grv_client \<Rightarrow> gr_key \<Rightarrow> grv_client option" where
  "grv_client_get_request client key = do {
     let state = protocol_state client;
     server_lpid \<leftarrow> client_lpid_for_key (cv_config state) key;
     gv \<leftarrow> vec_copy (cv_num_replicas state) (cv_gst_vector state);
     let request = (grv_get_request_new (cv_num_replicas state))\<lparr>vgetq_client_lpid := cc_lpid (cv_config state),
       vgetq_proxy_lpid := NO_PROXY_LPID, vgetq_key := key, vgetq_gst_vector_size := cv_num_replicas state,
       vgetq_gst_vector := gv\<rparr>;
     client \<leftarrow> client_begin_request client;
     client_send client server_lpid GRV_GET_REQUEST request (Data (VGetRequest request))
   }"

definition grv_client_put_request :: "grv_client \<Rightarrow> gr_key \<Rightarrow> gr_value \<Rightarrow> grv_client option" where
  "grv_client_put_request client key value = do {
     let state = protocol_state client;
     server_lpid \<leftarrow> client_lpid_for_key (cv_config state) key;
     let request = (grv_put_request_new (cv_num_replicas state))\<lparr>vputq_client_lpid := cc_lpid (cv_config state),
       vputq_proxy_lpid := NO_PROXY_LPID, vputq_key := key, vputq_value := value\<rparr>;
     dv \<leftarrow> max_gst_and_dependency_vector (vputq_dependency_vector request) state;
     let request = request\<lparr>vputq_dependency_vector := dv\<rparr>;
     client \<leftarrow> client_begin_request client;
     client_send client server_lpid GRV_PUT_REQUEST request (Data (VPutRequest request))
   }"

definition grv_client_rotx_request :: "grv_client \<Rightarrow> gr_key list \<Rightarrow> u32 \<Rightarrow> grv_client option" where
  "grv_client_rotx_request client keys num_keys = do {
     let state = protocol_state client;
     let request = grv_rotx_request_new num_keys (cv_num_replicas state);
     d \<leftarrow> arr_get (cv_dependency_vector state) (cc_replica (cv_config state));
     ks \<leftarrow> vec_copy num_keys keys;
     gv \<leftarrow> vec_copy (vrxq_gst_vector_size request) (cv_gst_vector state);
     let request = request\<lparr>vrxq_client_lpid := cc_lpid (cv_config state), vrxq_dependency_time := d,
       vrxq_keys := ks, vrxq_gst_vector := gv\<rparr>;
     (server_lpid, client) \<leftarrow> lpid_of_any_partition client;
     client \<leftarrow> client_begin_request client;
     client_send client server_lpid GRV_ROTX_REQUEST request (Data (VRotxRequest request))
   }"

definition grv_client_get_response :: "grv_client \<Rightarrow> grv_get_response \<Rightarrow> grv_client option" where
  "grv_client_get_response client response = do {
     (_, client) \<leftarrow> client_finish_request client (cv_get_request_type (protocol_state client));
     let state = protocol_state client;
     c_assert (vgetr_gst_vector_size response = cv_num_replicas state);
     state \<leftarrow> grv_update_times state (Some (vgetr_gst_vector response)) (vgetr_update_timestamp response)
       (vgetr_source_replica response);
     let client = client\<lparr>protocol_state := state\<rparr>;
     f \<leftarrow> on_get_response (funcs_of_workload (cc_funcs (cv_config state)));
     f client (vgetr_value response)
   }"

definition grv_client_put_response :: "grv_client \<Rightarrow> grv_put_response \<Rightarrow> grv_client option" where
  "grv_client_put_response client response = do {
     (_, client) \<leftarrow> client_finish_request client (cv_put_request_type (protocol_state client));
     let state = protocol_state client;
     state \<leftarrow> grv_update_times state None (vputr_update_time response) (vputr_source_replica response);
     let client = client\<lparr>protocol_state := state\<rparr>;
     f \<leftarrow> on_put_response (funcs_of_workload (cc_funcs (cv_config state)));
     f client
   }"

definition grv_client_rotx_response :: "grv_client \<Rightarrow> grv_rotx_response \<Rightarrow> grv_client option" where
  "grv_client_rotx_response client response = do {
     (_, client) \<leftarrow> client_finish_request client (cv_rotx_request_type (protocol_state client));
     let state = protocol_state client;
     state \<leftarrow> update_dependency_vector state (vrxr_dependency_vector response);
     let client = client\<lparr>protocol_state := state\<rparr>;
     f \<leftarrow> on_rotx_response (funcs_of_workload (cc_funcs (cv_config state)));
     f client (vrxr_values response) (vrxr_num_values response)
   }"

definition as_VRotxResponse :: "grv_msg \<Rightarrow> grv_rotx_response option" where
  "as_VRotxResponse m = (case m of VRotxResponse r \<Rightarrow> Some r | _ \<Rightarrow> None)"

definition grv_client_protocol_process_event ::
  "grv_client \<Rightarrow> simtime \<Rightarrow> event_type \<Rightarrow> grv_msg event_data \<Rightarrow> nat \<Rightarrow> grv_client option option" where
  "grv_client_protocol_process_event client t event_type data data_size =
     (if event_type = GRV_GET_RESPONSE then on_msg as_VGetResponse grv_client_get_response client data
      else if event_type = GRV_PUT_RESPONSE then on_msg as_VPutResponse grv_client_put_response client data
      else if event_type = GRV_ROTX_RESPONSE then on_msg as_VRotxResponse grv_client_rotx_response client data
      else Some None)"

definition grv_client_funcs :: "(grv_msg, client_state_grv) client_funcs" where
  "grv_client_funcs =
     \<lparr>cf_init = grv_client_init, cf_get_request = grv_client_get_request, cf_put_request = grv_client_put_request,
      cf_rotx_request = grv_client_rotx_request, cf_process_event = grv_client_protocol_process_event\<rparr>"

end
