(* ===== verification/Client_Grv_Run.thy ===== *)
theory Client_Grv_Run
  imports Client_Grv Client_Run Grv_Keep Vectors
begin

text \<open>
  The GRV client keeps the contract of \<open>client_protocol\<close>; its runs, and what its requests carry.
\<close>

section \<open>The vectors of a client\<close>

definition grv_belongs :: "client_state_grv \<Rightarrow> client_config \<Rightarrow> bool" where
  "grv_belongs ps c \<longleftrightarrow> cv_config ps = c \<and> length (cv_dependency_vector ps) = unat (num_replicas (cc_cluster c)) \<and>
     length (cv_gst_vector ps) = unat (num_replicas (cc_cluster c))"

definition grv_knows :: "client_state_grv \<Rightarrow> client_state_grv \<Rightarrow> bool" where
  "grv_knows ps ps' \<longleftrightarrow> vec_le (cv_dependency_vector ps) (cv_dependency_vector ps') \<and> vec_le (cv_gst_vector ps) (cv_gst_vector ps')"

lemma vec_set_max_effect:
  assumes "vec_set_max n dst src = Some v"
  shows "length v = length dst" "\<And>i. i < n \<Longrightarrow> unat i < length dst \<and> v ! unat i = max (dst ! unat i) (src ! unat i)"
    "\<And>j. unat n \<le> j \<Longrightarrow> v ! j = dst ! j"
proof -
  note loop = foldM_vector [where F = "\<lambda>i d. max d (src ! unat i)", OF assms [unfolded vec_set_max_def]]
  have "unat i < length w \<and> w' = w[unat i := max (w ! unat i) (src ! unat i)]"
    if "do { d \<leftarrow> arr_get w i; x \<leftarrow> arr_get src i; arr_set w i (set_max d x) } = Some w'" for i w w'
    using that by (auto simp: bind_eq_Some_conv arr_get_eq_Some arr_set_eq_Some set_max_max)
  then show "length v = length dst" "\<And>i. i < n \<Longrightarrow> unat i < length dst \<and> v ! unat i = max (dst ! unat i) (src ! unat i)"
    "\<And>j. unat n \<le> j \<Longrightarrow> v ! j = dst ! j"
    using loop by blast+
qed

lemma vec_le_raise [simp]: "vec_le v (v[i := max (v ! i) t])"
  by (cases "i < length v") (auto simp: vec_le_def list_all2_conv_all_nth nth_list_update)

lemma vec_le_indices: "length v = length w \<Longrightarrow> (\<And>j. j < length w \<Longrightarrow> w ! j \<le> v ! j) \<Longrightarrow> vec_le w v"
  by (simp add: vec_le_def list_all2_conv_all_nth)

lemma vec_set_max_le:
  assumes "vec_set_max n dst src = Some v"
  shows "vec_le dst v"
proof (rule vec_le_indices)
  fix j assume "j < length dst"
  show "dst ! j \<le> v ! j"
  proof (cases "j < unat n")
    case True
    then have "unat (of_nat j :: u32) = j" by (rule unat_of_nat_u32)
    with True vec_set_max_effect(2) [OF assms, of "of_nat j"] show ?thesis by (simp add: word_less_nat_alt)
  qed (use vec_set_max_effect(3) [OF assms] in simp)
qed (rule vec_set_max_effect(1) [OF assms])

lemma max_gst_and_dependency_vector_effect:
  assumes "max_gst_and_dependency_vector m ps = Some v" and "i < cv_num_replicas ps"
  shows "v ! unat i = max (cv_gst_vector ps ! unat i) (cv_dependency_vector ps ! unat i)"
proof -
  note loop = foldM_vector(2) [where F = "\<lambda>i _. max (cv_gst_vector ps ! unat i) (cv_dependency_vector ps ! unat i)",
      OF assms(1) [unfolded max_gst_and_dependency_vector_def] _ assms(2)]
  have "unat i < length w \<and> w' = w[unat i := max (cv_gst_vector ps ! unat i) (cv_dependency_vector ps ! unat i)]"
    if "do { g \<leftarrow> arr_get (cv_gst_vector ps) i; d \<leftarrow> arr_get (cv_dependency_vector ps) i; arr_set w i (if d < g then g else d) } = Some w'"
    for i w w' using that by (auto simp: bind_eq_Some_conv arr_get_eq_Some arr_set_eq_Some max_def)
  then show ?thesis using loop by blast
qed

section \<open>The interpretation\<close>

text \<open>The time that a response tells its client about a replica.\<close>

fun v_news :: "grv_msg \<Rightarrow> replica_t \<Rightarrow> gr_tsp option" where
  "v_news (VGetResponse g) r = (if r = vgetr_source_replica g then Some (vgetr_update_timestamp g) else None)"
| "v_news (VPutResponse p) r = (if r = vputr_source_replica p then Some (vputr_update_time p) else None)"
| "v_news (VRotxResponse x) r = arr_get (vrxr_dependency_vector x) r"
| "v_news _ _ = None"

lemma grv_update_times_effect:
  assumes "grv_update_times ps gv t r = Some ps'" and "grv_belongs ps c"
  shows "grv_belongs ps' c \<and> grv_knows ps ps' \<and> unat r < length (cv_dependency_vector ps') \<and> t \<le> cv_dependency_vector ps' ! unat r"
  using assms
  by (auto simp: grv_update_times_def grv_belongs_def grv_knows_def bind_eq_Some_conv arr_get_eq_Some arr_set_eq_Some set_max_max
      vec_set_max_effect(1) split: option.splits intro: vec_set_max_le)

lemma update_dependency_vector_effect:
  "update_dependency_vector ps dv = Some ps' \<Longrightarrow> grv_belongs ps c \<Longrightarrow> grv_belongs ps' c \<and> grv_knows ps ps' \<and>
     (\<forall>r t. r < num_replicas (cc_cluster c) \<longrightarrow> arr_get dv r = Some t \<longrightarrow> t \<le> cv_dependency_vector ps' ! unat r)"
  by (auto simp: update_dependency_vector_def grv_belongs_def grv_knows_def bind_eq_Some_conv arr_get_eq_Some vec_set_max_effect(1,2)
      intro: vec_set_max_le)

lemma grv_client_request_effect:
  "grv_client_get_request st key = Some st' \<Longrightarrow> requested st st'"
  "grv_client_put_request st key v = Some st' \<Longrightarrow> requested st st'"
  "grv_client_rotx_request st keys n = Some st' \<Longrightarrow> requested st st'"
  by (auto simp: grv_client_get_request_def grv_client_put_request_def grv_client_rotx_request_def bind_eq_Some_conv Let_def
      internal_event_def dest!: begin_and_send_asks lpid_of_any_partition_keeps)

lemma answered_protocol [simp]: "answered st (st'\<lparr>protocol_state := ps\<rparr>) = answered st st'"
  by (simp add: client_step_defs)

text \<open>What a response does before it is handed to the workload.\<close>

definition v_learned :: "grv_client \<Rightarrow> grv_msg \<Rightarrow> grv_client \<Rightarrow> bool" where
  "v_learned st m st1 \<longleftrightarrow> answered st st1 \<and> grv_belongs (protocol_state st1) (cs_config st1) \<and>
     grv_knows (protocol_state st) (protocol_state st1) \<and>
     (\<forall>r t. r < num_replicas (cc_cluster (cs_config st)) \<longrightarrow> v_news m r = Some t \<longrightarrow>
        t \<le> cv_dependency_vector (protocol_state st1) ! unat r)"

lemma grv_learns:
  assumes "client_finish_request st ty = Some (d, stf)" and "grv_belongs (protocol_state st) (cs_config st)"
    and "grv_belongs (protocol_state stf) (cs_config st) \<Longrightarrow> grv_belongs ps (cs_config st) \<and> grv_knows (protocol_state stf) ps \<and>
      (\<forall>r t. r < num_replicas (cc_cluster (cs_config st)) \<longrightarrow> v_news m r = Some t \<longrightarrow> t \<le> cv_dependency_vector ps ! unat r)"
    and "callback (cc_funcs (cv_config ps)) (stf\<lparr>protocol_state := ps\<rparr>) st'"
  shows "\<exists>st1. v_learned st m st1 \<and> callback (cc_funcs (cs_config st)) st1 st'"
proof -
  have f: "answered st stf" "protocol_state stf = protocol_state st" "cs_config stf = cs_config st"
    using client_finish_answers [OF assms(1)] by (auto simp: client_step_defs)
  with assms(2,3) have b: "grv_belongs ps (cs_config st)" and "v_learned st m (stf\<lparr>protocol_state := ps\<rparr>)"
    by (auto simp: v_learned_def)
  moreover have "cv_config ps = cs_config st" using b by (simp add: grv_belongs_def)
  ultimately show ?thesis using assms(4) by auto
qed

lemma callbackI:
  "on_get_response (funcs_of_workload w) = Some f \<Longrightarrow> f st v = Some st' \<Longrightarrow> callback w st st'"
  "on_put_response (funcs_of_workload w) = Some g \<Longrightarrow> g st = Some st' \<Longrightarrow> callback w st st'"
  "on_rotx_response (funcs_of_workload w) = Some h \<Longrightarrow> h st vs n = Some st' \<Longrightarrow> callback w st st'"
  unfolding callback_def by blast+

lemma grv_client_response_effect:
  assumes b: "grv_belongs (protocol_state st) (cs_config st)"
  shows "grv_client_get_response st g = Some st' \<Longrightarrow> \<exists>st1. v_learned st (VGetResponse g) st1 \<and> callback (cc_funcs (cs_config st)) st1 st'"
    and "grv_client_put_response st p = Some st' \<Longrightarrow> \<exists>st1. v_learned st (VPutResponse p) st1 \<and> callback (cc_funcs (cs_config st)) st1 st'"
    and "grv_client_rotx_response st x = Some st' \<Longrightarrow> \<exists>st1. v_learned st (VRotxResponse x) st1 \<and> callback (cc_funcs (cs_config st)) st1 st'"
proof -
  assume "grv_client_get_response st g = Some st'"
  then obtain d stf ps f where f: "client_finish_request st (cv_get_request_type (protocol_state st)) = Some (d, stf)"
    and ps: "grv_update_times (protocol_state stf) (Some (vgetr_gst_vector g)) (vgetr_update_timestamp g) (vgetr_source_replica g) = Some ps"
    and cb: "on_get_response (funcs_of_workload (cc_funcs (cv_config ps))) = Some f" "f (stf\<lparr>protocol_state := ps\<rparr>) (vgetr_value g) = Some st'"
    by (auto simp: grv_client_get_response_def bind_eq_Some_conv Let_def)
  show "\<exists>st1. v_learned st (VGetResponse g) st1 \<and> callback (cc_funcs (cs_config st)) st1 st'"
    by (rule grv_learns [OF f b _ callbackI(1) [OF cb]]) (use grv_update_times_effect [OF ps] in \<open>auto split: if_splits\<close>)
next
  assume "grv_client_put_response st p = Some st'"
  then obtain d stf ps f where f: "client_finish_request st (cv_put_request_type (protocol_state st)) = Some (d, stf)"
    and ps: "grv_update_times (protocol_state stf) None (vputr_update_time p) (vputr_source_replica p) = Some ps"
    and cb: "on_put_response (funcs_of_workload (cc_funcs (cv_config ps))) = Some f" "f (stf\<lparr>protocol_state := ps\<rparr>) = Some st'"
    by (auto simp: grv_client_put_response_def bind_eq_Some_conv Let_def)
  show "\<exists>st1. v_learned st (VPutResponse p) st1 \<and> callback (cc_funcs (cs_config st)) st1 st'"
    by (rule grv_learns [OF f b _ callbackI(2) [OF cb]]) (use grv_update_times_effect [OF ps] in \<open>auto split: if_splits\<close>)
next
  assume "grv_client_rotx_response st x = Some st'"
  then obtain d stf ps f where f: "client_finish_request st (cv_rotx_request_type (protocol_state st)) = Some (d, stf)"
    and ps: "update_dependency_vector (protocol_state stf) (vrxr_dependency_vector x) = Some ps"
    and cb: "on_rotx_response (funcs_of_workload (cc_funcs (cv_config ps))) = Some f" "f (stf\<lparr>protocol_state := ps\<rparr>) (vrxr_values x) (vrxr_num_values x) = Some st'"
    by (auto simp: grv_client_rotx_response_def bind_eq_Some_conv Let_def)
  show "\<exists>st1. v_learned st (VRotxResponse x) st1 \<and> callback (cc_funcs (cs_config st)) st1 st'"
    by (rule grv_learns [OF f b _ callbackI(3) [OF cb]]) (use update_dependency_vector_effect [OF ps] in \<open>auto split: if_splits\<close>)
qed

lemma grv_client_event_effect:
  assumes "grv_client_protocol_process_event st t ty d sz = Some (Some st')" and "grv_belongs (protocol_state st) (cs_config st)"
  shows "\<exists>m st1. d = Data m \<and> v_learned st m st1 \<and> callback (cc_funcs (cs_config st)) st1 st'"
  using assms
  by (auto simp: grv_client_protocol_process_event_def on_msg_def as_VGetResponse_def as_VPutResponse_def as_VRotxResponse_def
      bind_eq_Some_conv split: if_splits grv_msg.splits event_data.splits dest!: grv_client_response_effect [rotated])

interpretation cgrv: client_protocol grv_client_funcs grv_belongs grv_knows
proof
  fix st c ps st'
  assume "cf_init grv_client_funcs st c = Some (ps, st')"
  then show "grv_belongs ps c \<and> same_client st st' \<and> scheduled st' = scheduled st \<and> request_time st' = request_time st"
    by (auto simp: grv_client_funcs_def grv_client_init_def client_register_request_type_def bind_eq_Some_conv Let_def
        same_client_def grv_belongs_def)
next
  fix st t ty d sz st'
  assume "cf_process_event grv_client_funcs st t ty d sz = Some (Some st')" and "grv_belongs (protocol_state st) (cs_config st)"
  with grv_client_event_effect [of st t ty d sz st']
  show "\<exists>st1. answered st st1 \<and> grv_belongs (protocol_state st1) (cs_config st1) \<and> grv_knows (protocol_state st) (protocol_state st1) \<and>
      callback (cc_funcs (cs_config st)) st1 st'" by (auto simp: grv_client_funcs_def v_learned_def)
qed (auto simp: grv_knows_def grv_client_funcs_def post_def grv_client_request_effect intro: vec_le_trans)

lemma grv_response_learned:
  assumes inv: "cgrv.client_inv c st" and t: "\<not> internal_event (ev_type e)" and m: "ev_data e = Data m" "v_news m r = Some u"
    and r: "r < num_replicas (cc_cluster c)" and d: "deliver_to_client grv_client_funcs c e st = Some st'"
  shows "allocated st' \<and> u \<le> cv_dependency_vector (protocol_state st') ! unat r"
proof -
  let ?st = "st\<lparr>scheduled := remove1 e (scheduled st), cs_now := ev_time e\<rparr>"
  from d t m have a: "allocated st"
    and p: "grv_client_protocol_process_event ?st (ev_time e) (ev_type e) (Data m) (ev_size e) = Some (Some st')"
    by (auto simp: deliver_to_client_def client_process_event_def bind_eq_Some_conv internal_event_def grv_client_funcs_def split: if_splits)
  from grv_client_event_effect [OF p] inv a m r obtain st1 where st1: "answered ?st st1" "callback (cc_funcs c) st1 st'"
    "u \<le> cv_dependency_vector (protocol_state st1) ! unat r"
    by (auto simp: cgrv.client_inv_def cgrv.client_ready_def v_learned_def)
  have "data_ok (cc_funcs c) True (state_data st1)"
    using inv a st1(1) by (auto simp: cgrv.client_inv_def cgrv.client_ready_def client_step_defs)
  from callback_rests [OF st1(2) this] st1 a show ?thesis by (simp add: client_step_defs)
qed

section \<open>A small run\<close>

definition grv_demo_client :: grv_client where
  "grv_demo_client =
     \<lparr>cfg = (\<lambda>_. Some 1), timing_dist = Constant, ignore_initial_seconds = 0, normal_source = (\<lambda>_. 0), expent_source = (\<lambda>_ m. m),
      draws = 0, scheduled = [\<lparr>ev_to = 4, ev_time = 0, ev_type = ROOTSIM_INIT, ev_data = NoData, ev_size = 0\<rparr>],
      random_source = (\<lambda>_. 1), range_source = (\<lambda>_ lo hi. lo), zipf_source = (\<lambda>_ _ n. 0), allocated = False, state_data = No_data,
      protocol_state = \<lparr>cv_config = demo_client_config Get_put_rr, cv_dependency_vector = [], cv_gst_vector = [], cv_get_request_type = 0,
        cv_put_request_type = 0, cv_rotx_request_type = 0\<rparr>,
      last_used_partition = 0, cs_config = demo_client_config Get_put_rr, cs_network = network_init, cs_start_time = 0, cs_now = 0,
      request_time = 0, last_request_duration = 0, cs_finished = False, request_type_names = [], request_stats = []\<rparr>"

definition grv_demo_response :: "grv_msg sim_event" where
  "grv_demo_response = \<lparr>ev_to = 4, ev_time = 10, ev_type = GRV_GET_RESPONSE,
     ev_data = Data (VGetResponse ((grv_get_response_new 2)\<lparr>vgetr_source_replica := 1, vgetr_update_timestamp := 7,
       vgetr_gst_vector := [3, 4]\<rparr>)), ev_size = 72\<rparr>"

lemmas eval_client_grv = eval_client grv_demo_client_def grv_demo_response_def grv_client_funcs_def grv_client_init_def
  grv_update_times_def vec_set_max_def vec_copy_def max_gst_and_dependency_vector_def grv_client_get_request_def
  grv_client_put_request_def grv_client_get_response_def grv_client_protocol_process_event_def as_VGetResponse_def set_max_def
  grv_get_request_new_def grv_get_response_new_def grv_put_request_new_def
  GR_SIMULATED_VALUE_SIZE_def sizeof_gr_value_def sizeof_gr_tsp_def

lemma grv_demo_client_run:
  "\<exists>st1 st2 st4. run_client grv_client_funcs (demo_client_config Get_put_rr) [Deliver 0, Deliver 0, Receive grv_demo_response] grv_demo_client = Some st1 \<and>
     deliver_to_client grv_client_funcs (demo_client_config Get_put_rr) grv_demo_response st1 = Some st2 \<and>
     grv_demo_response \<in> set (scheduled st1) \<and> allocated st1 \<and> request_time st1 \<noteq> - 1 \<and> request_time st2 = - 1 \<and>
     grv_client_put_request st2 1 9 = Some st4"
  by (simp add: eval_base eval_client_grv cong: bind_weak_cong let_weak_cong)

lemma grv_demo_client_started: "client_started (demo_client_config w) grv_demo_client"
  by (simp add: client_started_def grv_demo_client_def demo_client_config_def)

section \<open>Runs\<close>

text \<open>C11: a GRV client is a closed loop, as the GentleRain client is.\<close>

theorem grv_client_closed_loop:
  assumes "client_started c st" and "(client_step grv_client_funcs c)\<^sup>*\<^sup>* st st'" and "allocated st'"
  shows "own_events (cc_lpid c) CLIENT_TICK (scheduled st') = (if request_time st' = - 1 then 1 else 0) \<and>
     data_ok (cc_funcs c) (request_time st' \<noteq> - 1) (state_data st')"
  using cgrv.closed_loop [OF assms] by blast

theorem grv_client_closed_loop_witness:
  "\<exists>st'. client_started (demo_client_config Get_put_rr) grv_demo_client \<and>
     (client_step grv_client_funcs (demo_client_config Get_put_rr))\<^sup>*\<^sup>* grv_demo_client st' \<and> allocated st' \<and>
     own_events (cc_lpid (demo_client_config Get_put_rr)) CLIENT_TICK (scheduled st') = (if request_time st' = - 1 then 1 else 0) \<and>
     data_ok (cc_funcs (demo_client_config Get_put_rr)) (request_time st' \<noteq> - 1) (state_data st')"
  using grv_demo_client_run grv_client_closed_loop [OF grv_demo_client_started run_client_steps] grv_demo_client_started run_client_steps by blast

text \<open>C12: after a GRV client has processed a response that tells it the time \<open>u\<close> of replica \<open>r\<close>, entry
  \<open>r\<close> of the dependency vector of every later put request of the client is at least \<open>u\<close>.\<close>

theorem grv_put_depends_on_past:
  assumes "client_started c st" and "(client_step grv_client_funcs c)\<^sup>*\<^sup>* st st1"
    and "e \<in> set (scheduled st1)" and "ev_to e = cc_lpid c" and "\<not> internal_event (ev_type e)"
    and "ev_data e = Data m" and "v_news m r = Some u" and "r < num_replicas (cc_cluster c)"
    and "deliver_to_client grv_client_funcs c e st1 = Some st2" and "(client_step grv_client_funcs c)\<^sup>*\<^sup>* st2 st3"
    and "grv_client_put_request st3 key v = Some st4"
  shows "\<exists>e' p. scheduled st4 = scheduled st3 @ [e'] \<and> ev_type e' = GRV_PUT_REQUEST \<and> ev_data e' = Data (VPutRequest p) \<and>
     vputq_key p = key \<and> vputq_value p = v \<and> u \<le> vputq_dependency_vector p ! unat r"
proof -
  note inv = cgrv.client_run_inv [OF assms(2,1)]
  have 2: "allocated st2" "u \<le> cv_dependency_vector (protocol_state st2) ! unat r"
    using grv_response_learned [OF inv assms(5-9)] by auto
  have inv2: "cgrv.client_inv c st2" using cgrv.client_step_inv [OF client_deliver [OF assms(3,4,9)] inv] .
  note run = cgrv.client_run_le [OF assms(10) inv2 2(1)] cgrv.client_run_keeps_inv [OF assms(10) inv2]
  then have b: "grv_belongs (protocol_state st3) (cs_config st3)" "cc_cluster (cs_config st3) = cc_cluster c"
    by (auto simp: cgrv.client_inv_def cgrv.client_ready_def)
  from run inv2 2 assms(8) have "u \<le> cv_dependency_vector (protocol_state st3) ! unat r"
    by (fastforce simp: grv_knows_def vec_le_def list_all2_conv_all_nth cgrv.client_inv_def cgrv.client_ready_def grv_belongs_def
        word_less_nat_alt)
  with assms(8,11) b show ?thesis
    by (auto simp: grv_client_put_request_def bind_eq_Some_conv Let_def internal_event_def grv_belongs_def
        max_gst_and_dependency_vector_effect le_max_iff_disj dest!: begin_and_send_asks)
qed

theorem grv_put_depends_on_past_witness:
  "\<exists>st3 st4 e' p. grv_client_put_request st3 1 9 = Some st4 \<and> scheduled st4 = scheduled st3 @ [e'] \<and>
     ev_type e' = GRV_PUT_REQUEST \<and> ev_data e' = Data (VPutRequest p) \<and> vputq_key p = 1 \<and> vputq_value p = 9 \<and>
     7 \<le> vputq_dependency_vector p ! 1"
proof -
  from grv_demo_client_run obtain st1 st2 st4 where
    1: "run_client grv_client_funcs (demo_client_config Get_put_rr) [Deliver 0, Deliver 0, Receive grv_demo_response] grv_demo_client = Some st1"
    and e: "grv_demo_response \<in> set (scheduled st1)"
    and 2: "deliver_to_client grv_client_funcs (demo_client_config Get_put_rr) grv_demo_response st1 = Some st2"
    and 4: "grv_client_put_request st2 1 9 = Some st4" by blast
  have "\<exists>e' p. scheduled st4 = scheduled st2 @ [e'] \<and> ev_type e' = GRV_PUT_REQUEST \<and> ev_data e' = Data (VPutRequest p) \<and>
     vputq_key p = 1 \<and> vputq_value p = 9 \<and> 7 \<le> vputq_dependency_vector p ! unat (1 :: replica_t)"
    by (rule grv_put_depends_on_past [where m = "VGetResponse ((grv_get_response_new 2)\<lparr>vgetr_source_replica := 1,
            vgetr_update_timestamp := 7, vgetr_gst_vector := [3, 4]\<rparr>)" and r = 1,
          OF grv_demo_client_started run_client_steps [OF 1] e _ _ _ _ _ 2 _ 4])
      (simp_all add: grv_demo_response_def demo_client_config_def internal_event_def grv_get_response_new_def)
  with 4 show ?thesis by auto
qed

end
