(* ===== verification/Causality.thy ===== *)
theory Causality
  imports Client_Gr_Run Gr_Run
begin

text \<open>
  A GentleRain client and the server that executes its writes, together. The dependency time that the
  client keeps travels in its put requests; the server lets a put wait until its clock has passed it
  and stamps the new version with its clock, so a write never gets a timestamp below that of anything
  its client had seen.
\<close>

section \<open>The server between two events\<close>

text \<open>
  A move of the server: it processes one event, or its CPU changes its own part of the state
  (scheduling, queues, locks, statistics). Every run of the server with its CPU is a sequence of moves.
\<close>

inductive gr_move :: "gr_state \<Rightarrow> gr_state \<Rightarrow> bool" where
  gr_move_event: "server_process_event gr_process_event l t ty d n st = Some st' \<Longrightarrow> gr_move st st'"
| gr_move_cpu: "cpu_state.more st' = cpu_state.more st \<Longrightarrow> gr_move st st'"

definition gr_moves_ext where
  "gr_moves_ext z z' \<longleftrightarrow> (\<forall>st st'. cpu_state.more st = z \<longrightarrow> cpu_state.more st' = z' \<longrightarrow> gr_move\<^sup>*\<^sup>* st st')"

lemma gr_moves_more:
  assumes "gr_move\<^sup>*\<^sup>* st st'" and "cpu_state.more st1 = cpu_state.more st" and "cpu_state.more st1' = cpu_state.more st'"
  shows "gr_move\<^sup>*\<^sup>* st1 st1'"
proof -
  have "gr_move st1 st" "gr_move st' st1'" using assms(2,3) by (auto intro: gr_move_cpu)
  with assms(1) show ?thesis by (meson converse_rtranclp_into_rtranclp rtranclp.rtrancl_into_rtrancl)
qed

interpretation moves: cpu_client "server_handler gr_process_event" gr_moves_ext
proof
  fix t d n and st :: gr_state
  show "post (server_handler gr_process_event t d n st) (cpu_frame st)"
    by (rule post_mono [OF gr.handler_keeps]) simp
  show "post (server_handler gr_process_event t d n st) (\<lambda>st'. gr_moves_ext (cpu_state.more st) (cpu_state.more st'))"
  proof (rule postI)
    fix st' assume "server_handler gr_process_event t d n st = Some st'"
    then have "gr_move st st'" unfolding server_handler_def by (rule gr_move_event)
    then have "gr_move\<^sup>*\<^sup>* st st'" by (rule r_into_rtranclp)
    then show "gr_moves_ext (cpu_state.more st) (cpu_state.more st')"
      unfolding gr_moves_ext_def by (blast intro: gr_moves_more)
  qed
next
  fix z
  show "gr_moves_ext z z" by (auto simp: gr_moves_ext_def intro: gr_move_cpu)
qed

lemma gr_moves_ext_trans: "gr_moves_ext x y \<Longrightarrow> gr_moves_ext y z \<Longrightarrow> gr_moves_ext x z"
  unfolding gr_moves_ext_def
proof (intro allI impI)
  fix st st' :: gr_state
  assume "\<forall>st st'. cpu_state.more st = x \<longrightarrow> cpu_state.more st' = y \<longrightarrow> gr_move\<^sup>*\<^sup>* st st'"
    and "\<forall>st st'. cpu_state.more st = y \<longrightarrow> cpu_state.more st' = z \<longrightarrow> gr_move\<^sup>*\<^sup>* st st'"
    and "cpu_state.more st = x" "cpu_state.more st' = z"
  then have "gr_move\<^sup>*\<^sup>* st (cpu_state.more_update (\<lambda>_. y) st)" "gr_move\<^sup>*\<^sup>* (cpu_state.more_update (\<lambda>_. y) st) st'"
    by simp_all
  then show "gr_move\<^sup>*\<^sup>* st st'" by (rule rtranclp_trans)
qed

lemma gr_run_moves: "gr_step\<^sup>*\<^sup>* st st' \<Longrightarrow> cpu_inv st \<Longrightarrow> gr_move\<^sup>*\<^sup>* st st'"
proof -
  assume "gr_step\<^sup>*\<^sup>* st st'" "cpu_inv st"
  from moves.reachable_inv [OF this] gr_moves_ext_trans have "gr_moves_ext (cpu_state.more st) (cpu_state.more st')" by blast
  then show ?thesis by (simp add: gr_moves_ext_def)
qed

section \<open>The clock\<close>

definition in_sync :: "gr_state \<Rightarrow> bool" where
  "in_sync st \<longleftrightarrow> clock st = now st + clock_offset st"

lemma gr_process_event_clock:
  assumes "gr_process_event ty d n st = Some (Some st')"
  shows "now st' = now st \<and> clock st' = clock st \<and> clock_offset st' = clock_offset st"
  using assms gr_process_event_rel [of ty d n st] by (simp add: post_def gf.handled_def gr_rel_def)

lemma server_event_dispatch:
  assumes "server_process_event gr_process_event l t ty d n st = Some st'"
  shows "now st \<le> t \<and> gr_process_event ty d n (st\<lparr>now := t, clock := t + clock_offset st\<rparr>) = Some (Some st')"
  using assms by (auto simp: server_process_event_def server_clock_skew_def bind_eq_Some_conv Let_def)

lemma server_event_clock:
  assumes "server_process_event gr_process_event l t ty d n st = Some st'"
  shows "in_sync st' \<and> now st \<le> now st' \<and> clock_offset st' = clock_offset st"
  using server_event_dispatch [OF assms] gr_process_event_clock by (fastforce simp: in_sync_def)

lemma gr_moves_clock:
  assumes "gr_move\<^sup>*\<^sup>* st st'" and "in_sync st"
  shows "in_sync st' \<and> now st \<le> now st' \<and> clock_offset st' = clock_offset st"
  using assms
proof (induction rule: rtranclp_induct)
  case (step y z)
  from step.hyps(2) have "in_sync y \<longrightarrow> in_sync z \<and> now y \<le> now z \<and> clock_offset z = clock_offset y"
  proof cases
    case gr_move_cpu
    then show ?thesis by (cases y; cases z) (simp add: in_sync_def)
  qed (use server_event_clock in blast)
  with step show ?case by auto
qed simp

section \<open>Puts\<close>

lemma gr_more_fields:
  "cpu_state.more st' = cpu_state.more (st :: gr_state) \<Longrightarrow>
     put_states st' = put_states st \<and> store st' = store st \<and> clock st' = clock st"
  by (cases st; cases st') simp

lemma put_states_kept:
  "cpu_add_timing st k p = Some st' \<Longrightarrow> put_states st' = put_states (st :: gr_state)"
  "server_send st to t m d = Some st' \<Longrightarrow> put_states st' = put_states (st :: gr_state)"
  "server_schedule_self st w t d n = Some st' \<Longrightarrow> put_states st' = put_states (st :: gr_state)"
  "server_stats_counter_inc st i = Some st' \<Longrightarrow> put_states st' = put_states (st :: gr_state)"
  by (auto simp: send_effect_def ScheduleNewEvent_def server_schedule_self_def server_stats_counter_inc_def bind_eq_Some_conv Let_def
      split: if_splits dest!: more_add_timing gr_more_fields server_send_effect)

text \<open>A put request that takes a slot for its state has waited for its dependency time.\<close>

lemma accepted_put_waited:
  assumes "gr_process_put_request st p = Some st'" and "put_states st' \<noteq> put_states st"
  shows "putq_dependency_time p \<le> clock st"
proof (rule ccontr)
  assume "\<not> putq_dependency_time p \<le> clock st"
  with assms(1) have "put_states st' = put_states st"
    by (auto simp: gr_process_put_request_def bind_eq_Some_conv Let_def split: if_splits
        dest!: put_states_kept gr_more_fields [OF more_add_timing])
  with assms(2) show False by blast
qed

text \<open>The version that a put stores has the time of the clock.\<close>

lemma put_locked_stamps:
  assumes "gr_process_put_request_locked st i = Some st'"
  shows "chain_at (store st') k = chain_at (store st) k \<or>
     (\<exists>x. chain_at (store st') k = x # chain_at (store st) k \<and> it_update_time x = clock st)"
  using assms
  by (auto simp: gr_process_put_request_locked_def gr_put_value_def gr_put_state_set_def bind_eq_Some_conv Let_def chain_at_put
      split: if_splits dest!: gr_more_fields [OF more_add_timing] gr_more_fields [OF more_lock_unlock])

lemma put_after_dependency:
  assumes "server_process_event gr_process_event l t GR_PUT_REQUEST (Data (PutRequest p)) n st = Some st1"
    and "put_states st1 \<noteq> put_states st" and "gr_move\<^sup>*\<^sup>* st1 st2"
    and "server_process_event gr_process_event l' t' GR_PUT_REQUEST_LOCKED (Data (PutStateMessage i)) n' st2 = Some st3"
  shows "chain_at (store st3) k = chain_at (store st2) k \<or>
     (\<exists>x. chain_at (store st3) k = x # chain_at (store st2) k \<and> putq_dependency_time p \<le> it_update_time x)"
proof -
  have 1: "gr_process_put_request (st\<lparr>now := t, clock := t + clock_offset st\<rparr>) p = Some st1"
    using server_event_dispatch [OF assms(1)] by (simp add: gr_process_event_def on_msg_def as_PutRequest_def bind_eq_Some_conv)
  with accepted_put_waited [OF 1] assms(2) have "putq_dependency_time p \<le> t + clock_offset st" by simp
  moreover have "t + clock_offset st = now st1 + clock_offset st1"
    using server_event_dispatch [OF assms(1)] gr_process_event_clock by fastforce
  moreover have "in_sync st1" using server_event_clock [OF assms(1)] by simp
  with gr_moves_clock [OF assms(3)] have "now st1 \<le> now st2" "clock_offset st2 = clock_offset st1" by auto
  moreover have "now st2 \<le> t'"
    and 3: "gr_process_put_request_locked (st2\<lparr>now := t', clock := t' + clock_offset st2\<rparr>) i = Some st3"
    using server_event_dispatch [OF assms(4)]
    by (auto simp: gr_process_event_def on_msg_def as_PutStateMessage_def bind_eq_Some_conv)
  ultimately show ?thesis using put_locked_stamps [OF 3, of k] by fastforce
qed

section \<open>A small run\<close>

definition demo_put :: gr_put_request where
  "demo_put = gr_put_request_new\<lparr>putq_client_lpid := 4, putq_proxy_lpid := NO_PROXY_LPID, putq_key := 1, putq_value := 9,
     putq_dependency_time := 7\<rparr>"

lemma demo_client_put:
  "\<exists>st1 st2 st4 e'. run_client gr_client_funcs (demo_client_config Get_put_rr) [Deliver 0, Deliver 0, Receive gr_demo_response] gr_demo_client = Some st1 \<and>
     deliver_to_client gr_client_funcs (demo_client_config Get_put_rr) gr_demo_response st1 = Some st2 \<and>
     gr_demo_response \<in> set (scheduled st1) \<and>
     gr_client_put_request st2 1 9 = Some st4 \<and> scheduled st4 = scheduled st2 @ [e'] \<and> ev_data e' = Data (PutRequest demo_put)"
  by (simp add: demo_put_def eval_base eval_client_gr cong: bind_weak_cong let_weak_cong)

text \<open>The CPU has run the lock request of the put: the handler is called with the lock held.\<close>

definition demo_granted :: "gr_state \<Rightarrow> gr_state" where
  "demo_granted st = st\<lparr>lock_called := False, continues_in_scheduled_event := False,
     locks := (locks st)[0 := \<lparr>locked = True, lock_queue = cpu_list_init\<rparr>]\<rparr>"

lemma demo_server_put:
  "\<exists>st st1 st3. demo_start = Some st \<and>
     server_process_event gr_process_event 0 8 GR_PUT_REQUEST (Data (PutRequest demo_put)) 48 st = Some st1 \<and>
     put_states st1 \<noteq> put_states st \<and>
     server_process_event gr_process_event 0 12 GR_PUT_REQUEST_LOCKED (Data (PutStateMessage 0)) 4
       (demo_granted st1) = Some st3 \<and>
     chain_at (store st1) 1 = [] \<and>
     chain_at (store st3) 1 = [\<lparr>it_value = 9, it_update_time = 12, it_source_replica = 0\<rparr>]"
  by (simp add: eval_run demo_put_def demo_granted_def cong: bind_weak_cong let_weak_cong)

section \<open>Causal order\<close>

text \<open>C3: causal order is the order of the timestamps. When a GentleRain client has processed a response that
  carries the update time \<open>u\<close>, and a server accepts a put request that the client sends later (directly, or
  forwarded by another server), then every version that the server stores for a put from then on has an
  update time of at least \<open>u\<close>, whatever the client and the server do in between.\<close>

theorem gr_causal_order:
  assumes "client_started c cs" and "(client_step gr_client_funcs c)\<^sup>*\<^sup>* cs cs1"
    and "e \<in> set (scheduled cs1)" and "ev_to e = cc_lpid c" and "\<not> internal_event (ev_type e)"
    and "ev_data e = Data m" and "response_time m = Some u"
    and "deliver_to_client gr_client_funcs c e cs1 = Some cs2" and "(client_step gr_client_funcs c)\<^sup>*\<^sup>* cs2 cs3"
    and "gr_client_put_request cs3 key v = Some cs4" and "scheduled cs4 = scheduled cs3 @ [e']" and "ev_data e' = Data (PutRequest p)"
    and "server_process_event gr_process_event l t GR_PUT_REQUEST (Data (PutRequest (p\<lparr>putq_proxy_lpid := x\<rparr>))) n st = Some st1"
    and "put_states st1 \<noteq> put_states st" and "gr_move\<^sup>*\<^sup>* st1 st2"
    and "server_process_event gr_process_event l' t' GR_PUT_REQUEST_LOCKED (Data (PutStateMessage i)) n' st2 = Some st3"
  shows "chain_at (store st3) k = chain_at (store st2) k \<or>
     (\<exists>item. chain_at (store st3) k = item # chain_at (store st2) k \<and> u \<le> it_update_time item)"
proof -
  have "u \<le> putq_dependency_time p"
    using gr_client_remembers [OF assms(1-9)] gr_put_request_carries [OF assms(10)] assms(11,12) by auto
  with put_after_dependency [OF assms(13-16), of k] show ?thesis by fastforce
qed

theorem gr_causal_order_witness:
  "\<exists>cs2 cs4 e' st st1 st3 item. gr_client_put_request cs2 1 9 = Some cs4 \<and> scheduled cs4 = scheduled cs2 @ [e'] \<and>
     ev_data e' = Data (PutRequest demo_put) \<and>
     server_process_event gr_process_event 0 8 GR_PUT_REQUEST (Data (PutRequest (demo_put\<lparr>putq_proxy_lpid := NO_PROXY_LPID\<rparr>))) 48 st = Some st1 \<and>
     server_process_event gr_process_event 0 12 GR_PUT_REQUEST_LOCKED (Data (PutStateMessage 0)) 4 (demo_granted st1) = Some st3 \<and>
     chain_at (store st3) 1 = item # chain_at (store (demo_granted st1)) 1 \<and> 7 \<le> it_update_time item"
proof -
  let ?c = "demo_client_config Get_put_rr"
  from demo_client_put obtain cs1 cs2 cs4 e' where
    1: "run_client gr_client_funcs ?c [Deliver 0, Deliver 0, Receive gr_demo_response] gr_demo_client = Some cs1"
    and 2: "deliver_to_client gr_client_funcs ?c gr_demo_response cs1 = Some cs2" and e: "gr_demo_response \<in> set (scheduled cs1)"
    and 4: "gr_client_put_request cs2 1 9 = Some cs4" "scheduled cs4 = scheduled cs2 @ [e']" "ev_data e' = Data (PutRequest demo_put)"
    by blast
  from demo_server_put obtain st st1 st3 where
    s1: "server_process_event gr_process_event 0 8 GR_PUT_REQUEST (Data (PutRequest demo_put)) 48 st = Some st1"
    "put_states st1 \<noteq> put_states st"
    and s3: "server_process_event gr_process_event 0 12 GR_PUT_REQUEST_LOCKED (Data (PutStateMessage 0)) 4 (demo_granted st1) = Some st3"
    and chains: "chain_at (store st1) 1 = []" "chain_at (store st3) 1 = [\<lparr>it_value = 9, it_update_time = 12, it_source_replica = 0\<rparr>]"
    by blast
  have p: "demo_put\<lparr>putq_proxy_lpid := NO_PROXY_LPID\<rparr> = demo_put" by (simp add: demo_put_def)
  have s1': "server_process_event gr_process_event 0 8 GR_PUT_REQUEST (Data (PutRequest (demo_put\<lparr>putq_proxy_lpid := NO_PROXY_LPID\<rparr>))) 48 st = Some st1"
    using s1(1) by (simp only: p)
  have "gr_move st1 (demo_granted st1)" by (rule gr_move_cpu) (simp add: demo_granted_def)
  then have m: "gr_move\<^sup>*\<^sup>* st1 (demo_granted st1)" by (rule r_into_rtranclp)
  have "chain_at (store st3) 1 = chain_at (store (demo_granted st1)) 1 \<or>
     (\<exists>item. chain_at (store st3) 1 = item # chain_at (store (demo_granted st1)) 1 \<and> 7 \<le> it_update_time item)"
    by (rule gr_causal_order [where m = "GetResponse (gr_get_response_new\<lparr>getr_update_timestamp := 7, getr_gst := 3\<rparr>)",
          OF gr_demo_client_started run_client_steps [OF 1] e _ _ _ _ 2 rtranclp.rtrancl_refl 4 s1' s1(2) m s3])
      (simp_all add: gr_demo_response_def demo_client_config_def internal_event_def gr_get_response_new_def)
  moreover have "chain_at (store (demo_granted st1)) 1 = []" using chains by (simp add: demo_granted_def)
  ultimately obtain item where "chain_at (store st3) 1 = item # chain_at (store (demo_granted st1)) 1 \<and> 7 \<le> it_update_time item"
    using chains(2) by auto
  with 4 s1' s3 show ?thesis by blast
qed

end
