(* ===== verification/Parameters.thy ===== *)
theory Parameters
  imports Lp Vectors
begin

text \<open>
  Reading the configuration, \<open>src/parameters.c\<close>. The document is held by the library json-c, which is
  a parameter of the model: the record \<open>json_c\<close> has the functions of it that the source calls, over
  the type \<open>'j\<close> of \<open>json_object\<close> pointers. \<open>None\<close> is the exit of \<open>config_error\<close> or a failed assertion.
\<close>

section \<open>The interface of json-c\<close>

datatype json_type =
    json_type_null | json_type_boolean | json_type_double | json_type_int | json_type_object | json_type_array | json_type_string

record 'j json_c =
  json_object_get_type :: "'j \<Rightarrow> json_type"
  json_object_object_get_ex :: "'j \<Rightarrow> string \<Rightarrow> 'j option"
  json_object_get_double :: "'j \<Rightarrow> rat"
  json_object_get_int :: "'j \<Rightarrow> int"
  json_object_get_string :: "'j \<Rightarrow> string"
  json_object_array_length :: "'j \<Rightarrow> int"
  json_object_array_get_idx :: "'j \<Rightarrow> int \<Rightarrow> 'j"

definition json_object_is_type :: "'j json_c \<Rightarrow> 'j \<Rightarrow> json_type \<Rightarrow> bool" where
  "json_object_is_type J obj t \<longleftrightarrow> json_object_get_type J obj = t"

section \<open>Getters\<close>

definition is_numeric_type :: "'j json_c \<Rightarrow> 'j \<Rightarrow> bool" where
  "is_numeric_type J obj \<longleftrightarrow>
     json_object_get_type J obj = json_type_int \<or> json_object_get_type J obj = json_type_double"

definition param_get :: "'j json_c \<Rightarrow> 'j \<Rightarrow> string \<Rightarrow> 'j option" where
  "param_get J obj name = do {
     c_assert (json_object_is_type J obj json_type_object);
     json_object_object_get_ex J obj name
   }"

text \<open>The type test looks at \<open>obj\<close>, as the source does, and not at the value that was found.\<close>

definition param_get_object :: "'j json_c \<Rightarrow> 'j \<Rightarrow> string \<Rightarrow> 'j option" where
  "param_get_object J obj name = do {
     value \<leftarrow> param_get J obj name;
     (if \<not> json_object_is_type J obj json_type_object then None else Some value)
   }"

text \<open>\<open>doc\<close> is \<open>app_params.json_config\<close>.\<close>

definition param_get_object_root :: "'j json_c \<Rightarrow> 'j \<Rightarrow> string \<Rightarrow> 'j option" where
  "param_get_object_root J doc name = param_get_object J doc name"

definition param_get_workload_object :: "'j json_c \<Rightarrow> 'j \<Rightarrow> string \<Rightarrow> 'j option" where
  "param_get_workload_object J doc name = do {
     obj \<leftarrow> param_get_object_root J doc ''workload'';
     obj \<leftarrow> json_object_object_get_ex J obj name;
     (if \<not> json_object_is_type J obj json_type_object then None else Some obj)
   }"

definition param_get_double :: "'j json_c \<Rightarrow> 'j \<Rightarrow> string \<Rightarrow> rat option" where
  "param_get_double J obj name = do {
     value \<leftarrow> param_get J obj name;
     (if \<not> is_numeric_type J value then None else Some (json_object_get_double J value))
   }"

definition param_get_double_default :: "'j json_c \<Rightarrow> 'j \<Rightarrow> string \<Rightarrow> rat \<Rightarrow> rat option" where
  "param_get_double_default J obj name default_value = do {
     c_assert (json_object_is_type J obj json_type_object);
     (case json_object_object_get_ex J obj name of
        None \<Rightarrow> Some default_value
      | Some value \<Rightarrow> if \<not> is_numeric_type J value then None else Some (json_object_get_double J value))
   }"

definition param_get_int :: "'j json_c \<Rightarrow> 'j \<Rightarrow> string \<Rightarrow> int option" where
  "param_get_int J obj name = do {
     value \<leftarrow> param_get J obj name;
     (if \<not> json_object_is_type J value json_type_int then None else Some (json_object_get_int J value))
   }"

definition param_get_uint :: "'j json_c \<Rightarrow> 'j \<Rightarrow> string \<Rightarrow> u32 option" where
  "param_get_uint J obj name = do {
     value \<leftarrow> param_get_int J obj name;
     (if value < 0 then None else Some (of_int value))
   }"

definition param_get_string :: "'j json_c \<Rightarrow> 'j \<Rightarrow> string \<Rightarrow> string option" where
  "param_get_string J obj name = do {
     value \<leftarrow> param_get J obj name;
     (if \<not> json_object_is_type J value json_type_string then None else Some (json_object_get_string J value))
   }"

text \<open>One row of the matrix: it is an array of \<open>width\<close> numbers.\<close>

definition check_matrix_row :: "'j json_c \<Rightarrow> u32 \<Rightarrow> 'j \<Rightarrow> unit option" where
  "check_matrix_row J width entries = do {
     (if \<not> json_object_is_type J entries json_type_array then None else Some ());
     (if json_object_array_length J entries \<noteq> uint width then None else Some ());
     foldM (\<lambda>j _. if \<not> is_numeric_type J (json_object_array_get_idx J entries (uint j)) then None else Some ())
       (idx_upto width) ()
   }"

definition param_get_double_matrix :: "'j json_c \<Rightarrow> 'j \<Rightarrow> string \<Rightarrow> u32 \<Rightarrow> u32 \<Rightarrow> 'j option" where
  "param_get_double_matrix J obj name width height = do {
     c_assert (unat width \<le> INT_MAX);
     c_assert (unat height \<le> INT_MAX);
     matrix \<leftarrow> param_get J obj name;
     (if \<not> json_object_is_type J matrix json_type_array then None else Some ());
     (if json_object_array_length J matrix \<noteq> uint height then None else Some ());
     foldM (\<lambda>i _. check_matrix_row J width (json_object_array_get_idx J matrix (uint i))) (idx_upto height) ();
     Some matrix
   }"

definition param_get_double_matrix_element :: "'j json_c \<Rightarrow> 'j \<Rightarrow> u32 \<Rightarrow> u32 \<Rightarrow> rat option" where
  "param_get_double_matrix_element J obj column row = do {
     c_assert (unat column \<le> INT_MAX);
     c_assert (unat row \<le> INT_MAX);
     c_assert (json_object_is_type J obj json_type_array);
     c_assert (uint row < json_object_array_length J obj);
     let line = json_object_array_get_idx J obj (uint row);
     c_assert (uint column < json_object_array_length J line);
     let element = json_object_array_get_idx J line (uint column);
     c_assert (is_numeric_type J element);
     Some (json_object_get_double J element)
   }"

section \<open>The parameters of the application\<close>

datatype protocol = Gr_protocol | Grv_protocol

text \<open>\<open>src/protocols.c\<close>: the names of the protocols.\<close>

definition protocol_definitions :: "(string \<times> protocol) list" where
  "protocol_definitions = [(''gr'', Gr_protocol), (''grv'', Grv_protocol)]"

record app_parameters =
  stop_after_simulated_seconds :: simtime
  stop_after_real_time :: int
  ap_ignore_initial_seconds :: simtime

text \<open>\<open>time\<close> is \<open>time(NULL)\<close>; the cast to \<open>unsigned int\<close> rounds down. The result has the protocol that is chosen.\<close>

definition set_application_parameters :: "'j json_c \<Rightarrow> 'j \<Rightarrow> int \<Rightarrow> (app_parameters \<times> protocol) option" where
  "set_application_parameters J doc time = do {
     application_obj \<leftarrow> param_get_object_root J doc ''application'';
     stop \<leftarrow> param_get_double_default J application_obj ''stop_after_simulated_seconds'' 0;
     real \<leftarrow> param_get_double_default J application_obj ''stop_after_real_time_seconds'' 0;
     let real_time = (if 0 < real then time + uint (of_int \<lfloor>real\<rfloor> :: u32) else 0);
     ignore_initial \<leftarrow> param_get_double_default J application_obj ''ignore_initial_seconds'' 0;
     name \<leftarrow> param_get_string J application_obj ''protocol'';
     p \<leftarrow> map_of protocol_definitions name;
     Some (\<lparr>stop_after_simulated_seconds = stop, stop_after_real_time = real_time, ap_ignore_initial_seconds = ignore_initial\<rparr>, p)
   }"

definition read_timing_distribution :: "'j json_c \<Rightarrow> 'j \<Rightarrow> timing_distribution_info option" where
  "read_timing_distribution J doc = do {
     timing_obj \<leftarrow> param_get_object_root J doc ''timing'';
     name \<leftarrow> param_get_string J timing_obj ''timing_distribution'';
     set_timing_distribution name
   }"

section \<open>The value under a path\<close>

text \<open>
  What the functions that the macros of \<open>src/parameters.h\<close> define read: \<open>param_get_object_root\<close>, then
  \<open>param_get_object\<close> for each further object, then \<open>param_get_double\<close>. This is the function \<open>cfg\<close> of a
  logical process.
\<close>

fun param_path :: "'j json_c \<Rightarrow> 'j \<Rightarrow> string list \<Rightarrow> rat option" where
  "param_path J obj [] = None"
| "param_path J obj [name] = param_get_double J obj name"
| "param_path J obj (name # names) = do {
     obj \<leftarrow> param_get_object J obj name;
     param_path J obj names
   }"

section \<open>Properties\<close>

lemma foldM_unit: "foldM f xs () = Some u \<longleftrightarrow> (\<forall>x \<in> set xs. f x () = Some ())"
  by (induction xs) (auto simp: bind_eq_Some_conv)

text \<open>C29: a matrix that \<open>param_get_double_matrix\<close> has checked can be read: for every column below the width
  and row below the height, no assertion of \<open>param_get_double_matrix_element\<close> fails.\<close>

theorem matrix_elements_readable:
  assumes "param_get_double_matrix J obj name width height = Some m" and "column < width" and "row < height"
  shows "\<exists>x. param_get_double_matrix_element J m column row = Some x"
proof -
  have "row \<in> set (idx_upto height)" "column \<in> set (idx_upto width)"
    using assms(2,3) by (auto simp: set_idx_upto)
  moreover have "unat column < unat width" "unat row < unat height"
    using assms(2,3) by (simp_all add: word_less_nat_alt)
  moreover have "uint column < uint width" "uint row < uint height" using assms(2,3) by (simp_all add: word_less_def)
  ultimately show ?thesis
    using assms(1)
    by (auto simp: param_get_double_matrix_def param_get_double_matrix_element_def check_matrix_row_def bind_eq_Some_conv foldM_unit
        split: if_splits)
qed

text \<open>A small document, as json-c would hold it.\<close>

datatype json_value = JNull | JNumber rat | JArray "json_value list" | JObject "(string \<times> json_value) list"

definition demo_json :: "json_value json_c" where
  "demo_json =
     \<lparr>json_object_get_type = (\<lambda>v. case v of JNull \<Rightarrow> json_type_null | JNumber _ \<Rightarrow> json_type_double | JArray _ \<Rightarrow> json_type_array
        | JObject _ \<Rightarrow> json_type_object),
      json_object_object_get_ex = (\<lambda>v name. case v of JObject fs \<Rightarrow> map_of fs name | _ \<Rightarrow> None),
      json_object_get_double = (\<lambda>v. case v of JNumber x \<Rightarrow> x | _ \<Rightarrow> 0),
      json_object_get_int = (\<lambda>v. case v of JNumber x \<Rightarrow> \<lfloor>x\<rfloor> | _ \<Rightarrow> 0), json_object_get_string = (\<lambda>_. []),
      json_object_array_length = (\<lambda>v. case v of JArray vs \<Rightarrow> int (length vs) | _ \<Rightarrow> 0),
      json_object_array_get_idx = (\<lambda>v i. case v of JArray vs \<Rightarrow> if nat i < length vs then vs ! nat i else JNull | _ \<Rightarrow> JNull)\<rparr>"

theorem matrix_elements_readable_witness:
  "let m = JArray [JArray [JNumber 0, JNumber 5], JArray [JNumber 5, JNumber 0]] in
   param_get_double_matrix demo_json (JObject [(''delay'', m)]) ''delay'' 2 2 = Some m \<and>
   (\<exists>x. param_get_double_matrix_element demo_json m 1 0 = Some x)"
proof -
  let ?m = "JArray [JArray [JNumber 0, JNumber 5], JArray [JNumber 5, JNumber 0]]"
  have idx: "idx_upto 2 = [0, 1]" by (simp add: idx_upto_def upt_rec)
  have "param_get_double_matrix demo_json (JObject [(''delay'', ?m)]) ''delay'' 2 2 = Some ?m"
    by (simp add: param_get_double_matrix_def check_matrix_row_def param_get_def json_object_is_type_def is_numeric_type_def demo_json_def
        INT_MAX_def idx)
  from matrix_elements_readable [OF this, of 1 0] this show ?thesis unfolding Let_def by simp
qed

text \<open>The test of \<open>param_get_object\<close> that the value is an object never rejects a value: the function returns
  whatever \<open>param_get\<close> finds, because it tests the type of the enclosing object.\<close>

theorem param_get_object_unchecked:
  "param_get_object J obj name = param_get J obj name"
  by (cases "param_get J obj name") (auto simp: param_get_object_def param_get_def bind_eq_Some_conv)

end
