(* ===== verification/Application.thy ===== *)
theory Application
  imports Parameters Client_Process
begin

text \<open>
  The start of the simulator, \<open>src/application.c\<close>: command line, table of processes, and the set-up of
  all servers and clients. The tables \<open>process_event_callbacks\<close>, \<open>on_gvt_callbacks\<close> and \<open>lp_config\<close>,
  which \<open>server_setup\<close> and \<open>client_setup\<close> fill for their process, are one table here. All configurations
  point to one cluster and one network; the table has the values at the time of the set-up and
  \<open>lp_server_config\<close> and \<open>lp_client_config\<close> follow the pointers.
\<close>

section \<open>Processes\<close>

datatype lp_entry = Server_lp server_config | Client_lp client_config

record app_state =
  app_num_lps :: u32
  lp_names :: "lpid_t \<Rightarrow> string option"
  lp_table :: "lpid_t \<Rightarrow> lp_entry option"
  app_cluster :: cluster_config
  app_network :: network_config

definition new_process :: "string \<Rightarrow> app_state \<Rightarrow> (lpid_t \<times> app_state) option" where
  "new_process name app = do {
     c_assert (unat (app_num_lps app) < MAX_LP);
     Some (app_num_lps app, app\<lparr>lp_names := (lp_names app)(app_num_lps app \<mapsto> name), app_num_lps := app_num_lps app + 1\<rparr>)
   }"

definition lp_name :: "app_state \<Rightarrow> lpid_t \<Rightarrow> string option" where
  "lp_name app lpid = lp_names app lpid"

definition register_callbacks :: "lpid_t \<Rightarrow> lp_entry \<Rightarrow> app_state \<Rightarrow> app_state option" where
  "register_callbacks lpid entry app = do {
     c_assert (unat lpid < MAX_LP);
     Some (app\<lparr>lp_table := (lp_table app)(lpid \<mapsto> entry)\<rparr>)
   }"

definition get_callbacks :: "app_state \<Rightarrow> lpid_t \<Rightarrow> lp_entry option" where
  "get_callbacks app lpid = lp_table app lpid"

definition lp_server_config :: "app_state \<Rightarrow> lpid_t \<Rightarrow> server_config option" where
  "lp_server_config app lpid = (case get_callbacks app lpid of
     Some (Server_lp c) \<Rightarrow> Some (c\<lparr>sc_cluster := app_cluster app, sc_network := app_network app\<rparr>)
   | _ \<Rightarrow> None)"

definition lp_client_config :: "app_state \<Rightarrow> lpid_t \<Rightarrow> client_config option" where
  "lp_client_config app lpid = (case get_callbacks app lpid of
     Some (Client_lp c) \<Rightarrow> Some (c\<lparr>cc_cluster := app_cluster app, cc_network := app_network app\<rparr>)
   | _ \<Rightarrow> None)"

section \<open>Command line\<close>

text \<open>
  \<open>getopt_long\<close> belongs to the C library: its calls give the indices of the options found, with the
  argument of an option. \<open>atof\<close> and \<open>atoi\<close> convert it, \<open>time\<close> is \<open>time(NULL)\<close>.
\<close>

record options =
  output_dir :: "string option"
  config_file :: "string option"
  opt_verbose :: int
  override_stop_after :: bool
  stop_after :: rat
  override_stop_after_real_time :: bool
  opt_stop_after_real_time :: int

definition parse_option ::
  "(string \<Rightarrow> rat) \<Rightarrow> (string \<Rightarrow> int) \<Rightarrow> int \<Rightarrow> nat \<times> string option \<Rightarrow> options \<Rightarrow> options option" where
  "parse_option atof atoi time found opts = (case found of (index, optarg) \<Rightarrow>
     if index = 0 then do {
       arg \<leftarrow> optarg;
       Some (opts\<lparr>stop_after := atof arg, override_stop_after := True\<rparr>)
     }
     else if index = 1 then Some (opts\<lparr>output_dir := optarg\<rparr>)
     else if index = 2 then Some (opts\<lparr>opt_verbose := 1\<rparr>)
     else if index = 3 then Some (opts\<lparr>opt_verbose := 0\<rparr>)
     else if index = 4 then Some (opts\<lparr>config_file := optarg\<rparr>)
     else if index = 5 then do {
       arg \<leftarrow> optarg;
       c_assert (0 \<le> atoi arg);
       let opts = opts\<lparr>opt_stop_after_real_time := uint (of_int (atoi arg) :: u32)\<rparr>;
       let opts = opts\<lparr>opt_stop_after_real_time := opt_stop_after_real_time opts + time\<rparr>;
       Some (opts\<lparr>override_stop_after := True\<rparr>)
     }
     else Some opts)"

definition parse_arguments ::
  "(string \<Rightarrow> rat) \<Rightarrow> (string \<Rightarrow> int) \<Rightarrow> int \<Rightarrow> (nat \<times> string option) list \<Rightarrow> options \<Rightarrow> options option" where
  "parse_arguments atof atoi time found opts = do {
     opts \<leftarrow> foldM (parse_option atof atoi time) found opts;
     Some (if opt_verbose opts = 2 \<and> output_dir opts = None then opts\<lparr>opt_verbose := 1\<rparr> else opts)
   }"

definition override_parameters :: "options \<Rightarrow> app_parameters \<Rightarrow> app_parameters" where
  "override_parameters opts params =
     (let params = (if override_stop_after opts then params\<lparr>stop_after_simulated_seconds := stop_after opts\<rparr> else params)
      in if override_stop_after_real_time opts then params\<lparr>stop_after_real_time := opt_stop_after_real_time opts\<rparr> else params)"

section \<open>Set-up\<close>

fun dec_nat :: "nat \<Rightarrow> string" where
  "dec_nat n = (if n < 10 then [char_of (48 + n)] else dec_nat (n div 10) @ [char_of (48 + n mod 10)])"

text \<open>The conversion \<open>%d\<close> of an \<open>unsigned int\<close>.\<close>

definition dec :: "u32 \<Rightarrow> string" where
  "dec n = (if sint n < 0 then CHR ''-'' # dec_nat (nat (- sint n)) else dec_nat (nat (sint n)))"

record setup_parameters =
  num_partitions_per_replica :: u32
  num_clients_per_partition :: u32
  sp_num_replicas :: u32
  sp_num_keys :: u32
  sp_clock_skew :: rat
  sp_num_cores :: u32
  sp_tree_fanout :: u32
  sp_workload :: string
  sp_key_distribution :: string
  sp_zipf_skew :: rat

definition read_setup_parameters :: "'j json_c \<Rightarrow> 'j \<Rightarrow> setup_parameters option" where
  "read_setup_parameters J doc = do {
     cluster_obj \<leftarrow> param_get_object_root J doc ''cluster'';
     np \<leftarrow> param_get_uint J cluster_obj ''partitions_per_replica'';
     nc \<leftarrow> param_get_uint J cluster_obj ''clients_per_partition'';
     nr \<leftarrow> param_get_uint J cluster_obj ''replicas'';
     nk \<leftarrow> param_get_uint J cluster_obj ''keys'';
     skew \<leftarrow> param_get_double J cluster_obj ''clock_skew'';
     ncores \<leftarrow> param_get_uint J cluster_obj ''cores_per_server'';
     fanout \<leftarrow> param_get_uint J cluster_obj ''tree_fanout'';
     client_obj \<leftarrow> param_get_object_root J doc ''client'';
     w \<leftarrow> param_get_string J client_obj ''workload'';
     d \<leftarrow> param_get_string J client_obj ''key distribution'';
     z \<leftarrow> param_get_double J client_obj ''zipfian skew'';
     Some \<lparr>num_partitions_per_replica = np, num_clients_per_partition = nc, sp_num_replicas = nr, sp_num_keys = nk,
           sp_clock_skew = skew, sp_num_cores = ncores, sp_tree_fanout = fanout, sp_workload = w, sp_key_distribution = d,
           sp_zipf_skew = z\<rparr>
   }"

text \<open>The nested function \<open>setup_server\<close>; the process id it is called with is not used.\<close>

definition setup_server :: "setup_parameters \<Rightarrow> lpid_t \<Rightarrow> replica_t \<Rightarrow> partition_t \<Rightarrow> app_state \<Rightarrow> app_state option" where
  "setup_server sp _ replica part app = do {
     (lpid, app) \<leftarrow> new_process (''server '' @ dec part @ '' of replica '' @ dec replica) app;
     cluster \<leftarrow> cluster_set_lpid (app_cluster app) replica part lpid;
     let app = app\<lparr>app_cluster := cluster\<rparr>;
     c \<leftarrow> server_setup lpid cluster replica part (app_network app) (sp_tree_fanout sp) (sp_num_cores sp);
     register_callbacks lpid (Server_lp c) app
   }"

text \<open>The body of the loop over the clients.\<close>

definition setup_client ::
  "setup_parameters \<Rightarrow> replica_t \<Rightarrow> partition_t \<Rightarrow> u32 \<Rightarrow> app_state \<Rightarrow> app_state option" where
  "setup_client sp r p c app = do {
     (lpid, app) \<leftarrow> new_process (''client '' @ dec c @ '' of partition '' @ dec p @ '' in replica '' @ dec r) app;
     conf \<leftarrow> client_setup lpid (app_cluster app) r p (app_network app) (sp_workload sp) (sp_key_distribution sp) (sp_zipf_skew sp);
     register_callbacks lpid (Client_lp conf) app
   }"

text \<open>\<open>block\<close> is the content of the memory that the table of the cluster is allocated in.\<close>

definition setup_processes :: "(nat \<Rightarrow> lpid_t) \<Rightarrow> setup_parameters \<Rightarrow> app_state option" where
  "setup_processes block sp = do {
     cluster \<leftarrow> cluster_new block (sp_num_replicas sp) (num_partitions_per_replica sp) (sp_num_keys sp) (sp_clock_skew sp);
     let total = num_partitions_per_replica sp * sp_num_replicas sp * (1 + num_clients_per_partition sp);
     let app = \<lparr>app_num_lps = 0, lp_names = Map.empty, lp_table = Map.empty, app_cluster = cluster,
       app_network = network_setup total\<rparr>;
     app \<leftarrow> foreach_server cluster (setup_server sp) app;
     app \<leftarrow> foldM (\<lambda>r. foldM (\<lambda>p. foldM (\<lambda>c. setup_client sp r p c) (idx_upto (num_clients_per_partition sp)))
         (idx_upto (num_partitions_per_replica sp))) (idx_upto (sp_num_replicas sp)) app;
     c_assert (app_num_lps app = total);
     Some app
   }"

text \<open>\<open>main\<close> up to the call of the simulation kernel.\<close>

definition main_setup ::
  "(nat \<Rightarrow> lpid_t) \<Rightarrow> 'j json_c \<Rightarrow> 'j \<Rightarrow> int \<Rightarrow> options \<Rightarrow> (app_parameters \<times> protocol \<times> timing_distribution_info \<times> app_state) option" where
  "main_setup block J doc time opts = do {
     c_assert (config_file opts \<noteq> None);
     (params, protocol) \<leftarrow> set_application_parameters J doc time;
     dist \<leftarrow> read_timing_distribution J doc;
     let params = override_parameters opts params;
     sp \<leftarrow> read_setup_parameters J doc;
     app \<leftarrow> setup_processes block sp;
     Some (params, protocol, dist, app)
   }"

end
