(* ===== verification/Application_Setup.thy ===== *)
theory Application_Setup
  imports Application
begin

text \<open>
  What the set-up establishes: every process has its id, its entry in the table of processes and, for
  a server, its entry in the table of the cluster; and what the command line options change.
\<close>

section \<open>Processes one after the other\<close>

lemma foldM_product: "foldM (\<lambda>x. foldM (f x) ys) xs s = foldM (\<lambda>(x, y). f x y) (List.product xs ys) s"
proof (induction xs arbitrary: s)
  case (Cons x xs)
  have "foldM (\<lambda>(x, y). f x y) (map (Pair x) zs) s = foldM (f x) zs s" for zs s
    by (induction zs arbitrary: s) (auto intro: Option.bind_cong)
  with Cons show ?case by (simp add: foldM_append cong: Option.bind_cong)
qed simp

lemma returns_foldM_counted:
  assumes "I 0 s" and "\<And>k s. k < length xs \<Longrightarrow> I k s \<Longrightarrow> returns (f (xs ! k) s) (I (Suc k))"
  shows "returns (foldM f xs s) (I (length xs))"
  using assms
proof (induction xs arbitrary: I s)
  case (Cons x xs)
  from Cons.prems(2) [of 0] Cons.prems(1) have "returns (f x s) (I (Suc 0))" by simp
  moreover have "returns (foldM f xs s') (I (Suc (length xs)))" if "I (Suc 0) s'" for s'
  proof (rule Cons.IH [of "\<lambda>k. I (Suc k)", OF that])
    fix k s assume "k < length xs" "I (Suc k) s"
    then show "returns (f (xs ! k) s) (I (Suc (Suc k)))" using Cons.prems(2) [of "Suc k"] by simp
  qed
  ultimately show ?case by (auto simp: returns_bind returns_def)
qed simp

text \<open>The new process \<open>n\<close> with its entry in the table; the entries before it are kept.\<close>

lemma new_lpid:
  assumes "unat (app_num_lps app) = n" and "n < MAX_LP"
  shows "new_process name app = Some (of_nat n, app\<lparr>lp_names := (lp_names app)(of_nat n \<mapsto> name), app_num_lps := of_nat (Suc n)\<rparr>)"
    and "unat (of_nat n :: u32) = n" and "unat (of_nat (Suc n) :: u32) = Suc n"
proof -
  have "app_num_lps app = of_nat n" using assms(1) by auto
  then show "new_process name app = Some (of_nat n, app\<lparr>lp_names := (lp_names app)(of_nat n \<mapsto> name), app_num_lps := of_nat (Suc n)\<rparr>)"
    using assms by (simp add: new_process_def add.commute)
  have "n < 4294967296" "Suc n < 4294967296" using assms(2) by (auto simp: MAX_LP_def)
  then show "unat (of_nat n :: u32) = n" "unat (of_nat (Suc n) :: u32) = Suc n" unfolding unat_of_nat by simp_all
qed

section \<open>Servers\<close>

definition is_server :: "setup_parameters \<Rightarrow> nat \<Rightarrow> app_state \<Rightarrow> bool" where
  "is_server sp i app \<longleftrightarrow> (\<exists>c. lp_table app (of_nat i) = Some (Server_lp c) \<and> sc_lpid c = of_nat i \<and>
     unat (sc_replica c) = i div unat (num_partitions_per_replica sp) \<and> unat (sc_partition c) = i mod unat (num_partitions_per_replica sp) \<and>
     tree_fanout c = sp_tree_fanout sp \<and> num_cores c = sp_num_cores sp)"

definition servers_done :: "setup_parameters \<Rightarrow> nat \<Rightarrow> app_state \<Rightarrow> bool" where
  "servers_done sp k app \<longleftrightarrow> unat (app_num_lps app) = k \<and> cluster_wf (app_cluster app) \<and>
     num_replicas (app_cluster app) = sp_num_replicas sp \<and> num_partitions (app_cluster app) = num_partitions_per_replica sp \<and>
     (\<forall>i < k. server_lpids (app_cluster app) ! i = of_nat i \<and> is_server sp i app)"

lemma of_nat_u32_inj: "i < MAX_LP \<Longrightarrow> j < MAX_LP \<Longrightarrow> (of_nat i :: u32) = of_nat j \<longleftrightarrow> i = j"
  by (auto simp: MAX_LP_def word_unat_eq_iff unat_of_nat)

lemma setup_server_step:
  assumes k: "servers_done sp k app" "k < MAX_LP"
    and r: "r < sp_num_replicas sp" "p < num_partitions_per_replica sp" "k = unat r * unat (num_partitions_per_replica sp) + unat p"
  shows "returns (setup_server sp l r p app) (servers_done sp (Suc k))"
proof -
  let ?c = "app_cluster app" and ?np = "unat (num_partitions_per_replica sp)"
  have c: "cluster_wf ?c" "r < num_replicas ?c" "p < num_partitions ?c" using k r by (auto simp: servers_done_def)
  have i: "unat (partition_index ?c r p) = k" "k < length (server_lpids ?c)"
    using partition_index_unat [OF c] r(3) c(1) k by (auto simp: servers_done_def)
  have dm: "k div ?np = unat r" "k mod ?np = unat p" using r by (auto simp: word_less_nat_alt)
  have n: "unat (app_num_lps app) = k" using k by (simp add: servers_done_def)
  note new = new_lpid [OF n k(2)]
  have "is_server sp i (app\<lparr>lp_names := nm, app_num_lps := m, app_cluster := cl, lp_table := (lp_table app)(of_nat k \<mapsto> e)\<rparr>)"
    if "i < k" for i nm m cl e using that k of_nat_u32_inj [of i k] by (auto simp: servers_done_def is_server_def)
  then show ?thesis using k c i dm new r(3)
    by (auto simp: setup_server_def new(1) cluster_set_lpid_def arr_set_def server_setup_def register_callbacks_def Let_def
        servers_done_def is_server_def cluster_wf_def nth_list_update less_Suc_eq)
qed

lemma product_idx_nth:
  assumes "k < unat n * unat m"
  shows "List.product (idx_upto n) (idx_upto m) ! k = (of_nat (k div unat m), of_nat (k mod unat m))"
    and "unat (of_nat (k div unat m) :: u32) = k div unat m" and "unat (of_nat (k mod unat m) :: u32) = k mod unat m"
    and "k div unat m < unat n" and "k mod unat m < unat m"
proof -
  show d: "k div unat m < unat n" using assms by (simp add: less_mult_imp_div_less)
  have "0 < unat m" using assms by (cases "unat m") auto
  then show e: "k mod unat m < unat m" by simp
  show "List.product (idx_upto n) (idx_upto m) ! k = (of_nat (k div unat m), of_nat (k mod unat m))"
    using assms d e by (simp add: product_nth idx_upto_def)
  show "unat (of_nat (k div unat m) :: u32) = k div unat m" "unat (of_nat (k mod unat m) :: u32) = k mod unat m"
    using d e unat_of_nat_u32 by blast+
qed

lemma setup_servers:
  assumes "servers_done sp 0 app" and "cluster_wf cl" and "num_replicas cl = sp_num_replicas sp"
    and "num_partitions cl = num_partitions_per_replica sp"
    and "unat (sp_num_replicas sp) * unat (num_partitions_per_replica sp) \<le> MAX_LP"
  shows "returns (foreach_server cl (setup_server sp) app)
     (servers_done sp (unat (sp_num_replicas sp) * unat (num_partitions_per_replica sp)))"
proof -
  let ?nr = "sp_num_replicas sp" and ?np = "num_partitions_per_replica sp"
  let ?xs = "List.product (idx_upto ?nr) (idx_upto ?np)"
  let ?f = "\<lambda>(r, p) s. Option.bind (arr_get (server_lpids cl) (partition_index cl r p)) (\<lambda>l. setup_server sp l r p s)"
  have len: "length ?xs = unat ?nr * unat ?np" by (simp add: idx_upto_def)
  have "returns (foldM ?f ?xs app) (servers_done sp (length ?xs))"
  proof (rule returns_foldM_counted [where I = "servers_done sp", OF assms(1)])
    fix k s assume k: "k < length ?xs" and s: "servers_done sp k s"
    let ?r = "of_nat (k div unat ?np) :: u32" and ?p = "of_nat (k mod unat ?np) :: u32"
    note nth = product_idx_nth [OF k [unfolded len]]
    have rp: "?r < ?nr" "?p < ?np" using nth by (simp_all add: word_less_nat_alt)
    have "unat (partition_index cl ?r ?p) < length (server_lpids cl)"
      using partition_index_unat [OF assms(2), of ?r ?p] rp assms(3,4) by simp
    then obtain l where "arr_get (server_lpids cl) (partition_index cl ?r ?p) = Some l" by (simp add: arr_get_def)
    moreover have "returns (setup_server sp l ?r ?p s) (servers_done sp (Suc k))"
      by (rule setup_server_step [OF s _ rp]) (use k len assms(5) nth in auto)
    ultimately show "returns (?f (?xs ! k) s) (servers_done sp (Suc k))" by (simp add: nth(1))
  qed
  then show ?thesis unfolding foreach_server_def assms(3,4) foldM_product len by simp
qed

section \<open>Clients\<close>

definition is_client :: "setup_parameters \<Rightarrow> nat \<Rightarrow> nat \<Rightarrow> app_state \<Rightarrow> bool" where
  "is_client sp n i app \<longleftrightarrow> (\<exists>c. lp_table app (of_nat (n + i)) = Some (Client_lp c) \<and> cc_lpid c = of_nat (n + i) \<and>
     unat (cc_replica c) = i div unat (num_clients_per_partition sp) div unat (num_partitions_per_replica sp) \<and>
     unat (cc_partition c) = i div unat (num_clients_per_partition sp) mod unat (num_partitions_per_replica sp) \<and>
     tied_to_partition c \<and> map_of workload_definitions (sp_workload sp) = Some (cc_funcs c))"

definition clients_done :: "setup_parameters \<Rightarrow> app_state \<Rightarrow> nat \<Rightarrow> nat \<Rightarrow> app_state \<Rightarrow> bool" where
  "clients_done sp app0 n k app \<longleftrightarrow> unat (app_num_lps app) = n + k \<and> app_cluster app = app_cluster app0 \<and>
     (\<forall>i < n. lp_table app (of_nat i) = lp_table app0 (of_nat i)) \<and> (\<forall>i < k. is_client sp n i app)"

lemma setup_client_step:
  assumes k: "clients_done sp app0 n k app" "n + k < MAX_LP"
    and r: "unat r = k div unat (num_clients_per_partition sp) div unat (num_partitions_per_replica sp)"
      "unat p = k div unat (num_clients_per_partition sp) mod unat (num_partitions_per_replica sp)"
    and w: "map_of workload_definitions (sp_workload sp) \<noteq> None" "map_of client_key_distributions (sp_key_distribution sp) \<noteq> None"
  shows "returns (setup_client sp r p c app) (clients_done sp app0 n (Suc k))"
proof -
  have m: "unat (app_num_lps app) = n + k" using k by (simp add: clients_done_def)
  note new = new_lpid [OF m k(2)]
  have "is_client sp n i (app\<lparr>lp_names := nm, app_num_lps := m, lp_table := (lp_table app)(of_nat (n + k) \<mapsto> e)\<rparr>)"
    if "i < k" for i nm m e
    using that k of_nat_u32_inj [of "n + i" "n + k"] by (auto simp: clients_done_def is_client_def simp del: of_nat_add)
  moreover have "(of_nat i :: u32) \<noteq> of_nat (n + k)" if "i < n" for i
    using that k(2) of_nat_u32_inj [of i "n + k"] by (simp del: of_nat_add)
  ultimately show ?thesis using k new w r
    by (auto simp: setup_client_def new(1) client_setup_def register_callbacks_def clients_done_def is_client_def less_Suc_eq
        simp del: of_nat_add)
qed

lemma setup_clients:
  assumes "clients_done sp app0 n 0 app"
    and "n + unat (sp_num_replicas sp) * unat (num_partitions_per_replica sp) * unat (num_clients_per_partition sp) \<le> MAX_LP"
    and w: "map_of workload_definitions (sp_workload sp) \<noteq> None" "map_of client_key_distributions (sp_key_distribution sp) \<noteq> None"
  shows "returns (foldM (\<lambda>r. foldM (\<lambda>p. foldM (\<lambda>c. setup_client sp r p c) (idx_upto (num_clients_per_partition sp)))
         (idx_upto (num_partitions_per_replica sp))) (idx_upto (sp_num_replicas sp)) app)
     (clients_done sp app0 n (unat (sp_num_replicas sp) * unat (num_partitions_per_replica sp) * unat (num_clients_per_partition sp)))"
proof -
  let ?nr = "sp_num_replicas sp" and ?np = "num_partitions_per_replica sp" and ?nc = "num_clients_per_partition sp"
  let ?rp = "List.product (idx_upto ?nr) (idx_upto ?np)"
  let ?xs = "List.product ?rp (idx_upto ?nc)"
  let ?f = "\<lambda>(x, c). (\<lambda>(r, p). setup_client sp r p c) x"
  have len: "length ?xs = unat ?nr * unat ?np * unat ?nc" by (simp add: idx_upto_def)
  have fold: "foldM (\<lambda>r. foldM (\<lambda>p. foldM (\<lambda>c. setup_client sp r p c) (idx_upto ?nc)) (idx_upto ?np)) (idx_upto ?nr) s
      = foldM ?f ?xs s" for s
    using foldM_product [of "\<lambda>r p. foldM (setup_client sp r p) (idx_upto ?nc)" "idx_upto ?np" "idx_upto ?nr" s]
      foldM_product [of "\<lambda>x c. setup_client sp (fst x) (snd x) c" "idx_upto ?nc" ?rp s] by (simp add: case_prod_unfold)
  have "returns (foldM ?f ?xs app) (clients_done sp app0 n (length ?xs))"
  proof (rule returns_foldM_counted [where I = "clients_done sp app0 n", OF assms(1)])
    fix k s assume k: "k < length ?xs" and s: "clients_done sp app0 n k s"
    have kc: "k div unat ?nc < unat ?nr * unat ?np" using k len by (simp add: less_mult_imp_div_less)
    note nth = product_idx_nth [OF kc]
    have "?xs ! k = (?rp ! (k div unat ?nc), idx_upto ?nc ! (k mod unat ?nc))"
      using k by (simp add: product_nth idx_upto_def)
    moreover have "returns (setup_client sp (of_nat (k div unat ?nc div unat ?np)) (of_nat (k div unat ?nc mod unat ?np)) c s)
        (clients_done sp app0 n (Suc k))" for c
      by (rule setup_client_step [OF s _ _ _ w]) (use k len assms(2) nth in auto)
    ultimately show "returns (?f (?xs ! k) s) (clients_done sp app0 n (Suc k))" by (simp add: nth(1))
  qed
  then show ?thesis unfolding fold len .
qed

section \<open>The whole set-up\<close>

lemma total_lps:
  fixes r p c :: u32
  assumes "unat r * unat p + unat r * unat p * unat c < 4294967296"
  shows "unat (p * r * (1 + c)) = unat r * unat p + unat r * unat p * unat c"
proof -
  have "p * r * (1 + c) = of_nat (unat r * unat p + unat r * unat p * unat c)" by (simp add: algebra_simps)
  also have "unat \<dots> = unat r * unat p + unat r * unat p * unat c" unfolding unat_of_nat using assms by simp
  finally show ?thesis .
qed

lemma setup_processes_done:
  assumes "0 < sp_num_replicas sp" and "0 < num_partitions_per_replica sp" and "0 \<le> sp_clock_skew sp"
    and m: "unat (sp_num_replicas sp) * unat (num_partitions_per_replica sp) * (1 + unat (num_clients_per_partition sp)) \<le> MAX_LP"
    and w: "map_of workload_definitions (sp_workload sp) \<noteq> None" "map_of client_key_distributions (sp_key_distribution sp) \<noteq> None"
  shows "\<exists>app app'. setup_processes block sp = Some app' \<and> servers_done sp (unat (sp_num_replicas sp) * unat (num_partitions_per_replica sp)) app \<and>
     clients_done sp app (unat (sp_num_replicas sp) * unat (num_partitions_per_replica sp))
       (unat (sp_num_replicas sp) * unat (num_partitions_per_replica sp) * unat (num_clients_per_partition sp)) app'"
proof -
  let ?nr = "sp_num_replicas sp" and ?np = "num_partitions_per_replica sp" and ?nc = "num_clients_per_partition sp"
  let ?n = "unat ?nr * unat ?np"
  have m': "?n + ?n * unat ?nc \<le> MAX_LP" "?n \<le> MAX_LP" using m by (simp_all add: algebra_simps)
  have small: "?n < 4294967296" "?n + ?n * unat ?nc < 4294967296" using m' by (simp_all add: MAX_LP_def)
  obtain cl where cl: "cluster_new block ?nr ?np (sp_num_keys sp) (sp_clock_skew sp) = Some cl" "cluster_wf cl"
    "num_replicas cl = ?nr" "num_partitions cl = ?np"
    using assms(1-3) small(1) by (simp add: cluster_new_def cluster_wf_def UINT_MAX_def unat_word_ariths(2))
  define app where "app = \<lparr>app_num_lps = 0, lp_names = Map.empty, lp_table = Map.empty, app_cluster = cl,
    app_network = network_setup (?np * ?nr * (1 + ?nc))\<rparr>"
  have "servers_done sp 0 app" using cl by (simp add: servers_done_def app_def)
  from setup_servers [OF this cl(2-4) m'(2)] obtain app1 where 1: "foreach_server cl (setup_server sp) app = Some app1"
    "servers_done sp ?n app1" by (auto simp: returns_def)
  have "clients_done sp app1 ?n 0 app1" using 1(2) by (simp add: clients_done_def servers_done_def)
  from setup_clients [OF this m'(1) w] obtain app2 where 2: "foldM (\<lambda>r. foldM (\<lambda>p. foldM (\<lambda>c. setup_client sp r p c) (idx_upto ?nc))
      (idx_upto ?np)) (idx_upto ?nr) app1 = Some app2" "clients_done sp app1 ?n (?n * unat ?nc) app2" by (auto simp: returns_def)
  have "app_num_lps app2 = ?np * ?nr * (1 + ?nc)"
    using 2(2) total_lps [of ?nr ?np ?nc] small(2) by (simp add: clients_done_def word_unat_eq_iff)
  then have "setup_processes block sp = Some app2"
    using cl(1) 1(1) 2(1) by (simp add: setup_processes_def Let_def app_def)
  with 1(2) 2(2) show ?thesis by blast
qed

text \<open>C28: for every configuration with at least one server, at most \<open>MAX_LP\<close> processes and a known workload and key
  distribution, the set-up succeeds: the server of partition \<open>p\<close> in replica \<open>r\<close> is found under the process id that
  the table of the cluster has for it, and every partition has its clients.\<close>

theorem setup_processes_complete:
  assumes "0 < sp_num_replicas sp" and "0 < num_partitions_per_replica sp" and "0 \<le> sp_clock_skew sp"
    and "unat (sp_num_replicas sp) * unat (num_partitions_per_replica sp) * (1 + unat (num_clients_per_partition sp)) \<le> MAX_LP"
    and "map_of workload_definitions (sp_workload sp) = Some w" and "map_of client_key_distributions (sp_key_distribution sp) = Some d"
  shows "\<exists>app. setup_processes block sp = Some app \<and>
     (\<forall>r < sp_num_replicas sp. \<forall>p < num_partitions_per_replica sp.
        (\<exists>l c. cluster_get_lpid (app_cluster app) r p = Some l \<and> lp_server_config app l = Some c \<and> sc_lpid c = l \<and>
           sc_replica c = r \<and> sc_partition c = p) \<and>
        (\<forall>k < num_clients_per_partition sp. \<exists>l c. lp_client_config app l = Some c \<and> cc_lpid c = l \<and> cc_replica c = r \<and>
           cc_partition c = p \<and> cc_funcs c = w \<and>
           unat l = unat (sp_num_replicas sp) * unat (num_partitions_per_replica sp) +
             (unat r * unat (num_partitions_per_replica sp) + unat p) * unat (num_clients_per_partition sp) + unat k))"
proof -
  let ?nr = "sp_num_replicas sp" and ?np = "num_partitions_per_replica sp" and ?nc = "num_clients_per_partition sp"
  let ?n = "unat ?nr * unat ?np"
  obtain app0 app where app: "setup_processes block sp = Some app" and s: "servers_done sp ?n app0"
    and c: "clients_done sp app0 ?n (?n * unat ?nc) app"
    using setup_processes_done [OF assms(1-4)] assms(5,6) by fastforce
  show ?thesis
  proof (intro exI [of _ app] conjI allI impI app)
    fix r p assume r: "r < ?nr" and p: "p < ?np"
    let ?i = "unat r * unat ?np + unat p"
    have cl: "cluster_wf (app_cluster app)" "r < num_replicas (app_cluster app)" "p < num_partitions (app_cluster app)"
      using r p s c by (auto simp: servers_done_def clients_done_def)
    have i: "?i < ?n" "?i div unat ?np = unat r" "?i mod unat ?np = unat p" "unat (partition_index (app_cluster app) r p) = ?i"
      using partition_index_unat [OF cl] cl(1) s c p by (auto simp: cluster_wf_def servers_done_def clients_done_def word_less_nat_alt)
    then have "cluster_get_lpid (app_cluster app) r p = Some (of_nat ?i)"
      using cl s c by (auto simp: cluster_get_lpid_def arr_get_def cluster_wf_def servers_done_def clients_done_def)
    moreover have "is_server sp ?i app0" "lp_table app (of_nat ?i) = lp_table app0 (of_nat ?i)"
      using s c i(1) by (simp_all add: servers_done_def clients_done_def del: of_nat_add of_nat_mult)
    ultimately show "\<exists>l c. cluster_get_lpid (app_cluster app) r p = Some l \<and> lp_server_config app l = Some c \<and> sc_lpid c = l \<and>
        sc_replica c = r \<and> sc_partition c = p"
      using i by (auto simp: is_server_def lp_server_config_def get_callbacks_def word_unat_eq_iff simp del: of_nat_add of_nat_mult)
    fix k assume k: "k < ?nc"
    let ?j = "?i * unat ?nc + unat k"
    have j: "?j div unat ?nc = ?i" using k by (simp add: word_less_nat_alt)
    have "Suc ?i * unat ?nc \<le> ?n * unat ?nc" using i(1) by (intro mult_le_mono1) simp
    then have "?j < ?n * unat ?nc" using k by (simp add: word_less_nat_alt)
    then have "is_client sp ?n ?j app" using c by (simp add: clients_done_def)
    then obtain cc where cc: "lp_table app (of_nat (?n + ?j)) = Some (Client_lp cc)" "cc_lpid cc = of_nat (?n + ?j)"
      "unat (cc_replica cc) = unat r" "unat (cc_partition cc) = unat p" "cc_funcs cc = w"
      using i(2,3) j assms(5) unfolding is_client_def by auto
    have "?n + ?j < 4294967296"
      using \<open>?j < ?n * unat ?nc\<close> assms(4) by (simp add: MAX_LP_def algebra_simps)
    then have "unat (of_nat (?n + ?j) :: u32) = ?n + ?j" unfolding unat_of_nat by simp
    then show "\<exists>l c. lp_client_config app l = Some c \<and> cc_lpid c = l \<and> cc_replica c = r \<and> cc_partition c = p \<and> cc_funcs c = w \<and>
        unat l = ?n + ?i * unat ?nc + unat k"
      using cc by (intro exI [of _ "of_nat (?n + ?j)"] exI [of _ "cc\<lparr>cc_cluster := app_cluster app, cc_network := app_network app\<rparr>"])
        (simp add: lp_client_config_def get_callbacks_def word_unat_eq_iff del: of_nat_add of_nat_mult)
  qed
qed

definition demo_setup :: setup_parameters where
  "demo_setup = \<lparr>num_partitions_per_replica = 2, num_clients_per_partition = 3, sp_num_replicas = 2, sp_num_keys = 10, sp_clock_skew = 0,
     sp_num_cores = 1, sp_tree_fanout = 2, sp_workload = ''probabilistic'', sp_key_distribution = ''zipfian'', sp_zipf_skew = 1\<rparr>"

theorem setup_processes_complete_witness:
  "\<exists>app. setup_processes (\<lambda>_. 0) demo_setup = Some app \<and>
     (\<exists>l c. cluster_get_lpid (app_cluster app) 1 1 = Some l \<and> lp_server_config app l = Some c \<and> sc_lpid c = l \<and> sc_replica c = 1 \<and> sc_partition c = 1) \<and>
     (\<exists>l c. lp_client_config app l = Some c \<and> cc_replica c = 1 \<and> cc_partition c = 1 \<and> cc_funcs c = Probabilistic \<and> unat l = 15)"
proof -
  have h: "0 < sp_num_replicas demo_setup" "0 < num_partitions_per_replica demo_setup" "0 \<le> sp_clock_skew demo_setup"
    "unat (sp_num_replicas demo_setup) * unat (num_partitions_per_replica demo_setup) * (1 + unat (num_clients_per_partition demo_setup)) \<le> MAX_LP"
    "map_of workload_definitions (sp_workload demo_setup) = Some Probabilistic"
    "map_of client_key_distributions (sp_key_distribution demo_setup) = Some Zipfian"
    by (simp_all add: demo_setup_def MAX_LP_def workload_definitions_def client_key_distributions_def)
  obtain app where app: "setup_processes (\<lambda>_. 0) demo_setup = Some app"
    and all: "\<forall>r < sp_num_replicas demo_setup. \<forall>p < num_partitions_per_replica demo_setup.
        (\<exists>l c. cluster_get_lpid (app_cluster app) r p = Some l \<and> lp_server_config app l = Some c \<and> sc_lpid c = l \<and>
           sc_replica c = r \<and> sc_partition c = p) \<and>
        (\<forall>k < num_clients_per_partition demo_setup. \<exists>l c. lp_client_config app l = Some c \<and> cc_lpid c = l \<and> cc_replica c = r \<and>
           cc_partition c = p \<and> cc_funcs c = Probabilistic \<and>
           unat l = unat (sp_num_replicas demo_setup) * unat (num_partitions_per_replica demo_setup) +
             (unat r * unat (num_partitions_per_replica demo_setup) + unat p) * unat (num_clients_per_partition demo_setup) + unat k)"
    using setup_processes_complete [OF h, of "\<lambda>_. 0"] by blast
  have d: "num_partitions_per_replica demo_setup = 2" "num_clients_per_partition demo_setup = 3" "sp_num_replicas demo_setup = 2"
    by (simp_all add: demo_setup_def)
  have 1: "(1::u32) < 2" "(2::u32) < 3" by simp_all
  from all [unfolded d, rule_format, OF 1(1) 1(1)] 1(2)
  have "(\<exists>l c. cluster_get_lpid (app_cluster app) 1 1 = Some l \<and> lp_server_config app l = Some c \<and> sc_lpid c = l \<and> sc_replica c = 1 \<and> sc_partition c = 1)"
    and "\<exists>l c. lp_client_config app l = Some c \<and> cc_lpid c = l \<and> cc_replica c = 1 \<and> cc_partition c = 1 \<and> cc_funcs c = Probabilistic \<and>
      unat l = unat (2::u32) * unat (2::u32) + (unat (1::u32) * unat (2::u32) + unat (1::u32)) * unat (3::u32) + unat (2::u32)" by blast+
  then show ?thesis using app by (intro exI [of _ app]) auto
qed

section \<open>Options\<close>

text \<open>The values of the global variables before the options are read.\<close>

definition initial_options :: options where
  "initial_options = \<lparr>output_dir = None, config_file = None, opt_verbose = 0, override_stop_after = False, stop_after = 0,
     override_stop_after_real_time = False, opt_stop_after_real_time = 0\<rparr>"

text \<open>C40: the option \<open>--stop-after-real-time\<close> on its own does not limit the real time: the limit of the configuration file
  is kept, and instead the simulated time to stop after becomes 0, so that every server stops at the first
  opportunity after time 0.\<close>

theorem real_time_option_ignored:
  assumes "parse_arguments atof atoi time [(5, Some arg)] initial_options = Some opts"
  shows "stop_after_real_time (override_parameters opts params) = stop_after_real_time params \<and>
     stop_after_simulated_seconds (override_parameters opts params) = 0 \<and>
     (0 < now st \<longrightarrow> fst (server_on_gvt (stop_after_simulated_seconds (override_parameters opts params))
        (stop_after_real_time (override_parameters opts params)) t st))"
  using assms
  by (auto simp: parse_arguments_def parse_option_def initial_options_def override_parameters_def server_on_gvt_def bind_eq_Some_conv Let_def)

theorem real_time_option_ignored_witness:
  "\<exists>opts. parse_arguments (\<lambda>_. 0) (\<lambda>_. 60) 1000 [(5, Some ''60'')] initial_options = Some opts \<and>
     stop_after_real_time (override_parameters opts \<lparr>stop_after_simulated_seconds = 100, stop_after_real_time = 0, ap_ignore_initial_seconds = 1\<rparr>) = 0 \<and>
     stop_after_simulated_seconds (override_parameters opts \<lparr>stop_after_simulated_seconds = 100, stop_after_real_time = 0, ap_ignore_initial_seconds = 1\<rparr>) = 0"
proof -
  obtain opts where o: "parse_arguments (\<lambda>_. 0) (\<lambda>_. 60) 1000 [(5, Some ''60'')] initial_options = Some opts"
    by (simp add: parse_arguments_def parse_option_def)
  from real_time_option_ignored [OF o, of "\<lparr>stop_after_simulated_seconds = 100, stop_after_real_time = 0, ap_ignore_initial_seconds = 1\<rparr>"] o
  show ?thesis by auto
qed

end
