(* ===== verification/Spec2Isabelle.thy ===== *)
theory Spec2Isabelle
  imports Grv_Protocol Client_Rr Client_Grv_Run Causality Application_Setup
begin

text \<open>
  CC-SIM is a discrete event simulator of replicated, partitioned key-value stores with causal
  consistency, written in C on top of the ROOT-Sim simulation kernel. Each logical process of the
  simulation is a server or a client. A server has a CPU with a bounded number of cores, a work queue
  and locks; the handlers of a storage protocol run on it and pay for what they do with simulated
  time. A client sends one request after the other, as its workload says. Messages between logical
  processes travel through a model of the network. There are two protocols, GentleRain (GR) with one
  global stable time, and GRV with a vector of stable times, one for each replica.

  \<^bold>\<open>Conventions.\<close> A C function that changes state is a function from the state to an \<open>option\<close>;
  \<^const>\<open>None\<close> is the abort of a failed assertion or an access out of bounds. The state of
  a server is one flat record that grows with the layers: \<open>lp\<close> (what the logical process has
  scheduled and drawn), \<open>cpu_state\<close>, \<open>server_state\<close>, and \<open>gr_server_state\<close> or \<open>grv_server_state\<close>; the
  state of a client extends \<open>lp\<close> as well. Structures that the code shares through pointers and updates
  in place are modelled on an explicit heap where the pointers matter (\<open>Queue\<close>, the work lists of
  \<open>Cpu_List\<close>); \<open>unsigned int\<close> is a 32 bit word; \<open>double\<close> is a rational, so that rounding is not
  modelled. Payloads are values of a datatype instead of untyped bytes, their sizes are those of the C
  structs. ROOT-Sim's random numbers are sources indexed by the number of the draw and its event queue
  is the list \<open>scheduled\<close> of the events a process has asked for. The JSON configuration is the function
  \<open>cfg\<close> that gives the number under a path; \<open>Parameters\<close> has the getters of the code over the interface
  of json-c.

  \<^bold>\<open>Theories and sources\<close> (paths under src/src).
  \<^item> \<open>Prelude\<close>: common.h, gentle_rain.h; the failure monad with its rules (\<open>post\<close>, \<open>returns\<close>).
    \<open>Vectors\<close>: loops that write a vector entry by entry.
  \<^item> \<open>Event\<close>: event.h, event.c, the numbering of the event types.
  \<^item> \<open>Linked\<close>, \<open>Queue\<close>: queue.c on a heap; a run of the queue refines a list (locale \<open>fifo\<close>).
  \<^item> \<open>Ptr_Array\<close>: ptr_array.c. \<open>Store\<close>: store.c, the hash table refines a map.
  \<^item> \<open>Lp\<close>, \<open>Parameters\<close>: parameters.c and parameters.h.
  \<^item> \<open>Cpu_List\<close>, \<open>Cpu_Stats\<close>, \<open>Cpu\<close>, \<open>Cpu_Process\<close>, \<open>Cpu_Invariant\<close>: cpu/. The mutual recursion of
    cpu_process, cpu_process_next_in_queue and the lock handlers terminates because each call
    consumes a work item or strips a lock message (\<open>weight\<close>). The locale \<open>cpu_client\<close> is what the CPU
    needs of the handlers that run on it.
  \<^item> \<open>Cluster\<close>: cluster.c. \<open>Network\<close>: network.c. \<open>Server\<close>, \<open>Partition_Tree\<close>: server/server.c,
    server/stats.c, server/clock_skew.c.
  \<^item> \<open>Server_Frame\<close>: the rules by which a relation between the states before and after a handler is
    composed (locale \<open>server_rel\<close>), and the lift of what every handler keeps to whole runs (locale
    \<open>server_protocol\<close>). \<open>Versions\<close>: well-formed stores and queues, in the form both protocols share.
    \<open>Run\<close>: scripts, from which the concrete runs of the witnesses are made.
  \<^item> \<open>Gr_State\<close>, \<open>Gr_Store\<close>, \<open>Gr_Gst\<close>, \<open>Gr_Replication\<close>, \<open>Gr_Getput\<close>, \<open>Gr_Snapshot\<close>, \<open>Gr_Server\<close>:
    messages/gr.c and server/protocols/gr/, one definition per handler and \<open>gr_process_event\<close> for
    the dispatch. The recursion of replication.c between the work and the unlocked handler is
    bounded by the length of the replication queue (\<open>update_fuel\<close>), and
    \<open>replica_updates_terminate\<close> shows that this bound is enough.
  \<^item> \<open>Gr_Frame\<close>, \<open>Gr_Keep\<close>, \<open>Gr_Invariant\<close>, \<open>Gr_Run\<close>: what every handler of GR keeps, the interpretations
    of the two locales, and runs (\<open>gr_step\<close>, a step of a server for any event at any time).
    \<open>Gr_Read\<close>, \<open>Gr_Lst\<close>, \<open>Gr_Protocol\<close>: what reads return, the aggregation of the stable time over the
    partition tree, replication and writes.
  \<^item> \<open>Grv_State\<close>, \<open>Grv_Store\<close>, \<open>Grv_Gst\<close>, \<open>Grv_Rotx\<close>, \<open>Grv_Replication\<close>, \<open>Grv_Getput\<close>, \<open>Grv_Server\<close>:
    messages/grv.c and server/protocols/grv/ in the same way (\<open>grv_update_fuel\<close> is enough by
    \<open>grv_updates_progress\<close>). \<open>Grv_Keep\<close>, \<open>Grv_Invariant\<close>, \<open>Grv_Run\<close>: invariant and runs. \<open>Grv_Read\<close>,
    \<open>Grv_Stable\<close>, \<open>Grv_Protocol\<close>: reads, stable times, replication. \<open>Monotonic\<close>: reads along the runs of
    both protocols.
  \<^item> \<open>Client\<close>, \<open>Client_Workloads\<close>, \<open>Client_Process\<close>: client/client.c, client/key_distribution.c,
    client/workloads/ and the random helpers of common.c. \<open>Client_Gr\<close>, \<open>Client_Grv\<close>: client/protocols/.
    \<open>Client_Run\<close>: the contract between the client and its protocol (locale \<open>client_protocol\<close>) and runs;
    \<open>Client_Gr_Run\<close>, \<open>Client_Grv_Run\<close>: its interpretations; \<open>Client_Rr\<close>: the round-robin workloads.
    \<open>Causality\<close>: a client of GR and the server that executes its writes.
  \<^item> \<open>Application\<close>, \<open>Application_Setup\<close>: application.c, protocols.c.

  \<^bold>\<open>What is shown.\<close> For every run of a server of either protocol: stable times never go back, versions
  are not lost and stay ordered, repeated reads of a key do not go back in time; for GR also that the
  busy cores are those with pending work and never too many, and that waiting work always has an event
  that will look at it. For the operations: which version a read returns, that garbage collection does
  not change reads, that the stable time of the root is the minimum over its subtree, which of the
  updates that wait replication drops, that it ends, and where it gets stuck. For every run of a client: it is a closed loop with at most one request
  under way, and its requests depend on all it has seen; for GR, a write gets a timestamp no older than
  anything its client had seen. For the workloads: in which order they visit the partitions when
  keys are drawn uniformly, and that the Zipfian choice can leave the partition it is made for. For the
  set-up: every process finds its configuration and its servers. For the layers below: refinement of
  lists and maps, delivery in order, the shape of the partition tree, look-ups, and that a checked
  matrix of the configuration can be read.

  \<^bold>\<open>Not modelled.\<close> Writing of the reports and statistics files (output.c, the report functions of
  cpu/stats.c, server/stats.c, network.c and client/client.c), reading and parsing the JSON text and
  the command line (json-c and getopt_long are parameters), building the arguments for ROOT-Sim, and
  the kernel itself: which event comes next is left open, so the results on runs hold for every
  order of events. Memory that the code leaks or frees has no counterpart in the model. The table of
  network delays, which all processes of the simulation share, is a part of the configuration of each
  process: a process sees the entries it writes and those it starts with. The request counters of a
  client and the integers of the configuration are unbounded.
\<close>

section \<open>A GentleRain server along its runs\<close>

text \<open>C1: along every run of a server, whatever the events and their order, the global stable time
  never goes back.\<close>

theorem gr_gst_monotone:
  assumes "gr_started m c blank st" and "gr_step\<^sup>*\<^sup>* st st1" and "gr_step\<^sup>*\<^sup>* st1 st2"
  shows "gst st1 \<le> gst st2"
  using gr_run_inv [OF assms(1,2)] gr_run_keeps(2) [OF assms(3)] by (simp add: gr_keep_def)

theorem gr_gst_monotone_witness:
  "\<exists>st st'. gr_started (\<lambda>_ _. Some 1) demo_config demo_blank st \<and> gr_step\<^sup>*\<^sup>* st st' \<and> gst st = 0 \<and> gst st' = 35 \<and> gst st \<le> gst st'"
  using demo_started gr_gst_monotone by (metis rtranclp.rtrancl_refl)

text \<open>C2: no run loses a version of a value, and the versions of a key stay ordered by their update
  times, the newest first.\<close>

theorem gr_versions_kept:
  assumes "gr_started m c blank st" and "gr_step\<^sup>*\<^sup>* st st1" and "gr_step\<^sup>*\<^sup>* st1 st2"
  shows "suffix (chain_at (store st1) k) (chain_at (store st2) k) \<and> versions_sorted (chain_at (store st2) k)"
  using gr_run_inv [OF assms(1) rtranclp_trans [OF assms(2,3)]] gr_run_inv [OF assms(1,2)] gr_run_keeps(2) [OF assms(3)]
  by (simp add: gr_keep_def keeps_versions_def store_ok_def)

theorem gr_versions_kept_witness:
  "\<exists>st st'. gr_started (\<lambda>_ _. Some 1) demo_config demo_blank st \<and> gr_step\<^sup>*\<^sup>* st st' \<and>
     chain_at (store st') 1 = [\<lparr>it_value = 7, it_update_time = 35, it_source_replica = 0\<rparr>] \<and>
     suffix (chain_at (store st) 1) (chain_at (store st') 1) \<and> versions_sorted (chain_at (store st') 1)"
  using demo_started gr_versions_kept by (metis rtranclp.rtrancl_refl)

text \<open>C4: in every state a run reaches, the number of busy cores is the number of pending events that
  hold a core, and never exceeds the number of cores.\<close>

theorem gr_busy_cores:
  assumes "gr_started m c blank st" and "gr_step\<^sup>*\<^sup>* st st'"
  shows "unat (busy_cores st') = ncore (scheduled st') \<and> busy_cores st' \<le> cores st'"
  using gr_run_inv [OF assms] by (simp add: cpu_inv_def)

theorem gr_busy_cores_witness:
  "\<exists>st st'. gr_started (\<lambda>_ _. Some 1) demo_config demo_blank st \<and> gr_step\<^sup>*\<^sup>* st st' \<and> gst st' = 35 \<and>
     unat (busy_cores st') = ncore (scheduled st') \<and> busy_cores st' \<le> cores st'"
  using demo_started gr_busy_cores by metis

text \<open>C13: work that waits for a core is never forgotten: while the queue of the CPU is not empty, an
  event is pending that frees a core or makes the CPU look at its queue.\<close>

theorem gr_queue_not_stuck:
  assumes "gr_started m c blank st" and "gr_step\<^sup>*\<^sup>* st st'" and "cl_items (cpu_queue st') \<noteq> []"
  shows "\<exists>e \<in> set (scheduled st'). core_event (ev_type e) \<or> ev_type e = CPU_EVENT"
proof -
  note inv = gr_run_inv [OF assms(1,2)]
  then have "0 < unat (busy_cores st') \<or> wakes (scheduled st')"
    using assms(3) by (auto simp: cpu_inv_def word_less_nat_alt)
  with inv have "0 < ncore (scheduled st') \<or> wakes (scheduled st')" by (simp add: cpu_inv_def)
  then show ?thesis by (auto simp: ncore_def wakes_def filter_empty_conv)
qed

theorem gr_queue_not_stuck_witness:
  "\<exists>st st'. gr_started (\<lambda>_ _. Some 1) demo_config demo_blank st \<and> gr_step\<^sup>*\<^sup>* st st' \<and> cl_items (cpu_queue st') \<noteq> [] \<and>
     (\<exists>e \<in> set (scheduled st'). core_event (ev_type e) \<or> ev_type e = CPU_EVENT)"
  using demo_waiting gr_queue_not_stuck by metis

section \<open>A GRV server along its runs\<close>

text \<open>C5: along every run of a GRV server no entry of the vector of stable times goes back, and the vector
  keeps one entry for each replica.\<close>

theorem grv_gst_vector_monotone:
  assumes "grv_started m c blank st" and "grv_step\<^sup>*\<^sup>* st st1" and "grv_step\<^sup>*\<^sup>* st1 st2"
  shows "length (gst_vector st1) = unat (v_num_replicas st1) \<and> length (gst_vector st2) = unat (v_num_replicas st2) \<and>
     v_num_replicas st2 = v_num_replicas st1 \<and> (\<forall>i < length (gst_vector st1). gst_vector st1 ! i \<le> gst_vector st2 ! i)"
proof (intro conjI)
  show "length (gst_vector st1) = unat (v_num_replicas st1)" by (rule grv_run_inv(6) [OF assms(1,2)])
  show "length (gst_vector st2) = unat (v_num_replicas st2)" by (rule grv_run_inv(6) [OF assms(1) rtranclp_trans [OF assms(2,3)]])
  have keep: "grv_keep st1 st2" by (rule grv.run_keeps(2) [OF assms(3) grv_run_inv(1) [OF assms(1,2)]])
  then show "v_num_replicas st2 = v_num_replicas st1" by (simp add: grv_keep_def)
  from keep show "\<forall>i < length (gst_vector st1). gst_vector st1 ! i \<le> gst_vector st2 ! i"
    by (simp add: grv_keep_def vec_le_def list_all2_conv_all_nth)
qed

theorem grv_gst_vector_monotone_witness:
  "\<exists>st st'. grv_started (\<lambda>_ _. Some 1) demo_config v_demo_blank st \<and> grv_step\<^sup>*\<^sup>* st st' \<and>
     gst_vector st = [0, 0] \<and> gst_vector st' = [3, 0] \<and> unat (v_num_replicas st') = 2 \<and> gst_vector st ! 0 \<le> gst_vector st' ! 0"
proof -
  obtain st st' where s: "grv_started (\<lambda>_ _. Some 1) demo_config v_demo_blank st" "grv_step\<^sup>*\<^sup>* st st'"
    "gst_vector st = [0, 0]" "gst_vector st' = [3, 0]" using v_demo_started by blast
  from grv_gst_vector_monotone [OF s(1) rtranclp.rtrancl_refl s(2)] s(3,4)
  have "unat (v_num_replicas st') = 2" "gst_vector st ! 0 \<le> gst_vector st' ! 0" by simp_all
  with s show ?thesis by blast
qed

text \<open>C6: no run of a GRV server loses a version of a value; the versions of a key stay ordered by their
  update times and each carries a dependency vector with an entry for each replica.\<close>

theorem grv_versions_kept:
  assumes "grv_started m c blank st" and "grv_step\<^sup>*\<^sup>* st st1" and "grv_step\<^sup>*\<^sup>* st1 st2"
  shows "suffix (chain_at (store st1) k) (chain_at (store st2) k) \<and> versions_sorted (chain_at (store st2) k) \<and>
     (\<forall>item \<in> set (chain_at (store st2) k). length (it_dependency_vector item) = unat (v_num_replicas st2))"
  using grv_run_inv(2,3) [OF assms(1) rtranclp_trans [OF assms(2,3)]] grv_run_inv(1) [OF assms(1,2)] grv.run_keeps(2) [OF assms(3)]
  by (auto simp: grv_keep_def keeps_versions_def store_ok_def deps_ok_def)

theorem grv_versions_kept_witness:
  "\<exists>st st'. grv_started (\<lambda>_ _. Some 1) demo_config v_demo_blank st \<and> grv_step\<^sup>*\<^sup>* st st' \<and>
     chain_at (store st') 1 = [\<lparr>it_value = 7, it_update_time = 3, it_source_replica = 0, it_dependency_vector = [0, 0]\<rparr>] \<and>
     suffix (chain_at (store st) 1) (chain_at (store st') 1) \<and> versions_sorted (chain_at (store st') 1) \<and>
     (\<forall>item \<in> set (chain_at (store st') 1). length (it_dependency_vector item) = unat (v_num_replicas st'))"
proof -
  obtain st st' where s: "grv_started (\<lambda>_ _. Some 1) demo_config v_demo_blank st" "grv_step\<^sup>*\<^sup>* st st'"
    "chain_at (store st') 1 = [\<lparr>it_value = 7, it_update_time = 3, it_source_replica = 0, it_dependency_vector = [0, 0]\<rparr>]"
    using v_demo_started by blast
  with grv_versions_kept [OF s(1) rtranclp.rtrancl_refl s(2), of 1] show ?thesis by blast
qed

end
